(* ===== verification/KS_Prelude.thy ===== *)
theory KS_Prelude
  imports Main "HOL-Library.Word"
begin

text \<open>
  Shared vocabulary of the development: machine integers at their Rust width, Rust's
  \<open>Result\<close> as a sum with the \<open>?\<close> operator as \<open>rbind\<close>, Rust's \<open>str\<close> as its UTF-8 bytes
  (one Isabelle \<open>char\<close> per byte) with the standard-library operations the sources use
  (\<open>chars\<close>, \<open>char_indices\<close>, \<open>find\<close>, \<open>trim\<close>, \<open>parse::<u64>\<close>, decimal formatting), and
  the generic lemmas on them.
\<close>

section \<open>Machine integers and results\<close>

type_synonym u8 = "8 word"
type_synonym u16 = "16 word"
type_synonym u32 = "32 word"
type_synonym u64 = "64 word"

named_theorems result_simps \<open>inversion of the bind of results\<close>

text \<open>\<open>Inl\<close> is \<open>Err\<close>, \<open>Inr\<close> is \<open>Ok\<close>; \<open>rbind r f\<close> is \<open>f(r?)\<close>.\<close>

fun rbind :: "'e + 'a \<Rightarrow> ('a \<Rightarrow> 'e + 'b) \<Rightarrow> 'e + 'b" where
  "rbind (Inl e) f = Inl e"
| "rbind (Inr x) f = f x"

lemma rbind_cong [fundef_cong]:
  "r = r' \<Longrightarrow> (\<And>x. f x = g x) \<Longrightarrow> rbind r f = rbind r' g"
  by (cases r') auto

lemma rbind_Inr_iff [result_simps]:
  "rbind r f = Inr y \<longleftrightarrow> (\<exists>x. r = Inr x \<and> f x = Inr y)"
  by (cases r) auto

lemma rbind_Inl_iff [result_simps]:
  "rbind r f = Inl e \<longleftrightarrow> r = Inl e \<or> (\<exists>x. r = Inr x \<and> f x = Inl e)"
  by (cases r) auto

lemma rbind_assoc: "rbind (rbind r f) g = rbind r (\<lambda>x. rbind (f x) g)"
  by (cases r) auto

lemma rbind_Inr_right [simp]: "rbind r Inr = r"
  by (cases r) auto

text \<open>\<open>Option::ok_or\<close> and \<open>Result::map_err\<close>.\<close>

definition ok_or :: "'a option \<Rightarrow> 'e \<Rightarrow> 'e + 'a" where
  "ok_or x e = (case x of None \<Rightarrow> Inl e | Some v \<Rightarrow> Inr v)"

lemma ok_or_simps [simp]: "ok_or None e = Inl e" "ok_or (Some v) e = Inr v"
  by (simp_all add: ok_or_def)

lemma ok_or_Inr_iff [result_simps]: "ok_or x e = Inr v \<longleftrightarrow> x = Some v"
  by (cases x) auto

definition map_err :: "('e \<Rightarrow> 'f) \<Rightarrow> 'e + 'a \<Rightarrow> 'f + 'a" where
  "map_err f r = (case r of Inl e \<Rightarrow> Inl (f e) | Inr v \<Rightarrow> Inr v)"

lemma map_err_simps [simp]: "map_err f (Inl e) = Inl (f e)" "map_err f (Inr v) = Inr v"
  by (simp_all add: map_err_def)

lemma map_err_Inr_iff [result_simps]: "map_err f r = Inr v \<longleftrightarrow> r = Inr v"
  by (cases r) auto

lemma map_err_Inl_iff [result_simps]: "map_err f r = Inl e \<longleftrightarrow> (\<exists>e'. r = Inl e' \<and> e = f e')"
  by (cases r) auto

text \<open>A \<open>for\<close> loop whose body may return early with an error.\<close>

fun try_fold :: "('s \<Rightarrow> 'a \<Rightarrow> 'e + 's) \<Rightarrow> 's \<Rightarrow> 'a list \<Rightarrow> 'e + 's" where
  "try_fold f s [] = Inr s"
| "try_fold f s (x # xs) = rbind (f s x) (\<lambda>s'. try_fold f s' xs)"

lemma try_fold_append: "try_fold f s (xs @ ys) = rbind (try_fold f s xs) (\<lambda>s'. try_fold f s' ys)"
  by (induction xs arbitrary: s) (auto simp: rbind_assoc)

text \<open>An invariant of the loop body is an invariant of the loop.\<close>

lemma try_fold_invariant:
  assumes "try_fold f s xs = Inr s'" and "P s"
    and "\<And>s x s'. P s \<Longrightarrow> x \<in> set xs \<Longrightarrow> f s x = Inr s' \<Longrightarrow> P s'"
  shows "P s'"
  using assms
proof (induction xs arbitrary: s)
  case Nil
  then show ?case by simp
next
  case (Cons x xs)
  obtain t where t: "f s x = Inr t" "try_fold f t xs = Inr s'"
    using Cons.prems(1) by (auto simp: rbind_Inr_iff)
  have "P t" using Cons.prems(3) [of s x t] Cons.prems(2) t(1) by simp
  show ?case
  proof (rule Cons.IH)
    show "try_fold f t xs = Inr s'" "P t" by fact+
    show "P v" if "P u" "y \<in> set xs" "f u y = Inr v" for u y v
      using Cons.prems(3) [of u y v] that by simp
  qed
qed

text \<open>\<open>u32::try_from\<close> on a \<open>u64\<close>, and the checked operations of \<open>u64\<close>.\<close>

definition u32_try_from :: "u64 \<Rightarrow> u32 option" where
  "u32_try_from v = (if unat v < 2 ^ 32 then Some (ucast v) else None)"

definition checked_add :: "u64 \<Rightarrow> u64 \<Rightarrow> u64 option" where
  "checked_add a b = (if unat a + unat b < 2 ^ 64 then Some (a + b) else None)"

definition checked_sub :: "u64 \<Rightarrow> u64 \<Rightarrow> u64 option" where
  "checked_sub a b = (if b \<le> a then Some (a - b) else None)"

definition checked_mul :: "u64 \<Rightarrow> u64 \<Rightarrow> u64 option" where
  "checked_mul a b = (if unat a * unat b < 2 ^ 64 then Some (a * b) else None)"

lemma u32_try_from_Some_iff:
  "u32_try_from v = Some w \<longleftrightarrow> unat v < 2 ^ 32 \<and> w = ucast v"
  by (auto simp: u32_try_from_def)

lemma u32_try_from_unat: "u32_try_from v = Some w \<Longrightarrow> unat w = unat v"
  by (auto simp: u32_try_from_def unsigned_ucast_eq take_bit_nat_eq_self split: if_splits)

lemma checked_add_unat: "checked_add a b = Some c \<longleftrightarrow> unat a + unat b < 2 ^ 64 \<and> unat c = unat a + unat b"
  by (auto simp: checked_add_def unat_word_ariths word_unat_eq_iff)

lemma checked_sub_unat: "checked_sub a b = Some c \<longleftrightarrow> unat b \<le> unat a \<and> unat c = unat a - unat b"
  by (auto simp: checked_sub_def word_le_nat_alt unat_sub word_unat_eq_iff)

lemma checked_mul_unat: "checked_mul a b = Some c \<longleftrightarrow> unat a * unat b < 2 ^ 64 \<and> unat c = unat a * unat b"
  by (auto simp: checked_mul_def unat_word_ariths word_unat_eq_iff)

section \<open>Strings\<close>

text \<open>
  A Rust \<open>str\<close> is the list of its UTF-8 bytes, so \<open>length\<close> is \<open>str::len\<close> and offsets are
  byte offsets. A Rust \<open>char\<close> is the bytes of its encoding (a lead byte and its
  continuation bytes).
\<close>

type_synonym rchar = string

definition is_continuation :: "char \<Rightarrow> bool" where
  "is_continuation b \<longleftrightarrow> (128::nat) \<le> of_char b \<and> of_char b < (192::nat)"

function (sequential) chars :: "string \<Rightarrow> rchar list" where
  "chars [] = []"
| "chars (b # bs) = (b # takeWhile is_continuation bs) # chars (dropWhile is_continuation bs)"
  by pat_completeness auto
termination
  by (relation "measure length") (auto simp: le_imp_less_Suc length_dropWhile_le)

fun indices_from :: "nat \<Rightarrow> rchar list \<Rightarrow> (nat \<times> rchar) list" where
  "indices_from n [] = []"
| "indices_from n (c # cs) = (n, c) # indices_from (n + length c) cs"

definition char_indices :: "string \<Rightarrow> (nat \<times> rchar) list" where
  "char_indices s = indices_from 0 (chars s)"

lemma concat_chars [simp]: "concat (chars s) = s"
  by (induction s rule: chars.induct) auto

lemma chars_nonempty: "c \<in> set (chars s) \<Longrightarrow> c \<noteq> []"
  by (induction s rule: chars.induct) auto

text \<open>
  A well-formed character is a byte that is not a continuation byte, followed by
  continuation bytes; a string that starts on a character boundary is the concatenation
  of well-formed characters, and \<open>chars\<close> recovers them.
\<close>

definition wf_rchar :: "rchar \<Rightarrow> bool" where
  "wf_rchar c \<longleftrightarrow> c \<noteq> [] \<and> \<not> is_continuation (hd c) \<and> list_all is_continuation (tl c)"

definition on_boundary :: "string \<Rightarrow> bool" where
  "on_boundary s \<longleftrightarrow> s = [] \<or> \<not> is_continuation (hd s)"

lemma on_boundary_concat: "list_all wf_rchar cs \<Longrightarrow> on_boundary (concat cs)"
  by (cases cs) (auto simp: on_boundary_def wf_rchar_def)

lemma takeWhile_dropWhile_append:
  assumes "list_all P xs" and "ys = [] \<or> \<not> P (hd ys)"
  shows "takeWhile P (xs @ ys) = xs \<and> dropWhile P (xs @ ys) = ys"
  using assms by (induction xs) (cases ys; auto)+

lemma chars_concat [simp]: "list_all wf_rchar cs \<Longrightarrow> chars (concat cs) = cs"
proof (induction cs)
  case Nil
  then show ?case by simp
next
  case (Cons c cs)
  have wf: "wf_rchar c" using Cons.prems by simp
  then obtain b bs where c: "c = b # bs" by (cases c) (simp_all add: wf_rchar_def)
  with wf have bs: "list_all is_continuation bs" by (simp add: wf_rchar_def)
  have "concat cs = [] \<or> \<not> is_continuation (hd (concat cs))"
    using Cons.prems on_boundary_concat [of cs] by (simp add: on_boundary_def)
  then have "chars (concat (c # cs)) = c # chars (concat cs)"
    using takeWhile_dropWhile_append [OF bs, of "concat cs"] by (simp add: c)
  with Cons.IH Cons.prems show ?case by simp
qed

lemma chars_wf: "on_boundary s \<Longrightarrow> list_all wf_rchar (chars s)"
proof (induction s rule: chars.induct)
  case 1
  then show ?case by simp
next
  case (2 b bs)
  have "on_boundary (dropWhile is_continuation bs)"
    using hd_dropWhile [of is_continuation bs] by (auto simp: on_boundary_def)
  then have "list_all wf_rchar (chars (dropWhile is_continuation bs))" by (rule 2(1))
  moreover have "wf_rchar (b # takeWhile is_continuation bs)"
    using 2(2) by (auto simp: wf_rchar_def on_boundary_def list_all_iff dest: set_takeWhileD)
  ultimately show ?case by simp
qed

text \<open>\<open>str::find\<close> of a pattern: the offset of its first occurrence.\<close>

fun find_sub :: "string \<Rightarrow> string \<Rightarrow> nat option" where
  "find_sub pat [] = (if pat = [] then Some 0 else None)"
| "find_sub pat (b # bs) =
     (if take (length pat) (b # bs) = pat then Some 0
      else map_option Suc (find_sub pat bs))"

lemma find_sub_bound: "find_sub pat s = Some i \<Longrightarrow> i + length pat \<le> length s"
proof (induction s arbitrary: i)
  case Nil
  then show ?case by (auto split: if_splits)
next
  case (Cons b bs)
  show ?case
  proof (cases "take (length pat) (b # bs) = pat")
    case True
    then have "length pat = min (length pat) (length (b # bs))" by (metis length_take min.commute)
    with True Cons.prems show ?thesis by auto
  next
    case False
    with Cons show ?thesis by fastforce
  qed
qed

text \<open>\<open>str::trim\<close>: the characters with the Unicode property White_Space, as UTF-8.\<close>

definition white_space :: "rchar list" where
  "white_space =
     [[CHR 0x09], [CHR 0x0A], [CHR 0x0B], [CHR 0x0C], [CHR 0x0D], [CHR 0x20],
      [CHR 0xC2, CHR 0x85], [CHR 0xC2, CHR 0xA0], [CHR 0xE1, CHR 0x9A, CHR 0x80],
      [CHR 0xE2, CHR 0x80, CHR 0x80], [CHR 0xE2, CHR 0x80, CHR 0x81], [CHR 0xE2, CHR 0x80, CHR 0x82],
      [CHR 0xE2, CHR 0x80, CHR 0x83], [CHR 0xE2, CHR 0x80, CHR 0x84], [CHR 0xE2, CHR 0x80, CHR 0x85],
      [CHR 0xE2, CHR 0x80, CHR 0x86], [CHR 0xE2, CHR 0x80, CHR 0x87], [CHR 0xE2, CHR 0x80, CHR 0x88],
      [CHR 0xE2, CHR 0x80, CHR 0x89], [CHR 0xE2, CHR 0x80, CHR 0x8A], [CHR 0xE2, CHR 0x80, CHR 0xA8],
      [CHR 0xE2, CHR 0x80, CHR 0xA9], [CHR 0xE2, CHR 0x80, CHR 0xAF], [CHR 0xE2, CHR 0x81, CHR 0x9F],
      [CHR 0xE3, CHR 0x80, CHR 0x80]]"

definition trim :: "string \<Rightarrow> string" where
  "trim s =
     (let ws = (\<lambda>c. c \<in> set white_space)
      in concat (rev (dropWhile ws (rev (dropWhile ws (chars s))))))"

lemma trim_no_white_space: "(\<And>c. c \<in> set (chars s) \<Longrightarrow> c \<notin> set white_space) \<Longrightarrow> trim s = s"
proof -
  assume *: "\<And>c. c \<in> set (chars s) \<Longrightarrow> c \<notin> set white_space"
  then have "dropWhile (\<lambda>c. c \<in> set white_space) (chars s) = chars s"
    by (cases "chars s") auto
  moreover from * have "dropWhile (\<lambda>c. c \<in> set white_space) (rev (chars s)) = rev (chars s)"
    by (cases "rev (chars s)") (auto simp: rev_eq_Cons_iff)
  ultimately show ?thesis by (simp add: trim_def)
qed

text \<open>ASCII classes of \<open>char\<close>.\<close>

definition is_ascii_digit :: "char \<Rightarrow> bool" where
  "is_ascii_digit b \<longleftrightarrow> (48::nat) \<le> of_char b \<and> of_char b \<le> (57::nat)"

definition is_ascii_alphabetic :: "char \<Rightarrow> bool" where
  "is_ascii_alphabetic b \<longleftrightarrow>
     (65::nat) \<le> of_char b \<and> of_char b \<le> (90::nat) \<or> (97::nat) \<le> of_char b \<and> of_char b \<le> (122::nat)"

definition is_ascii_alphanumeric :: "char \<Rightarrow> bool" where
  "is_ascii_alphanumeric b \<longleftrightarrow> is_ascii_alphabetic b \<or> is_ascii_digit b"

section \<open>Decimal numbers\<close>

fun show_nat :: "nat \<Rightarrow> string" where
  "show_nat n =
     (if n < 10 then [char_of (48 + n)] else show_nat (n div 10) @ [char_of (48 + n mod 10)])"

declare show_nat.simps [simp del]

definition digit_value :: "char \<Rightarrow> nat" where
  "digit_value b = of_char b - 48"

definition digits_value :: "string \<Rightarrow> nat" where
  "digits_value s = foldl (\<lambda>acc b. 10 * acc + digit_value b) 0 s"

text \<open>\<open>str::parse::<u64>\<close>: an optional plus sign, then decimal digits below \<open>2^64\<close>.\<close>

definition parse_u64_str :: "string \<Rightarrow> u64 option" where
  "parse_u64_str s =
     (let ds = (case s of [] \<Rightarrow> [] | c # cs \<Rightarrow> if c = CHR ''+'' then cs else s)
      in if ds \<noteq> [] \<and> list_all is_ascii_digit ds \<and> digits_value ds < 2 ^ 64
         then Some (of_nat (digits_value ds)) else None)"

lemma digit_char:
  assumes "d < 10"
  shows "is_ascii_digit (char_of (48 + d))" and "digit_value (char_of (48 + d)) = d"
    and "char_of (48 + d) \<noteq> CHR ''+''"
proof -
  from assms have *: "of_char (char_of (48 + d) :: char) = (48 + d :: nat)"
    by simp
  show "is_ascii_digit (char_of (48 + d))" and "digit_value (char_of (48 + d)) = d"
    using assms by (simp_all only: is_ascii_digit_def digit_value_def *) auto
  show "char_of (48 + d) \<noteq> CHR ''+''"
  proof
    assume "char_of (48 + d) = CHR ''+''"
    then have "(48 + d :: nat) = of_char CHR ''+''" using * by metis
    then show False by simp
  qed
qed

lemma show_nat_nonempty [simp]: "show_nat n \<noteq> []"
  by (subst show_nat.simps) simp

lemma show_nat_digits: "list_all is_ascii_digit (show_nat n)"
proof (induction n rule: show_nat.induct)
  case (1 n)
  then show ?case
    by (subst show_nat.simps) (auto simp: digit_char simp del: char_of_nat)
qed

lemma digits_value_snoc: "digits_value (s @ [b]) = 10 * digits_value s + digit_value b"
  by (simp add: digits_value_def)

lemma digits_value_show_nat [simp]: "digits_value (show_nat n) = n"
proof (induction n rule: show_nat.induct)
  case (1 n)
  show ?case
  proof (cases "n < 10")
    case True
    then show ?thesis
      by (subst show_nat.simps) (simp add: digits_value_def digit_char del: char_of_nat)
  next
    case False
    then have "digits_value (show_nat n) = 10 * (n div 10) + n mod 10"
      using 1 by (subst show_nat.simps) (simp add: digits_value_snoc digit_char del: char_of_nat)
    then show ?thesis by simp
  qed
qed

lemma show_nat_inject [simp]: "show_nat m = show_nat n \<longleftrightarrow> m = n"
  by (metis digits_value_show_nat)

lemma show_nat_hd: "hd (show_nat n) \<noteq> CHR ''+''"
proof -
  have "is_ascii_digit (hd (show_nat n))"
    using show_nat_digits [of n] by (cases "show_nat n") auto
  then show ?thesis by (auto simp: is_ascii_digit_def)
qed

text \<open>Formatting a \<open>u64\<close> and parsing it again is the identity.\<close>

lemma parse_show_nat [simp]: "n < 2 ^ 64 \<Longrightarrow> parse_u64_str (show_nat n) = Some (of_nat n)"
proof -
  assume "n < 2 ^ 64"
  obtain c cs where c: "show_nat n = c # cs" by (cases "show_nat n") auto
  with show_nat_hd [of n] have "c \<noteq> CHR ''+''" by simp
  then have *: "(case show_nat n of [] \<Rightarrow> [] | c # cs \<Rightarrow> if c = CHR ''+'' then cs else show_nat n) = show_nat n"
    by (simp add: c)
  show ?thesis
    unfolding parse_u64_str_def Let_def * digits_value_show_nat
    using show_nat_digits [of n] \<open>n < 2 ^ 64\<close> by simp
qed

text \<open>The bytes of a string, \<open>str::as_bytes\<close>.\<close>

definition as_bytes :: "string \<Rightarrow> u8 list" where
  "as_bytes s = map of_char s"

lemma length_as_bytes [simp]: "length (as_bytes s) = length s"
  by (simp add: as_bytes_def)

end
