(* ===== verification/KS_Token.thy ===== *)
theory KS_Token
  imports KS_Prelude
begin

text \<open>
  Tokens of the language and source positions (\<open>compiler/lexer/src/token.rs\<close>). Every type
  of the file is here with the source's constructors; a prefix (\<open>T_\<close> for \<open>TypeName\<close>,
  \<open>TK_\<close> for \<open>TokenKind\<close>) stands for the Rust path.
\<close>

record span =
  span_start :: nat
  span_end :: nat

abbreviation mk_span :: "nat \<Rightarrow> nat \<Rightarrow> span" where
  "mk_span a b \<equiv> \<lparr>span_start = a, span_end = b\<rparr>"

record source_location =
  loc_file :: string
  loc_line :: nat
  loc_column :: nat

datatype type_name =
    T_PublicKey | T_Signature | T_Hash | T_BlockHeight | T_Amount | T_Bool | T_Bytes
  | T_CovenantID | T_ZKProof | T_UTXO | T_Output | T_Input

text \<open>The text of the derived \<open>Debug\<close> instance, \<open>format!("{ty:?}")\<close>.\<close>

fun type_debug :: "type_name \<Rightarrow> string" where
  "type_debug T_PublicKey = ''PublicKey''"
| "type_debug T_Signature = ''Signature''"
| "type_debug T_Hash = ''Hash''"
| "type_debug T_BlockHeight = ''BlockHeight''"
| "type_debug T_Amount = ''Amount''"
| "type_debug T_Bool = ''Bool''"
| "type_debug T_Bytes = ''Bytes''"
| "type_debug T_CovenantID = ''CovenantID''"
| "type_debug T_ZKProof = ''ZKProof''"
| "type_debug T_UTXO = ''UTXO''"
| "type_debug T_Output = ''Output''"
| "type_debug T_Input = ''Input''"

datatype (plugins only: code size) token_kind =
    TK_Contract | TK_Params | TK_Spend | TK_Require | TK_Let | TK_If | TK_Else | TK_Return
  | TK_True | TK_False | TK_Covenant | TK_CovenantId | TK_ZkVerify | TK_FinalityDepth
  | TK_Sequencing | TK_Multisig | TK_InputBuiltin | TK_OutputBuiltin | TK_Block
  | TK_Type type_name | TK_Identifier string | TK_Integer string | TK_String string
  | TK_Equal | TK_EqualEqual | TK_Bang | TK_BangEqual
  | TK_Greater | TK_GreaterEqual | TK_Less | TK_LessEqual | TK_AndAnd | TK_OrOr
  | TK_Plus | TK_Minus | TK_Star | TK_Slash | TK_Percent | TK_Arrow
  | TK_LeftBrace | TK_RightBrace | TK_LeftParen | TK_RightParen | TK_LeftBracket | TK_RightBracket
  | TK_Comma | TK_Colon | TK_Semicolon | TK_Dot

record token =
  tok_kind :: token_kind
  tok_span :: span

abbreviation mk_token :: "token_kind \<Rightarrow> span \<Rightarrow> token" where
  "mk_token k s \<equiv> \<lparr>tok_kind = k, tok_span = s\<rparr>"

end
