(* ===== verification/KS_Lexer.thy ===== *)
theory KS_Lexer
  imports KS_Token
begin

text \<open>
  The lexer (\<open>compiler/lexer/src/lexer.rs\<close>). The scanner that the \<open>logos\<close> crate derives
  from the attributes of \<open>RawToken\<close> is third-party code: it is the parameter \<open>logos\<close> of
  \<open>lex_file\<close>, a function from the source to the sequence of matches (the rule that
  matched, or none, and its byte range). Everything the file itself does with them is
  modelled: the two pre-passes over the source, the callbacks of the rules, the
  conversion to \<open>TokenKind\<close>, error construction and the resolution of positions.
\<close>

section \<open>Errors and raw tokens\<close>

record lex_error =
  le_file :: string
  le_line :: nat
  le_column :: nat
  le_span :: span
  le_message :: string

definition lex_error_display :: "lex_error \<Rightarrow> string" where
  "lex_error_display e =
     le_file e @ '':'' @ show_nat (le_line e) @ '':'' @ show_nat (le_column e) @ '': '' @ le_message e"

datatype logos_error = LE_Unexpected | LE_InvalidEscape rchar

datatype (plugins only: code size) raw_token =
    RT_Skip | RT_Contract | RT_Params | RT_Spend | RT_Require | RT_Let | RT_If | RT_Else
  | RT_Return | RT_True | RT_False | RT_Covenant | RT_CovenantId | RT_ZkVerify
  | RT_FinalityDepth | RT_Sequencing | RT_Multisig | RT_InputBuiltin | RT_OutputBuiltin
  | RT_Block | RT_PublicKey | RT_Signature | RT_Hash | RT_BlockHeight | RT_Amount | RT_Bool
  | RT_Bytes | RT_CovenantID | RT_ZKProof | RT_UTXO | RT_Output | RT_Input | RT_EqualEqual
  | RT_BangEqual | RT_GreaterEqual | RT_LessEqual | RT_AndAnd | RT_OrOr | RT_Arrow | RT_Equal
  | RT_Bang | RT_Greater | RT_Less | RT_Plus | RT_Minus | RT_Star | RT_Slash | RT_Percent
  | RT_LeftBrace | RT_RightBrace | RT_LeftParen | RT_RightParen | RT_LeftBracket
  | RT_RightBracket | RT_Comma | RT_Colon | RT_Semicolon | RT_Dot
  | RT_Integer string | RT_String string | RT_Identifier string

text \<open>The literal of a variant's \<open>#[token(..)]\<close> attribute.\<close>

fun token_literal :: "raw_token \<Rightarrow> string option" where
  "token_literal RT_Contract = Some ''contract''"
| "token_literal RT_Params = Some ''params''"
| "token_literal RT_Spend = Some ''spend''"
| "token_literal RT_Require = Some ''require''"
| "token_literal RT_Let = Some ''let''"
| "token_literal RT_If = Some ''if''"
| "token_literal RT_Else = Some ''else''"
| "token_literal RT_Return = Some ''return''"
| "token_literal RT_True = Some ''true''"
| "token_literal RT_False = Some ''false''"
| "token_literal RT_Covenant = Some ''covenant''"
| "token_literal RT_CovenantId = Some ''covenant_id''"
| "token_literal RT_ZkVerify = Some ''zk_verify''"
| "token_literal RT_FinalityDepth = Some ''finality_depth''"
| "token_literal RT_Sequencing = Some ''sequencing''"
| "token_literal RT_Multisig = Some ''multisig''"
| "token_literal RT_InputBuiltin = Some ''input''"
| "token_literal RT_OutputBuiltin = Some ''output''"
| "token_literal RT_Block = Some ''block''"
| "token_literal RT_PublicKey = Some ''PublicKey''"
| "token_literal RT_Signature = Some ''Signature''"
| "token_literal RT_Hash = Some ''Hash''"
| "token_literal RT_BlockHeight = Some ''BlockHeight''"
| "token_literal RT_Amount = Some ''Amount''"
| "token_literal RT_Bool = Some ''Bool''"
| "token_literal RT_Bytes = Some ''Bytes''"
| "token_literal RT_CovenantID = Some ''CovenantID''"
| "token_literal RT_ZKProof = Some ''ZKProof''"
| "token_literal RT_UTXO = Some ''UTXO''"
| "token_literal RT_Output = Some ''Output''"
| "token_literal RT_Input = Some ''Input''"
| "token_literal RT_EqualEqual = Some ''==''"
| "token_literal RT_BangEqual = Some ''!=''"
| "token_literal RT_GreaterEqual = Some ''>=''"
| "token_literal RT_LessEqual = Some ''<=''"
| "token_literal RT_AndAnd = Some ''&&''"
| "token_literal RT_OrOr = Some ''||''"
| "token_literal RT_Arrow = Some ''->''"
| "token_literal RT_Equal = Some ''=''"
| "token_literal RT_Bang = Some ''!''"
| "token_literal RT_Greater = Some ''>''"
| "token_literal RT_Less = Some ''<''"
| "token_literal RT_Plus = Some ''+''"
| "token_literal RT_Minus = Some ''-''"
| "token_literal RT_Star = Some ''*''"
| "token_literal RT_Slash = Some ''/''"
| "token_literal RT_Percent = Some ''%''"
| "token_literal RT_LeftBrace = Some ''{''"
| "token_literal RT_RightBrace = Some ''}''"
| "token_literal RT_LeftParen = Some ''(''"
| "token_literal RT_RightParen = Some '')''"
| "token_literal RT_LeftBracket = Some ''[''"
| "token_literal RT_RightBracket = Some '']''"
| "token_literal RT_Comma = Some '',''"
| "token_literal RT_Colon = Some '':''"
| "token_literal RT_Semicolon = Some '';''"
| "token_literal RT_Dot = Some ''.''"
| "token_literal _ = None"

fun into_token_kind :: "raw_token \<Rightarrow> token_kind option" where
  "into_token_kind RT_Skip = None"
| "into_token_kind RT_Contract = Some TK_Contract"
| "into_token_kind RT_Params = Some TK_Params"
| "into_token_kind RT_Spend = Some TK_Spend"
| "into_token_kind RT_Require = Some TK_Require"
| "into_token_kind RT_Let = Some TK_Let"
| "into_token_kind RT_If = Some TK_If"
| "into_token_kind RT_Else = Some TK_Else"
| "into_token_kind RT_Return = Some TK_Return"
| "into_token_kind RT_True = Some TK_True"
| "into_token_kind RT_False = Some TK_False"
| "into_token_kind RT_Covenant = Some TK_Covenant"
| "into_token_kind RT_CovenantId = Some TK_CovenantId"
| "into_token_kind RT_ZkVerify = Some TK_ZkVerify"
| "into_token_kind RT_FinalityDepth = Some TK_FinalityDepth"
| "into_token_kind RT_Sequencing = Some TK_Sequencing"
| "into_token_kind RT_Multisig = Some TK_Multisig"
| "into_token_kind RT_InputBuiltin = Some TK_InputBuiltin"
| "into_token_kind RT_OutputBuiltin = Some TK_OutputBuiltin"
| "into_token_kind RT_Block = Some TK_Block"
| "into_token_kind RT_PublicKey = Some (TK_Type T_PublicKey)"
| "into_token_kind RT_Signature = Some (TK_Type T_Signature)"
| "into_token_kind RT_Hash = Some (TK_Type T_Hash)"
| "into_token_kind RT_BlockHeight = Some (TK_Type T_BlockHeight)"
| "into_token_kind RT_Amount = Some (TK_Type T_Amount)"
| "into_token_kind RT_Bool = Some (TK_Type T_Bool)"
| "into_token_kind RT_Bytes = Some (TK_Type T_Bytes)"
| "into_token_kind RT_CovenantID = Some (TK_Type T_CovenantID)"
| "into_token_kind RT_ZKProof = Some (TK_Type T_ZKProof)"
| "into_token_kind RT_UTXO = Some (TK_Type T_UTXO)"
| "into_token_kind RT_Output = Some (TK_Type T_Output)"
| "into_token_kind RT_Input = Some (TK_Type T_Input)"
| "into_token_kind RT_EqualEqual = Some TK_EqualEqual"
| "into_token_kind RT_BangEqual = Some TK_BangEqual"
| "into_token_kind RT_GreaterEqual = Some TK_GreaterEqual"
| "into_token_kind RT_LessEqual = Some TK_LessEqual"
| "into_token_kind RT_AndAnd = Some TK_AndAnd"
| "into_token_kind RT_OrOr = Some TK_OrOr"
| "into_token_kind RT_Arrow = Some TK_Arrow"
| "into_token_kind RT_Equal = Some TK_Equal"
| "into_token_kind RT_Bang = Some TK_Bang"
| "into_token_kind RT_Greater = Some TK_Greater"
| "into_token_kind RT_Less = Some TK_Less"
| "into_token_kind RT_Plus = Some TK_Plus"
| "into_token_kind RT_Minus = Some TK_Minus"
| "into_token_kind RT_Star = Some TK_Star"
| "into_token_kind RT_Slash = Some TK_Slash"
| "into_token_kind RT_Percent = Some TK_Percent"
| "into_token_kind RT_LeftBrace = Some TK_LeftBrace"
| "into_token_kind RT_RightBrace = Some TK_RightBrace"
| "into_token_kind RT_LeftParen = Some TK_LeftParen"
| "into_token_kind RT_RightParen = Some TK_RightParen"
| "into_token_kind RT_LeftBracket = Some TK_LeftBracket"
| "into_token_kind RT_RightBracket = Some TK_RightBracket"
| "into_token_kind RT_Comma = Some TK_Comma"
| "into_token_kind RT_Colon = Some TK_Colon"
| "into_token_kind RT_Semicolon = Some TK_Semicolon"
| "into_token_kind RT_Dot = Some TK_Dot"
| "into_token_kind (RT_Integer v) = Some (TK_Integer v)"
| "into_token_kind (RT_String v) = Some (TK_String v)"
| "into_token_kind (RT_Identifier v) = Some (TK_Identifier v)"

section \<open>Positions\<close>

fun locate_loop :: "nat \<Rightarrow> (nat \<times> rchar) list \<Rightarrow> nat \<Rightarrow> nat \<Rightarrow> nat \<times> nat" where
  "locate_loop offset [] line column = (line, column)"
| "locate_loop offset ((byte, ch) # rest) line column =
     (if offset \<le> byte then (line, column)
      else if ch = [CHR 0x0A] then locate_loop offset rest (line + 1) 1
      else locate_loop offset rest line (column + 1))"

definition locate :: "string \<Rightarrow> string \<Rightarrow> nat \<Rightarrow> source_location" where
  "locate source file offset =
     (let (line, column) = locate_loop offset (char_indices source) 1 1
      in \<lparr>loc_file = file, loc_line = line, loc_column = column\<rparr>)"

definition lex_error_at :: "string \<Rightarrow> string \<Rightarrow> span \<Rightarrow> string \<Rightarrow> lex_error" where
  "lex_error_at source file span message =
     (let location = locate source file (span_start span)
      in \<lparr>le_file = loc_file location, le_line = loc_line location,
          le_column = loc_column location, le_span = span, le_message = message\<rparr>)"

section \<open>String literals\<close>

abbreviation (input) quote_char :: rchar where "quote_char \<equiv> [CHR 0x22]"
abbreviation (input) backslash_char :: rchar where "backslash_char \<equiv> [CHR 0x5C]"
abbreviation (input) newline_char :: rchar where "newline_char \<equiv> [CHR 0x0A]"

definition unescape :: "rchar \<Rightarrow> rchar option" where
  "unescape escaped =
     (if escaped = quote_char then Some quote_char
      else if escaped = backslash_char then Some backslash_char
      else if escaped = ''/'' then Some ''/''
      else if escaped = ''n'' then Some newline_char
      else if escaped = ''r'' then Some [CHR 0x0D]
      else if escaped = ''t'' then Some [CHR 0x09]
      else None)"

fun decode_chars :: "rchar list \<Rightarrow> string \<Rightarrow> logos_error + string" where
  "decode_chars [] decoded = Inr decoded"
| "decode_chars [ch] decoded =
     (if ch \<noteq> backslash_char then Inr (decoded @ ch) else Inl (LE_InvalidEscape backslash_char))"
| "decode_chars (ch # escaped # rest) decoded =
     (if ch \<noteq> backslash_char then decode_chars (escaped # rest) (decoded @ ch)
      else (case unescape escaped of
              Some c \<Rightarrow> decode_chars rest (decoded @ c)
            | None \<Rightarrow> Inl (LE_InvalidEscape escaped)))"

definition decode_string :: "string \<Rightarrow> logos_error + string" where
  "decode_string lit = decode_chars (chars (take (length lit - 2) (drop 1 lit))) []"

section \<open>The pre-passes over the source\<close>

function block_comment_loop :: "string \<Rightarrow> string \<Rightarrow> nat \<Rightarrow> lex_error + unit" where
  "block_comment_loop source file cursor =
     (case find_sub ''/*'' (drop cursor source) of
        None \<Rightarrow> Inr ()
      | Some relative_start \<Rightarrow>
          (let start = cursor + relative_start; search_from = start + 2
           in case find_sub ''*/'' (drop search_from source) of
                None \<Rightarrow> Inl (lex_error_at source file (mk_span start (start + 2))
                               ''unterminated block comment'')
              | Some relative_end \<Rightarrow>
                  block_comment_loop source file (search_from + relative_end + 2)))"
  by pat_completeness auto
termination
  by (relation "measure (\<lambda>(source, file, cursor). length source - cursor)")
     (auto dest!: find_sub_bound)

declare block_comment_loop.simps [simp del]

definition detect_unterminated_block_comment :: "string \<Rightarrow> string \<Rightarrow> lex_error + unit" where
  "detect_unterminated_block_comment source file = block_comment_loop source file 0"

text \<open>The loop state is \<open>in_string\<close>, \<open>string_start\<close> and \<open>escaped\<close>.\<close>

fun string_loop ::
  "string \<Rightarrow> string \<Rightarrow> (nat \<times> rchar) list \<Rightarrow> bool \<Rightarrow> nat \<Rightarrow> bool \<Rightarrow> lex_error + unit"
where
  "string_loop source file [] in_string string_start escaped =
     (if in_string
      then Inl (lex_error_at source file (mk_span string_start (string_start + 1)) ''unterminated string'')
      else Inr ())"
| "string_loop source file ((offset, ch) # rest) in_string string_start escaped =
     (if \<not> in_string then
        (if ch = quote_char then string_loop source file rest True offset escaped
         else string_loop source file rest False string_start escaped)
      else if escaped then string_loop source file rest True string_start False
      else if ch = backslash_char then string_loop source file rest True string_start True
      else if ch = quote_char then string_loop source file rest False string_start False
      else if ch = newline_char
      then Inl (lex_error_at source file (mk_span string_start (string_start + 1)) ''unterminated string'')
      else string_loop source file rest True string_start False)"

definition detect_unterminated_string :: "string \<Rightarrow> string \<Rightarrow> lex_error + unit" where
  "detect_unterminated_string source file = string_loop source file (char_indices source) False 0 False"

section \<open>Tokenizing\<close>

text \<open>
  A match of the scanner names the rule: a variant with a literal, or one of the three
  rules with a callback; \<open>None\<close> is the default error (no rule matched). Rules marked
  \<open>logos::skip\<close> yield nothing.
\<close>

datatype raw_rule = Rule_Literal raw_token | Rule_Integer | Rule_String | Rule_Identifier

type_synonym scanner = "string \<Rightarrow> (raw_rule option \<times> span) list"

definition str_slice :: "string \<Rightarrow> span \<Rightarrow> string" where
  "str_slice source s = take (span_end s - span_start s) (drop (span_start s) source)"

fun run_rule :: "raw_rule option \<Rightarrow> string \<Rightarrow> logos_error + raw_token" where
  "run_rule None lit = Inl LE_Unexpected"
| "run_rule (Some (Rule_Literal t)) lit = Inr t"
| "run_rule (Some Rule_Integer) lit = Inr (RT_Integer lit)"
| "run_rule (Some Rule_String) lit = rbind (decode_string lit) (\<lambda>v. Inr (RT_String v))"
| "run_rule (Some Rule_Identifier) lit = Inr (RT_Identifier lit)"

fun lex_loop :: "string \<Rightarrow> string \<Rightarrow> (raw_rule option \<times> span) list \<Rightarrow> token list \<Rightarrow> lex_error + token list" where
  "lex_loop source file [] tokens = Inr tokens"
| "lex_loop source file ((rule, span) # rest) tokens =
     (case run_rule rule (str_slice source span) of
        Inr raw \<Rightarrow>
          (case into_token_kind raw of
             Some kind \<Rightarrow> lex_loop source file rest (tokens @ [mk_token kind span])
           | None \<Rightarrow> lex_loop source file rest tokens)
      | Inl (LE_InvalidEscape ch) \<Rightarrow>
          Inl (lex_error_at source file span
            (''invalid escape sequence '' @ backslash_char @ ch))
      | Inl LE_Unexpected \<Rightarrow>
          (let ch = (case chars (str_slice source span) of [] \<Rightarrow> [CHR 0x00] | c # _ \<Rightarrow> c)
           in Inl (lex_error_at source file span
                (''unexpected character '' @ [CHR 0x60] @ ch @ [CHR 0x60]))))"

definition lex_file :: "scanner \<Rightarrow> string \<Rightarrow> string \<Rightarrow> lex_error + token list" where
  "lex_file logos source file =
     rbind (detect_unterminated_block_comment source file) (\<lambda>_.
     rbind (detect_unterminated_string source file) (\<lambda>_.
     lex_loop source file (logos source) []))"

definition lex :: "scanner \<Rightarrow> string \<Rightarrow> lex_error + token list" where
  "lex logos source = lex_file logos source ''<source>''"


section \<open>Positions are exact\<close>

text \<open>The line counts the newlines before the offset, the column the characters since the last.\<close>

definition line_of :: "rchar list \<Rightarrow> nat" where
  "line_of pre = 1 + length (filter (\<lambda>c. c = newline_char) pre)"

definition column_of :: "rchar list \<Rightarrow> nat" where
  "column_of pre = 1 + length (takeWhile (\<lambda>c. c \<noteq> newline_char) (rev pre))"

lemma takeWhile_rev_Cons:
  "takeWhile P (rev (x # xs)) =
     (if list_all P xs then rev xs @ (if P x then [x] else []) else takeWhile P (rev xs))"
  by (auto simp: list_all_iff takeWhile_append)

lemma locate_loop_spec:
  assumes "\<And>c. c \<in> set (pre @ post) \<Longrightarrow> c \<noteq> []"
  shows "locate_loop (n + length (concat pre)) (indices_from n (pre @ post)) line column =
    (line + length (filter (\<lambda>c. c = newline_char) pre),
     if newline_char \<in> set pre then column_of pre else column + length pre)"
  using assms
proof (induction pre arbitrary: n line column)
  case Nil
  then show ?case by (cases post) auto
next
  case (Cons c pre)
  then have IH: "locate_loop (n + length c + length (concat pre)) (indices_from (n + length c) (pre @ post)) l k =
      (l + length (filter (\<lambda>c. c = newline_char) pre),
       if newline_char \<in> set pre then column_of pre else k + length pre)" for l k
    by (intro Cons.IH) auto
  have "length c > 0" using Cons.prems [of c] by simp
  moreover have "column_of (newline_char # pre) =
      (if newline_char \<in> set pre then column_of pre else 1 + length pre)"
    unfolding column_of_def takeWhile_rev_Cons by (auto simp: list_all_iff)
  moreover have "newline_char \<in> set pre \<Longrightarrow> column_of (c # pre) = column_of pre"
    unfolding column_of_def takeWhile_rev_Cons by (auto simp: list_all_iff)
  ultimately show ?case using IH by (auto simp: add.assoc)
qed

lemma locate_prefix:
  assumes "chars source = pre @ post"
  shows "locate source file (length (concat pre)) =
    \<lparr>loc_file = file, loc_line = line_of pre, loc_column = column_of pre\<rparr>"
proof -
  have "c \<noteq> []" if "c \<in> set (pre @ post)" for c
    using that chars_nonempty [of c source] by (simp add: assms)
  then have "locate_loop (length (concat pre)) (indices_from 0 (pre @ post)) 1 1 =
      (1 + length (filter (\<lambda>c. c = newline_char) pre),
       if newline_char \<in> set pre then column_of pre else 1 + length pre)"
    using locate_loop_spec [of pre post 0 1 1] by simp
  moreover have "newline_char \<notin> set pre \<Longrightarrow> column_of pre = 1 + length pre"
    unfolding column_of_def by (subst takeWhile_eq_all_conv [THEN iffD2]) auto
  ultimately show ?thesis
    by (simp add: locate_def char_indices_def assms line_of_def)
qed

text \<open>Different prefixes of a text end at different positions.\<close>

lemma position_append_neq:
  assumes "d \<noteq> []"
  shows "line_of (pre @ d) \<noteq> line_of pre \<or> column_of (pre @ d) \<noteq> column_of pre"
proof (cases "newline_char \<in> set d")
  case True
  then have "filter (\<lambda>c. c = newline_char) d \<noteq> []" by (auto simp: filter_empty_conv)
  then show ?thesis by (simp add: line_of_def)
next
  case False
  then have "takeWhile (\<lambda>c. c \<noteq> newline_char) (rev (pre @ d)) =
      rev d @ takeWhile (\<lambda>c. c \<noteq> newline_char) (rev pre)"
    by (auto simp: takeWhile_append)
  with assms show ?thesis by (simp add: column_of_def)
qed

section \<open>The pre-passes decide a grammar of the source\<close>

text \<open>
  The texts the string pre-pass accepts: quotes pair up, a quoted part holds no newline
  and no quote unless escaped by a backslash.
\<close>

inductive string_rest :: "rchar list \<Rightarrow> rchar list \<Rightarrow> bool" where
  closing: "string_rest (quote_char # rest) rest"
| plain: "c \<noteq> quote_char \<Longrightarrow> c \<noteq> backslash_char \<Longrightarrow> c \<noteq> newline_char \<Longrightarrow>
    string_rest cs rest \<Longrightarrow> string_rest (c # cs) rest"
| escape: "string_rest cs rest \<Longrightarrow> string_rest (backslash_char # c # cs) rest"

inductive strings_closed :: "rchar list \<Rightarrow> bool" where
  nil: "strings_closed []"
| outside: "c \<noteq> quote_char \<Longrightarrow> strings_closed cs \<Longrightarrow> strings_closed (c # cs)"
| literal: "string_rest cs rest \<Longrightarrow> strings_closed rest \<Longrightarrow> strings_closed (quote_char # cs)"

inductive_simps string_rest_Nil [simp]: "string_rest [] rest"
inductive_simps string_rest_Cons: "string_rest (c # cs) rest"
inductive_simps strings_closed_Nil [simp]: "strings_closed []"
inductive_simps strings_closed_Cons: "strings_closed (c # cs)"

lemma string_loop_closed:
  assumes "escaped \<Longrightarrow> in_string"
  shows "(string_loop source file (indices_from n cs) in_string start escaped = Inr ()) =
     (if \<not> in_string then strings_closed cs
      else if escaped then (\<exists>c cs' rest. cs = c # cs' \<and> string_rest cs' rest \<and> strings_closed rest)
      else (\<exists>rest. string_rest cs rest \<and> strings_closed rest))"
  using assms
proof (induction cs arbitrary: n in_string start escaped)
  case Nil
  then show ?case by auto
next
  case (Cons c cs)
  show ?case
    using Cons.prems
    by (cases in_string; cases escaped)
       (auto simp: Cons.IH string_rest_Cons [of c] strings_closed_Cons [of c])
qed


text \<open>The texts the comment pre-pass accepts: every opener is followed by a closer.\<close>

definition occurs :: "string \<Rightarrow> string \<Rightarrow> bool" where
  "occurs pat s \<longleftrightarrow> (\<exists>u v. s = u @ pat @ v)"

inductive comments_closed :: "string \<Rightarrow> bool" where
  none: "\<not> occurs ''/*'' s \<Longrightarrow> comments_closed s"
| comment: "\<not> occurs ''/*'' (pre @ ''/'') \<Longrightarrow> \<not> occurs ''*/'' (body @ ''*'') \<Longrightarrow>
    comments_closed rest \<Longrightarrow> comments_closed (pre @ ''/*'' @ body @ ''*/'' @ rest)"

lemma find_sub_None_iff: "find_sub pat s = None \<longleftrightarrow> \<not> occurs pat s"
proof (induction s)
  case Nil
  then show ?case by (auto simp: occurs_def)
next
  case (Cons b bs)
  have "occurs pat (b # bs) \<longleftrightarrow> take (length pat) (b # bs) = pat \<or> occurs pat bs"
    unfolding occurs_def
    by (metis (no_types, opaque_lifting) append_Cons append_Nil append_eq_Cons_conv
        append_eq_conv_conj append_take_drop_id)
  with Cons show ?case by simp
qed

text \<open>The first occurrence of a two-byte pattern, as a split of the text.\<close>

lemma find_sub_split2:
  assumes "x \<noteq> y"
  shows "find_sub [x, y] s = Some i \<longleftrightarrow>
     (\<exists>pre post. s = pre @ [x, y] @ post \<and> i = length pre \<and> \<not> occurs [x, y] (pre @ [x]))"
proof (induction s arbitrary: i)
  case Nil
  then show ?case by simp
next
  case (Cons b bs)
  have occ: "occurs [x, y] (c # zs) \<longleftrightarrow> (c = x \<and> zs \<noteq> [] \<and> hd zs = y) \<or> occurs [x, y] zs" for c zs
    unfolding occurs_def
    by (cases zs) (auto simp: Cons_eq_append_conv append_eq_Cons_conv)
  show ?case
  proof (cases "take 2 (b # bs) = [x, y]")
    case True
    then obtain bs' where bs: "b = x" "bs = y # bs'" by (cases bs) auto
    have "\<not> occurs [x, y] [x]" by (auto simp: occurs_def append_eq_Cons_conv)
    then have "(\<exists>pre post. b # bs = pre @ [x, y] @ post \<and> i = length pre \<and> \<not> occurs [x, y] (pre @ [x]))
        \<longleftrightarrow> i = 0"
      using assms unfolding bs by (auto simp: Cons_eq_append_conv occ hd_append split: if_splits)
    with True show ?thesis by auto
  next
    case False
    have "(\<exists>pre post. b # bs = pre @ [x, y] @ post \<and> i = length pre \<and> \<not> occurs [x, y] (pre @ [x]))
        \<longleftrightarrow> (\<exists>j. i = Suc j \<and> (\<exists>pre post. bs = pre @ [x, y] @ post \<and> j = length pre
              \<and> \<not> occurs [x, y] (pre @ [x])))" (is "?L \<longleftrightarrow> ?R")
    proof
      assume ?L
      then obtain pre post where *: "b # bs = pre @ [x, y] @ post" "i = length pre"
          "\<not> occurs [x, y] (pre @ [x])" by blast
      with False obtain pre' where "pre = b # pre'" by (cases pre) auto
      with * show ?R by (auto simp: occ)
    next
      assume ?R
      then obtain pre post where *: "i = Suc (length pre)" "bs = pre @ [x, y] @ post"
          "\<not> occurs [x, y] (pre @ [x])" by blast
      with False have "\<not> occurs [x, y] ((b # pre) @ [x])"
        by (cases pre) (auto simp: occ)
      with * show ?L by (metis append_Cons length_Cons)
    qed
    with False Cons show ?thesis by (auto simp: numeral_2_eq_2)
  qed
qed

lemma block_comment_loop_closed:
  "block_comment_loop source file cursor = Inr () \<longleftrightarrow> comments_closed (drop cursor source)"
proof (induction source "file" cursor rule: block_comment_loop.induct)
  case (1 source f cursor)
  show ?case
  proof (cases "find_sub ''/*'' (drop cursor source)")
    case None
    then have "comments_closed (drop cursor source)"
      by (simp add: comments_closed.none find_sub_None_iff)
    with None show ?thesis
      by (subst block_comment_loop.simps) simp
  next
    case (Some i)
    define rest where "rest = drop (cursor + i + 2) source"
    from Some obtain pre post where pre: "drop cursor source = pre @ ''/*'' @ post" "i = length pre"
        "\<not> occurs ''/*'' (pre @ ''/'')" by (auto simp: find_sub_split2)
    have rest: "rest = post"
    proof -
      have "rest = drop (i + 2) (drop cursor source)" by (simp add: rest_def add.commute add.left_commute)
      then show ?thesis using pre by simp
    qed
    have uniq: "comments_closed (pre @ ''/*'' @ post) \<longleftrightarrow>
        (\<exists>body rest'. post = body @ ''*/'' @ rest' \<and> \<not> occurs ''*/'' (body @ ''*'') \<and> comments_closed rest')"
      (is "_ \<longleftrightarrow> ?R")
    proof
      assume "comments_closed (pre @ ''/*'' @ post)"
      then show ?R
      proof cases
        case none
        then show ?thesis by (auto simp: occurs_def)
      next
        case (comment pre' body rest')
        then have "find_sub ''/*'' (pre @ ''/*'' @ post) = Some (length pre')"
          by (auto simp: find_sub_split2)
        then have "length pre' = length pre" using Some pre by simp
        with comment show ?thesis by auto
      qed
    next
      assume ?R
      with pre(3) comments_closed.comment show "comments_closed (pre @ ''/*'' @ post)" by blast
    qed
    show ?thesis
    proof (cases "find_sub ''*/'' rest")
      case None
      then have "\<not> occurs ''*/'' post" by (simp add: rest find_sub_None_iff)
      then have "\<not> (\<exists>body rest'. post = body @ ''*/'' @ rest')" by (auto simp: occurs_def)
      then have "\<not> comments_closed (drop cursor source)"
        unfolding pre(1) uniq by blast
      with Some None show ?thesis
        by (subst block_comment_loop.simps) (simp add: rest_def Let_def)
    next
      case found: (Some j)
      then obtain body rest' where body: "post = body @ ''*/'' @ rest'" "j = length body"
          "\<not> occurs ''*/'' (body @ ''*'')" by (auto simp: rest find_sub_split2)
      have "drop (cursor + i + 2 + j + 2) source = drop (i + 2 + (j + 2)) (drop cursor source)"
        by (simp add: add.commute add.left_commute)
      also have "\<dots> = rest'" using pre body by (simp add: eval_nat_numeral)
      finally have *: "drop (cursor + i + 2 + j + 2) source = rest'" .
      have "comments_closed (drop cursor source) \<longleftrightarrow> comments_closed rest'"
      proof
        assume "comments_closed (drop cursor source)"
        then obtain body' rest'' where b': "post = body' @ ''*/'' @ rest''"
            "\<not> occurs ''*/'' (body' @ ''*'')" "comments_closed rest''" using uniq pre by auto
        then have "find_sub ''*/'' post = Some (length body')" by (auto simp: find_sub_split2)
        then have "length body' = length body" using found rest body(2) by simp
        with trans [OF b'(1) [symmetric] body(1)] have "rest'' = rest'" by simp
        with b'(3) show "comments_closed rest'" by simp
      next
        assume "comments_closed rest'"
        with body show "comments_closed (drop cursor source)" unfolding pre(1) uniq by blast
      qed
      moreover have "block_comment_loop source f cursor =
          block_comment_loop source f (cursor + i + 2 + j + 2)"
        using Some found by (subst block_comment_loop.simps) (simp add: rest_def Let_def)
      ultimately show ?thesis using 1 [OF Some refl refl found [unfolded rest_def]] * by simp
    qed
  qed
qed


section \<open>Written literals read back\<close>

text \<open>The writer of string literals: the source form the lexer reads.\<close>

definition escape_char :: "rchar \<Rightarrow> rchar list" where
  "escape_char c =
     (if c = quote_char \<or> c = backslash_char then [backslash_char, c]
      else if c = newline_char then [backslash_char, ''n''] else [c])"

definition quote_string :: "string \<Rightarrow> string" where
  "quote_string t = concat (quote_char # concat (map escape_char (chars t)) @ [quote_char])"

lemma wf_rchar_ascii [simp]: "\<not> is_continuation b \<Longrightarrow> wf_rchar [b]"
  by (simp add: wf_rchar_def)

lemma not_continuation [simp]:
  "\<not> is_continuation CHR 0x22" "\<not> is_continuation CHR 0x5C" "\<not> is_continuation CHR ''n''"
  by (simp_all add: is_continuation_def)

lemma escape_char_wf: "wf_rchar c \<Longrightarrow> list_all wf_rchar (escape_char c)"
  by (simp add: escape_char_def)

lemma chars_quote_string:
  assumes "on_boundary t"
  shows "chars (quote_string t) = quote_char # concat (map escape_char (chars t)) @ [quote_char]"
proof -
  have "list_all wf_rchar (concat (map escape_char (chars t)))"
    using chars_wf [OF assms] escape_char_wf by (fastforce simp: list_all_iff)
  then show ?thesis unfolding quote_string_def by (intro chars_concat) simp
qed

lemma decode_chars_plain:
  "ch \<noteq> backslash_char \<Longrightarrow> decode_chars (ch # rest) decoded = decode_chars rest (decoded @ ch)"
  by (cases rest) auto

lemma decode_chars_escape: "decode_chars (concat (map escape_char cs)) decoded = Inr (decoded @ concat cs)"
proof (induction cs arbitrary: decoded)
  case Nil
  then show ?case by simp
next
  case (Cons c cs)
  then show ?case
    by (auto simp: escape_char_def decode_chars_plain unescape_def)
qed

lemma decode_quote_string:
  assumes "on_boundary t"
  shows "decode_string (quote_string t) = Inr t"
proof -
  let ?body = "concat (map escape_char (chars t))"
  have "quote_string t = CHR 0x22 # concat ?body @ [CHR 0x22]"
    by (simp add: quote_string_def)
  then have "decode_string (quote_string t) = decode_chars (chars (concat ?body)) []"
    by (simp add: decode_string_def)
  moreover have "list_all wf_rchar ?body"
    using chars_wf [OF assms] escape_char_wf by (fastforce simp: list_all_iff)
  ultimately show ?thesis by (simp add: decode_chars_escape)
qed

lemma string_rest_escape:
  "string_rest (concat (map escape_char cs) @ quote_char # rest) rest"
proof (induction cs)
  case Nil
  then show ?case by (simp add: string_rest.closing)
next
  case (Cons c cs)
  then show ?case
    by (auto simp: escape_char_def intro: string_rest.escape string_rest.plain)
qed

section \<open>Tokens spell their source\<close>

text \<open>
  What the scanner of \<open>logos\<close> documents: matches follow one another inside the source,
  none is empty, and the text of a match belongs to the language of its rule.
\<close>

definition identifier_text :: "string \<Rightarrow> bool" where
  "identifier_text s \<longleftrightarrow> s \<noteq> [] \<and> (is_ascii_alphabetic (hd s) \<or> hd s = CHR ''_'') \<and>
     list_all (\<lambda>b. is_ascii_alphanumeric b \<or> b = CHR ''_'') s"

fun rule_matches :: "raw_rule \<Rightarrow> string \<Rightarrow> bool" where
  "rule_matches (Rule_Literal t) s \<longleftrightarrow> token_literal t = Some s"
| "rule_matches Rule_Integer s \<longleftrightarrow> s \<noteq> [] \<and> list_all is_ascii_digit s"
| "rule_matches Rule_String s \<longleftrightarrow> length s \<ge> 2 \<and> hd s = CHR 0x22 \<and> last s = CHR 0x22"
| "rule_matches Rule_Identifier s \<longleftrightarrow> identifier_text s"

fun matches_from :: "string \<Rightarrow> nat \<Rightarrow> (raw_rule option \<times> span) list \<Rightarrow> bool" where
  "matches_from source n [] \<longleftrightarrow> True"
| "matches_from source n ((rule, s) # rest) \<longleftrightarrow>
     n \<le> span_start s \<and> span_start s < span_end s \<and> span_end s \<le> length source \<and>
     (\<forall>r. rule = Some r \<longrightarrow> rule_matches r (str_slice source s)) \<and>
     matches_from source (span_end s) rest"

definition documented_scanner :: "scanner \<Rightarrow> bool" where
  "documented_scanner logos \<longleftrightarrow> (\<forall>source. matches_from source 0 (logos source))"

text \<open>The relation between a token kind and the text it stands for.\<close>

fun spells :: "token_kind \<Rightarrow> string \<Rightarrow> bool" where
  "spells (TK_Identifier v) s \<longleftrightarrow> v = s \<and> identifier_text s"
| "spells (TK_Integer v) s \<longleftrightarrow> v = s \<and> s \<noteq> [] \<and> list_all is_ascii_digit s"
| "spells (TK_String v) s \<longleftrightarrow> decode_string s = Inr v"
| "spells k s \<longleftrightarrow> (\<exists>t. token_literal t = Some s \<and> into_token_kind t = Some k)"

fun tokens_from :: "string \<Rightarrow> nat \<Rightarrow> token list \<Rightarrow> bool" where
  "tokens_from source n [] \<longleftrightarrow> True"
| "tokens_from source n (t # ts) \<longleftrightarrow>
     n \<le> span_start (tok_span t) \<and> span_start (tok_span t) < span_end (tok_span t) \<and>
     span_end (tok_span t) \<le> length source \<and>
     spells (tok_kind t) (str_slice source (tok_span t)) \<and>
     tokens_from source (span_end (tok_span t)) ts"

lemma literal_kind:
  assumes "token_literal t = Some s"
  shows "\<exists>k. into_token_kind t = Some k \<and> spells k s"
proof -
  from assms have "\<exists>k. into_token_kind t = Some k \<and>
      (\<forall>v. k \<noteq> TK_Identifier v \<and> k \<noteq> TK_Integer v \<and> k \<noteq> TK_String v)"
    by (cases t) auto
  then obtain k where "into_token_kind t = Some k"
      "\<And>v. k \<noteq> TK_Identifier v" "\<And>v. k \<noteq> TK_Integer v" "\<And>v. k \<noteq> TK_String v" by blast
  with assms show ?thesis by (cases k) auto
qed

lemma run_rule_spells:
  assumes "run_rule (Some r) s = Inr raw" and "rule_matches r s"
  shows "\<exists>k. into_token_kind raw = Some k \<and> spells k s"
  using assms literal_kind by (cases r) (auto simp: result_simps)

lemma lex_loop_tokens:
  assumes "lex_loop source f ms acc = Inr tokens" and "matches_from source n ms"
  shows "\<exists>ts. tokens = acc @ ts \<and> tokens_from source n ts \<and> map tok_span ts = map snd ms"
  using assms
proof (induction ms arbitrary: acc n)
  case Nil
  then show ?case by simp
next
  case (Cons m ms)
  obtain rule s where m: "m = (rule, s)" by (cases m)
  obtain r where r: "rule = Some r"
    using Cons.prems(1) m by (cases rule) (auto simp: Let_def)
  obtain raw where raw: "run_rule rule (str_slice source s) = Inr raw"
    using Cons.prems(1) m by (auto split: sum.splits logos_error.splits simp: Let_def)
  obtain k where k: "into_token_kind raw = Some k" "spells k (str_slice source s)"
    using run_rule_spells [of r "str_slice source s" raw] raw r Cons.prems(2) m by auto
  have "lex_loop source f ms (acc @ [mk_token k s]) = Inr tokens"
    using Cons.prems(1) m raw k by simp
  from Cons.IH [OF this, of "span_end s"] Cons.prems(2) m obtain ts where
    "tokens = acc @ mk_token k s # ts" "tokens_from source (span_end s) ts" "map tok_span ts = map snd ms"
    by auto
  with k Cons.prems(2) m show ?case by (intro exI [of _ "mk_token k s # ts"]) auto
qed


section \<open>Properties\<close>

text \<open>The string pre-pass accepts exactly the texts whose string literals are closed, whatever
  the file name, and so never rejects a source in which every literal ends on its line.\<close>

theorem string_prepass_decides:
  "detect_unterminated_string source f = Inr () \<longleftrightarrow> strings_closed (chars source)"
  unfolding detect_unterminated_string_def char_indices_def by (subst string_loop_closed) simp_all

text \<open>The comment pre-pass terminates and accepts exactly the texts in which every comment opener
  is followed by a closer.\<close>

theorem comment_prepass_decides:
  "detect_unterminated_block_comment source f = Inr () \<longleftrightarrow> comments_closed source"
  unfolding detect_unterminated_block_comment_def by (simp add: block_comment_loop_closed)

text \<open>C38: every text written as a literal is read back as itself: the pre-pass accepts the written
  literal and the callback decodes it to the original text.\<close>

theorem string_literal_roundtrip:
  assumes "on_boundary t"
  shows "decode_string (quote_string t) = Inr t \<and>
    detect_unterminated_string (quote_string t) f = Inr ()"
  using assms string_rest_escape [of "chars t" "[]"]
  unfolding detect_unterminated_string_def char_indices_def
  by (subst string_loop_closed)
     (auto simp: decode_quote_string chars_quote_string intro: strings_closed.literal strings_closed.nil)

theorem string_literal_roundtrip_witness:
  "decode_string (quote_string ''a/b'') = Inr ''a/b'' \<and>
   detect_unterminated_string (quote_string ''a/b'') ''x.ks'' = Inr ()"
  by (rule string_literal_roundtrip) (simp add: on_boundary_def is_continuation_def)


definition spend_scanner :: scanner where
  "spend_scanner source =
     (if source = ''spend'' then [(Some (Rule_Literal RT_Spend), mk_span 0 5)] else [])"


text \<open>A diagnostic position determines its offset: at two different character boundaries of a source
  \<open>locate\<close> gives different lines or columns.\<close>

theorem locate_injective:
  assumes "chars source = pre @ mid @ post" and "mid \<noteq> []"
  shows "locate source f (length (concat pre)) \<noteq> locate source f (length (concat (pre @ mid)))"
  using position_append_neq [OF assms(2), of pre] assms(1)
  by (auto simp: locate_prefix [of source pre "mid @ post"] locate_prefix [of source "pre @ mid" post]
      simp del: concat_append)

theorem locate_injective_witness:
  "locate [CHR ''a'', CHR 0x0A, CHR ''b''] ''x.ks'' 1 \<noteq> locate [CHR ''a'', CHR 0x0A, CHR ''b''] ''x.ks'' 2"
  using locate_injective [of "[CHR ''a'', CHR 0x0A, CHR ''b'']" "[''a'']" "[[CHR 0x0A]]" "[''b'']" "''x.ks''"]
  by (simp add: is_continuation_def numeral_2_eq_2)

text \<open>The pre-pass also looks inside line comments and strings: this source is one line comment.\<close>

lemma line_comment_with_opener_rejected:
  "\<exists>e. lex_file logos ''// see a/*'' f = Inl e \<and> le_message e = ''unterminated block comment''"
  unfolding lex_file_def detect_unterminated_block_comment_def
  by (subst block_comment_loop.simps) (simp add: lex_error_at_def Let_def)

end
