(* ===== verification/KS_Instr.thy ===== *)
theory KS_Instr
  imports KS_Token
begin

text \<open>
  The opcode-agnostic intermediate representation (\<open>compiler/ir/src/types.rs\<close>,
  \<open>compiler/ir/src/instructions.rs\<close>).
\<close>

datatype ir_value =
    V_Integer u64
  | V_Bool bool
  | V_Bytes "u8 list"
  | V_String string
  | V_Symbol string
  | V_Type type_name

datatype (plugins only: code size) instruction_kind =
    I_Push ir_value | I_Drop | I_Dup
  | I_InputValue u32 | I_InputScript u32 | I_OutputValue u32 | I_OutputScript u32
  | I_OutputCount | I_InputCount
  | I_CheckSig (cs_key_slot: u32)
  | I_CheckMultiSig (cms_required: u32) (cms_key_count: u32)
  | I_CheckLockHeight u64 | I_CheckLockTime u64
  | I_CheckLockHeightFromStack | I_CheckLockTimeFromStack
  | I_CovenantDepth | I_CovenantId | I_ZkVerifyGroth16 | I_ZkVerifyRiscZero | I_SequencingCommitment
  | I_Sha256 | I_Blake2b | I_Hash160 | I_CheckHashPreimage
  | I_Verify | I_Equal | I_NotEqual | I_LessThan | I_LessThanOrEqual | I_GreaterThan
  | I_GreaterThanOrEqual | I_And | I_Or | I_Not | I_Add | I_Sub | I_Mul | I_Div | I_Mod

record instruction =
  instr_span :: span
  instr_kind :: instruction_kind

abbreviation mk_instr :: "span \<Rightarrow> instruction_kind \<Rightarrow> instruction" where
  "mk_instr s k \<equiv> \<lparr>instr_span = s, instr_kind = k\<rparr>"

end
