(* ===== verification/KS_Grounding.thy ===== *)
theory KS_Grounding
  imports KS_Instr
begin

text \<open>
  The source-grounding registry (\<open>compiler/codegen/src/grounding.rs\<close>): the records with
  their exact texts, the lookup of the record of an instruction and of a KIP. The status
  of an instruction's record, computed once by evaluation, is the table the gate of the
  back end is judged against.
\<close>

datatype verification_status = VS_Verified | VS_Gated | VS_Unsupported

datatype grounding_category =
  GC_BackendOpcode | GC_Builtin | GC_KipReference | GC_TransactionAssumption | GC_ArtifactField | GC_TargetGate

record source_citation =
  cit_path :: string
  cit_detail :: string

record grounding_record =
  gr_id :: string
  gr_category :: grounding_category
  gr_status :: verification_status
  gr_citation :: source_citation
  gr_note :: string

record grounding_warning =
  gw_id :: string
  gw_category :: grounding_category
  gw_citation :: source_citation
  gw_message :: string

definition record_warning :: "grounding_record \<Rightarrow> grounding_warning" where
  "record_warning r =
     \<lparr>gw_id = gr_id r, gw_category = gr_category r, gw_citation = gr_citation r, gw_message = gr_note r\<rparr>"

definition verified_record :: "string \<Rightarrow> grounding_category \<Rightarrow> string \<Rightarrow> string \<Rightarrow> string \<Rightarrow> grounding_record" where
  "verified_record rid cat path detail note =
     \<lparr>gr_id = rid, gr_category = cat, gr_status = VS_Verified,
      gr_citation = \<lparr>cit_path = path, cit_detail = detail\<rparr>, gr_note = note\<rparr>"

definition gated_record :: "string \<Rightarrow> grounding_category \<Rightarrow> string \<Rightarrow> string \<Rightarrow> string \<Rightarrow> grounding_record" where
  "gated_record rid cat path detail note =
     \<lparr>gr_id = rid, gr_category = cat, gr_status = VS_Gated,
      gr_citation = \<lparr>cit_path = path, cit_detail = detail\<rparr>, gr_note = note\<rparr>"

definition unsupported_record :: "string \<Rightarrow> grounding_category \<Rightarrow> string \<Rightarrow> string \<Rightarrow> string \<Rightarrow> grounding_record" where
  "unsupported_record rid cat path detail note =
     \<lparr>gr_id = rid, gr_category = cat, gr_status = VS_Unsupported,
      gr_citation = \<lparr>cit_path = path, cit_detail = detail\<rparr>, gr_note = note\<rparr>"

definition verified_opcode :: "string \<Rightarrow> string \<Rightarrow> grounding_record" where
  "verified_opcode rid detail =
     verified_record rid GC_BackendOpcode ''docs/kaspa-source-audit.md'' detail
       ''opcode byte mapping is verified against pinned Kaspa txscript sources''"

definition unsupported_opcode :: "string \<Rightarrow> string \<Rightarrow> grounding_record" where
  "unsupported_opcode rid detail =
     unsupported_record rid GC_BackendOpcode ''docs/kaspa-source-audit.md'' detail
       ''backend emission is unsupported until KaspaScript lowering and tests verify it''"

definition verified_builtin :: "string \<Rightarrow> string \<Rightarrow> string \<Rightarrow> grounding_record" where
  "verified_builtin rid path detail =
     verified_record rid GC_Builtin path detail
       ''builtin behavior is source-grounded and covered by tests''"

definition gated_builtin :: "string \<Rightarrow> string \<Rightarrow> grounding_record" where
  "gated_builtin rid note =
     gated_record rid GC_Builtin ''compiler/semantic/src/checker.rs''
       ''builtin is recognized by semantic analysis'' note"

definition unsupported_builtin :: "string \<Rightarrow> string \<Rightarrow> grounding_record" where
  "unsupported_builtin rid note =
     unsupported_record rid GC_Builtin ''compiler/semantic/src/checker.rs''
       ''builtin has no verified backend emission'' note"

definition kip_id :: "u16 \<Rightarrow> string" where
  "kip_id kip =
     (if kip = 10 then ''kip-10'' else if kip = 15 then ''kip-15'' else if kip = 16 then ''kip-16''
      else if kip = 17 then ''kip-17'' else if kip = 20 then ''kip-20'' else if kip = 21 then ''kip-21''
      else ''kip-unknown'')"

definition verified_kip :: "u16 \<Rightarrow> string \<Rightarrow> string \<Rightarrow> grounding_record" where
  "verified_kip kip path note =
     verified_record (kip_id kip) GC_KipReference path
       ''KIP source is present in the pinned Kaspa KIP repository'' note"

definition gated_kip :: "u16 \<Rightarrow> string \<Rightarrow> string \<Rightarrow> grounding_record" where
  "gated_kip kip path note =
     gated_record (kip_id kip) GC_KipReference path
       ''KIP source is recognized but not fully enabled for KaspaScript bytecode emission'' note"

definition backend_opcode_records :: "grounding_record list" where
  "backend_opcode_records =
    [verified_opcode ''push-int'' ''canonical script-number pushes via OP_0, OP_1..OP_16, OP_DATA_N'',
     verified_opcode ''push-bool'' ''boolean pushes via OP_0 and OP_1'',
     verified_opcode ''push-bytes'' ''canonical pushdata OP_DATA_N/OP_PUSHDATA_N'',
     verified_opcode ''drop'' ''OpDrop (0x75)'',
     verified_opcode ''dup'' ''OpDup (0x76)'',
     verified_opcode ''equal'' ''OpEqual (0x87)'',
     verified_opcode ''verify'' ''OpVerify (0x69)'',
     verified_opcode ''checksig'' ''OpCheckSig (0xac)'',
     verified_opcode ''checkmultisig'' ''OpCheckMultiSig (0xae)'',
     verified_opcode ''checklocktimeverify'' ''OpCheckLockTimeVerify (0xb0)'',
     verified_opcode ''add'' ''OpAdd (0x93)'',
     verified_opcode ''sub'' ''OpSub (0x94)'',
     unsupported_opcode ''mul''
        ''OpMul exists at 0x95; current Toccata sources enable it behind covenants_enabled'',
     unsupported_opcode ''div''
        ''OpDiv exists at 0x96; current Toccata sources enable it behind covenants_enabled'',
     unsupported_opcode ''mod''
        ''OpMod exists at 0x97; current Toccata sources enable it behind covenants_enabled'',
     verified_opcode ''lessthan'' ''OpLessThan (0x9f)'',
     verified_opcode ''lessthanorequal'' ''OpLessThanOrEqual (0xa1)'',
     verified_opcode ''greaterthan'' ''OpGreaterThan (0xa0)'',
     verified_opcode ''greaterthanorequal'' ''OpGreaterThanOrEqual (0xa2)'',
     verified_opcode ''not'' ''OpNot (0x91)'',
     verified_opcode ''and'' ''OpBoolAnd (0x9a)'',
     verified_opcode ''or'' ''OpBoolOr (0x9b)'',
     verified_opcode ''notequal'' ''OpNumNotEqual (0x9e)'',
     verified_opcode ''sha256'' ''OpSHA256 (0xa8)'',
     unsupported_opcode ''hash160'' ''no Hash160 opcode is present; 0xa9 is OpCheckMultiSigECDSA'',
     verified_opcode ''blake2b'' ''OpBlake2b (0xaa)'',
     verified_opcode ''inputvalue'' ''OpTxInputAmount (0xbe), KIP-10'',
     verified_opcode ''inputscript'' ''OpTxInputSpk (0xbf), KIP-10'',
     verified_opcode ''outputvalue'' ''OpTxOutputAmount (0xc2), KIP-10'',
     verified_opcode ''outputscript'' ''OpTxOutputSpk (0xc3), KIP-10'',
     verified_opcode ''inputcount'' ''OpTxInputCount (0xb3), KIP-10'',
     verified_opcode ''outputcount'' ''OpTxOutputCount (0xb4), KIP-10'',
     unsupported_opcode ''covenantid''
        ''current Toccata sources define covenant ID accessors; KaspaScript lowering is not implemented'',
     unsupported_opcode ''covenantid-depth''
        ''no upstream covenant depth opcode or KaspaScript depth lowering is implemented'',
     unsupported_opcode ''zk-groth16-verify''
        ''current Toccata sources define OpZkPrecompile tag 0x20; KaspaScript stack ABI lowering is not implemented'',
     unsupported_opcode ''zk-risczero-verify''
        ''current Toccata sources define OpZkPrecompile tag 0x21; KaspaScript stack ABI lowering is not implemented'',
     unsupported_opcode ''sequencing-commitment''
        ''current Toccata sources define OpChainblockSeqCommit; KaspaScript witness/depth lowering is not implemented'',
     unsupported_opcode ''check-hash-preimage''
        ''no dedicated hash-preimage opcode is present in pinned sources'']"

definition builtin_records :: "grounding_record list" where
  "builtin_records =
    [verified_builtin ''finality_depth''
        ''compiler/parser/src/parser.rs''
        ''finality_depth is extracted from params into Contract.finality_depth'',
     verified_builtin ''multisig''
        ''compiler/semantic/src/checker.rs''
        ''multisig arity and static threshold checks are implemented locally; backend emits OpCheckMultiSig'',
     verified_builtin ''input''
        ''docs/kaspa-source-audit.md''
        ''input(n).value/script lower to KIP-10 OpTxInputAmount/OpTxInputSpk'',
     verified_builtin ''output''
        ''docs/kaspa-source-audit.md''
        ''output(n).value/script lower to KIP-10 OpTxOutputAmount/OpTxOutputSpk'',
     verified_builtin ''input_count''
        ''docs/kaspa-source-audit.md''
        ''input_count lowers to KIP-10 OpTxInputCount'',
     verified_builtin ''output_count''
        ''docs/kaspa-source-audit.md''
        ''output_count lowers to KIP-10 OpTxOutputCount'',
     verified_builtin ''continuation''
        ''compiler/ir/src/gen.rs''
        ''continuation(name, output(n)) records a named successor output and lowers to an output-count existence check'',
     gated_builtin ''block''
        ''block.height/time syntax is recognized; parameterized lock values are still emitted as script-template data'',
     unsupported_builtin ''covenant_id''
        ''upstream Toccata sources define covenant ID accessors; KaspaScript lowering is not implemented'',
     unsupported_builtin ''covenant''
        ''upstream Toccata sources define covenant bindings; KaspaScript transaction builder support is not implemented'',
     unsupported_builtin ''sequencing''
        ''upstream Toccata sources define OpChainblockSeqCommit; KaspaScript witness/depth lowering is not implemented'',
     unsupported_builtin ''zk_verify''
        ''upstream Toccata sources define OpZkPrecompile; KaspaScript proof artifact lowering is not implemented'',
     verified_builtin ''sha256'' ''docs/kaspa-source-audit.md'' ''OpSHA256 is present at 0xa8'',
     verified_builtin ''blake2b'' ''docs/kaspa-source-audit.md'' ''OpBlake2b is present at 0xaa'',
     unsupported_builtin ''hash160'' ''no Hash160 opcode is present in pinned txscript sources'']"

definition kip_records :: "grounding_record list" where
  "kip_records =
    [verified_kip 10
        ''docs/kaspa-source-audit.md''
        ''KIP-10 is present in kaspanet/kips and marked Active; rusty-kaspa has matching txscript opcodes'',
     verified_kip 15
        ''docs/kaspa-source-audit.md''
        ''KIP-15 is present in kaspanet/kips and marked Active as a block-header commitment'',
     gated_kip 16
        ''docs/kaspa-source-audit.md''
        ''KIP-16 and OpZkPrecompile exist upstream; KaspaScript proof lowering remains gated'',
     gated_kip 17
        ''docs/kaspa-source-audit.md''
        ''KIP-17 and expanded Toccata opcodes exist upstream; KaspaScript emits only the older KIP-10 subset'',
     gated_kip 20
        ''docs/kaspa-source-audit.md''
        ''KIP-20 and covenant ID accessors exist upstream; transaction-output covenant bindings remain gated'',
     gated_kip 21
        ''docs/kaspa-source-audit.md''
        ''KIP-21 and OpChainblockSeqCommit exist upstream; witness/depth lowering remains gated'']"

definition transaction_assumption_records :: "grounding_record list" where
  "transaction_assumption_records =
    [verified_record ''sdk-finality-depth-enforcement''
        GC_TransactionAssumption
        ''sdk/src/lib.rs''
        ''build_spend_tx rejects UTXOs below artifact.finality_depth confirmations''
        ''local SDK behavior is tested; no Kaspa RPC submission source is present'',
     verified_record ''sdk-no-hidden-fee''
        GC_TransactionAssumption
        ''sdk/src/lib.rs''
        ''build_spend_tx routes the full spend value to the contract output and creates no treasury output''
        ''hidden treasury fee injection has been removed'',
     gated_record ''sdk-transaction-builder-preview''
        GC_TransactionAssumption
        ''sdk/src/lib.rs''
        ''Transaction is a deterministic SDK model, not a rusty-kaspa Transaction''
        ''real Kaspa transaction construction/submission remains preview-gated'']"

definition artifact_field_records :: "grounding_record list" where
  "artifact_field_records =
     map (\<lambda>field. verified_record field GC_ArtifactField ''compiler/codegen/src/lib.rs''
            ''CompiledArtifact field is defined in the local codegen crate''
            ''artifact field is locally defined and covered by artifact metadata tests'')
       [''bytecode'', ''source_hash'', ''compiler_version'', ''backend'', ''target'', ''finality_depth'', ''kip_requirements'', ''warnings'']"

definition target_gate_records :: "grounding_record list" where
  "target_gate_records =
    [verified_record ''target-verified-tn12''
        GC_TargetGate
        ''compiler/codegen/src/lib.rs''
        ''Target::VerifiedTn12 rejects gated and unsupported records''
        ''verified TN12 emits only behavior backed by pinned sources'',
     verified_record ''target-toccata-preview''
        GC_TargetGate
        ''compiler/codegen/src/lib.rs''
        ''Target::ToccataPreview warns for gated records and rejects unsupported records''
        ''preview behavior is explicit in artifact warnings'',
     verified_record ''target-future-mainnet''
        GC_TargetGate
        ''compiler/codegen/src/lib.rs''
        ''Target::FutureMainnet rejects gated and unsupported records''
        ''future mainnet emission stays locked until sources are pinned'']"

definition all_records :: "grounding_record list" where
  "all_records =
     backend_opcode_records @ builtin_records @ kip_records @ transaction_assumption_records @
     artifact_field_records @ target_gate_records"

text \<open>\<open>Iterator::find\<close> is \<open>List.find\<close>.\<close>

definition opcode_record :: "string \<Rightarrow> grounding_record" where
  "opcode_record rid =
     (case find (\<lambda>r. gr_id r = rid) backend_opcode_records of
        Some r \<Rightarrow> r
      | None \<Rightarrow>
          unsupported_record ''unknown-opcode'' GC_BackendOpcode ''compiler/ir/src/instructions.rs''
            ''instruction has no source-grounding record''
            ''backend refuses instructions without source grounding'')"

fun record_for_instruction :: "instruction_kind \<Rightarrow> grounding_record" where
  "record_for_instruction (I_Push (V_Integer v)) = opcode_record ''push-int''"
| "record_for_instruction (I_Push (V_Bool v)) = opcode_record ''push-bool''"
| "record_for_instruction (I_Push (V_Bytes v)) = opcode_record ''push-bytes''"
| "record_for_instruction (I_Push (V_String v)) = opcode_record ''push-bytes''"
| "record_for_instruction (I_Push (V_Symbol v)) = opcode_record ''push-bytes''"
| "record_for_instruction (I_Push (V_Type v)) = opcode_record ''push-bytes''"
| "record_for_instruction I_Drop = opcode_record ''drop''"
| "record_for_instruction I_Dup = opcode_record ''dup''"
| "record_for_instruction (I_InputValue x) = opcode_record ''inputvalue''"
| "record_for_instruction (I_InputScript x) = opcode_record ''inputscript''"
| "record_for_instruction (I_OutputValue x) = opcode_record ''outputvalue''"
| "record_for_instruction (I_OutputScript x) = opcode_record ''outputscript''"
| "record_for_instruction I_OutputCount = opcode_record ''outputcount''"
| "record_for_instruction I_InputCount = opcode_record ''inputcount''"
| "record_for_instruction (I_CheckSig ks) = opcode_record ''checksig''"
| "record_for_instruction (I_CheckMultiSig req kc) = opcode_record ''checkmultisig''"
| "record_for_instruction (I_CheckLockHeight x) = opcode_record ''checklocktimeverify''"
| "record_for_instruction (I_CheckLockTime x) = opcode_record ''checklocktimeverify''"
| "record_for_instruction I_CheckLockHeightFromStack = opcode_record ''checklocktimeverify''"
| "record_for_instruction I_CheckLockTimeFromStack = opcode_record ''checklocktimeverify''"
| "record_for_instruction I_CovenantDepth = opcode_record ''covenantid-depth''"
| "record_for_instruction I_CovenantId = opcode_record ''covenantid''"
| "record_for_instruction I_ZkVerifyGroth16 = opcode_record ''zk-groth16-verify''"
| "record_for_instruction I_ZkVerifyRiscZero = opcode_record ''zk-risczero-verify''"
| "record_for_instruction I_SequencingCommitment = opcode_record ''sequencing-commitment''"
| "record_for_instruction I_Sha256 = opcode_record ''sha256''"
| "record_for_instruction I_Blake2b = opcode_record ''blake2b''"
| "record_for_instruction I_Hash160 = opcode_record ''hash160''"
| "record_for_instruction I_CheckHashPreimage = opcode_record ''check-hash-preimage''"
| "record_for_instruction I_Verify = opcode_record ''verify''"
| "record_for_instruction I_Equal = opcode_record ''equal''"
| "record_for_instruction I_NotEqual = opcode_record ''notequal''"
| "record_for_instruction I_LessThan = opcode_record ''lessthan''"
| "record_for_instruction I_LessThanOrEqual = opcode_record ''lessthanorequal''"
| "record_for_instruction I_GreaterThan = opcode_record ''greaterthan''"
| "record_for_instruction I_GreaterThanOrEqual = opcode_record ''greaterthanorequal''"
| "record_for_instruction I_And = opcode_record ''and''"
| "record_for_instruction I_Or = opcode_record ''or''"
| "record_for_instruction I_Not = opcode_record ''not''"
| "record_for_instruction I_Add = opcode_record ''add''"
| "record_for_instruction I_Sub = opcode_record ''sub''"
| "record_for_instruction I_Mul = opcode_record ''mul''"
| "record_for_instruction I_Div = opcode_record ''div''"
| "record_for_instruction I_Mod = opcode_record ''mod''"

definition record_for_kip :: "u16 \<Rightarrow> grounding_record option" where
  "record_for_kip kip = find (\<lambda>r. gr_id r = ''kip-'' @ show_nat (unat kip)) kip_records"

section \<open>The status of every instruction\<close>

text \<open>The instruction kinds the back end refuses to emit.\<close>

fun unemittable :: "instruction_kind \<Rightarrow> bool" where
  "unemittable I_CovenantDepth = True"
| "unemittable I_CovenantId = True"
| "unemittable I_ZkVerifyGroth16 = True"
| "unemittable I_ZkVerifyRiscZero = True"
| "unemittable I_SequencingCommitment = True"
| "unemittable I_Hash160 = True"
| "unemittable I_CheckHashPreimage = True"
| "unemittable I_Mul = True"
| "unemittable I_Div = True"
| "unemittable I_Mod = True"
| "unemittable _ = False"

lemma opcode_rows:
  "map (\<lambda>r. (gr_id r, gr_status r)) backend_opcode_records =
    [(''push-int'', VS_Verified),
     (''push-bool'', VS_Verified),
     (''push-bytes'', VS_Verified),
     (''drop'', VS_Verified),
     (''dup'', VS_Verified),
     (''equal'', VS_Verified),
     (''verify'', VS_Verified),
     (''checksig'', VS_Verified),
     (''checkmultisig'', VS_Verified),
     (''checklocktimeverify'', VS_Verified),
     (''add'', VS_Verified),
     (''sub'', VS_Verified),
     (''mul'', VS_Unsupported),
     (''div'', VS_Unsupported),
     (''mod'', VS_Unsupported),
     (''lessthan'', VS_Verified),
     (''lessthanorequal'', VS_Verified),
     (''greaterthan'', VS_Verified),
     (''greaterthanorequal'', VS_Verified),
     (''not'', VS_Verified),
     (''and'', VS_Verified),
     (''or'', VS_Verified),
     (''notequal'', VS_Verified),
     (''sha256'', VS_Verified),
     (''hash160'', VS_Unsupported),
     (''blake2b'', VS_Verified),
     (''inputvalue'', VS_Verified),
     (''inputscript'', VS_Verified),
     (''outputvalue'', VS_Verified),
     (''outputscript'', VS_Verified),
     (''inputcount'', VS_Verified),
     (''outputcount'', VS_Verified),
     (''covenantid'', VS_Unsupported),
     (''covenantid-depth'', VS_Unsupported),
     (''zk-groth16-verify'', VS_Unsupported),
     (''zk-risczero-verify'', VS_Unsupported),
     (''sequencing-commitment'', VS_Unsupported),
     (''check-hash-preimage'', VS_Unsupported)]"
  by (simp add: backend_opcode_records_def verified_opcode_def unsupported_opcode_def
      verified_record_def unsupported_record_def)

lemma map_of_rows: "map_of (map (\<lambda>r. (f r, g r)) rs) k = map_option g (find (\<lambda>r. f r = k) rs)"
  by (induction rs) auto

lemma find_matches: "find P rs = Some r \<Longrightarrow> P r"
  by (induction rs) (auto split: if_splits)

lemma opcode_record_row:
  assumes "map_of (map (\<lambda>r. (gr_id r, gr_status r)) backend_opcode_records) rid = Some st"
  shows "gr_id (opcode_record rid) = rid \<and> gr_status (opcode_record rid) = st"
  using assms by (auto simp: map_of_rows opcode_record_def dest: find_matches)

lemma opcode_record_facts [simp]:
  "gr_id (opcode_record ''push-int'') = ''push-int'' \<and> gr_status (opcode_record ''push-int'') = VS_Verified"
  "gr_id (opcode_record ''push-bool'') = ''push-bool'' \<and> gr_status (opcode_record ''push-bool'') = VS_Verified"
  "gr_id (opcode_record ''push-bytes'') = ''push-bytes'' \<and> gr_status (opcode_record ''push-bytes'') = VS_Verified"
  "gr_id (opcode_record ''drop'') = ''drop'' \<and> gr_status (opcode_record ''drop'') = VS_Verified"
  "gr_id (opcode_record ''dup'') = ''dup'' \<and> gr_status (opcode_record ''dup'') = VS_Verified"
  "gr_id (opcode_record ''inputvalue'') = ''inputvalue'' \<and> gr_status (opcode_record ''inputvalue'') = VS_Verified"
  "gr_id (opcode_record ''inputscript'') = ''inputscript'' \<and> gr_status (opcode_record ''inputscript'') = VS_Verified"
  "gr_id (opcode_record ''outputvalue'') = ''outputvalue'' \<and> gr_status (opcode_record ''outputvalue'') = VS_Verified"
  "gr_id (opcode_record ''outputscript'') = ''outputscript'' \<and> gr_status (opcode_record ''outputscript'') = VS_Verified"
  "gr_id (opcode_record ''outputcount'') = ''outputcount'' \<and> gr_status (opcode_record ''outputcount'') = VS_Verified"
  "gr_id (opcode_record ''inputcount'') = ''inputcount'' \<and> gr_status (opcode_record ''inputcount'') = VS_Verified"
  "gr_id (opcode_record ''checksig'') = ''checksig'' \<and> gr_status (opcode_record ''checksig'') = VS_Verified"
  "gr_id (opcode_record ''checkmultisig'') = ''checkmultisig'' \<and> gr_status (opcode_record ''checkmultisig'') = VS_Verified"
  "gr_id (opcode_record ''checklocktimeverify'') = ''checklocktimeverify'' \<and> gr_status (opcode_record ''checklocktimeverify'') = VS_Verified"
  "gr_id (opcode_record ''covenantid-depth'') = ''covenantid-depth'' \<and> gr_status (opcode_record ''covenantid-depth'') = VS_Unsupported"
  "gr_id (opcode_record ''covenantid'') = ''covenantid'' \<and> gr_status (opcode_record ''covenantid'') = VS_Unsupported"
  "gr_id (opcode_record ''zk-groth16-verify'') = ''zk-groth16-verify'' \<and> gr_status (opcode_record ''zk-groth16-verify'') = VS_Unsupported"
  "gr_id (opcode_record ''zk-risczero-verify'') = ''zk-risczero-verify'' \<and> gr_status (opcode_record ''zk-risczero-verify'') = VS_Unsupported"
  "gr_id (opcode_record ''sequencing-commitment'') = ''sequencing-commitment'' \<and> gr_status (opcode_record ''sequencing-commitment'') = VS_Unsupported"
  "gr_id (opcode_record ''sha256'') = ''sha256'' \<and> gr_status (opcode_record ''sha256'') = VS_Verified"
  "gr_id (opcode_record ''blake2b'') = ''blake2b'' \<and> gr_status (opcode_record ''blake2b'') = VS_Verified"
  "gr_id (opcode_record ''hash160'') = ''hash160'' \<and> gr_status (opcode_record ''hash160'') = VS_Unsupported"
  "gr_id (opcode_record ''check-hash-preimage'') = ''check-hash-preimage'' \<and> gr_status (opcode_record ''check-hash-preimage'') = VS_Unsupported"
  "gr_id (opcode_record ''verify'') = ''verify'' \<and> gr_status (opcode_record ''verify'') = VS_Verified"
  "gr_id (opcode_record ''equal'') = ''equal'' \<and> gr_status (opcode_record ''equal'') = VS_Verified"
  "gr_id (opcode_record ''notequal'') = ''notequal'' \<and> gr_status (opcode_record ''notequal'') = VS_Verified"
  "gr_id (opcode_record ''lessthan'') = ''lessthan'' \<and> gr_status (opcode_record ''lessthan'') = VS_Verified"
  "gr_id (opcode_record ''lessthanorequal'') = ''lessthanorequal'' \<and> gr_status (opcode_record ''lessthanorequal'') = VS_Verified"
  "gr_id (opcode_record ''greaterthan'') = ''greaterthan'' \<and> gr_status (opcode_record ''greaterthan'') = VS_Verified"
  "gr_id (opcode_record ''greaterthanorequal'') = ''greaterthanorequal'' \<and> gr_status (opcode_record ''greaterthanorequal'') = VS_Verified"
  "gr_id (opcode_record ''and'') = ''and'' \<and> gr_status (opcode_record ''and'') = VS_Verified"
  "gr_id (opcode_record ''or'') = ''or'' \<and> gr_status (opcode_record ''or'') = VS_Verified"
  "gr_id (opcode_record ''not'') = ''not'' \<and> gr_status (opcode_record ''not'') = VS_Verified"
  "gr_id (opcode_record ''add'') = ''add'' \<and> gr_status (opcode_record ''add'') = VS_Verified"
  "gr_id (opcode_record ''sub'') = ''sub'' \<and> gr_status (opcode_record ''sub'') = VS_Verified"
  "gr_id (opcode_record ''mul'') = ''mul'' \<and> gr_status (opcode_record ''mul'') = VS_Unsupported"
  "gr_id (opcode_record ''div'') = ''div'' \<and> gr_status (opcode_record ''div'') = VS_Unsupported"
  "gr_id (opcode_record ''mod'') = ''mod'' \<and> gr_status (opcode_record ''mod'') = VS_Unsupported"
  by (rule opcode_record_row, simp add: opcode_rows)+

lemma record_for_instruction_status:
  "gr_status (record_for_instruction k) = (if unemittable k then VS_Unsupported else VS_Verified)"
proof (cases k)
  case (I_Push v)
  then show ?thesis by (cases v) simp_all
qed simp_all

lemma record_for_instruction_known: "gr_id (record_for_instruction k) \<noteq> ''unknown-opcode''"
proof (cases k)
  case (I_Push v)
  then show ?thesis by (cases v) simp_all
qed simp_all

lemma record_for_kip_status:
  "map_option gr_status (record_for_kip 10) = Some VS_Verified"
  "map_option gr_status (record_for_kip 15) = Some VS_Verified"
  "map_option gr_status (record_for_kip 16) = Some VS_Gated"
  "map_option gr_status (record_for_kip 20) = Some VS_Gated"
  by code_simp+

end
