(* ===== verification/KS_Errors.thy ===== *)
theory KS_Errors
  imports KS_Lexer KS_Grounding
begin

text \<open>
  The error values of every phase, with their \<open>Display\<close> texts: \<open>ParseError\<close>
  (\<open>parser.rs\<close>), \<open>SemanticError\<close>, \<open>AnalyzeError\<close> and \<open>AnalyzeFailure\<close> (\<open>checker.rs\<close>),
  \<open>IrError\<close> (\<open>gen.rs\<close>), \<open>CodegenError\<close> (\<open>codegen/src/lib.rs\<close>).
\<close>

text \<open>Text between backticks.\<close>

abbreviation (input) bt :: "string \<Rightarrow> string" where
  "bt s \<equiv> [CHR 0x60] @ s @ [CHR 0x60]"

section \<open>Diagnostics with a source position\<close>

record parse_error =
  pe_file :: string
  pe_line :: nat
  pe_column :: nat
  pe_span :: span
  pe_message :: string

definition parse_error_display :: "parse_error \<Rightarrow> string" where
  "parse_error_display e =
     pe_file e @ '':'' @ show_nat (pe_line e) @ '':'' @ show_nat (pe_column e) @ '': '' @ pe_message e"

definition parse_error_of_lex :: "lex_error \<Rightarrow> parse_error" where
  "parse_error_of_lex e =
     \<lparr>pe_file = le_file e, pe_line = le_line e, pe_column = le_column e,
      pe_span = le_span e, pe_message = le_message e\<rparr>"

definition parse_error_at :: "string \<Rightarrow> string \<Rightarrow> span \<Rightarrow> string \<Rightarrow> parse_error" where
  "parse_error_at source file s message =
     (let location = locate source file (span_start s)
      in \<lparr>pe_file = loc_file location, pe_line = loc_line location,
          pe_column = loc_column location, pe_span = s, pe_message = message\<rparr>)"

record semantic_error =
  se_file :: string
  se_line :: nat
  se_column :: nat
  se_span :: span
  se_message :: string

definition semantic_error_display :: "semantic_error \<Rightarrow> string" where
  "semantic_error_display e =
     se_file e @ '':'' @ show_nat (se_line e) @ '':'' @ show_nat (se_column e) @ '': '' @ se_message e"

section \<open>Failures of the phases\<close>

datatype analyze_error = AE_Parse parse_error | AE_Semantic nat

fun analyze_error_display :: "analyze_error \<Rightarrow> string" where
  "analyze_error_display (AE_Parse e) = parse_error_display e"
| "analyze_error_display (AE_Semantic n) =
     ''semantic analysis failed with '' @ show_nat n @ '' error(s)''"

record analyze_failure =
  af_error :: analyze_error
  af_errors :: "semantic_error list"

fun join_lines :: "string list \<Rightarrow> string" where
  "join_lines [] = []"
| "join_lines [x] = x"
| "join_lines (x # xs) = x @ [CHR 0x0A] @ join_lines xs"

definition analyze_failure_display :: "analyze_failure \<Rightarrow> string" where
  "analyze_failure_display f =
     (if af_errors f = [] then analyze_error_display (af_error f)
      else join_lines (map semantic_error_display (af_errors f)))"

datatype ir_error =
    IE_Semantic analyze_failure
  | IE_Unsupported (ie_file: string) (ie_line: nat) (ie_column: nat) (ie_message: string)

fun ir_error_display :: "ir_error \<Rightarrow> string" where
  "ir_error_display (IE_Semantic f) = analyze_failure_display f"
| "ir_error_display (IE_Unsupported f l c m) =
     f @ '':'' @ show_nat l @ '':'' @ show_nat c @ '': '' @ m"

datatype codegen_error =
    CE_Ir ir_error
  | CE_ValueTooLarge span string
  | CE_EmptyBytecode
  | CE_UnsupportedGrounding string source_citation string
  | CE_GatedGrounding string string source_citation string
  | CE_InvalidBytecode nat string

fun codegen_error_display :: "codegen_error \<Rightarrow> string" where
  "codegen_error_display (CE_Ir e) = ir_error_display e"
| "codegen_error_display (CE_ValueTooLarge s m) =
     ''value too large at byte '' @ show_nat (span_start s) @ '': '' @ m"
| "codegen_error_display CE_EmptyBytecode = ''artifact bytecode is empty''"
| "codegen_error_display (CE_UnsupportedGrounding rid c m) =
     ''unsupported source-grounding '' @ [CHR 0x60] @ rid @ [CHR 0x60] @ '' from '' @ cit_path c @ '': '' @ m"
| "codegen_error_display (CE_GatedGrounding rid t c m) =
     ''gated source-grounding '' @ [CHR 0x60] @ rid @ [CHR 0x60] @ '' is not allowed for target '' @
     [CHR 0x60] @ t @ [CHR 0x60] @ '' from '' @ cit_path c @ '': '' @ m"
| "codegen_error_display (CE_InvalidBytecode n m) =
     ''invalid bytecode at offset '' @ show_nat n @ '': '' @ m"

end
