(* ===== verification/KS_Emitter.thy ===== *)
theory KS_Emitter
  imports KS_Prelude
begin

text \<open>
  The interface of the routines that append to an output buffer (\<open>out: &mut Vec<_>\<close>) and
  may fail: the lowering of expressions and the encoding of instructions. Its one law is
  that a routine only appends, and that what it appends does not depend on the buffer.
  \<open>reader\<close> extends it with a decoder that reads emitted chunks back.
\<close>

definition emit_all :: "('a \<Rightarrow> 'b list \<Rightarrow> 'e + 'b list) \<Rightarrow> 'a list \<Rightarrow> 'b list \<Rightarrow> 'e + 'b list" where
  "emit_all emit xs out = try_fold (\<lambda>out x. emit x out) out xs"

lemma emit_all_eta: "emit_all emit xs = (\<lambda>out. try_fold (\<lambda>out x. emit x out) out xs)"
  by (rule ext) (simp add: emit_all_def)

lemma emit_all_simps [simp]:
  "emit_all emit [] out = Inr out"
  "emit_all emit (x # xs) out = rbind (emit x out) (emit_all emit xs)"
  by (simp_all add: emit_all_eta)

lemma emit_all_append: "emit_all emit (xs @ ys) out = rbind (emit_all emit xs out) (emit_all emit ys)"
  by (simp add: emit_all_eta try_fold_append)

definition appends :: "('b list \<Rightarrow> 'e + 'b list) \<Rightarrow> bool" where
  "appends f \<longleftrightarrow> (\<forall>out. f out = rbind (f []) (\<lambda>code. Inr (out @ code)))"

lemma appends_eq: "appends f \<Longrightarrow> f out = rbind (f []) (\<lambda>code. Inr (out @ code))"
  unfolding appends_def by blast

lemma appends_push [simp, intro]: "appends (\<lambda>out. Inr (out @ code))"
  by (simp add: appends_def)

lemma appends_id [simp, intro]: "appends Inr" "appends (\<lambda>out. Inr out)"
  by (simp_all add: appends_def)

lemma appends_fail [simp, intro]: "appends (\<lambda>out. Inl e)"
  by (simp add: appends_def)

lemma appends_rbind [intro]:
  assumes "appends f" and "appends g"
  shows "appends (\<lambda>out. rbind (f out) g)"
  unfolding appends_def
proof
  fix out
  show "rbind (f out) g = rbind (rbind (f []) g) (\<lambda>code. Inr (out @ code))"
  proof (cases "f []")
    case (Inl e)
    then show ?thesis by (subst appends_eq [OF assms(1)]) simp
  next
    case (Inr c)
    have "f out = Inr (out @ c)" by (subst appends_eq [OF assms(1)]) (simp add: Inr)
    moreover have "g (out @ c) = rbind (g []) (\<lambda>code. Inr ((out @ c) @ code))"
      "g c = rbind (g []) (\<lambda>code. Inr (c @ code))" by (rule appends_eq [OF assms(2)])+
    ultimately show ?thesis by (cases "g []") (simp_all add: Inr)
  qed
qed

lemma appends_emit_all:
  assumes "\<And>x. x \<in> set xs \<Longrightarrow> appends (emit x)"
  shows "appends (emit_all emit xs)"
  using assms
proof (induction xs)
  case Nil
  have "emit_all emit [] = Inr" by (rule ext) simp
  then show ?case by (simp add: appends_id(1))
next
  case (Cons x xs)
  have "emit_all emit (x # xs) = (\<lambda>out. rbind (emit x out) (emit_all emit xs))" by (rule ext) simp
  with Cons show ?case by (simp add: appends_rbind)
qed

locale emitter =
  fixes emit :: "'a \<Rightarrow> 'b list \<Rightarrow> 'e + 'b list"
  assumes emit_appends: "appends (emit x)"
begin

lemma emit_eq: "emit x out = rbind (emit x []) (\<lambda>code. Inr (out @ code))"
  using emit_appends by (rule appends_eq)

lemma emit_all_eq: "emit_all emit xs out = rbind (emit_all emit xs []) (\<lambda>code. Inr (out @ code))"
  by (rule appends_eq) (simp add: appends_emit_all emit_appends)

lemma emit_all_from: "emit_all emit xs out = Inr code \<longleftrightarrow> (\<exists>d. emit_all emit xs [] = Inr d \<and> code = out @ d)"
  by (subst emit_all_eq) (auto simp: rbind_Inr_iff)

text \<open>A sequence is emitted exactly when each element is, and its code is the concatenation.\<close>

lemma emit_all_Inr_iff:
  "emit_all emit xs [] = Inr code \<longleftrightarrow>
     (\<exists>codes. list_all2 (\<lambda>x c. emit x [] = Inr c) xs codes \<and> code = concat codes)"
proof (induction xs arbitrary: code)
  case Nil
  then show ?case by auto
next
  case (Cons x xs)
  have "emit_all emit (x # xs) [] = Inr code \<longleftrightarrow>
      (\<exists>c. emit x [] = Inr c \<and> (\<exists>d. emit_all emit xs [] = Inr d \<and> code = c @ d))"
    unfolding emit_all_simps rbind_Inr_iff
    by (rule ex_cong1, rule conj_cong [OF refl]) (rule emit_all_from)
  also have "\<dots> \<longleftrightarrow> (\<exists>codes. list_all2 (\<lambda>x c. emit x [] = Inr c) (x # xs) codes \<and> code = concat codes)"
    (is "?L \<longleftrightarrow> ?R")
  proof
    assume ?L
    then obtain c codes where "emit x [] = Inr c" "list_all2 (\<lambda>x c. emit x [] = Inr c) xs codes"
        "code = c @ concat codes" unfolding Cons.IH by blast
    then show ?R by (intro exI [of _ "c # codes"]) simp
  next
    assume ?R
    then show ?L unfolding Cons.IH list_all2_Cons1 by auto
  qed
  finally show ?case .
qed

text \<open>The first failing element decides the error.\<close>

lemma emit_all_Inl_iff:
  "emit_all emit xs [] = Inl e \<longleftrightarrow>
     (\<exists>ys x zs. xs = ys @ x # zs \<and> emit x [] = Inl e \<and> (\<forall>y \<in> set ys. \<exists>c. emit y [] = Inr c))"
proof (induction xs)
  case Nil
  then show ?case by simp
next
  case (Cons x xs)
  show ?case
  proof (cases "emit x []")
    case (Inl e')
    show ?thesis
    proof
      assume "emit_all emit (x # xs) [] = Inl e"
      with Inl show "\<exists>ys y zs. x # xs = ys @ y # zs \<and> emit y [] = Inl e \<and> (\<forall>y \<in> set ys. \<exists>c. emit y [] = Inr c)"
        by (intro exI [of _ "[]"]) auto
    next
      assume "\<exists>ys y zs. x # xs = ys @ y # zs \<and> emit y [] = Inl e \<and> (\<forall>y \<in> set ys. \<exists>c. emit y [] = Inr c)"
      with Inl show "emit_all emit (x # xs) [] = Inl e" by (auto simp: Cons_eq_append_conv)
    qed
  next
    case (Inr c)
    then have "emit_all emit (x # xs) [] = rbind (emit_all emit xs []) (\<lambda>code. Inr (c @ code))"
      by (simp add: emit_all_eq [of xs c, symmetric])
    then have "emit_all emit (x # xs) [] = Inl e \<longleftrightarrow> emit_all emit xs [] = Inl e"
      by (simp add: rbind_Inl_iff)
    also have "\<dots> \<longleftrightarrow> (\<exists>ys y zs. x # xs = (x # ys) @ y # zs \<and> emit y [] = Inl e
        \<and> (\<forall>y \<in> set (x # ys). \<exists>c. emit y [] = Inr c))"
      using Inr by (simp add: Cons.IH)
    also have "\<dots> \<longleftrightarrow> (\<exists>ys y zs. x # xs = ys @ y # zs \<and> emit y [] = Inl e
        \<and> (\<forall>y \<in> set ys. \<exists>c. emit y [] = Inr c))" (is "?L \<longleftrightarrow> ?R")
    proof
      assume ?R
      then obtain ys y zs where *: "x # xs = ys @ y # zs" "emit y [] = Inl e"
          "\<forall>y \<in> set ys. \<exists>c. emit y [] = Inr c" by blast
      with Inr obtain ys' where "ys = x # ys'" by (cases ys) auto
      with * show ?L by blast
    qed blast
    finally show ?thesis .
  qed
qed

lemma emit_all_success_iff: "(\<exists>code. emit_all emit xs out = Inr code) \<longleftrightarrow> (\<forall>x \<in> set xs. \<exists>c. emit x [] = Inr c)"
proof (induction xs arbitrary: out)
  case Nil
  then show ?case by simp
next
  case (Cons x xs)
  show ?case
  proof (cases "emit x []")
    case (Inl e)
    then have "emit x out = Inl e" by (subst emit_eq) simp
    with Inl show ?thesis by simp
  next
    case (Inr c)
    then have "emit x out = Inr (out @ c)" by (subst emit_eq) simp
    with Inr Cons.IH [of "out @ c"] show ?thesis by simp
  qed
qed

end

locale reader = emitter emit
  for emit :: "'a \<Rightarrow> 'b list \<Rightarrow> 'e + 'b list" +
  fixes reads :: "'b list \<Rightarrow> 'w list \<Rightarrow> bool"
    and words_of :: "'a \<Rightarrow> 'w list"
  assumes reads_nil: "reads [] []"
    and reads_append: "reads c v \<Longrightarrow> reads d w \<Longrightarrow> reads (c @ d) (v @ w)"
    and emit_reads: "emit x [] = Inr c \<Longrightarrow> reads c (words_of x)"
begin

lemma emit_all_reads: "emit_all emit xs [] = Inr code \<Longrightarrow> reads code (concat (map words_of xs))"
proof (induction xs arbitrary: code)
  case Nil
  then show ?case by (simp add: reads_nil)
next
  case (Cons x xs)
  from Cons.prems obtain c where c: "emit x [] = Inr c" "emit_all emit xs c = Inr code"
    by (auto simp: rbind_Inr_iff)
  from c(2) obtain d where "emit_all emit xs [] = Inr d" "code = c @ d"
    unfolding emit_all_from [of xs c] by blast
  with Cons.IH c(1) show ?case by (simp add: reads_append emit_reads)
qed

end

end
