(* ===== verification/KS_Encode.thy ===== *)
theory KS_Encode
  imports KS_Errors KS_Emitter
begin

unbundle bit_operations_syntax

text \<open>
  The instruction encoder of the back end (\<open>compiler/codegen/src/backends/toccata.rs\<close>):
  opcode bytes, minimal script numbers, push data, one case per instruction kind. The
  output buffer \<open>out: &mut Vec<u8>\<close> is passed and returned; an error discards it, as its
  callers do.
\<close>

section \<open>Opcode bytes\<close>

abbreviation (input) OP_FALSE :: u8 where "OP_FALSE \<equiv> 0x00"
abbreviation (input) OP_PUSHDATA1 :: u8 where "OP_PUSHDATA1 \<equiv> 0x4c"
abbreviation (input) OP_PUSHDATA2 :: u8 where "OP_PUSHDATA2 \<equiv> 0x4d"
abbreviation (input) OP_PUSHDATA4 :: u8 where "OP_PUSHDATA4 \<equiv> 0x4e"
abbreviation (input) OP_1 :: u8 where "OP_1 \<equiv> 0x51"
abbreviation (input) OP_DROP :: u8 where "OP_DROP \<equiv> 0x75"
abbreviation (input) OP_DUP :: u8 where "OP_DUP \<equiv> 0x76"
abbreviation (input) OP_EQUAL :: u8 where "OP_EQUAL \<equiv> 0x87"
abbreviation (input) OP_VERIFY :: u8 where "OP_VERIFY \<equiv> 0x69"
abbreviation (input) OP_NOT :: u8 where "OP_NOT \<equiv> 0x91"
abbreviation (input) OP_ADD :: u8 where "OP_ADD \<equiv> 0x93"
abbreviation (input) OP_SUB :: u8 where "OP_SUB \<equiv> 0x94"
abbreviation (input) OP_BOOLAND :: u8 where "OP_BOOLAND \<equiv> 0x9a"
abbreviation (input) OP_BOOLOR :: u8 where "OP_BOOLOR \<equiv> 0x9b"
abbreviation (input) OP_NUMNOTEQUAL :: u8 where "OP_NUMNOTEQUAL \<equiv> 0x9e"
abbreviation (input) OP_LESSTHAN :: u8 where "OP_LESSTHAN \<equiv> 0x9f"
abbreviation (input) OP_GREATERTHAN :: u8 where "OP_GREATERTHAN \<equiv> 0xa0"
abbreviation (input) OP_LESSTHANOREQUAL :: u8 where "OP_LESSTHANOREQUAL \<equiv> 0xa1"
abbreviation (input) OP_GREATERTHANOREQUAL :: u8 where "OP_GREATERTHANOREQUAL \<equiv> 0xa2"
abbreviation (input) OP_SHA256 :: u8 where "OP_SHA256 \<equiv> 0xa8"
abbreviation (input) OP_BLAKE2B :: u8 where "OP_BLAKE2B \<equiv> 0xaa"
abbreviation (input) OP_CHECKSIG :: u8 where "OP_CHECKSIG \<equiv> 0xac"
abbreviation (input) OP_CHECKMULTISIG :: u8 where "OP_CHECKMULTISIG \<equiv> 0xae"
abbreviation (input) OP_CHECKLOCKTIMEVERIFY :: u8 where "OP_CHECKLOCKTIMEVERIFY \<equiv> 0xb0"
abbreviation (input) OP_TXINPUTCOUNT :: u8 where "OP_TXINPUTCOUNT \<equiv> 0xb3"
abbreviation (input) OP_TXOUTPUTCOUNT :: u8 where "OP_TXOUTPUTCOUNT \<equiv> 0xb4"
abbreviation (input) OP_TXINPUTAMOUNT :: u8 where "OP_TXINPUTAMOUNT \<equiv> 0xbe"
abbreviation (input) OP_TXINPUTSPK :: u8 where "OP_TXINPUTSPK \<equiv> 0xbf"
abbreviation (input) OP_TXOUTPUTAMOUNT :: u8 where "OP_TXOUTPUTAMOUNT \<equiv> 0xc2"
abbreviation (input) OP_TXOUTPUTSPK :: u8 where "OP_TXOUTPUTSPK \<equiv> 0xc3"

section \<open>Little-endian bytes\<close>

text \<open>\<open>le_bytes k n\<close> is \<open>to_le_bytes\<close> of a \<open>8 * k\<close>-bit integer, \<open>le_value\<close> its inverse.\<close>

fun le_bytes :: "nat \<Rightarrow> nat \<Rightarrow> u8 list" where
  "le_bytes 0 n = []"
| "le_bytes (Suc k) n = of_nat (n mod 256) # le_bytes k (n div 256)"

fun le_value :: "u8 list \<Rightarrow> nat" where
  "le_value [] = 0"
| "le_value (b # bs) = unat b + 256 * le_value bs"

fun rposition :: "('a \<Rightarrow> bool) \<Rightarrow> 'a list \<Rightarrow> nat option" where
  "rposition P [] = None"
| "rposition P (x # xs) =
     (case rposition P xs of Some i \<Rightarrow> Some (Suc i) | None \<Rightarrow> if P x then Some 0 else None)"

section \<open>Encoding\<close>

definition encode_data :: "u8 list \<Rightarrow> span \<Rightarrow> u8 list \<Rightarrow> codegen_error + u8 list" where
  "encode_data bytes s out =
     (let len = length bytes in
      if len \<le> 75 then Inr (out @ [of_nat len] @ bytes)
      else if len \<le> 255 then Inr (out @ [OP_PUSHDATA1, of_nat len] @ bytes)
      else if len \<le> 65535 then Inr (out @ [OP_PUSHDATA2] @ le_bytes 2 len @ bytes)
      else if len < 2 ^ 32 then Inr (out @ [OP_PUSHDATA4] @ le_bytes 4 len @ bytes)
      else Inl (CE_ValueTooLarge s ''push value exceeds u32 length''))"

definition script_number :: "u64 \<Rightarrow> u8 list" where
  "script_number v =
     (let bytes = le_bytes 8 (unat v);
          trimmed_size = (case rposition (\<lambda>b. b \<noteq> 0) bytes of None \<Rightarrow> 0 | Some i \<Rightarrow> i + 1);
          encoded = take trimmed_size bytes
      in if encoded \<noteq> [] \<and> last encoded AND 0x80 \<noteq> 0 then encoded @ [0] else encoded)"

definition encode_u64 :: "u64 \<Rightarrow> span \<Rightarrow> u8 list \<Rightarrow> codegen_error + u8 list" where
  "encode_u64 v s out =
     (if v > 0x7FFFFFFFFFFFFFFF
      then Inl (CE_ValueTooLarge s ''positive script number exceeds the native signed 64-bit range'')
      else if v = 0 then Inr (out @ [OP_FALSE])
      else if v \<le> 16 then Inr (out @ [OP_1 + ucast v - 1])
      else encode_data (script_number v) s out)"

definition encode_indexed :: "u8 \<Rightarrow> u32 \<Rightarrow> u8 list \<Rightarrow> codegen_error + u8 list" where
  "encode_indexed opc index out =
     rbind (encode_u64 (ucast index) (mk_span 0 0) out) (\<lambda>out. Inr (out @ [opc]))"

fun encode_push :: "ir_value \<Rightarrow> span \<Rightarrow> u8 list \<Rightarrow> codegen_error + u8 list" where
  "encode_push (V_Integer v) s out = encode_u64 v s out"
| "encode_push (V_Bool b) s out = Inr (out @ [if b then OP_1 else OP_FALSE])"
| "encode_push (V_Bytes bs) s out = encode_data bs s out"
| "encode_push (V_String t) s out = encode_data (as_bytes t) s out"
| "encode_push (V_Symbol t) s out = encode_data (as_bytes t) s out"
| "encode_push (V_Type ty) s out = encode_data (as_bytes (type_debug ty)) s out"

definition unsupported_instruction :: "instruction_kind \<Rightarrow> codegen_error" where
  "unsupported_instruction k =
     (let record = record_for_instruction k
      in CE_UnsupportedGrounding (gr_id record) (gr_citation record) (gr_note record))"

definition encode_instruction :: "instruction \<Rightarrow> u8 list \<Rightarrow> codegen_error + u8 list" where
  "encode_instruction i out =
     (case instr_kind i of
        I_Push v \<Rightarrow> encode_push v (instr_span i) out
      | I_Drop \<Rightarrow> Inr (out @ [OP_DROP])
      | I_Dup \<Rightarrow> Inr (out @ [OP_DUP])
      | I_InputValue index \<Rightarrow> encode_indexed OP_TXINPUTAMOUNT index out
      | I_InputScript index \<Rightarrow> encode_indexed OP_TXINPUTSPK index out
      | I_OutputValue index \<Rightarrow> encode_indexed OP_TXOUTPUTAMOUNT index out
      | I_OutputScript index \<Rightarrow> encode_indexed OP_TXOUTPUTSPK index out
      | I_OutputCount \<Rightarrow> Inr (out @ [OP_TXOUTPUTCOUNT])
      | I_InputCount \<Rightarrow> Inr (out @ [OP_TXINPUTCOUNT])
      | I_CheckSig _ \<Rightarrow> Inr (out @ [OP_CHECKSIG])
      | I_CheckMultiSig _ kc \<Rightarrow>
          rbind (encode_u64 (ucast kc) (instr_span i) out) (\<lambda>out. Inr (out @ [OP_CHECKMULTISIG]))
      | I_CheckLockHeight height \<Rightarrow>
          rbind (encode_u64 height (instr_span i) out) (\<lambda>out. Inr (out @ [OP_CHECKLOCKTIMEVERIFY, OP_1]))
      | I_CheckLockTime height \<Rightarrow>
          rbind (encode_u64 height (instr_span i) out) (\<lambda>out. Inr (out @ [OP_CHECKLOCKTIMEVERIFY, OP_1]))
      | I_CheckLockHeightFromStack \<Rightarrow> Inr (out @ [OP_CHECKLOCKTIMEVERIFY, OP_1])
      | I_CheckLockTimeFromStack \<Rightarrow> Inr (out @ [OP_CHECKLOCKTIMEVERIFY, OP_1])
      | I_CovenantDepth \<Rightarrow> Inl (unsupported_instruction (instr_kind i))
      | I_CovenantId \<Rightarrow> Inl (unsupported_instruction (instr_kind i))
      | I_ZkVerifyGroth16 \<Rightarrow> Inl (unsupported_instruction (instr_kind i))
      | I_ZkVerifyRiscZero \<Rightarrow> Inl (unsupported_instruction (instr_kind i))
      | I_SequencingCommitment \<Rightarrow> Inl (unsupported_instruction (instr_kind i))
      | I_Hash160 \<Rightarrow> Inl (unsupported_instruction (instr_kind i))
      | I_CheckHashPreimage \<Rightarrow> Inl (unsupported_instruction (instr_kind i))
      | I_Mul \<Rightarrow> Inl (unsupported_instruction (instr_kind i))
      | I_Div \<Rightarrow> Inl (unsupported_instruction (instr_kind i))
      | I_Mod \<Rightarrow> Inl (unsupported_instruction (instr_kind i))
      | I_Sha256 \<Rightarrow> Inr (out @ [OP_SHA256])
      | I_Blake2b \<Rightarrow> Inr (out @ [OP_BLAKE2B])
      | I_Verify \<Rightarrow> Inr (out @ [OP_VERIFY])
      | I_Equal \<Rightarrow> Inr (out @ [OP_EQUAL])
      | I_NotEqual \<Rightarrow> Inr (out @ [OP_NUMNOTEQUAL])
      | I_GreaterThan \<Rightarrow> Inr (out @ [OP_GREATERTHAN])
      | I_GreaterThanOrEqual \<Rightarrow> Inr (out @ [OP_GREATERTHANOREQUAL])
      | I_LessThan \<Rightarrow> Inr (out @ [OP_LESSTHAN])
      | I_LessThanOrEqual \<Rightarrow> Inr (out @ [OP_LESSTHANOREQUAL])
      | I_And \<Rightarrow> Inr (out @ [OP_BOOLAND])
      | I_Or \<Rightarrow> Inr (out @ [OP_BOOLOR])
      | I_Not \<Rightarrow> Inr (out @ [OP_NOT])
      | I_Add \<Rightarrow> Inr (out @ [OP_ADD])
      | I_Sub \<Rightarrow> Inr (out @ [OP_SUB]))"

definition encode_instruction_sequence_into :: "instruction list \<Rightarrow> u8 list \<Rightarrow> codegen_error + u8 list" where
  "encode_instruction_sequence_into instructions out = emit_all encode_instruction instructions out"

definition compile_instruction_sequence :: "instruction list \<Rightarrow> codegen_error + u8 list" where
  "compile_instruction_sequence instructions = encode_instruction_sequence_into instructions []"

definition compile_spend_script :: "instruction list \<Rightarrow> codegen_error + u8 list" where
  "compile_spend_script instructions =
     (if instructions = [] then Inl CE_EmptyBytecode
      else rbind (compile_instruction_sequence instructions) (\<lambda>bytecode. Inr (bytecode @ [OP_1])))"

section \<open>Lemmas on little-endian bytes\<close>

lemma unat_bound: "unat (w :: 'a::len word) < 2 ^ LENGTH('a)"
  by (rule unsigned_less)

lemma length_le_bytes [simp]: "length (le_bytes k n) = k"
  by (induction k n rule: le_bytes.induct) auto

lemma unat_byte [simp]: "unat (of_nat (n mod 256) :: u8) = n mod 256"
  by (simp add: unat_of_nat)

lemma le_value_le_bytes: "le_value (le_bytes k n) = n mod 256 ^ k"
proof (induction k n rule: le_bytes.induct)
  case (1 n)
  then show ?case by simp
next
  case (2 k n)
  then have "le_value (le_bytes (Suc k) n) = n mod 256 + 256 * (n div 256 mod 256 ^ k)" by simp
  also have "\<dots> = n mod (256 * 256 ^ k)" by (simp add: mod_mult2_eq)
  finally show ?case by simp
qed

lemma le_value_append: "le_value (xs @ ys) = le_value xs + 256 ^ length xs * le_value ys"
  by (induction xs) (auto simp: algebra_simps)

lemma le_value_bound: "le_value bs < 256 ^ length bs"
proof (induction bs)
  case Nil
  then show ?case by simp
next
  case (Cons b bs)
  have "unat b < 256" using unat_bound [of b] by simp
  moreover have "256 * le_value bs + 256 \<le> 256 * 256 ^ length bs"
    using Cons by simp
  ultimately show ?case by simp
qed

lemma rposition_split:
  "rposition P xs = Some i \<Longrightarrow> \<exists>ys x zs. xs = ys @ x # zs \<and> length ys = i \<and> P x \<and> list_all (\<lambda>y. \<not> P y) zs"
proof (induction xs arbitrary: i)
  case Nil
  then show ?case by simp
next
  case (Cons y ys)
  show ?case
  proof (cases "rposition P ys")
    case None
    have "list_all (\<lambda>y. \<not> P y) ys" if "rposition P ys = None" for ys
      using that by (induction ys) (auto split: option.splits if_splits)
    with None Cons.prems show ?thesis by (intro exI [of _ "[]"]) (auto split: if_splits)
  next
    case (Some j)
    with Cons obtain us x zs where
      "ys = us @ x # zs" "length us = j" "P x" "list_all (\<lambda>y. \<not> P y) zs" by blast
    with Some Cons.prems show ?thesis by (intro exI [of _ "y # us"]) auto
  qed
qed

lemma rposition_None: "rposition P xs = None \<longleftrightarrow> list_all (\<lambda>y. \<not> P y) xs"
  by (induction xs) (auto split: option.splits)

lemma le_value_zeros: "list_all (\<lambda>b. b = 0) bs \<Longrightarrow> le_value bs = 0"
  by (induction bs) auto

section \<open>Minimal script numbers\<close>

text \<open>
  How the script engine reads a number: little-endian magnitude, the top bit of the last
  byte is the sign. A number is minimal when its last byte is needed for the magnitude or
  for the sign bit.
\<close>

definition script_value :: "u8 list \<Rightarrow> int" where
  "script_value bs =
     (if bs = [] then 0
      else if last bs AND 0x80 = 0 then int (le_value bs)
      else - int (le_value (butlast bs @ [last bs AND 0x7F])))"

definition minimal_script_number :: "u8 list \<Rightarrow> bool" where
  "minimal_script_number bs \<longleftrightarrow>
     bs = [] \<or> last bs AND 0x7F \<noteq> 0 \<or>
     (length bs \<ge> 2 \<and> bs ! (length bs - 2) AND 0x80 \<noteq> 0)"

lemma script_number_prefix:
  obtains bs where "le_value bs = unat v" "length bs \<le> 8" "bs = [] \<or> last bs \<noteq> 0"
    "script_number v = (if bs \<noteq> [] \<and> last bs AND 0x80 \<noteq> 0 then bs @ [0] else bs)"
proof -
  let ?bytes = "le_bytes 8 (unat v)"
  define n where "n = (case rposition (\<lambda>b. b \<noteq> 0) ?bytes of None \<Rightarrow> 0 | Some i \<Rightarrow> i + 1)"
  define bs where "bs = take n ?bytes"
  have full: "le_value ?bytes = unat v"
    using unat_bound [of v] by (simp add: le_value_le_bytes)
  have "le_value bs = unat v \<and> (bs = [] \<or> last bs \<noteq> 0)"
  proof (cases "rposition (\<lambda>b. b \<noteq> 0) ?bytes")
    case None
    then have "le_value ?bytes = 0" by (simp add: rposition_None le_value_zeros del: le_bytes.simps)
    with None full show ?thesis by (simp add: bs_def n_def)
  next
    case (Some i)
    then obtain ys x zs where *: "?bytes = ys @ x # zs" "length ys = i" "x \<noteq> 0" "list_all (\<lambda>y. y = 0) zs"
      using rposition_split [OF Some] by auto
    then have bs: "bs = ys @ [x]" using Some by (simp add: bs_def n_def)
    have "le_value ?bytes = le_value (bs @ zs)" using * bs by simp
    also have "\<dots> = le_value bs" using * by (simp add: le_value_append le_value_zeros)
    finally show ?thesis using full * bs by simp
  qed
  moreover have "length bs \<le> 8" by (simp add: bs_def)
  moreover have "script_number v = (if bs \<noteq> [] \<and> last bs AND 0x80 \<noteq> 0 then bs @ [0] else bs)"
    by (simp only: script_number_def Let_def bs_def n_def)
  ultimately show thesis using that by blast
qed

lemma and_128_and_127: "(b :: u8) AND 0x80 = 0 \<Longrightarrow> b AND 0x7F = 0 \<Longrightarrow> b = 0"
proof -
  assume "b AND 0x80 = 0" "b AND 0x7F = 0"
  then have conj: "b AND (0x80 OR 0x7F) = 0" by (simp only: bit.conj_disj_distrib) simp
  have full: "(0x80 OR 0x7F :: u8) = -1" by simp
  from conj show "b = 0" unfolding full by (simp only: bit.conj_one_right)
qed

lemma script_number_value: "script_value (script_number v) = int (unat v)"
proof (rule script_number_prefix [of v])
  fix bs
  assume *: "le_value bs = unat v"
    "script_number v = (if bs \<noteq> [] \<and> last bs AND 0x80 \<noteq> 0 then bs @ [0] else bs)"
  have "script_value (script_number v) = int (le_value bs)"
    by (simp add: *(2) script_value_def le_value_append)
  with *(1) show ?thesis by (simp only:)
qed

lemma script_number_minimal: "minimal_script_number (script_number v)"
proof (rule script_number_prefix [of v])
  fix bs
  assume *: "bs = [] \<or> last bs \<noteq> 0"
    "script_number v = (if bs \<noteq> [] \<and> last bs AND 0x80 \<noteq> 0 then bs @ [0] else bs)"
  show ?thesis
  proof (cases "bs \<noteq> [] \<and> last bs AND 0x80 \<noteq> 0")
    case True
    then show ?thesis
      using * by (cases bs rule: rev_cases) (auto simp: minimal_script_number_def nth_append)
  next
    case False
    then show ?thesis
      using * and_128_and_127 [of "last bs"] by (auto simp: minimal_script_number_def)
  qed
qed


section \<open>The encoder only appends\<close>

lemma encode_data_appends: "appends (encode_data bs s)"
  by (simp add: appends_def encode_data_def Let_def)

lemma encode_u64_appends: "appends (encode_u64 v s)"
proof (cases "v > 0x7FFFFFFFFFFFFFFF \<or> v \<le> 16")
  case True
  then show ?thesis by (auto simp: encode_u64_def appends_def)
next
  case False
  then have "v \<noteq> 0" by auto
  with False have "encode_u64 v s = encode_data (script_number v) s"
    by (intro ext) (simp add: encode_u64_def)
  then show ?thesis by (simp only: encode_data_appends)
qed

lemma encode_indexed_appends: "appends (encode_indexed opc index)"
  unfolding encode_indexed_def by (intro appends_rbind encode_u64_appends appends_push)

lemma encode_push_appends: "appends (encode_push v s)"
proof (cases v)
  case (V_Integer n)
  then have "encode_push v s = encode_u64 n s" by (intro ext) simp
  then show ?thesis by (simp only: encode_u64_appends)
next
  case (V_Bool b)
  then show ?thesis by (simp add: appends_def)
next
  case (V_Bytes bs)
  then have "encode_push v s = encode_data bs s" by (intro ext) simp
  then show ?thesis by (simp only: encode_data_appends)
next
  case (V_String t)
  then have "encode_push v s = encode_data (as_bytes t) s" by (intro ext) simp
  then show ?thesis by (simp only: encode_data_appends)
next
  case (V_Symbol t)
  then have "encode_push v s = encode_data (as_bytes t) s" by (intro ext) simp
  then show ?thesis by (simp only: encode_data_appends)
next
  case (V_Type ty)
  then have "encode_push v s = encode_data (as_bytes (type_debug ty)) s" by (intro ext) simp
  then show ?thesis by (simp only: encode_data_appends)
qed

lemma encode_instruction_cases:
  "instr_kind i = I_Push v \<Longrightarrow> encode_instruction i = encode_push v (instr_span i)"
  "instr_kind i = I_CheckMultiSig r k \<Longrightarrow> encode_instruction i =
      (\<lambda>out. rbind (encode_u64 (ucast k) (instr_span i) out) (\<lambda>out. Inr (out @ [OP_CHECKMULTISIG])))"
  "instr_kind i = I_CheckLockHeight h \<or> instr_kind i = I_CheckLockTime h \<Longrightarrow> encode_instruction i =
      (\<lambda>out. rbind (encode_u64 h (instr_span i) out) (\<lambda>out. Inr (out @ [OP_CHECKLOCKTIMEVERIFY, OP_1])))"
  "instr_kind i = I_InputValue n \<Longrightarrow> encode_instruction i = encode_indexed OP_TXINPUTAMOUNT n"
  "instr_kind i = I_InputScript n \<Longrightarrow> encode_instruction i = encode_indexed OP_TXINPUTSPK n"
  "instr_kind i = I_OutputValue n \<Longrightarrow> encode_instruction i = encode_indexed OP_TXOUTPUTAMOUNT n"
  "instr_kind i = I_OutputScript n \<Longrightarrow> encode_instruction i = encode_indexed OP_TXOUTPUTSPK n"
  by (auto simp: encode_instruction_def fun_eq_iff)

lemma encode_u64_then_appends: "appends (\<lambda>out. rbind (encode_u64 v s out) (\<lambda>out. Inr (out @ c)))"
  by (intro appends_rbind encode_u64_appends appends_push)

lemma encode_instruction_appends: "appends (encode_instruction i)"
proof (cases "instr_kind i")
  case (I_Push v)
  then show ?thesis by (simp only: encode_instruction_cases encode_push_appends)
next
  case (I_InputValue n)
  then show ?thesis by (simp only: encode_instruction_cases encode_indexed_appends)
next
  case (I_InputScript n)
  then show ?thesis by (simp only: encode_instruction_cases encode_indexed_appends)
next
  case (I_OutputValue n)
  then show ?thesis by (simp only: encode_instruction_cases encode_indexed_appends)
next
  case (I_OutputScript n)
  then show ?thesis by (simp only: encode_instruction_cases encode_indexed_appends)
next
  case (I_CheckMultiSig r k)
  then show ?thesis by (simp only: encode_instruction_cases(2) encode_u64_then_appends)
next
  case (I_CheckLockHeight h)
  then show ?thesis
    by (simp only: encode_instruction_cases(3) [OF disjI1, OF I_CheckLockHeight] encode_u64_then_appends)
next
  case (I_CheckLockTime h)
  then show ?thesis
    by (simp only: encode_instruction_cases(3) [OF disjI2, OF I_CheckLockTime] encode_u64_then_appends)
qed (simp_all add: appends_def encode_instruction_def)

interpretation encoder: emitter encode_instruction
  by unfold_locales (rule encode_instruction_appends)

section \<open>Which instructions are encodable\<close>

text \<open>The operand bounds of the encoder, independent of its control flow.\<close>

fun value_fits :: "ir_value \<Rightarrow> bool" where
  "value_fits (V_Integer v) \<longleftrightarrow> unat v < 2 ^ 63"
| "value_fits (V_Bool b) \<longleftrightarrow> True"
| "value_fits (V_Bytes bs) \<longleftrightarrow> length bs < 2 ^ 32"
| "value_fits (V_String t) \<longleftrightarrow> length t < 2 ^ 32"
| "value_fits (V_Symbol t) \<longleftrightarrow> length t < 2 ^ 32"
| "value_fits (V_Type ty) \<longleftrightarrow> True"

fun operands_fit :: "instruction_kind \<Rightarrow> bool" where
  "operands_fit (I_Push v) \<longleftrightarrow> value_fits v"
| "operands_fit (I_CheckLockHeight h) \<longleftrightarrow> unat h < 2 ^ 63"
| "operands_fit (I_CheckLockTime h) \<longleftrightarrow> unat h < 2 ^ 63"
| "operands_fit _ \<longleftrightarrow> True"

lemma encode_data_success: "(\<exists>c. encode_data bs s out = Inr c) \<longleftrightarrow> length bs < 2 ^ 32"
  by (auto simp: encode_data_def Let_def)

lemma script_number_length: "length (script_number v) \<le> 9"
  by (rule script_number_prefix [of v]) auto

lemma encode_u64_success: "(\<exists>c. encode_u64 v s out = Inr c) \<longleftrightarrow> unat v < 2 ^ 63"
proof -
  have "length (script_number v) < 2 ^ 32" using script_number_length [of v] by simp
  then show ?thesis
    using encode_data_success [of "script_number v" s out]
    by (auto simp: encode_u64_def word_less_nat_alt word_le_nat_alt)
qed

lemma type_debug_length: "length (type_debug ty) < 2 ^ 32"
  by (cases ty) auto

lemma encode_push_success: "(\<exists>c. encode_push v s out = Inr c) \<longleftrightarrow> value_fits v"
  using encode_u64_success encode_data_success type_debug_length by (cases v) auto

lemma u32_fits: "unat (ucast (w :: u32) :: u64) < 2 ^ 63"
proof -
  have "unat w < 2 ^ 64" using unat_bound [of w] by simp
  then have "unat (ucast w :: u64) = unat w" by (simp add: unsigned_ucast_eq take_bit_nat_eq_self)
  then show ?thesis using unat_bound [of w] by simp
qed

lemma rbind_Inr_success: "(\<exists>c. rbind r (\<lambda>x. Inr (f x)) = Inr c) \<longleftrightarrow> (\<exists>c. r = Inr c)"
  by (cases r) auto

lemma encode_indexed_success: "\<exists>c. encode_indexed opc index out = Inr c"
  unfolding encode_indexed_def rbind_Inr_success encode_u64_success by (rule u32_fits)

lemma encode_instruction_success:
  "(\<exists>c. encode_instruction i out = Inr c) \<longleftrightarrow>
     \<not> unemittable (instr_kind i) \<and> operands_fit (instr_kind i)"
  by (cases "instr_kind i")
     (simp_all add: encode_instruction_def encode_push_success encode_indexed_success
        rbind_Inr_success encode_u64_success u32_fits [simplified])

end
