(* ===== verification/KS_Disasm.thy ===== *)
theory KS_Disasm
  imports KS_Encode
begin

text \<open>
  The disassembler (\<open>disassemble\<close>, \<open>read_push_data\<close>, \<open>read_len_u8/16/32\<close>, \<open>opcode_name\<close>,
  \<open>bytecode_hex\<close> and \<open>bytecode_asm\<close> of \<open>compiler/codegen/src/lib.rs\<close>), and the proof that it
  reads every encoded instruction sequence back.
\<close>

section \<open>Hexadecimal\<close>

definition hex_digits :: string where
  "hex_digits = ''0123456789abcdef''"

fun bytecode_hex :: "u8 list \<Rightarrow> string" where
  "bytecode_hex [] = []"
| "bytecode_hex (byte # rest) =
     [hex_digits ! unat (drop_bit 4 byte), hex_digits ! unat (byte AND 0x0f)] @ bytecode_hex rest"

section \<open>Reading\<close>

definition opcode_table :: "(u8 \<times> string) list" where
  "opcode_table =
     [(0x69, ''OP_VERIFY''), (0x75, ''OP_DROP''), (0x76, ''OP_DUP''), (0x87, ''OP_EQUAL''),
      (0x91, ''OP_NOT''), (0x93, ''OP_ADD''), (0x94, ''OP_SUB''), (0x9a, ''OP_BOOLAND''),
      (0x9b, ''OP_BOOLOR''), (0x9c, ''OP_NUMEQUAL''), (0x9e, ''OP_NUMNOTEQUAL''),
      (0x9f, ''OP_LESSTHAN''), (0xa0, ''OP_GREATERTHAN''), (0xa1, ''OP_LESSTHANOREQUAL''),
      (0xa2, ''OP_GREATERTHANOREQUAL''), (0xa8, ''OP_SHA256''), (0xaa, ''OP_BLAKE2B''),
      (0xac, ''OP_CHECKSIG''), (0xae, ''OP_CHECKMULTISIG''), (0xb0, ''OP_CHECKLOCKTIMEVERIFY''),
      (0xb1, ''OP_CHECKSEQUENCEVERIFY''), (0xb3, ''OP_TXINPUTCOUNT''), (0xb4, ''OP_TXOUTPUTCOUNT''),
      (0xb9, ''OP_TXINPUTINDEX''), (0xbe, ''OP_TXINPUTAMOUNT''), (0xbf, ''OP_TXINPUTSPK''),
      (0xc2, ''OP_TXOUTPUTAMOUNT''), (0xc3, ''OP_TXOUTPUTSPK'')]"

definition opcode_name :: "u8 \<Rightarrow> string option" where
  "opcode_name opc = map_of opcode_table opc"

text \<open>The readers return the data and the advanced offset; \<open>usize\<close> has 64 bits.\<close>

definition read_push_data :: "u8 list \<Rightarrow> nat \<Rightarrow> nat \<Rightarrow> codegen_error + u8 list \<times> nat" where
  "read_push_data bytecode offset len =
     (if \<not> offset + len < 2 ^ 64 then Inl (CE_InvalidBytecode offset ''push length overflow'')
      else if offset + len > length bytecode
      then Inl (CE_InvalidBytecode offset ''push data exceeds bytecode length'')
      else Inr (take len (drop offset bytecode), offset + len))"

definition read_len_u8 :: "u8 list \<Rightarrow> nat \<Rightarrow> codegen_error + nat \<times> nat" where
  "read_len_u8 bytecode offset =
     (if offset \<ge> length bytecode
      then Inl (CE_InvalidBytecode offset ''missing OP_PUSHDATA1 length'')
      else Inr (unat (bytecode ! offset), offset + 1))"

definition read_len_u16 :: "u8 list \<Rightarrow> nat \<Rightarrow> codegen_error + nat \<times> nat" where
  "read_len_u16 bytecode offset =
     (if length bytecode - offset < 2
      then Inl (CE_InvalidBytecode offset ''missing OP_PUSHDATA2 length'')
      else Inr (le_value [bytecode ! offset, bytecode ! (offset + 1)], offset + 2))"

definition read_len_u32 :: "u8 list \<Rightarrow> nat \<Rightarrow> codegen_error + nat \<times> nat" where
  "read_len_u32 bytecode offset =
     (if length bytecode - offset < 4
      then Inl (CE_InvalidBytecode offset ''missing OP_PUSHDATA4 length'')
      else Inr (le_value [bytecode ! offset, bytecode ! (offset + 1),
                          bytecode ! (offset + 2), bytecode ! (offset + 3)], offset + 4))"

text \<open>One turn of the loop: the word read at \<open>offset\<close> and the offset after it.\<close>

definition disassemble_step :: "u8 list \<Rightarrow> nat \<Rightarrow> codegen_error + string \<times> nat" where
  "disassemble_step bytecode offset =
     (let opc = bytecode ! offset; offset = offset + 1 in
      if opc = 0x00 then Inr (''OP_0'', offset)
      else if 0x01 \<le> opc \<and> opc \<le> 0x4b then
        rbind (read_push_data bytecode offset (unat opc)) (\<lambda>(data, offset).
        Inr (''OP_DATA_'' @ show_nat (unat opc) @ '' 0x'' @ bytecode_hex data, offset))
      else if opc = 0x4c then
        rbind (read_len_u8 bytecode offset) (\<lambda>(len, offset).
        rbind (read_push_data bytecode offset len) (\<lambda>(data, offset).
        Inr (''OP_PUSHDATA1 0x'' @ bytecode_hex data, offset)))
      else if opc = 0x4d then
        rbind (read_len_u16 bytecode offset) (\<lambda>(len, offset).
        rbind (read_push_data bytecode offset len) (\<lambda>(data, offset).
        Inr (''OP_PUSHDATA2 0x'' @ bytecode_hex data, offset)))
      else if opc = 0x4e then
        rbind (read_len_u32 bytecode offset) (\<lambda>(len, offset).
        rbind (read_push_data bytecode offset len) (\<lambda>(data, offset).
        Inr (''OP_PUSHDATA4 0x'' @ bytecode_hex data, offset)))
      else if opc = 0x4f then Inr (''OP_1NEGATE'', offset)
      else if 0x51 \<le> opc \<and> opc \<le> 0x60 then Inr (''OP_'' @ show_nat (unat (opc - 0x50)), offset)
      else (case opcode_name opc of
              Some name \<Rightarrow> Inr (name, offset)
            | None \<Rightarrow> Inl (CE_InvalidBytecode (offset - 1) (''unknown opcode 0x'' @ bytecode_hex [opc]))))"

lemma disassemble_step_progress:
  "disassemble_step bytecode offset = Inr (w, offset') \<Longrightarrow> offset < offset'"
  unfolding disassemble_step_def Let_def
  by (auto simp: rbind_Inr_iff read_push_data_def read_len_u8_def read_len_u16_def read_len_u32_def
      split: if_splits option.splits)

function disassemble_loop :: "u8 list \<Rightarrow> nat \<Rightarrow> string list \<Rightarrow> codegen_error + string list" where
  "disassemble_loop bytecode offset asm =
     (if offset < length bytecode
      then (case disassemble_step bytecode offset of
              Inl e \<Rightarrow> Inl e
            | Inr (w, offset') \<Rightarrow> disassemble_loop bytecode offset' (asm @ [w]))
      else Inr asm)"
  by pat_completeness auto
termination
  by (relation "measure (\<lambda>(bytecode, offset, asm). length bytecode - offset)")
     (auto dest: disassemble_step_progress)

declare disassemble_loop.simps [simp del]

definition disassemble :: "u8 list \<Rightarrow> codegen_error + string list" where
  "disassemble bytecode = disassemble_loop bytecode 0 []"

fun join_spaces :: "string list \<Rightarrow> string" where
  "join_spaces [] = []"
| "join_spaces [x] = x"
| "join_spaces (x # xs) = x @ '' '' @ join_spaces xs"

definition bytecode_asm :: "u8 list \<Rightarrow> codegen_error + string" where
  "bytecode_asm bytecode = rbind (disassemble bytecode) (\<lambda>ws. Inr (join_spaces ws))"

section \<open>Hexadecimal round trip\<close>

definition hex_value :: "char \<Rightarrow> nat" where
  "hex_value c = (if is_ascii_digit c then of_char c - 48 else of_char c - 87)"

fun hex_decode :: "string \<Rightarrow> u8 list" where
  "hex_decode (h # l # rest) = of_nat (16 * hex_value h + hex_value l) # hex_decode rest"
| "hex_decode _ = []"

lemma hex_value_digit: "n < 16 \<Longrightarrow> hex_value (hex_digits ! n) = n"
proof -
  assume "n < 16"
  then have "n \<in> set [0..<16]" by simp
  moreover have "\<forall>n \<in> set [0..<16]. hex_value (hex_digits ! n) = n" by code_simp
  ultimately show ?thesis by blast
qed

lemma byte_nibbles: "unat (drop_bit 4 b) < 16 \<and> unat (b AND 0x0f) < 16 \<and>
    16 * unat (drop_bit 4 b) + unat (b AND 0x0f) = unat b" for b :: u8
proof -
  have hi: "unat (drop_bit 4 b) = unat b div 16"
    by (simp add: drop_bit_eq_div unat_div)
  have "unat (b AND 0x0f) = unat b AND mask 4"
    by (simp add: unsigned_and_eq mask_eq_exp_minus_1)
  then have "unat (b AND 0x0f) = unat b mod 16"
    by (simp only: take_bit_eq_mask [symmetric] take_bit_eq_mod) simp
  with hi unat_bound [of b] show ?thesis by auto
qed

lemma hex_decode_bytecode_hex: "hex_decode (bytecode_hex bs) = bs"
proof (induction bs)
  case Nil
  then show ?case by simp
next
  case (Cons b bs)
  then show ?case using byte_nibbles [of b] by (simp add: hex_value_digit)
qed


section \<open>Reading emitted chunks\<close>

text \<open>
  A chunk \<open>c\<close> reads as the words \<open>ws\<close> when the loop, placed at it inside any bytecode that
  \<open>usize\<close> can index, appends \<open>ws\<close> and goes on behind it.
\<close>

definition reads_as :: "u8 list \<Rightarrow> string list \<Rightarrow> bool" where
  "reads_as c ws \<longleftrightarrow>
     (\<forall>pre post asm. length (pre @ c @ post) < 2 ^ 64 \<longrightarrow>
        disassemble_loop (pre @ c @ post) (length pre) asm =
        disassemble_loop (pre @ c @ post) (length pre + length c) (asm @ ws))"

lemma reads_as_nil: "reads_as [] []"
  by (simp add: reads_as_def)

lemma reads_as_append:
  assumes "reads_as c v" and "reads_as d w"
  shows "reads_as (c @ d) (v @ w)"
  unfolding reads_as_def
proof (intro allI impI)
  fix pre post asm
  assume "length (pre @ (c @ d) @ post) < 2 ^ 64"
  then have len: "length (pre @ c @ d @ post) < 2 ^ 64" "length ((pre @ c) @ d @ post) < 2 ^ 64" by simp_all
  have "disassemble_loop (pre @ c @ d @ post) (length pre) asm =
      disassemble_loop (pre @ c @ d @ post) (length pre + length c) (asm @ v)"
    using assms(1) len(1) unfolding reads_as_def by blast
  also have "\<dots> = disassemble_loop ((pre @ c) @ d @ post) (length (pre @ c)) (asm @ v)" by simp
  also have "\<dots> = disassemble_loop ((pre @ c) @ d @ post) (length (pre @ c) + length d) ((asm @ v) @ w)"
    using assms(2) len(2) unfolding reads_as_def by blast
  finally show "disassemble_loop (pre @ (c @ d) @ post) (length pre) asm =
      disassemble_loop (pre @ (c @ d) @ post) (length pre + length (c @ d)) (asm @ v @ w)"
    by (simp add: add.assoc)
qed

text \<open>One step of the loop establishes it.\<close>

lemma reads_as_step:
  assumes "c \<noteq> []"
    and "\<And>pre post. length (pre @ c @ post) < 2 ^ 64 \<Longrightarrow>
      disassemble_step (pre @ c @ post) (length pre) = Inr (w, length pre + length c)"
  shows "reads_as c [w]"
  unfolding reads_as_def
proof (intro allI impI)
  fix pre post asm
  assume "length (pre @ c @ post) < 2 ^ 64"
  with assms show "disassemble_loop (pre @ c @ post) (length pre) asm =
      disassemble_loop (pre @ c @ post) (length pre + length c) (asm @ [w])"
    by (subst disassemble_loop.simps) simp
qed

lemma reads_as_opcode:
  assumes "opcode_name opc = Some name"
  shows "reads_as [opc] [name]"
proof (rule reads_as_step)
  have "opc \<noteq> 0" "\<not> (0x01 \<le> opc \<and> opc \<le> 0x4b)" "opc \<noteq> 0x4c" "opc \<noteq> 0x4d" "opc \<noteq> 0x4e" "opc \<noteq> 0x4f"
    "\<not> (0x51 \<le> opc \<and> opc \<le> 0x60)"
    using map_of_SomeD [OF assms [unfolded opcode_name_def]] by (auto simp: opcode_table_def)
  then show "disassemble_step (pre @ [opc] @ post) (length pre) = Inr (name, length pre + length [opc])" for pre post
    using assms by (auto simp: disassemble_step_def Let_def)
qed simp

text \<open>What a pushed value reads as.\<close>

definition data_word :: "u8 list \<Rightarrow> string" where
  "data_word bs =
     (if bs = [] then ''OP_0''
      else if length bs \<le> 75 then ''OP_DATA_'' @ show_nat (length bs) @ '' 0x'' @ bytecode_hex bs
      else if length bs \<le> 255 then ''OP_PUSHDATA1 0x'' @ bytecode_hex bs
      else if length bs \<le> 65535 then ''OP_PUSHDATA2 0x'' @ bytecode_hex bs
      else ''OP_PUSHDATA4 0x'' @ bytecode_hex bs)"

definition integer_word :: "u64 \<Rightarrow> string" where
  "integer_word v = (if unat v \<le> 16 then ''OP_'' @ show_nat (unat v) else data_word (script_number v))"

lemma read_push_data_middle:
  assumes "length (pre @ h @ bs @ post) < 2 ^ 64" and "off = length pre + length h"
  shows "read_push_data (pre @ h @ bs @ post) off (length bs) = Inr (bs, off + length bs)"
  using assms by (simp add: read_push_data_def)

lemma length_4: "length xs = Suc (Suc (Suc (Suc 0))) \<Longrightarrow> \<exists>a b c d. xs = [a, b, c, d]"
  by (auto simp: length_Suc_conv)

lemma reads_as_data:
  assumes "encode_data bs s [] = Inr c"
  shows "reads_as c [data_word bs]"
proof -
  consider (short) "length bs \<le> 75" "c = of_nat (length bs) # bs"
    | (one) "75 < length bs" "length bs \<le> 255" "c = [0x4c, of_nat (length bs)] @ bs"
    | (two) "255 < length bs" "length bs \<le> 65535" "c = [0x4d] @ le_bytes 2 (length bs) @ bs"
    | (four) "65535 < length bs" "length bs < 2 ^ 32" "c = [0x4e] @ le_bytes 4 (length bs) @ bs"
    using assms by (auto simp: encode_data_def Let_def split: if_splits)
  then show ?thesis
  proof cases
    case short
    then have len: "unat (of_nat (length bs) :: u8) = length bs" by (simp add: unat_of_nat)
    show ?thesis
    proof (rule reads_as_step)
      fix pre post :: "u8 list"
      assume "length (pre @ c @ post) < 2 ^ 64"
      then have rd: "read_push_data (pre @ c @ post) (length pre + 1) (length bs) =
          Inr (bs, length pre + 1 + length bs)"
        using read_push_data_middle [of pre "[of_nat (length bs)]" bs post "length pre + 1"] short by simp
      show "disassemble_step (pre @ c @ post) (length pre) = Inr (data_word bs, length pre + length c)"
      proof (cases "bs = []")
        case True
        with short show ?thesis by (simp add: disassemble_step_def data_word_def Let_def)
      next
        case False
        then have "0 < length bs" by simp
        with len have "(of_nat (length bs) :: u8) \<noteq> 0"
          by (metis less_irrefl unsigned_0)
        moreover have "1 \<le> (of_nat (length bs) :: u8)" "(of_nat (length bs) :: u8) \<le> 0x4b"
          using Suc_leI [OF \<open>0 < length bs\<close>] short unfolding word_le_nat_alt len by simp_all
        ultimately show ?thesis using False short rd len
          by (simp add: disassemble_step_def data_word_def Let_def nth_append)
      qed
    qed (use short in simp)
  next
    case one
    then have len: "unat (of_nat (length bs) :: u8) = length bs" by (simp add: unat_of_nat)
    show ?thesis
    proof (rule reads_as_step)
      fix pre post :: "u8 list"
      assume "length (pre @ c @ post) < 2 ^ 64"
      then have rd: "read_push_data (pre @ c @ post) (length pre + 2) (length bs) =
          Inr (bs, length pre + 2 + length bs)"
        using read_push_data_middle [of pre "[0x4c, of_nat (length bs)]" bs post "length pre + 2"] one by simp
      have "bs \<noteq> []" using one by auto
      with one rd len show "disassemble_step (pre @ c @ post) (length pre) = Inr (data_word bs, length pre + length c)"
        by (simp add: disassemble_step_def data_word_def Let_def nth_append read_len_u8_def)
    qed (use one in simp)
  next
    case two
    obtain a b where ab: "le_bytes 2 (length bs) = [a, b]"
      by (metis (no_types) length_le_bytes length_0_conv length_Suc_conv numeral_2_eq_2)
    have len: "le_value [a, b] = length bs"
      using two le_value_le_bytes [of 2 "length bs"] by (simp add: ab)
    show ?thesis
    proof (rule reads_as_step)
      fix pre post :: "u8 list"
      assume "length (pre @ c @ post) < 2 ^ 64"
      then have rd: "read_push_data (pre @ c @ post) (length pre + 3) (length bs) =
          Inr (bs, length pre + 3 + length bs)"
        using read_push_data_middle [of pre "[0x4d, a, b]" bs post "length pre + 3"] two ab by simp
      have "read_len_u16 (pre @ c @ post) (length pre + 1) = Inr (length bs, length pre + 3)"
        using two(3) ab len by (simp add: read_len_u16_def nth_append)
      moreover have "bs \<noteq> []" using two by auto
      ultimately show "disassemble_step (pre @ c @ post) (length pre) = Inr (data_word bs, length pre + length c)"
        using two rd by (simp add: disassemble_step_def data_word_def Let_def nth_append)
    qed (use two in simp)
  next
    case four
    have "length (le_bytes 4 (length bs)) = Suc (Suc (Suc (Suc 0)))" by simp
    from length_4 [OF this] obtain a b d e where ab: "le_bytes 4 (length bs) = [a, b, d, e]" by blast
    have len: "le_value [a, b, d, e] = length bs"
      using four le_value_le_bytes [of 4 "length bs"] by (simp add: ab)
    show ?thesis
    proof (rule reads_as_step)
      fix pre post :: "u8 list"
      assume "length (pre @ c @ post) < 2 ^ 64"
      then have rd: "read_push_data (pre @ c @ post) (length pre + 5) (length bs) =
          Inr (bs, length pre + 5 + length bs)"
        using read_push_data_middle [of pre "[0x4e, a, b, d, e]" bs post "length pre + 5"] four ab by simp
      have "read_len_u32 (pre @ c @ post) (length pre + 1) = Inr (length bs, length pre + 5)"
        using four(3) ab len by (simp add: read_len_u32_def nth_append)
      moreover have "bs \<noteq> []" using four by auto
      ultimately show "disassemble_step (pre @ c @ post) (length pre) = Inr (data_word bs, length pre + length c)"
        using four rd by (simp add: disassemble_step_def data_word_def Let_def nth_append)
    qed (use four in simp)
  qed
qed

lemma show_nat_small: "show_nat 0 = ''0''" "show_nat 1 = ''1''"
  by code_simp+

lemma small_int_byte:
  assumes "v \<noteq> 0" and "unat v \<le> 16"
  shows "unat (OP_1 + ucast v - 1 :: u8) = 0x50 + unat v"
    and "unat (OP_1 + ucast v - 1 - 0x50 :: u8) = unat v"
proof -
  have u: "unat (ucast v :: u8) = unat v"
    using assms by (simp add: unsigned_ucast_eq take_bit_nat_eq_self)
  have "OP_1 + ucast v - 1 = (ucast v :: u8) + 0x50" by simp
  moreover have "unat ((ucast v :: u8) + 0x50) = unat v + 0x50"
    using u assms(2) by (subst unat_add_lem [THEN iffD1]) simp_all
  ultimately show "unat (OP_1 + ucast v - 1 :: u8) = 0x50 + unat v" by (simp only: add.commute)
  have "OP_1 + ucast v - 1 - 0x50 = (ucast v :: u8)" by simp
  with u show "unat (OP_1 + ucast v - 1 - 0x50 :: u8) = unat v" by simp
qed

lemma reads_as_u64:
  assumes "encode_u64 v s [] = Inr c"
  shows "reads_as c [integer_word v]"
proof -
  consider (zero) "v = 0" "c = [OP_FALSE]" | (small) "v \<noteq> 0" "unat v \<le> 16" "c = [OP_1 + ucast v - 1]"
    | (data) "16 < unat v" "encode_data (script_number v) s [] = Inr c"
    using assms by (auto simp: encode_u64_def word_le_nat_alt word_less_nat_alt split: if_splits)
  then show ?thesis
  proof cases
    case zero
    then show ?thesis
      by (intro reads_as_step) (simp_all add: disassemble_step_def Let_def integer_word_def show_nat_small)
  next
    case small
    let ?b = "OP_1 + ucast v - 1 :: u8"
    have pos: "0 < unat v" using small(1) by (simp add: unat_gt_0)
    have b: "unat ?b = 0x50 + unat v" using small_int_byte(1) small by blast
    have "?b \<noteq> 0" "?b \<noteq> 0x4c" "?b \<noteq> 0x4d" "?b \<noteq> 0x4e" "?b \<noteq> 0x4f" "\<not> ?b \<le> 0x4b" "0x51 \<le> ?b" "?b \<le> 0x60"
      using pos small(2) unfolding word_le_nat_alt word_unat_eq_iff b by simp_all
    moreover have "integer_word v = ''OP_'' @ show_nat (unat (?b - 0x50))"
      using small small_int_byte(2) [OF small(1,2)] by (simp only: integer_word_def if_True)
    moreover have "c = [?b]" by (fact small(3))
    ultimately show ?thesis
      by (intro reads_as_step) (simp_all only: disassemble_step_def Let_def, simp_all)
  next
    case data
    then show ?thesis using reads_as_data [OF data(2)] by (simp add: integer_word_def)
  qed
qed

text \<open>What each instruction reads as.\<close>

fun value_word :: "ir_value \<Rightarrow> string" where
  "value_word (V_Integer v) = integer_word v"
| "value_word (V_Bool b) = (if b then ''OP_1'' else ''OP_0'')"
| "value_word (V_Bytes bs) = data_word bs"
| "value_word (V_String t) = data_word (as_bytes t)"
| "value_word (V_Symbol t) = data_word (as_bytes t)"
| "value_word (V_Type ty) = data_word (as_bytes (type_debug ty))"

fun asm_of_kind :: "instruction_kind \<Rightarrow> string list" where
  "asm_of_kind (I_Push v) = [value_word v]"
| "asm_of_kind I_Drop = [''OP_DROP'']"
| "asm_of_kind I_Dup = [''OP_DUP'']"
| "asm_of_kind (I_InputValue n) = [integer_word (ucast n), ''OP_TXINPUTAMOUNT'']"
| "asm_of_kind (I_InputScript n) = [integer_word (ucast n), ''OP_TXINPUTSPK'']"
| "asm_of_kind (I_OutputValue n) = [integer_word (ucast n), ''OP_TXOUTPUTAMOUNT'']"
| "asm_of_kind (I_OutputScript n) = [integer_word (ucast n), ''OP_TXOUTPUTSPK'']"
| "asm_of_kind I_OutputCount = [''OP_TXOUTPUTCOUNT'']"
| "asm_of_kind I_InputCount = [''OP_TXINPUTCOUNT'']"
| "asm_of_kind (I_CheckSig ks) = [''OP_CHECKSIG'']"
| "asm_of_kind (I_CheckMultiSig r n) = [integer_word (ucast n), ''OP_CHECKMULTISIG'']"
| "asm_of_kind (I_CheckLockHeight h) = [integer_word h, ''OP_CHECKLOCKTIMEVERIFY'', ''OP_1'']"
| "asm_of_kind (I_CheckLockTime h) = [integer_word h, ''OP_CHECKLOCKTIMEVERIFY'', ''OP_1'']"
| "asm_of_kind I_CheckLockHeightFromStack = [''OP_CHECKLOCKTIMEVERIFY'', ''OP_1'']"
| "asm_of_kind I_CheckLockTimeFromStack = [''OP_CHECKLOCKTIMEVERIFY'', ''OP_1'']"
| "asm_of_kind I_Sha256 = [''OP_SHA256'']"
| "asm_of_kind I_Blake2b = [''OP_BLAKE2B'']"
| "asm_of_kind I_Verify = [''OP_VERIFY'']"
| "asm_of_kind I_Equal = [''OP_EQUAL'']"
| "asm_of_kind I_NotEqual = [''OP_NUMNOTEQUAL'']"
| "asm_of_kind I_GreaterThan = [''OP_GREATERTHAN'']"
| "asm_of_kind I_GreaterThanOrEqual = [''OP_GREATERTHANOREQUAL'']"
| "asm_of_kind I_LessThan = [''OP_LESSTHAN'']"
| "asm_of_kind I_LessThanOrEqual = [''OP_LESSTHANOREQUAL'']"
| "asm_of_kind I_And = [''OP_BOOLAND'']"
| "asm_of_kind I_Or = [''OP_BOOLOR'']"
| "asm_of_kind I_Not = [''OP_NOT'']"
| "asm_of_kind I_Add = [''OP_ADD'']"
| "asm_of_kind I_Sub = [''OP_SUB'']"
| "asm_of_kind _ = []"

lemma opcode_names:
  "opcode_name OP_DROP = Some ''OP_DROP''" "opcode_name OP_DUP = Some ''OP_DUP''"
  "opcode_name OP_EQUAL = Some ''OP_EQUAL''" "opcode_name OP_VERIFY = Some ''OP_VERIFY''"
  "opcode_name OP_NOT = Some ''OP_NOT''" "opcode_name OP_ADD = Some ''OP_ADD''"
  "opcode_name OP_SUB = Some ''OP_SUB''" "opcode_name OP_BOOLAND = Some ''OP_BOOLAND''"
  "opcode_name OP_BOOLOR = Some ''OP_BOOLOR''" "opcode_name OP_NUMNOTEQUAL = Some ''OP_NUMNOTEQUAL''"
  "opcode_name OP_LESSTHAN = Some ''OP_LESSTHAN''" "opcode_name OP_GREATERTHAN = Some ''OP_GREATERTHAN''"
  "opcode_name OP_LESSTHANOREQUAL = Some ''OP_LESSTHANOREQUAL''"
  "opcode_name OP_GREATERTHANOREQUAL = Some ''OP_GREATERTHANOREQUAL''"
  "opcode_name OP_SHA256 = Some ''OP_SHA256''" "opcode_name OP_BLAKE2B = Some ''OP_BLAKE2B''"
  "opcode_name OP_CHECKSIG = Some ''OP_CHECKSIG''" "opcode_name OP_CHECKMULTISIG = Some ''OP_CHECKMULTISIG''"
  "opcode_name OP_CHECKLOCKTIMEVERIFY = Some ''OP_CHECKLOCKTIMEVERIFY''"
  "opcode_name OP_TXINPUTCOUNT = Some ''OP_TXINPUTCOUNT''"
  "opcode_name OP_TXOUTPUTCOUNT = Some ''OP_TXOUTPUTCOUNT''"
  "opcode_name OP_TXINPUTAMOUNT = Some ''OP_TXINPUTAMOUNT''"
  "opcode_name OP_TXINPUTSPK = Some ''OP_TXINPUTSPK''"
  "opcode_name OP_TXOUTPUTAMOUNT = Some ''OP_TXOUTPUTAMOUNT''"
  "opcode_name OP_TXOUTPUTSPK = Some ''OP_TXOUTPUTSPK''"
  by (simp_all add: opcode_name_def opcode_table_def)

lemmas opcode_reads = opcode_names [THEN reads_as_opcode]

lemma reads_as_OP_1: "reads_as [OP_1] [''OP_1'']"
  by (rule reads_as_step) (simp_all add: disassemble_step_def Let_def show_nat_small [simplified])

lemma reads_as_OP_FALSE: "reads_as [OP_FALSE] [''OP_0'']"
  by (rule reads_as_step) (simp_all add: disassemble_step_def Let_def)

lemma reads_as_push: "encode_push v s [] = Inr c \<Longrightarrow> reads_as c [value_word v]"
  using reads_as_u64 reads_as_data reads_as_OP_1 reads_as_OP_FALSE by (cases v) auto

text \<open>A number followed by opcodes, the shape of every instruction with an operand.\<close>

lemma reads_as_u64_then:
  assumes "rbind (encode_u64 v s []) (\<lambda>out. Inr (out @ d)) = Inr c" and "reads_as d ws"
  shows "reads_as c (integer_word v # ws)"
  using assms reads_as_append [OF reads_as_u64 assms(2)] by (auto simp: rbind_Inr_iff)

lemma reads_as_indexed:
  assumes "encode_indexed opc n [] = Inr c" and "opcode_name opc = Some name"
  shows "reads_as c [integer_word (ucast n), name]"
  using reads_as_u64_then [OF assms(1) [unfolded encode_indexed_def] reads_as_opcode [OF assms(2)]] .

lemma reads_as_cltv: "reads_as [OP_CHECKLOCKTIMEVERIFY, OP_1] [''OP_CHECKLOCKTIMEVERIFY'', ''OP_1'']"
  using reads_as_append [OF opcode_reads(19) reads_as_OP_1] by simp

lemma encode_instruction_reads:
  assumes "encode_instruction i [] = Inr c"
  shows "reads_as c (asm_of_kind (instr_kind i))"
proof (cases "instr_kind i")
  case (I_Push v)
  with assms show ?thesis by (simp add: encode_instruction_def reads_as_push)
next
  case (I_InputValue n)
  with assms show ?thesis by (simp add: encode_instruction_def reads_as_indexed opcode_names)
next
  case (I_InputScript n)
  with assms show ?thesis by (simp add: encode_instruction_def reads_as_indexed opcode_names)
next
  case (I_OutputValue n)
  with assms show ?thesis by (simp add: encode_instruction_def reads_as_indexed opcode_names)
next
  case (I_OutputScript n)
  with assms show ?thesis by (simp add: encode_instruction_def reads_as_indexed opcode_names)
next
  case (I_CheckMultiSig r k)
  with assms show ?thesis by (auto simp: encode_instruction_def intro: reads_as_u64_then opcode_reads)
next
  case (I_CheckLockHeight h)
  with assms show ?thesis by (auto simp: encode_instruction_def intro: reads_as_u64_then reads_as_cltv)
next
  case (I_CheckLockTime h)
  with assms show ?thesis by (auto simp: encode_instruction_def intro: reads_as_u64_then reads_as_cltv)
qed (use assms in \<open>auto simp: encode_instruction_def intro: opcode_reads reads_as_cltv\<close>)

interpretation codec: reader encode_instruction reads_as "\<lambda>i. asm_of_kind (instr_kind i)"
  by unfold_locales (auto intro: reads_as_nil reads_as_append encode_instruction_reads)

lemma disassemble_reads:
  assumes "reads_as c ws" and "length c < 2 ^ 64"
  shows "disassemble c = Inr ws"
proof -
  have "disassemble_loop c 0 [] = disassemble_loop c (length c) ws"
    using assms(1) [unfolded reads_as_def, THEN spec [of _ "[]"], THEN spec [of _ "[]"], THEN spec [of _ "[]"]]
      assms(2) by simp
  also have "\<dots> = Inr ws" by (subst disassemble_loop.simps) simp
  finally show ?thesis by (simp add: disassemble_def)
qed


section \<open>Properties\<close>

lemma high_bit_value: "(b :: u8) AND 0x80 \<noteq> 0 \<Longrightarrow> 128 \<le> unat b"
proof -
  assume "b AND 0x80 \<noteq> 0"
  then have "b AND 2 ^ 7 \<noteq> 0" by simp
  then have "bit b 7" by (simp only: and_exp_eq_0_iff_not_bit not_not simp_thms)
  then have "bit (unat b) 7" by (simp add: bit_unsigned_iff)
  then have "odd (unat b div 2 ^ 7)" unfolding bit_iff_odd .
  then show ?thesis by (cases "unat b < 128") auto
qed

lemma script_number_length_8: "unat v < 2 ^ 63 \<Longrightarrow> length (script_number v) \<le> 8"
proof (rule script_number_prefix [of v])
  fix bs
  assume v: "unat v < 2 ^ 63" and bs: "le_value bs = unat v" "length bs \<le> 8" and
    sn: "script_number v = (if bs \<noteq> [] \<and> last bs AND 0x80 \<noteq> 0 then bs @ [0] else bs)"
  show "length (script_number v) \<le> 8"
  proof (cases "bs \<noteq> [] \<and> last bs AND 0x80 \<noteq> 0 \<and> length bs = 8")
    case True
    then obtain us u where u: "bs = us @ [u]" "length us = 7" "128 \<le> unat u"
      using high_bit_value by (cases bs rule: rev_cases) auto
    then have "256 ^ 7 * 128 \<le> le_value bs" by (simp add: le_value_append)
    with v bs show ?thesis by simp
  next
    case False
    with bs sn show ?thesis by auto
  qed
qed



text \<open>C35: an instruction sequence compiles exactly when no instruction is of a refused kind and every
  operand fits its push; otherwise the error is the one of the first instruction that does not.\<close>

theorem compile_instruction_sequence_outcome:
  "((\<exists>code. compile_instruction_sequence is = Inr code) \<longleftrightarrow>
     (\<forall>i \<in> set is. \<not> unemittable (instr_kind i) \<and> operands_fit (instr_kind i))) \<and>
   (compile_instruction_sequence is = Inl e \<longleftrightarrow>
     (\<exists>js i ks. is = js @ i # ks \<and> encode_instruction i [] = Inl e \<and>
        (\<forall>j \<in> set js. \<not> unemittable (instr_kind j) \<and> operands_fit (instr_kind j))))"
  unfolding compile_instruction_sequence_def encode_instruction_sequence_into_def
    encoder.emit_all_success_iff encoder.emit_all_Inl_iff encode_instruction_success
  by (intro conjI refl)

theorem compile_instruction_sequence_outcome_witness:
  "(\<exists>code. compile_instruction_sequence [mk_instr (mk_span 0 1) I_Add] = Inr code) \<and>
   \<not> (\<exists>code. compile_instruction_sequence [mk_instr (mk_span 0 1) I_Mul] = Inr code)"
  using compile_instruction_sequence_outcome [of "[mk_instr (mk_span 0 1) I_Mul]"]
    compile_instruction_sequence_outcome [of "[mk_instr (mk_span 0 1) I_Add]"] by simp

text \<open>C5: the disassembler reads every compiled sequence back, word for word, without an error.\<close>

theorem disassemble_compiled:
  assumes "compile_instruction_sequence is = Inr code" and "length code < 2 ^ 64"
  shows "disassemble code = Inr (concat (map (\<lambda>i. asm_of_kind (instr_kind i)) is))"
  using assms unfolding compile_instruction_sequence_def encode_instruction_sequence_into_def
  by (intro disassemble_reads codec.emit_all_reads)

theorem disassemble_compiled_witness:
  "disassemble [0x02, 0x80, 0x00, 0x69] = Inr [''OP_DATA_2 0x8000'', ''OP_VERIFY'']"
proof -
  let ?is = "[mk_instr (mk_span 0 1) (I_Push (V_Integer 128)), mk_instr (mk_span 0 1) I_Verify]"
  have "compile_instruction_sequence ?is = Inr [0x02, 0x80, 0x00, 0x69]" by code_simp
  from disassemble_compiled [OF this] have "disassemble [0x02, 0x80, 0x00, 0x69] =
      Inr (concat (map (\<lambda>i. asm_of_kind (instr_kind i)) ?is))" by simp
  moreover have "concat (map (\<lambda>i. asm_of_kind (instr_kind i)) ?is) = [''OP_DATA_2 0x8000'', ''OP_VERIFY'']"
    by code_simp
  ultimately show ?thesis by (simp only:)
qed

text \<open>The hexadecimal text of a bytecode determines it.\<close>

theorem bytecode_hex_roundtrip: "hex_decode (bytecode_hex bytes) = bytes"
  by (rule hex_decode_bytecode_hex)

end
