(* ===== verification/KS_Ast.thy ===== *)
theory KS_Ast
  imports KS_Token
begin

text \<open>
  The syntax tree (\<open>compiler/parser/src/ast.rs\<close>): structs as records, enums as datatypes,
  \<open>Box\<close> and \<open>Vec\<close> as the value and the list they own.
\<close>

record ident =
  ident_name :: string
  ident_span :: span

abbreviation mk_ident :: "string \<Rightarrow> span \<Rightarrow> ident" where
  "mk_ident n s \<equiv> \<lparr>ident_name = n, ident_span = s\<rparr>"

record param =
  param_name :: ident
  param_ty :: type_name
  param_span :: span

datatype unary_op = UO_Not | UO_Negate

datatype binary_op =
    BO_Or | BO_And | BO_Equal | BO_NotEqual | BO_Greater | BO_GreaterEqual | BO_Less | BO_LessEqual
  | BO_Add | BO_Sub | BO_Mul | BO_Div | BO_Mod

datatype expr =
    E_Ident ident
  | E_Integer u64 span
  | E_String string span
  | E_Bool bool span
  | E_Array "expr list" span
  | E_Unary unary_op expr span
  | E_Binary expr binary_op expr span
  | E_Call expr "expr list" span
  | E_Field expr ident span

fun expr_span :: "expr \<Rightarrow> span" where
  "expr_span (E_Ident i) = ident_span i"
| "expr_span (E_Integer v s) = s"
| "expr_span (E_String v s) = s"
| "expr_span (E_Bool b s) = s"
| "expr_span (E_Array es s) = s"
| "expr_span (E_Unary uop e s) = s"
| "expr_span (E_Binary l bop r s) = s"
| "expr_span (E_Call c as s) = s"
| "expr_span (E_Field ob f s) = s"

datatype stmt =
    S_Let ident expr span
  | S_Require expr span
  | S_Return expr span

fun stmt_span :: "stmt \<Rightarrow> span" where
  "stmt_span (S_Let n e s) = s"
| "stmt_span (S_Require e s) = s"
| "stmt_span (S_Return e s) = s"

fun stmt_expr :: "stmt \<Rightarrow> expr" where
  "stmt_expr (S_Let n e s) = e"
| "stmt_expr (S_Require e s) = e"
| "stmt_expr (S_Return e s) = e"

record spend =
  spend_name :: ident
  spend_params :: "param list"
  spend_body :: "stmt list"
  spend_span :: span

record contract =
  contract_name :: ident
  contract_params :: "param list"
  contract_finality_depth :: "u64 option"
  contract_spends :: "spend list"
  contract_span :: span

record program =
  program_contracts :: "contract list"

end
