(* ===== verification/KS_Scope.thy ===== *)
theory KS_Scope
  imports KS_Token
begin

text \<open>
  Scopes (\<open>compiler/semantic/src/scope.rs\<close>) and the contract the checker relies on: a symbol
  table whose \<open>insert\<close> reports whether the name is new and whose lookup returns the type
  inserted last.
\<close>

section \<open>The scope\<close>

record scope =
  sc_symbols :: "string \<rightharpoonup> type_name"

definition scope_new :: scope where
  "scope_new = \<lparr>sc_symbols = Map.empty\<rparr>"

definition scope_insert :: "scope \<Rightarrow> string \<Rightarrow> type_name \<Rightarrow> bool \<times> scope" where
  "scope_insert sc name ty =
     (sc_symbols sc name = None, sc\<lparr>sc_symbols := (sc_symbols sc)(name \<mapsto> ty)\<rparr>)"

definition scope_get :: "scope \<Rightarrow> string \<Rightarrow> type_name option" where
  "scope_get sc name = sc_symbols sc name"

definition scope_contains :: "scope \<Rightarrow> string \<Rightarrow> bool" where
  "scope_contains sc name \<longleftrightarrow> sc_symbols sc name \<noteq> None"

section \<open>The contract of a symbol table\<close>

locale symbol_table =
  fixes empty :: 's
    and ins :: "'s \<Rightarrow> string \<Rightarrow> 't \<Rightarrow> bool \<times> 's"
    and get :: "'s \<Rightarrow> string \<Rightarrow> 't option"
    and has :: "'s \<Rightarrow> string \<Rightarrow> bool"
  assumes get_empty: "get empty name = None"
    and ins_new: "fst (ins s name ty) \<longleftrightarrow> get s name = None"
    and get_ins: "get (snd (ins s name ty)) name' = (if name' = name then Some ty else get s name')"
    and has_get: "has s name \<longleftrightarrow> get s name \<noteq> None"
begin

text \<open>Inserting a list of declarations: the flags in order, and the final table.\<close>

fun ins_list :: "'s \<Rightarrow> (string \<times> 't) list \<Rightarrow> bool list \<times> 's" where
  "ins_list s [] = ([], s)"
| "ins_list s ((n, t) # rest) =
     (let (fresh, s') = ins s n t; (flags, s'') = ins_list s' rest in (fresh # flags, s''))"

lemma ins_list_get: "get (snd (ins_list s ds)) name = (case map_of (rev ds) name of Some t \<Rightarrow> Some t | None \<Rightarrow> get s name)"
proof (induction ds arbitrary: s)
  case Nil
  then show ?case by simp
next
  case (Cons d ds)
  obtain n t where d: "d = (n, t)" by (cases d)
  have "snd (ins_list s (d # ds)) = snd (ins_list (snd (ins s n t)) ds)"
    by (simp add: d split_beta Let_def)
  then show ?case
    by (simp add: Cons.IH get_ins d map_add_def split: option.splits)
qed

lemma ins_list_fresh:
  "False \<notin> set (fst (ins_list s ds)) \<longleftrightarrow> distinct (map fst ds) \<and> (\<forall>n \<in> set (map fst ds). get s n = None)"
proof (induction ds arbitrary: s)
  case Nil
  then show ?case by simp
next
  case (Cons d ds)
  obtain n t where d: "d = (n, t)" by (cases d)
  have eq: "fst (ins_list s (d # ds)) = fst (ins s n t) # fst (ins_list (snd (ins s n t)) ds)"
    by (simp add: d split_beta Let_def)
  have iff: "False \<notin> set (fst (ins_list s (d # ds))) \<longleftrightarrow>
      fst (ins s n t) \<and> False \<notin> set (fst (ins_list (snd (ins s n t)) ds))"
    unfolding eq by auto
  show ?case
    unfolding iff Cons.IH ins_new get_ins by (auto simp: d)
qed

lemma has_ins: "has (snd (ins s name ty)) name' \<longleftrightarrow> name' = name \<or> has s name'"
  by (simp add: has_get get_ins)

end

interpretation sc: symbol_table scope_new scope_insert scope_get scope_contains
  by unfold_locales (auto simp: scope_new_def scope_insert_def scope_get_def scope_contains_def)

end
