(* ===== verification/KS_Checker.thy ===== *)
theory KS_Checker
  imports KS_Ast KS_Errors KS_Scope
begin

text \<open>
  The semantic checker (\<open>compiler/semantic/src/checker.rs\<close>). \<open>Checker\<close> is a record passed
  through every function that takes \<open>&mut self\<close>; errors are collected in it, not returned,
  so each \<open>infer_*\<close> function returns the inferred type (or \<open>None\<close>) and the checker.
\<close>

section \<open>State\<close>

record checker =
  ck_source :: string
  ck_file :: string
  ck_errors :: "semantic_error list"
  ck_spend_names :: "string set"

definition checker_new :: "string \<Rightarrow> string \<Rightarrow> checker" where
  "checker_new source file =
     \<lparr>ck_source = source, ck_file = file, ck_errors = [], ck_spend_names = {}\<rparr>"

definition semantic_error_at :: "string \<Rightarrow> string \<Rightarrow> span \<Rightarrow> string \<Rightarrow> semantic_error" where
  "semantic_error_at source file s message =
     (let location = locate source file (span_start s)
      in \<lparr>se_file = loc_file location, se_line = loc_line location,
          se_column = loc_column location, se_span = s, se_message = message\<rparr>)"

definition ck_error :: "checker \<Rightarrow> span \<Rightarrow> string \<Rightarrow> checker" where
  "ck_error ck s message =
     ck\<lparr>ck_errors := ck_errors ck @ [semantic_error_at (ck_source ck) (ck_file ck) s message]\<rparr>"

section \<open>Inference\<close>

text \<open>The built-in identifiers and their types; every other name is looked up.\<close>

definition builtin_type :: "string \<Rightarrow> type_name option" where
  "builtin_type name =
     (if name = ''block'' then Some T_BlockHeight
      else if name = ''covenant_id'' then Some T_CovenantID
      else if name = ''sequencing'' then Some T_Hash
      else if name \<in> set [''input_count'', ''output_count''] then Some T_Amount
      else if name \<in> set [''input'', ''output'', ''multisig'', ''zk_verify'', ''sha256'', ''blake2b'', ''hash160'']
      then Some T_Bool
      else None)"

definition infer_identifier :: "checker \<Rightarrow> ident \<Rightarrow> scope \<Rightarrow> type_name option \<times> checker" where
  "infer_identifier ck ident scope =
     (if ident_name ident \<in> ck_spend_names ck
      then (None, ck_error ck (ident_span ident)
              ''spend functions cannot be referenced from require expressions'')
      else (case builtin_type (ident_name ident) of
              Some ty \<Rightarrow> (Some ty, ck)
            | None \<Rightarrow>
                (case scope_get scope (ident_name ident) of
                   Some ty \<Rightarrow> (Some ty, ck)
                 | None \<Rightarrow>
                     (None, ck_error ck (ident_span ident)
                        (''undefined identifier '' @ bt (ident_name ident))))))"

definition check_index_call :: "checker \<Rightarrow> expr list \<Rightarrow> span \<Rightarrow> type_name \<Rightarrow> type_name option \<times> checker" where
  "check_index_call ck args s ty =
     (Some ty,
      case args of
        [E_Integer value sp] \<Rightarrow>
          if unat value < 2 ^ 32 then ck else ck_error ck sp ''input/output index exceeds u32 range''
      | [a] \<Rightarrow> ck_error ck (expr_span a) ''input/output index must be a non-negative integer literal''
      | _ \<Rightarrow> ck_error ck s ''input/output requires one integer index'')"

definition output_call_index :: "expr \<Rightarrow> u32 option" where
  "output_call_index e =
     (case e of
        E_Call (E_Ident ident) [E_Integer value _] _ \<Rightarrow>
          if ident_name ident = ''output'' then u32_try_from value else None
      | _ \<Rightarrow> None)"

text \<open>An ASCII predicate of a \<open>char\<close>.\<close>

fun rchar_is :: "(char \<Rightarrow> bool) \<Rightarrow> rchar \<Rightarrow> bool" where
  "rchar_is P [b] \<longleftrightarrow> P b"
| "rchar_is P _ \<longleftrightarrow> False"

lemma rchar_is_iff: "rchar_is P c \<longleftrightarrow> (\<exists>b. c = [b] \<and> P b)"
  by (cases "(P, c)" rule: rchar_is.cases) auto

definition is_valid_continuation_name :: "string \<Rightarrow> bool" where
  "is_valid_continuation_name value =
     (case chars value of
        [] \<Rightarrow> False
      | first # rest \<Rightarrow>
          (first = ''_'' \<or> rchar_is is_ascii_alphabetic first) \<and>
          list_all (\<lambda>ch. ch = ''_'' \<or> ch = ''-'' \<or>
            rchar_is is_ascii_alphanumeric ch) rest)"

definition check_continuation :: "checker \<Rightarrow> expr list \<Rightarrow> span \<Rightarrow> checker" where
  "check_continuation ck args s =
     (case args of
        [a, b] \<Rightarrow>
          (let ck = (case a of
                       E_String value sp \<Rightarrow>
                         if is_valid_continuation_name value
                         then (if trim value \<noteq> value
                               then ck_error ck sp (bt ''continuation'' @ '' name must not have leading or trailing space'')
                               else ck)
                         else ck_error ck sp (bt ''continuation'' @ '' name must be a non-empty identifier label'')
                     | other \<Rightarrow> ck_error ck (expr_span other) (bt ''continuation'' @ '' name must be a string literal''))
           in if output_call_index b = None
              then ck_error ck (expr_span b) (bt ''continuation'' @ '' second argument must be output(index)'')
              else ck)
      | _ \<Rightarrow> ck_error ck s (bt ''continuation'' @ '' requires a name and output(index)''))"

text \<open>The part of \<open>check_multisig\<close> before the arguments are inferred.\<close>

definition check_multisig_threshold :: "checker \<Rightarrow> expr \<Rightarrow> expr \<Rightarrow> checker" where
  "check_multisig_threshold ck a b =
     (let (k, ck) = (case a of
                       E_Integer value _ \<Rightarrow> (Some value, ck)
                     | _ \<Rightarrow> (None, ck_error ck (expr_span a) (bt ''multisig'' @ '' k must be an integer literal'')));
          keys = (case b of E_Array elements _ \<Rightarrow> Some (length elements) | _ \<Rightarrow> None)
      in case (k, keys) of
           (Some k, Some keys) \<Rightarrow>
             if unat k > keys
             then ck_error ck (expr_span a) (bt ''multisig'' @ '' k cannot exceed number of keys'')
             else ck
         | _ \<Rightarrow> ck)"

fun binary_type :: "binary_op \<Rightarrow> type_name" where
  "binary_type BO_Or = T_Bool"
| "binary_type BO_And = T_Bool"
| "binary_type BO_Equal = T_Bool"
| "binary_type BO_NotEqual = T_Bool"
| "binary_type BO_Greater = T_Bool"
| "binary_type BO_GreaterEqual = T_Bool"
| "binary_type BO_Less = T_Bool"
| "binary_type BO_LessEqual = T_Bool"
| "binary_type BO_Add = T_Amount"
| "binary_type BO_Sub = T_Amount"
| "binary_type BO_Mul = T_Amount"
| "binary_type BO_Div = T_Amount"
| "binary_type BO_Mod = T_Amount"

text \<open>The field access on an already inferred receiver.\<close>

definition infer_transaction_field :: "checker \<Rightarrow> type_name option \<Rightarrow> ident \<Rightarrow> type_name option \<times> checker" where
  "infer_transaction_field ck receiver field =
     (if receiver = Some T_Input \<or> receiver = Some T_Output then
        (if ident_name field = ''value'' then (Some T_Amount, ck)
         else if ident_name field = ''script'' then (Some T_Bytes, ck)
         else if ident_name field = ''covenant_id'' then (Some T_CovenantID, ck)
         else (None, ck_error ck (ident_span field) ''unknown input/output field''))
      else (receiver, ck))"

text \<open>The field accesses decided by the name of the receiver alone.\<close>

definition infer_root_field :: "checker \<Rightarrow> expr \<Rightarrow> ident \<Rightarrow> (type_name option \<times> checker) option" where
  "infer_root_field ck object field =
     (case object of
        E_Ident root \<Rightarrow>
          if ident_name root = ''block'' then
            Some (if ident_name field = ''height'' then (Some T_BlockHeight, ck)
                  else if ident_name field = ''time'' then (Some T_BlockHeight, ck)
                  else (None, ck_error ck (ident_span field)
                          (bt ''block'' @ '' only supports '' @ bt ''.height'' @ '' and '' @ bt ''.time'')))
          else if ident_name root = ''covenant_id'' \<and> ident_name field = ''depth'' then Some (Some T_BlockHeight, ck)
          else if ident_name root = ''sequencing'' then Some (Some T_BlockHeight, ck)
          else None
      | _ \<Rightarrow> None)"

text \<open>What a call is, decided by its callee as \<open>infer_call\<close> does: \<open>object.verify\<close>, a built-in, or neither.\<close>

definition verify_receiver :: "expr \<Rightarrow> (expr \<times> ident) option" where
  "verify_receiver callee =
     (case callee of
        E_Field object field _ \<Rightarrow> if ident_name field = ''verify'' then Some (object, field) else None
      | _ \<Rightarrow> None)"

definition callee_name :: "expr \<Rightarrow> string" where
  "callee_name callee = (case callee of E_Ident ident \<Rightarrow> ident_name ident | _ \<Rightarrow> [])"

lemma verify_receiver_size [termination_simp]:
  "verify_receiver callee = Some (object, field) \<Longrightarrow> size object < size callee"
  by (auto simp: verify_receiver_def split: expr.splits if_splits)


function (sequential)
  infer_expr :: "checker \<Rightarrow> expr \<Rightarrow> scope \<Rightarrow> type_name option \<times> checker"
and infer_each :: "checker \<Rightarrow> expr list \<Rightarrow> scope \<Rightarrow> checker"
and infer_call :: "checker \<Rightarrow> expr \<Rightarrow> expr list \<Rightarrow> scope \<Rightarrow> type_name option \<times> checker"
and infer_field :: "checker \<Rightarrow> expr \<Rightarrow> ident \<Rightarrow> scope \<Rightarrow> type_name option \<times> checker"
where
  "infer_expr ck (E_Ident ident) scope = infer_identifier ck ident scope"
| "infer_expr ck (E_Integer v s) scope = (Some T_Amount, ck)"
| "infer_expr ck (E_String v s) scope = (Some T_Bytes, ck)"
| "infer_expr ck (E_Bool b s) scope = (Some T_Bool, ck)"
| "infer_expr ck (E_Array elements s) scope = (Some T_Bytes, infer_each ck elements scope)"
| "infer_expr ck (E_Unary uop e s) scope =
     (let (ty, ck) = infer_expr ck e scope
      in (Some T_Bool,
          if uop = UO_Not \<and> ty \<noteq> Some T_Bool
          then ck_error ck (expr_span e) (bt ''!'' @ '' requires Bool'') else ck))"
| "infer_expr ck (E_Binary left bop right s) scope =
     (let (left_ty, ck) = infer_expr ck left scope;
          (right_ty, ck) = infer_expr ck right scope
      in (Some (binary_type bop),
          if (bop = BO_And \<or> bop = BO_Or) \<and> (left_ty \<noteq> Some T_Bool \<or> right_ty \<noteq> Some T_Bool)
          then ck_error ck s ''logical operators require Bool operands'' else ck))"
| "infer_expr ck (E_Call callee args s) scope = infer_call ck callee args scope"
| "infer_expr ck (E_Field object field s) scope = infer_field ck object field scope"
| "infer_each ck [] scope = ck"
| "infer_each ck (e # es) scope = infer_each (snd (infer_expr ck e scope)) es scope"
| "infer_call ck callee args scope =
     (case verify_receiver callee of
        Some (object, field) \<Rightarrow>
          (let (receiver, ck) = infer_expr ck object scope;
               ck = (if receiver \<noteq> Some T_Signature
                     then ck_error ck (expr_span object) (bt ''verify'' @ '' receiver must be Signature'') else ck)
           in (Some T_Bool,
               case args of
                 [a] \<Rightarrow>
                   (let (ty, ck) = infer_expr ck a scope
                    in if ty \<noteq> Some T_PublicKey
                       then ck_error ck (expr_span a) (bt ''verify'' @ '' argument must be PublicKey'') else ck)
               | _ \<Rightarrow> ck_error ck (ident_span field) (bt ''verify'' @ '' requires one PublicKey argument'')))
      | None \<Rightarrow>
          if callee_name callee = ''input'' then check_index_call ck args (expr_span callee) T_Input
          else if callee_name callee = ''output'' then check_index_call ck args (expr_span callee) T_Output
          else if callee_name callee = ''continuation''
          then (Some T_Bool, check_continuation ck args (expr_span callee))
          else if callee_name callee = ''zk_verify'' then
            (Some T_Bool,
             case args of
               [a] \<Rightarrow>
                 (let (ty, ck) = infer_expr ck a scope
                  in if ty \<noteq> Some T_ZKProof
                     then ck_error ck (expr_span a) (bt ''zk_verify'' @ '' argument must be ZKProof'') else ck)
             | _ \<Rightarrow> ck_error ck (expr_span callee) (bt ''zk_verify'' @ '' requires one proof argument''))
          else if callee_name callee = ''multisig'' then
            (Some T_Bool,
             case args of
               [a, b, c] \<Rightarrow> infer_each (check_multisig_threshold ck a b) [a, b, c] scope
             | _ \<Rightarrow> ck_error ck (expr_span callee) (bt ''multisig'' @ '' requires k, keys, and signatures''))
          else if callee_name callee \<in> set [''sha256'', ''blake2b'', ''hash160''] then
            (Some T_Hash,
             case args of
               [a] \<Rightarrow> snd (infer_expr ck a scope)
             | _ \<Rightarrow> ck_error ck (expr_span callee) ''hash functions require one argument'')
          else (Some T_Bool, infer_each (snd (infer_expr ck callee scope)) args scope))"
| "infer_field ck object field scope =
     (case infer_root_field ck object field of
        Some result \<Rightarrow> result
      | None \<Rightarrow>
          (let (receiver, ck) = infer_expr ck object scope
           in infer_transaction_field ck receiver field))"
  by pat_completeness auto
termination
  by (relation "measure (case_sum
        (case_sum (\<lambda>(ck, e, scope). 2 * size e) (\<lambda>(ck, es, scope). 2 * size_list size es))
        (case_sum (\<lambda>(ck, callee, args, scope). 2 * (size callee + size_list size args) + 1)
                  (\<lambda>(ck, object, field, scope). 2 * size object + 1)))")
     (auto dest: verify_receiver_size)


section \<open>Facts about the transaction shape\<close>

record count_facts =
  cf_exact :: "(u64 \<times> span) option"
  cf_max_index :: "(u64 \<times> span) option"

record shape_facts =
  sf_inputs :: count_facts
  sf_outputs :: count_facts

datatype count_subject = CS_Input | CS_Output

definition count_facts_default :: count_facts where
  "count_facts_default = \<lparr>cf_exact = None, cf_max_index = None\<rparr>"

definition shape_facts_default :: shape_facts where
  "shape_facts_default = \<lparr>sf_inputs = count_facts_default, sf_outputs = count_facts_default\<rparr>"

fun facts_of :: "count_subject \<Rightarrow> shape_facts \<Rightarrow> count_facts" where
  "facts_of CS_Input facts = sf_inputs facts"
| "facts_of CS_Output facts = sf_outputs facts"

fun update_facts :: "count_subject \<Rightarrow> (count_facts \<Rightarrow> count_facts) \<Rightarrow> shape_facts \<Rightarrow> shape_facts" where
  "update_facts CS_Input f facts = facts\<lparr>sf_inputs := f (sf_inputs facts)\<rparr>"
| "update_facts CS_Output f facts = facts\<lparr>sf_outputs := f (sf_outputs facts)\<rparr>"

definition count_subject_of :: "expr \<Rightarrow> count_subject option" where
  "count_subject_of e =
     (case e of
        E_Ident ident \<Rightarrow>
          if ident_name ident = ''input_count'' then Some CS_Input
          else if ident_name ident = ''output_count'' then Some CS_Output else None
      | _ \<Rightarrow> None)"

definition exact_count_constraint :: "expr \<Rightarrow> (count_subject \<times> u64 \<times> span) option" where
  "exact_count_constraint e =
     (case e of
        E_Binary left BO_Equal right _ \<Rightarrow>
          (case (count_subject_of left, right) of
             (Some subject, E_Integer value s) \<Rightarrow> Some (subject, value, s)
           | _ \<Rightarrow>
               (case (left, count_subject_of right) of
                  (E_Integer value s, Some subject) \<Rightarrow> Some (subject, value, s)
                | _ \<Rightarrow> None))
      | _ \<Rightarrow> None)"

definition record_exact_count :: "checker \<times> shape_facts \<Rightarrow> expr \<Rightarrow> checker \<times> shape_facts" where
  "record_exact_count st e =
     (case exact_count_constraint e of
        None \<Rightarrow> st
      | Some (subject, value, s) \<Rightarrow>
          (let (ck, facts) = st;
               ck = (if \<not> unat value < 2 ^ 32
                     then ck_error ck s ''exact transaction count exceeds u32 range'' else ck)
           in case cf_exact (facts_of subject facts) of
                Some (existing, _) \<Rightarrow>
                  (if existing \<noteq> value
                   then ck_error ck s ''conflicting exact transaction count constraints'' else ck, facts)
              | None \<Rightarrow> (ck, update_facts subject (\<lambda>f. f\<lparr>cf_exact := Some (value, s)\<rparr>) facts)))"

fun collect_exact_counts :: "expr \<Rightarrow> checker \<times> shape_facts \<Rightarrow> checker \<times> shape_facts" where
  "collect_exact_counts (E_Binary left BO_And right s) st =
     collect_exact_counts right (collect_exact_counts left st)"
| "collect_exact_counts e st = record_exact_count st e"

text \<open>The index reference of a call node itself.\<close>

definition record_index_reference :: "expr \<Rightarrow> expr list \<Rightarrow> shape_facts \<Rightarrow> shape_facts" where
  "record_index_reference callee args facts =
     (let subject = (if callee_name callee = ''input'' then Some CS_Input
                     else if callee_name callee = ''output'' then Some CS_Output else None)
      in case (subject, args) of
           (Some subject, E_Integer value s # _) \<Rightarrow>
             (case cf_max_index (facts_of subject facts) of
                Some (current, _) \<Rightarrow>
                  if current \<ge> value then facts
                  else update_facts subject (\<lambda>f. f\<lparr>cf_max_index := Some (value, s)\<rparr>) facts
              | None \<Rightarrow> update_facts subject (\<lambda>f. f\<lparr>cf_max_index := Some (value, s)\<rparr>) facts)
         | _ \<Rightarrow> facts)"

fun collect_index_references :: "expr \<Rightarrow> shape_facts \<Rightarrow> shape_facts"
and collect_index_references_each :: "expr list \<Rightarrow> shape_facts \<Rightarrow> shape_facts" where
  "collect_index_references (E_Array elements s) facts = collect_index_references_each elements facts"
| "collect_index_references (E_Unary uop e s) facts = collect_index_references e facts"
| "collect_index_references (E_Binary left bop right s) facts =
     collect_index_references right (collect_index_references left facts)"
| "collect_index_references (E_Call callee args s) facts =
     collect_index_references_each args
       (collect_index_references callee (record_index_reference callee args facts))"
| "collect_index_references (E_Field object field s) facts = collect_index_references object facts"
| "collect_index_references _ facts = facts"
| "collect_index_references_each [] facts = facts"
| "collect_index_references_each (e # es) facts =
     collect_index_references_each es (collect_index_references e facts)"

definition collect_shape_facts :: "checker \<Rightarrow> expr \<Rightarrow> shape_facts \<Rightarrow> checker \<times> shape_facts" where
  "collect_shape_facts ck e facts =
     (let (ck, facts) = collect_exact_counts e (ck, facts)
      in (ck, collect_index_references e facts))"

definition check_count_facts :: "checker \<Rightarrow> string \<Rightarrow> count_facts \<Rightarrow> checker" where
  "check_count_facts ck label facts =
     (case cf_exact facts of
        None \<Rightarrow> ck
      | Some (exact, _) \<Rightarrow>
          (case cf_max_index facts of
             None \<Rightarrow> ck
           | Some (max_index, max_span) \<Rightarrow>
               if exact \<le> max_index
               then ck_error ck max_span (bt label @ '' must exceed the highest referenced index'')
               else ck))"

definition check_shape_facts :: "checker \<Rightarrow> shape_facts \<Rightarrow> checker" where
  "check_shape_facts ck facts =
     check_count_facts (check_count_facts ck ''input_count'' (sf_inputs facts)) ''output_count'' (sf_outputs facts)"

section \<open>Continuation names\<close>

definition continuation_name :: "expr \<Rightarrow> (string \<times> span) option" where
  "continuation_name e =
     (case e of
        E_Call (E_Ident ident) (E_String value s # _) _ \<Rightarrow>
          if ident_name ident = ''continuation'' then Some (value, s) else None
      | _ \<Rightarrow> None)"

definition record_continuation_name :: "expr \<Rightarrow> checker \<times> string set \<Rightarrow> checker \<times> string set" where
  "record_continuation_name e st =
     (case continuation_name e of
        None \<Rightarrow> st
      | Some (name, s) \<Rightarrow>
          (let (ck, names) = st
           in (if name \<in> names then ck_error ck s (''duplicate continuation name '' @ bt name) else ck,
               insert name names)))"

fun collect_continuation_names :: "expr \<Rightarrow> checker \<times> string set \<Rightarrow> checker \<times> string set"
and collect_continuation_names_each :: "expr list \<Rightarrow> checker \<times> string set \<Rightarrow> checker \<times> string set" where
  "collect_continuation_names (E_Array elements s) st = collect_continuation_names_each elements st"
| "collect_continuation_names (E_Unary uop e s) st = collect_continuation_names e st"
| "collect_continuation_names (E_Binary left bop right s) st =
     collect_continuation_names right (collect_continuation_names left st)"
| "collect_continuation_names (E_Call callee args s) st =
     collect_continuation_names_each args
       (collect_continuation_names callee (record_continuation_name (E_Call callee args s) st))"
| "collect_continuation_names (E_Field object field s) st = collect_continuation_names object st"
| "collect_continuation_names _ st = st"
| "collect_continuation_names_each [] st = st"
| "collect_continuation_names_each (e # es) st =
     collect_continuation_names_each es (collect_continuation_names e st)"

section \<open>Names used by a spend\<close>

fun expr_uses_name :: "string \<Rightarrow> expr \<Rightarrow> bool" where
  "expr_uses_name name (E_Ident ident) \<longleftrightarrow> ident_name ident = name"
| "expr_uses_name name (E_Integer v s) \<longleftrightarrow> False"
| "expr_uses_name name (E_String v s) \<longleftrightarrow> False"
| "expr_uses_name name (E_Bool b s) \<longleftrightarrow> False"
| "expr_uses_name name (E_Array es s) \<longleftrightarrow> list_ex (expr_uses_name name) es"
| "expr_uses_name name (E_Unary uop e s) \<longleftrightarrow> expr_uses_name name e"
| "expr_uses_name name (E_Binary l bop r s) \<longleftrightarrow> expr_uses_name name l \<or> expr_uses_name name r"
| "expr_uses_name name (E_Call c as s) \<longleftrightarrow> expr_uses_name name c \<or> list_ex (expr_uses_name name) as"
| "expr_uses_name name (E_Field ob f s) \<longleftrightarrow> ident_name f = name \<or> expr_uses_name name ob"

definition spend_uses_name :: "spend \<Rightarrow> string \<Rightarrow> bool" where
  "spend_uses_name sp name \<longleftrightarrow> list_ex (\<lambda>st. expr_uses_name name (stmt_expr st)) (spend_body sp)"

section \<open>Spends, contracts, programs\<close>

record spend_state =
  ss_ck :: checker
  ss_scope :: scope
  ss_local_names :: "string set"
  ss_shape_facts :: shape_facts
  ss_continuation_names :: "string set"
  ss_has_require :: bool

definition check_spend_param ::
  "scope \<Rightarrow> checker \<times> scope \<times> string set \<Rightarrow> param \<Rightarrow> checker \<times> scope \<times> string set" where
  "check_spend_param contract_scope st p =
     (let (ck, scope, local_names) = st;
          name = ident_name (param_name p);
          ck = (if scope_contains contract_scope name
                then ck_error ck (ident_span (param_name p))
                       (''spend parameter '' @ bt name @ '' shadows a contract parameter'') else ck);
          ck = (if name \<in> local_names
                then ck_error ck (ident_span (param_name p)) (''duplicate spend parameter '' @ bt name) else ck)
      in (ck, snd (scope_insert scope name (param_ty p)), insert name local_names))"

fun check_stmt :: "spend_state \<Rightarrow> stmt \<Rightarrow> spend_state" where
  "check_stmt st (S_Let name e s) =
     (let (ty, ck) = infer_expr (ss_ck st) e (ss_scope st);
          st' = st\<lparr>ss_ck := ck, ss_local_names := insert (ident_name name) (ss_local_names st)\<rparr>
      in if ident_name name \<in> ss_local_names st \<or> scope_contains (ss_scope st) (ident_name name)
         then st'\<lparr>ss_ck := ck_error ck (ident_span name) (''duplicate let binding '' @ bt (ident_name name))\<rparr>
         else (case ty of
                 Some ty \<Rightarrow> st'\<lparr>ss_scope := snd (scope_insert (ss_scope st) (ident_name name) ty)\<rparr>
               | None \<Rightarrow> st'))"
| "check_stmt st (S_Require e s) =
     (let (ty, ck) = infer_expr (ss_ck st) e (ss_scope st);
          ck = (if ty \<noteq> Some T_Bool
                then ck_error ck (expr_span e) (bt ''require'' @ '' expression must be Bool'') else ck);
          (ck, facts) = collect_shape_facts ck e (ss_shape_facts st);
          (ck, names) = collect_continuation_names e (ck, ss_continuation_names st)
      in st\<lparr>ss_ck := ck, ss_shape_facts := facts, ss_continuation_names := names, ss_has_require := True\<rparr>)"
| "check_stmt st (S_Return e s) = st\<lparr>ss_ck := snd (infer_expr (ss_ck st) e (ss_scope st))\<rparr>"

definition check_spend :: "checker \<Rightarrow> contract \<Rightarrow> spend \<Rightarrow> scope \<Rightarrow> checker" where
  "check_spend ck contract sp contract_scope =
     (let (ck, scope, local_names) = foldl (check_spend_param contract_scope) (ck, contract_scope, {}) (spend_params sp);
          st = foldl check_stmt
                 \<lparr>ss_ck = ck, ss_scope = scope, ss_local_names = local_names,
                  ss_shape_facts = shape_facts_default, ss_continuation_names = {}, ss_has_require = False\<rparr>
                 (spend_body sp);
          ck = ss_ck st;
          ck = (if \<not> ss_has_require st
                then ck_error ck (ident_span (spend_name sp))
                       (''spend '' @ bt (ident_name (spend_name sp)) @ '' must contain at least one require'') else ck);
          ck = (if spend_uses_name sp ''covenant_id'' \<and>
                   (case contract_finality_depth contract of None \<Rightarrow> 0 | Some d \<Rightarrow> d) = 0
                then ck_error ck (ident_span (spend_name sp))
                       (bt ''covenant_id'' @ '' requires '' @ bt ''finality_depth'' @ '' > 0'') else ck)
      in check_shape_facts ck (ss_shape_facts st))"

definition check_contract_param :: "checker \<times> scope \<Rightarrow> param \<Rightarrow> checker \<times> scope" where
  "check_contract_param st p =
     (let (ck, scope) = st;
          (fresh, scope) = scope_insert scope (ident_name (param_name p)) (param_ty p)
      in (if \<not> fresh
          then ck_error ck (ident_span (param_name p)) (''duplicate parameter '' @ bt (ident_name (param_name p)))
          else ck, scope))"

definition check_contract_spend ::
  "contract \<Rightarrow> scope \<Rightarrow> checker \<times> string set \<Rightarrow> spend \<Rightarrow> checker \<times> string set" where
  "check_contract_spend contract contract_scope st sp =
     (let (ck, seen) = st;
          name = ident_name (spend_name sp);
          ck = (if name \<in> seen
                then ck_error ck (ident_span (spend_name sp)) (''duplicate spend '' @ bt name) else ck)
      in (check_spend ck contract sp contract_scope, insert name seen))"

definition check_contract :: "checker \<Rightarrow> contract \<Rightarrow> checker" where
  "check_contract ck contract =
     (let ck = (if contract_finality_depth contract = Some 0
                then ck_error ck (ident_span (contract_name contract)) (bt ''finality_depth'' @ '' must be > 0'') else ck);
          (ck, contract_scope) = foldl check_contract_param (ck, scope_new) (contract_params contract);
          ck = ck\<lparr>ck_spend_names := set (map (\<lambda>sp. ident_name (spend_name sp)) (contract_spends contract))\<rparr>
      in fst (foldl (check_contract_spend contract contract_scope) (ck, {}) (contract_spends contract)))"

definition check_program_contract :: "checker \<times> string set \<Rightarrow> contract \<Rightarrow> checker \<times> string set" where
  "check_program_contract st contract =
     (let (ck, names) = st;
          name = ident_name (contract_name contract);
          ck = (if name \<in> names
                then ck_error ck (ident_span (contract_name contract)) (''duplicate contract '' @ bt name) else ck)
      in (check_contract ck contract, insert name names))"

definition check_program :: "checker \<Rightarrow> program \<Rightarrow> checker" where
  "check_program ck prog = fst (foldl check_program_contract (ck, {}) (program_contracts prog))"

section \<open>KIP requirements\<close>

definition ident_kips :: "string \<Rightarrow> u16 set" where
  "ident_kips name =
     (if name \<in> set [''input'', ''output'', ''input_count'', ''output_count''] then {10}
      else if name = ''covenant_id'' then {20}
      else if name = ''zk_verify'' then {16}
      else if name = ''sequencing'' then {15}
      else {})"

fun collect_expr_kips :: "expr \<Rightarrow> u16 set \<Rightarrow> u16 set"
and collect_each_kips :: "expr list \<Rightarrow> u16 set \<Rightarrow> u16 set" where
  "collect_expr_kips (E_Ident ident) kips = ident_kips (ident_name ident) \<union> kips"
| "collect_expr_kips (E_Array elements s) kips = collect_each_kips elements kips"
| "collect_expr_kips (E_Unary uop e s) kips = collect_expr_kips e kips"
| "collect_expr_kips (E_Binary left bop right s) kips = collect_expr_kips right (collect_expr_kips left kips)"
| "collect_expr_kips (E_Call callee args s) kips = collect_each_kips args (collect_expr_kips callee kips)"
| "collect_expr_kips (E_Field object field s) kips =
     collect_expr_kips object (if ident_name field = ''covenant_id'' then insert 20 kips else kips)"
| "collect_expr_kips _ kips = kips"
| "collect_each_kips [] kips = kips"
| "collect_each_kips (e # es) kips = collect_each_kips es (collect_expr_kips e kips)"

definition program_exprs :: "program \<Rightarrow> expr list" where
  "program_exprs prog =
     concat (map (\<lambda>c. concat (map (\<lambda>sp. map stmt_expr (spend_body sp)) (contract_spends c)))
               (program_contracts prog))"

definition collect_kip_requirements :: "program \<Rightarrow> u16 list" where
  "collect_kip_requirements prog = sorted_list_of_set (collect_each_kips (program_exprs prog) {})"

section \<open>Analysis\<close>

record analysis =
  an_program :: program
  an_kip_requirements :: "u16 list"
  an_finality_depth :: "u64 option"

text \<open>\<open>Iterator::max\<close>.\<close>

fun opt_max :: "'a::linorder list \<Rightarrow> 'a option" where
  "opt_max [] = None"
| "opt_max (x # xs) = Some (foldl max x xs)"

definition analyze_program :: "program \<Rightarrow> string \<Rightarrow> string \<Rightarrow> analyze_failure + analysis" where
  "analyze_program prog source file =
     (let ck = check_program (checker_new source file) prog
      in if ck_errors ck = []
         then Inr \<lparr>an_program = prog, an_kip_requirements = collect_kip_requirements prog,
                   an_finality_depth = opt_max (List.map_filter contract_finality_depth (program_contracts prog))\<rparr>
         else Inl \<lparr>af_error = AE_Semantic (length (ck_errors ck)), af_errors = ck_errors ck\<rparr>)"

end
