(* ===== verification/KS_Typing.thy ===== *)
theory KS_Typing
  imports KS_Checker
begin

text \<open>
  A declarative type system for expressions, and the proof that \<open>infer_expr\<close> decides it: the
  checker reports no error exactly for typable expressions, and then returns their type.
\<close>

section \<open>Collecting errors\<close>

definition add_errors :: "checker \<Rightarrow> semantic_error list \<Rightarrow> checker" where
  "add_errors ck errs = ck\<lparr>ck_errors := ck_errors ck @ errs\<rparr>"

lemma add_errors_Nil [simp]: "add_errors ck [] = ck"
  by (simp add: add_errors_def)

lemma add_errors_append [simp]: "add_errors (add_errors ck xs) ys = add_errors ck (xs @ ys)"
  by (simp add: add_errors_def)

lemma add_errors_fields [simp]:
  "ck_errors (add_errors ck errs) = ck_errors ck @ errs"
  "ck_spend_names (add_errors ck errs) = ck_spend_names ck"
  "ck_source (add_errors ck errs) = ck_source ck"
  "ck_file (add_errors ck errs) = ck_file ck"
  by (simp_all add: add_errors_def)

lemma add_errors_eq_iff [simp]: "add_errors ck xs = add_errors ck ys \<longleftrightarrow> xs = ys"
  by (metis add_errors_fields(1) same_append_eq)

lemma add_errors_self [simp]: "add_errors ck errs = ck \<longleftrightarrow> errs = []" "ck = add_errors ck errs \<longleftrightarrow> errs = []"
  using add_errors_eq_iff [of ck errs "[]"] add_errors_eq_iff [of ck "[]" errs] by auto

lemma ck_error_add: "ck_error ck s msg = add_errors ck [semantic_error_at (ck_source ck) (ck_file ck) s msg]"
  by (simp add: ck_error_def add_errors_def)

section \<open>The type system\<close>

text \<open>\<open>names\<close> are the spends of the contract, which no expression may mention.\<close>

definition transaction_field_type :: "string \<Rightarrow> type_name option" where
  "transaction_field_type f =
     (if f = ''value'' then Some T_Amount else if f = ''script'' then Some T_Bytes
      else if f = ''covenant_id'' then Some T_CovenantID else None)"

definition builtin_calls :: "string set" where
  "builtin_calls = {''input'', ''output'', ''continuation'', ''zk_verify'', ''multisig'', ''sha256'', ''blake2b'', ''hash160''}"

text \<open>The names whose fields are fixed: their accesses do not type the receiver.\<close>

definition root_field_type :: "string \<Rightarrow> string \<Rightarrow> type_name option option" where
  "root_field_type root f =
     (if root = ''block'' then Some (if f \<in> {''height'', ''time''} then Some T_BlockHeight else None)
      else if root = ''sequencing'' \<or> root = ''covenant_id'' \<and> f = ''depth'' then Some (Some T_BlockHeight)
      else None)"

inductive has_type :: "string set \<Rightarrow> scope \<Rightarrow> expr \<Rightarrow> type_name \<Rightarrow> bool" for names sc where
  ht_builtin: "ident_name i \<notin> names \<Longrightarrow> builtin_type (ident_name i) = Some ty \<Longrightarrow> has_type names sc (E_Ident i) ty"
| ht_var: "ident_name i \<notin> names \<Longrightarrow> builtin_type (ident_name i) = None \<Longrightarrow>
    scope_get sc (ident_name i) = Some ty \<Longrightarrow> has_type names sc (E_Ident i) ty"
| ht_integer: "has_type names sc (E_Integer v s) T_Amount"
| ht_string: "has_type names sc (E_String t s) T_Bytes"
| ht_bool: "has_type names sc (E_Bool b s) T_Bool"
| ht_array: "\<forall>e \<in> set es. \<exists>ty. has_type names sc e ty \<Longrightarrow> has_type names sc (E_Array es s) T_Bytes"
| ht_negate: "has_type names sc e ty \<Longrightarrow> has_type names sc (E_Unary UO_Negate e s) T_Bool"
| ht_not: "has_type names sc e T_Bool \<Longrightarrow> has_type names sc (E_Unary UO_Not e s) T_Bool"
| ht_logical: "bop \<in> {BO_And, BO_Or} \<Longrightarrow> has_type names sc l T_Bool \<Longrightarrow> has_type names sc r T_Bool \<Longrightarrow>
    has_type names sc (E_Binary l bop r s) T_Bool"
| ht_relational: "bop \<notin> {BO_And, BO_Or} \<Longrightarrow> has_type names sc l ty1 \<Longrightarrow> has_type names sc r ty2 \<Longrightarrow>
    has_type names sc (E_Binary l bop r s) (binary_type bop)"
| ht_verify: "verify_receiver callee = Some (object, field) \<Longrightarrow> has_type names sc object T_Signature \<Longrightarrow>
    has_type names sc a T_PublicKey \<Longrightarrow> has_type names sc (E_Call callee [a] s) T_Bool"
| ht_input: "callee_name callee = ''input'' \<Longrightarrow> unat v < 2 ^ 32 \<Longrightarrow>
    has_type names sc (E_Call callee [E_Integer v s'] s) T_Input"
| ht_output: "callee_name callee = ''output'' \<Longrightarrow> unat v < 2 ^ 32 \<Longrightarrow>
    has_type names sc (E_Call callee [E_Integer v s'] s) T_Output"
| ht_continuation: "callee_name callee = ''continuation'' \<Longrightarrow> is_valid_continuation_name n \<Longrightarrow>
    output_call_index b \<noteq> None \<Longrightarrow> has_type names sc (E_Call callee [E_String n s', b] s) T_Bool"
| ht_zk_verify: "callee_name callee = ''zk_verify'' \<Longrightarrow> has_type names sc a T_ZKProof \<Longrightarrow>
    has_type names sc (E_Call callee [a] s) T_Bool"
| ht_multisig: "callee_name callee = ''multisig'' \<Longrightarrow> has_type names sc keys ty1 \<Longrightarrow> has_type names sc sigs ty2 \<Longrightarrow>
    \<forall>es s'. keys = E_Array es s' \<longrightarrow> unat k \<le> length es \<Longrightarrow>
    has_type names sc (E_Call callee [E_Integer k s'', keys, sigs] s) T_Bool"
| ht_hash: "callee_name callee \<in> {''sha256'', ''blake2b'', ''hash160''} \<Longrightarrow> has_type names sc a ty \<Longrightarrow>
    has_type names sc (E_Call callee [a] s) T_Hash"
| ht_call: "verify_receiver callee = None \<Longrightarrow> callee_name callee \<notin> builtin_calls \<Longrightarrow>
    has_type names sc callee ty \<Longrightarrow> \<forall>a \<in> set as. \<exists>ty. has_type names sc a ty \<Longrightarrow>
    has_type names sc (E_Call callee as s) T_Bool"
| ht_root_field: "root_field_type (callee_name object) (ident_name f) = Some (Some ty) \<Longrightarrow>
    has_type names sc (E_Field object f s) ty"
| ht_transaction_field: "root_field_type (callee_name object) (ident_name f) = None \<Longrightarrow>
    has_type names sc object ty' \<Longrightarrow> ty' \<in> {T_Input, T_Output} \<Longrightarrow>
    transaction_field_type (ident_name f) = Some ty \<Longrightarrow> has_type names sc (E_Field object f s) ty"
| ht_other_field: "root_field_type (callee_name object) (ident_name f) = None \<Longrightarrow>
    has_type names sc object ty \<Longrightarrow> ty \<notin> {T_Input, T_Output} \<Longrightarrow> has_type names sc (E_Field object f s) ty"

inductive_simps has_type_Ident: "has_type names sc (E_Ident i) ty"
inductive_simps has_type_Integer [simp]: "has_type names sc (E_Integer v s) ty"
inductive_simps has_type_String [simp]: "has_type names sc (E_String t s) ty"
inductive_simps has_type_Bool [simp]: "has_type names sc (E_Bool b s) ty"
inductive_simps has_type_Array [simp]: "has_type names sc (E_Array es s) ty"
inductive_simps has_type_Unary: "has_type names sc (E_Unary uop e s) ty"
inductive_simps has_type_Binary: "has_type names sc (E_Binary l bop r s) ty"
inductive_simps has_type_Call: "has_type names sc (E_Call callee as s) ty"
inductive_simps has_type_Field: "has_type names sc (E_Field object f s) ty"

text \<open>A call by the kind of its callee.\<close>

lemma verify_receiver_name: "verify_receiver callee = Some x \<Longrightarrow> callee_name callee = []"
  by (auto simp: verify_receiver_def callee_name_def split: expr.splits)

lemma has_type_verify_call:
  "verify_receiver callee = Some (object, field) \<Longrightarrow>
   has_type names sc (E_Call callee as s) ty \<longleftrightarrow>
     ty = T_Bool \<and> (\<exists>a. as = [a] \<and> has_type names sc object T_Signature \<and> has_type names sc a T_PublicKey)"
  using verify_receiver_name [of callee] by (auto simp: has_type_Call)

lemma has_type_builtin_call:
  "callee_name callee = ''input'' \<Longrightarrow> has_type names sc (E_Call callee as s) ty \<longleftrightarrow>
     ty = T_Input \<and> (\<exists>v s'. as = [E_Integer v s'] \<and> unat v < 2 ^ 32)"
  "callee_name callee = ''output'' \<Longrightarrow> has_type names sc (E_Call callee as s) ty \<longleftrightarrow>
     ty = T_Output \<and> (\<exists>v s'. as = [E_Integer v s'] \<and> unat v < 2 ^ 32)"
  "callee_name callee = ''continuation'' \<Longrightarrow> has_type names sc (E_Call callee as s) ty \<longleftrightarrow>
     ty = T_Bool \<and> (\<exists>n s' b. as = [E_String n s', b] \<and> is_valid_continuation_name n \<and> output_call_index b \<noteq> None)"
  "callee_name callee = ''zk_verify'' \<Longrightarrow> has_type names sc (E_Call callee as s) ty \<longleftrightarrow>
     ty = T_Bool \<and> (\<exists>a. as = [a] \<and> has_type names sc a T_ZKProof)"
  "callee_name callee = ''multisig'' \<Longrightarrow> has_type names sc (E_Call callee as s) ty \<longleftrightarrow>
     ty = T_Bool \<and> (\<exists>k s'' keys sigs ty1 ty2. as = [E_Integer k s'', keys, sigs] \<and>
       has_type names sc keys ty1 \<and> has_type names sc sigs ty2 \<and>
       (\<forall>es s'. keys = E_Array es s' \<longrightarrow> unat k \<le> length es))"
  "callee_name callee \<in> {''sha256'', ''blake2b'', ''hash160''} \<Longrightarrow> has_type names sc (E_Call callee as s) ty \<longleftrightarrow>
     ty = T_Hash \<and> (\<exists>a ty. as = [a] \<and> has_type names sc a ty)"
  using verify_receiver_name [of callee] by (auto simp: has_type_Call builtin_calls_def)

lemma has_type_other_call:
  "verify_receiver callee = None \<Longrightarrow> callee_name callee \<notin> builtin_calls \<Longrightarrow>
   has_type names sc (E_Call callee as s) ty \<longleftrightarrow>
     ty = T_Bool \<and> (\<exists>ty. has_type names sc callee ty) \<and> (\<forall>a \<in> set as. \<exists>ty. has_type names sc a ty)"
  by (auto simp: has_type_Call builtin_calls_def)


section \<open>The checker decides typing\<close>

text \<open>
  \<open>decides T ck r\<close>: the result \<open>r\<close> of an inference started in \<open>ck\<close> appends errors, none of
  them exactly when some type satisfies \<open>T\<close>, and then it returns that type, the only one.
\<close>

definition decides :: "(type_name \<Rightarrow> bool) \<Rightarrow> checker \<Rightarrow> type_name option \<times> checker \<Rightarrow> bool" where
  "decides T ck r \<longleftrightarrow>
     (\<exists>errs. snd r = add_errors ck errs \<and> (\<forall>ty. T ty \<longleftrightarrow> errs = [] \<and> fst r = Some ty) \<and>
        (errs = [] \<longrightarrow> fst r \<noteq> None))"

definition checks :: "bool \<Rightarrow> checker \<Rightarrow> checker \<Rightarrow> bool" where
  "checks P ck ck' \<longleftrightarrow> (\<exists>errs. ck' = add_errors ck errs \<and> (P \<longleftrightarrow> errs = []))"

lemma decidesE:
  assumes "decides T ck r"
  obtains ty errs where "r = (ty, add_errors ck errs)" "\<And>t. T t \<longleftrightarrow> errs = [] \<and> ty = Some t"
    "errs = [] \<Longrightarrow> ty \<noteq> None"
  using assms unfolding decides_def by (cases r) auto

lemma decides_ex: "decides T ck (ty, add_errors ck errs) \<Longrightarrow> (\<exists>t. T t) \<longleftrightarrow> errs = []"
  by (auto simp: decides_def)

lemma decides_Some [simp]: "decides T ck (Some ty, ck) \<longleftrightarrow> (\<forall>t. T t \<longleftrightarrow> t = ty)"
  by (auto simp: decides_def)

lemma decides_fixed:
  "checks P ck ck' \<Longrightarrow> (\<And>t. T t \<longleftrightarrow> t = ty \<and> P) \<Longrightarrow> decides T ck (Some ty, ck')"
  by (auto simp: decides_def checks_def)

lemma decides_error: "(\<And>t. \<not> T t) \<Longrightarrow> decides T ck (ty, ck_error ck s msg)"
  by (auto simp: decides_def ck_error_add)

lemma checks_refl [simp]: "P \<Longrightarrow> checks P ck ck"
  unfolding checks_def by (rule exI [of _ "[]"]) simp

lemma checks_error [simp]: "\<not> P \<Longrightarrow> checks P ck (ck_error ck s msg)"
  by (auto simp: checks_def ck_error_add)

lemma checks_trans: "checks P ck ck' \<Longrightarrow> checks Q ck' ck'' \<Longrightarrow> checks (P \<and> Q) ck ck''"
  unfolding checks_def by auto

lemma checks_guard: "checks P ck ck' \<Longrightarrow> checks (P \<and> \<not> b) ck (if b then ck_error ck' s msg else ck')"
  using checks_trans [of P ck ck' "\<not> b"] by (cases b) auto

lemma checks_names: "checks P ck ck' \<Longrightarrow> ck_spend_names ck' = ck_spend_names ck"
  by (auto simp: checks_def)

lemma decides_names: "decides T ck (ty, ck') \<Longrightarrow> ck_spend_names ck' = ck_spend_names ck"
  by (auto simp: decides_def)

lemma decides_checks:
  "decides T ck (ty, ck') \<Longrightarrow> checks (\<exists>t. T t) ck ck'"
  by (auto simp: decides_def checks_def)

lemma decides_expect:
  assumes "decides T ck (ty, ck')"
  shows "checks (T t) ck (if ty \<noteq> Some t then ck_error ck' s msg else ck')"
  using assms by (auto simp: decides_def checks_def ck_error_add)

text \<open>A later inference only matters when nothing was reported before it.\<close>

lemma checks_cong: "checks P ck ck' \<Longrightarrow> P \<longleftrightarrow> Q \<Longrightarrow> checks Q ck ck'"
  by simp

lemma infer_identifier_decides:
  "decides (has_type (ck_spend_names ck) scope (E_Ident i)) ck (infer_identifier ck i scope)"
  by (auto simp: infer_identifier_def has_type_Ident intro!: decides_error split: option.splits)

lemma check_index_call_decides:
  "(\<And>t. T t \<longleftrightarrow> t = ty \<and> (\<exists>v s'. args = [E_Integer v s'] \<and> unat v < 2 ^ 32)) \<Longrightarrow>
   decides T ck (check_index_call ck args s ty)"
  unfolding check_index_call_def
  by (rule decides_fixed [where P = "\<exists>v s'. args = [E_Integer v s'] \<and> unat v < 2 ^ 32"])
     (auto split: list.splits expr.splits)

lemma valid_name_white_space:
  assumes "is_valid_continuation_name v"
  shows "trim v = v"
proof (rule trim_no_white_space)
  fix c
  assume "c \<in> set (chars v)"
  with assms have "c = ''_'' \<or> c = ''-'' \<or> (\<exists>b. c = [b] \<and> is_ascii_alphanumeric b)"
    by (cases "chars v")
       (auto simp: is_valid_continuation_name_def list_all_iff rchar_is_iff is_ascii_alphanumeric_def)
  moreover have "''_'' \<notin> set white_space" "''-'' \<notin> set white_space" by code_simp+
  moreover have "\<forall>w \<in> set white_space. length w = 1 \<longrightarrow> \<not> is_ascii_alphanumeric (hd w)" by code_simp
  ultimately show "c \<notin> set white_space" by force
qed

lemma check_continuation_checks:
  "checks (\<exists>n s' b. args = [E_String n s', b] \<and> is_valid_continuation_name n \<and> output_call_index b \<noteq> None)
     ck (check_continuation ck args s)"
proof (cases "\<exists>a b. args = [a, b]")
  case False
  then have "check_continuation ck args s =
      ck_error ck s (bt ''continuation'' @ '' requires a name and output(index)'')"
    unfolding check_continuation_def by (auto split: list.split)
  with False show ?thesis by (simp only:) (rule checks_error, blast)
next
  case True
  then obtain a b where args: "args = [a, b]" by blast
  define ck1 where "ck1 = (case a of
      E_String value sp \<Rightarrow>
        if is_valid_continuation_name value
        then (if trim value \<noteq> value
              then ck_error ck sp (bt ''continuation'' @ '' name must not have leading or trailing space'')
              else ck)
        else ck_error ck sp (bt ''continuation'' @ '' name must be a non-empty identifier label'')
    | other \<Rightarrow> ck_error ck (expr_span other) (bt ''continuation'' @ '' name must be a string literal''))"
  have "checks (\<exists>n s'. a = E_String n s' \<and> is_valid_continuation_name n) ck ck1"
    unfolding ck1_def using valid_name_white_space by (cases a) auto
  from checks_guard [OF this]
  have "checks ((\<exists>n s'. a = E_String n s' \<and> is_valid_continuation_name n) \<and> \<not> output_call_index b = None) ck
      (if output_call_index b = None
       then ck_error ck1 (expr_span b) (bt ''continuation'' @ '' second argument must be output(index)'') else ck1)" .
  moreover have "check_continuation ck args s =
      (if output_call_index b = None
       then ck_error ck1 (expr_span b) (bt ''continuation'' @ '' second argument must be output(index)'') else ck1)"
    unfolding check_continuation_def args ck1_def Let_def by simp
  ultimately show ?thesis by (simp only:) (rule checks_cong, assumption, auto simp: args)
qed

lemma check_multisig_threshold_checks:
  "checks ((\<exists>k s''. a = E_Integer k s'' \<and> (\<forall>es s'. b = E_Array es s' \<longrightarrow> unat k \<le> length es)))
     ck (check_multisig_threshold ck a b)"
  unfolding check_multisig_threshold_def by (cases a; cases b) (auto simp: Let_def)

lemma infer_transaction_field_decides:
  assumes "root_field_type (callee_name object) (ident_name f) = None"
    and "decides (has_type names scope object) ck (ty, ck')"
  shows "decides (has_type names scope (E_Field object f s)) ck (infer_transaction_field ck' ty f)"
proof (rule decidesE [OF assms(2)])
  fix ty' errs
  assume r: "(ty, ck') = (ty', add_errors ck errs)" and T: "\<And>t. has_type names scope object t \<longleftrightarrow> errs = [] \<and> ty' = Some t"
    and ne: "errs = [] \<Longrightarrow> ty' \<noteq> None"
  have "has_type names scope (E_Field object f s) t \<longleftrightarrow>
      errs = [] \<and> (if ty = Some T_Input \<or> ty = Some T_Output then transaction_field_type (ident_name f) = Some t
                   else ty = Some t)" for t
    using r ne unfolding has_type_Field assms(1) T by auto
  then show ?thesis
    using r ne by (auto simp: infer_transaction_field_def decides_def transaction_field_type_def ck_error_add)
qed

lemma infer_root_field_eq:
  "infer_root_field ck object f =
     (case root_field_type (callee_name object) (ident_name f) of
        None \<Rightarrow> None
      | Some (Some ty) \<Rightarrow> Some (Some ty, ck)
      | Some None \<Rightarrow> Some (None, ck_error ck (ident_span f)
                          (bt ''block'' @ '' only supports '' @ bt ''.height'' @ '' and '' @ bt ''.time'')))"
  by (cases object) (auto simp: infer_root_field_def root_field_type_def callee_name_def)


text \<open>An argument with an expected type, after a state that may already have errors.\<close>

lemma expect_argument:
  assumes "\<And>ck'. ck_spend_names ck' = ck_spend_names ck \<Longrightarrow>
      decides (has_type (ck_spend_names ck') scope a) ck' (infer_expr ck' a scope)"
    and "ck_spend_names ck1 = ck_spend_names ck"
  shows "checks (has_type (ck_spend_names ck) scope a t) ck1
    (let (ty, ck') = infer_expr ck1 a scope
     in if ty \<noteq> Some t then ck_error ck' (expr_span a) msg else ck')"
  using decides_expect [of "has_type (ck_spend_names ck) scope a" ck1 "fst (infer_expr ck1 a scope)"
      "snd (infer_expr ck1 a scope)" t] assms(1) [OF assms(2)] assms(2)
  by (simp add: split_beta Let_def)

lemma infer_verify_decides:
  assumes vr: "verify_receiver callee = Some (object, field)"
    and ob: "\<And>ck'. ck_spend_names ck' = ck_spend_names ck \<Longrightarrow>
      decides (has_type (ck_spend_names ck') scope object) ck' (infer_expr ck' object scope)"
    and as: "\<And>a ck'. args = [a] \<Longrightarrow> ck_spend_names ck' = ck_spend_names ck \<Longrightarrow>
      decides (has_type (ck_spend_names ck') scope a) ck' (infer_expr ck' a scope)"
  shows "decides (has_type (ck_spend_names ck) scope (E_Call callee args s)) ck (infer_call ck callee args scope)"
proof -
  define ck1 where "ck1 = (let (ty, ck') = infer_expr ck object scope
     in if ty \<noteq> Some T_Signature then ck_error ck' (expr_span object) (bt ''verify'' @ '' receiver must be Signature'') else ck')"
  have ck1: "checks (has_type (ck_spend_names ck) scope object T_Signature) ck ck1"
    unfolding ck1_def by (rule expect_argument) (use ob in auto)
  define ck2 where "ck2 = (case args of
      [a] \<Rightarrow> (let (ty, ck') = infer_expr ck1 a scope
              in if ty \<noteq> Some T_PublicKey then ck_error ck' (expr_span a) (bt ''verify'' @ '' argument must be PublicKey'') else ck')
    | _ \<Rightarrow> ck_error ck1 (ident_span field) (bt ''verify'' @ '' requires one PublicKey argument''))"
  have ck2: "checks (\<exists>a. args = [a] \<and> has_type (ck_spend_names ck) scope a T_PublicKey) ck1 ck2"
  proof (cases "\<exists>a. args = [a]")
    case True
    then obtain a where a: "args = [a]" by blast
    have "checks (has_type (ck_spend_names ck) scope a T_PublicKey) ck1 ck2"
      unfolding ck2_def a list.case
      by (rule expect_argument) (use as [OF a] checks_names [OF ck1] in auto)
    then show ?thesis by (rule checks_cong) (simp add: a)
  next
    case False
    then have "ck2 = ck_error ck1 (ident_span field) (bt ''verify'' @ '' requires one PublicKey argument'')"
      unfolding ck2_def by (auto split: list.split)
    with False show ?thesis by auto
  qed
  obtain ty ck' where r: "infer_expr ck object scope = (ty, ck')" by (cases "infer_expr ck object scope")
  have icall: "infer_call ck callee args scope = (Some T_Bool, ck2)"
    by (simp add: vr r ck1_def ck2_def Let_def split: list.split)
  show ?thesis
    unfolding icall
    by (rule decides_fixed [OF checks_trans [OF ck1 ck2]]) (auto simp: has_type_verify_call [OF vr])
qed

lemma infer_call_builtin:
  assumes "verify_receiver callee = None"
  shows "callee_name callee = ''input'' \<Longrightarrow>
      infer_call ck callee args scope = check_index_call ck args (expr_span callee) T_Input"
    and "callee_name callee = ''output'' \<Longrightarrow>
      infer_call ck callee args scope = check_index_call ck args (expr_span callee) T_Output"
    and "callee_name callee = ''continuation'' \<Longrightarrow>
      infer_call ck callee args scope = (Some T_Bool, check_continuation ck args (expr_span callee))"
    and "callee_name callee = ''zk_verify'' \<Longrightarrow> infer_call ck callee [a] scope = (Some T_Bool,
      let (ty, ck) = infer_expr ck a scope
      in if ty \<noteq> Some T_ZKProof then ck_error ck (expr_span a) (bt ''zk_verify'' @ '' argument must be ZKProof'') else ck)"
    and "callee_name callee = ''zk_verify'' \<Longrightarrow> length args \<noteq> 1 \<Longrightarrow> infer_call ck callee args scope =
      (Some T_Bool, ck_error ck (expr_span callee) (bt ''zk_verify'' @ '' requires one proof argument''))"
    and "callee_name callee = ''multisig'' \<Longrightarrow> infer_call ck callee [a, b, c] scope =
      (Some T_Bool, infer_each (check_multisig_threshold ck a b) [a, b, c] scope)"
    and "callee_name callee = ''multisig'' \<Longrightarrow> length args \<noteq> 3 \<Longrightarrow> infer_call ck callee args scope =
      (Some T_Bool, ck_error ck (expr_span callee) (bt ''multisig'' @ '' requires k, keys, and signatures''))"
    and "callee_name callee \<in> {''sha256'', ''blake2b'', ''hash160''} \<Longrightarrow>
      infer_call ck callee [a] scope = (Some T_Hash, snd (infer_expr ck a scope))"
    and "callee_name callee \<in> {''sha256'', ''blake2b'', ''hash160''} \<Longrightarrow> length args \<noteq> 1 \<Longrightarrow>
      infer_call ck callee args scope = (Some T_Hash, ck_error ck (expr_span callee) ''hash functions require one argument'')"
    and "callee_name callee \<notin> builtin_calls \<Longrightarrow>
      infer_call ck callee args scope = (Some T_Bool, infer_each (snd (infer_expr ck callee scope)) args scope)"
  by (auto simp: assms builtin_calls_def split: list.split)

lemma infer_call_decides:
  assumes vr: "verify_receiver callee = None"
    and callee: "decides (has_type (ck_spend_names ck) scope callee) ck (infer_expr ck callee scope)"
    and arg: "\<And>a ck'. args = [a] \<Longrightarrow> ck_spend_names ck' = ck_spend_names ck \<Longrightarrow>
      decides (has_type (ck_spend_names ck') scope a) ck' (infer_expr ck' a scope)"
    and each: "\<And>ck'. ck_spend_names ck' = ck_spend_names ck \<Longrightarrow>
      checks (\<forall>a \<in> set args. \<exists>ty. has_type (ck_spend_names ck') scope a ty) ck' (infer_each ck' args scope)"
  shows "decides (has_type (ck_spend_names ck) scope (E_Call callee args s)) ck (infer_call ck callee args scope)"
proof -
  let ?N = "ck_spend_names ck"
  consider "callee_name callee = ''input''" | "callee_name callee = ''output''"
    | "callee_name callee = ''continuation''" | "callee_name callee = ''zk_verify''"
    | "callee_name callee = ''multisig''" | "callee_name callee \<in> {''sha256'', ''blake2b'', ''hash160''}"
    | "callee_name callee \<notin> builtin_calls" unfolding builtin_calls_def by blast
  then show ?thesis
  proof cases
    case 1
    then show ?thesis
      unfolding infer_call_builtin(1) [OF vr 1]
      by (intro check_index_call_decides) (simp add: has_type_builtin_call)
  next
    case 2
    then show ?thesis
      unfolding infer_call_builtin(2) [OF vr 2]
      by (intro check_index_call_decides) (simp add: has_type_builtin_call)
  next
    case 3
    show ?thesis
      unfolding infer_call_builtin(3) [OF vr 3]
      by (rule decides_fixed [OF check_continuation_checks]) (simp add: has_type_builtin_call(3) [OF 3])
  next
    case 4
    show ?thesis
    proof (cases "\<exists>a. args = [a]")
      case True
      then obtain a where a: "args = [a]" by blast
      show ?thesis unfolding a infer_call_builtin(4) [OF vr 4]
        by (rule decides_fixed, rule expect_argument) (use arg [OF a] in \<open>auto simp: has_type_builtin_call(4) [OF 4]\<close>)
    next
      case False
      then have "length args \<noteq> 1" by (auto simp: length_Suc_conv)
      with False show ?thesis unfolding infer_call_builtin(5) [OF vr 4 \<open>length args \<noteq> 1\<close>]
        by (intro decides_error) (simp add: has_type_builtin_call(4) [OF 4])
    qed
  next
    case 5
    show ?thesis
    proof (cases "\<exists>a b c. args = [a, b, c]")
      case True
      then obtain a b c where abc: "args = [a, b, c]" by blast
      have th: "checks (\<exists>k s''. a = E_Integer k s'' \<and> (\<forall>es s'. b = E_Array es s' \<longrightarrow> unat k \<le> length es))
          ck (check_multisig_threshold ck a b)" by (rule check_multisig_threshold_checks)
      have "checks (\<forall>e \<in> set args. \<exists>ty. has_type ?N scope e ty) (check_multisig_threshold ck a b)
          (infer_each (check_multisig_threshold ck a b) args scope)"
        using each [OF checks_names [OF th]] checks_names [OF th] by simp
      from checks_trans [OF th this] show ?thesis
        unfolding abc infer_call_builtin(6) [OF vr 5]
        by (rule decides_fixed) (auto simp: has_type_builtin_call(5) [OF 5])
    next
      case False
      have "length args \<noteq> 3"
      proof
        assume "length args = 3"
        then have "length args = Suc (Suc (Suc 0))" by simp
        with False show False by (auto simp: length_Suc_conv)
      qed
      with False show ?thesis unfolding infer_call_builtin(7) [OF vr 5 \<open>length args \<noteq> 3\<close>]
        by (intro decides_error) (auto simp: has_type_builtin_call(5) [OF 5])
    qed
  next
    case 6
    show ?thesis
    proof (cases "\<exists>a. args = [a]")
      case True
      then obtain a where a: "args = [a]" by blast
      have "decides (has_type ?N scope a) ck (fst (infer_expr ck a scope), snd (infer_expr ck a scope))"
        using arg [OF a refl] by simp
      from decides_checks [OF this] show ?thesis unfolding a infer_call_builtin(8) [OF vr 6]
        by (rule decides_fixed) (simp add: has_type_builtin_call(6) [OF 6])
    next
      case False
      then have "length args \<noteq> 1" by (auto simp: length_Suc_conv)
      with False show ?thesis unfolding infer_call_builtin(9) [OF vr 6 \<open>length args \<noteq> 1\<close>]
        by (intro decides_error) (auto simp: has_type_builtin_call(6) [OF 6])
    qed
  next
    case 7
    have "decides (has_type ?N scope callee) ck (fst (infer_expr ck callee scope), snd (infer_expr ck callee scope))"
      using callee by simp
    from decides_checks [OF this] have c: "checks (\<exists>t. has_type ?N scope callee t) ck (snd (infer_expr ck callee scope))" .
    have "checks (\<forall>a \<in> set args. \<exists>ty. has_type ?N scope a ty) (snd (infer_expr ck callee scope))
        (infer_each (snd (infer_expr ck callee scope)) args scope)"
      using each [OF checks_names [OF c]] checks_names [OF c] by simp
    from checks_trans [OF c this] show ?thesis
      unfolding infer_call_builtin(10) [OF vr 7]
      by (rule decides_fixed) (auto simp: has_type_other_call [OF vr 7])
  qed
qed


lemma infer_each_checks:
  assumes "\<And>a ck'. a \<in> set es \<Longrightarrow> ck_spend_names ck' = ck_spend_names ck \<Longrightarrow>
      decides (has_type (ck_spend_names ck') scope a) ck' (infer_expr ck' a scope)"
  shows "checks (\<forall>a \<in> set es. \<exists>ty. has_type (ck_spend_names ck) scope a ty) ck (infer_each ck es scope)"
  using assms
proof (induction es arbitrary: ck)
  case Nil
  then show ?case by simp
next
  case (Cons a es)
  have "decides (has_type (ck_spend_names ck) scope a) ck (fst (infer_expr ck a scope), snd (infer_expr ck a scope))"
    using Cons.prems [of a ck] by simp
  from decides_checks [OF this]
  have a: "checks (\<exists>t. has_type (ck_spend_names ck) scope a t) ck (snd (infer_expr ck a scope))" .
  have "checks (\<forall>a \<in> set es. \<exists>ty. has_type (ck_spend_names ck) scope a ty) (snd (infer_expr ck a scope))
      (infer_each (snd (infer_expr ck a scope)) es scope)"
    using Cons.IH [of "snd (infer_expr ck a scope)"] Cons.prems checks_names [OF a] by simp
  from checks_trans [OF a this] show ?case by simp
qed

lemma infer_each_checks':
  assumes "ck_spend_names ck = names"
    and "\<And>a ck'. a \<in> set es \<Longrightarrow> ck_spend_names ck' = names \<Longrightarrow>
      decides (has_type names scope a) ck' (infer_expr ck' a scope)"
  shows "checks (\<forall>a \<in> set es. \<exists>ty. has_type names scope a ty) ck (infer_each ck es scope)"
  using infer_each_checks [of es ck scope] assms by simp

lemma element_size: "a \<in> set es \<Longrightarrow> size a \<le> size_list size es"
  by (rule size_list_estimation' [OF _ order_refl])

lemma infer_decides:
  "decides (has_type (ck_spend_names ck) scope e) ck (infer_expr ck e scope)"
proof (induction e arbitrary: ck rule: measure_induct_rule [of size])
  case (less e)
  let ?N = "ck_spend_names ck"
  note IH = less.IH
  have IH': "decides (has_type ?N scope a) ck' (infer_expr ck' a scope)"
    if "size a < size e" "ck_spend_names ck' = ?N" for a ck' using IH [OF that(1), of ck'] that(2) by simp
  have pair: "decides (has_type ?N scope a) ck (fst (infer_expr ck a scope), snd (infer_expr ck a scope))"
    if "size a < size e" for a using IH [OF that, of ck] by simp
  show ?case
  proof (cases e)
    case (E_Ident i)
    then show ?thesis by (simp add: infer_identifier_decides)
  next
    case (E_Array es s)
    have "checks (\<forall>a \<in> set es. \<exists>ty. has_type ?N scope a ty) ck (infer_each ck es scope)"
      by (rule infer_each_checks) (use E_Array element_size [of _ es] in \<open>auto intro!: IH' le_imp_less_Suc\<close>)
    from decides_fixed [OF this] E_Array show ?thesis by auto
  next
    case (E_Unary uop a s)
    then have a: "decides (has_type ?N scope a) ck (fst (infer_expr ck a scope), snd (infer_expr ck a scope))"
      by (intro pair) simp
    show ?thesis
    proof (cases uop)
      case UO_Not
      from decides_fixed [OF decides_expect [OF a], where ty = T_Bool] E_Unary UO_Not show ?thesis
        by (simp add: has_type_Unary split_beta Let_def)
    next
      case UO_Negate
      from decides_fixed [OF decides_checks [OF a], where ty = T_Bool] E_Unary UO_Negate show ?thesis
        by (auto simp: has_type_Unary split_beta Let_def)
    qed
  next
    case (E_Binary l bop r s)
    obtain lt ck1 where l: "infer_expr ck l scope = (lt, ck1)" by (cases "infer_expr ck l scope")
    have dl: "decides (has_type ?N scope l) ck (lt, ck1)" using pair [of l] E_Binary l by simp
    note N1 = decides_names [OF dl]
    obtain rt ck2 where r: "infer_expr ck1 r scope = (rt, ck2)" by (cases "infer_expr ck1 r scope")
    have dr: "decides (has_type ?N scope r) ck1 (rt, ck2)" using IH [of r ck1] E_Binary r N1 by simp
    have e: "infer_expr ck e scope = (Some (binary_type bop),
        if (bop = BO_And \<or> bop = BO_Or) \<and> (lt \<noteq> Some T_Bool \<or> rt \<noteq> Some T_Bool)
        then ck_error ck2 s ''logical operators require Bool operands'' else ck2)"
      by (simp add: E_Binary l r)
    show ?thesis
    proof (cases "bop \<in> {BO_And, BO_Or}")
      case True
      have "checks (has_type ?N scope l T_Bool \<and> has_type ?N scope r T_Bool) ck
          (if lt \<noteq> Some T_Bool \<or> rt \<noteq> Some T_Bool
           then ck_error ck2 s ''logical operators require Bool operands'' else ck2)"
        using dl dr by (auto simp: decides_def checks_def ck_error_add)
      from decides_fixed [OF this, where ty = T_Bool] True show ?thesis
        unfolding e by (auto simp: E_Binary has_type_Binary)
    next
      case False
      from decides_fixed [OF checks_trans [OF decides_checks [OF dl] decides_checks [OF dr]]] False show ?thesis
        unfolding e by (auto simp: E_Binary has_type_Binary)
    qed
  next
    case (E_Call callee args s)
    then have sizes: "size callee < size e" "\<And>a. a \<in> set args \<Longrightarrow> size a < size e"
      by (auto dest!: element_size)
    have "decides (has_type ?N scope (E_Call callee args s)) ck (infer_call ck callee args scope)"
    proof (cases "verify_receiver callee")
      case None
      show ?thesis
        by (rule infer_call_decides [OF None])
           (auto intro!: IH' IH sizes infer_each_checks')
    next
      case (Some x)
      obtain object field where x: "x = (object, field)" by (cases x)
      have "size object < size e"
        using verify_receiver_size [OF Some [unfolded x]] sizes(1) by simp
      then show ?thesis
        by (intro infer_verify_decides [OF Some [unfolded x]]) (use sizes in \<open>auto intro!: IH'\<close>)
    qed
    then show ?thesis by (simp only: E_Call infer_expr.simps)
  next
    case (E_Field object f s)
    show ?thesis
    proof (cases "root_field_type (callee_name object) (ident_name f)")
      case None
      have "decides (has_type ?N scope object) ck (fst (infer_expr ck object scope), snd (infer_expr ck object scope))"
        by (intro pair) (simp add: E_Field)
      from infer_transaction_field_decides [OF None this] None show ?thesis
        by (simp add: E_Field infer_root_field_eq split_beta Let_def)
    next
      case (Some r)
      then show ?thesis
        by (cases r) (auto simp: E_Field infer_root_field_eq has_type_Field intro: decides_error)
    qed
  qed simp_all
qed

lemma infer_expr_checks:
  "infer_expr ck e scope = (ty, ck') \<Longrightarrow> checks (\<exists>t. has_type (ck_spend_names ck) scope e t) ck ck'"
  using decides_checks infer_decides by metis

text \<open>Types are unique.\<close>

lemma has_type_unique: "has_type names scope e t \<Longrightarrow> has_type names scope e t' \<Longrightarrow> t = t'"
  using infer_decides [of "\<lparr>ck_source = [], ck_file = [], ck_errors = [], ck_spend_names = names\<rparr>" scope e]
  by (auto simp: decides_def)

end
