(* ===== verification/KS_LowerExpr.thy ===== *)
theory KS_LowerExpr
  imports KS_Typing KS_Instr KS_Emitter
begin

text \<open>
  Lowering of expressions to instructions (\<open>lower_expr\<close>, \<open>lower_binary\<close>, \<open>lower_call\<close>,
  \<open>lower_multisig\<close>, \<open>lower_field\<close> of \<open>compiler/ir/src/gen.rs\<close>). The buffer \<open>out\<close> is passed and
  returned; \<open>file\<close> only serves the errors.
\<close>

section \<open>Definitions\<close>

definition ir_unsupported :: "string \<Rightarrow> span \<Rightarrow> string \<Rightarrow> ir_error" where
  "ir_unsupported file s message = IE_Unsupported file 1 (span_start s + 1) message"

fun collect_path :: "expr \<Rightarrow> string list" where
  "collect_path (E_Ident ident) = [ident_name ident]"
| "collect_path (E_Field object field s) = collect_path object @ [ident_name field]"
| "collect_path _ = []"

definition is_path :: "expr \<Rightarrow> string list \<Rightarrow> bool" where
  "is_path e expected \<longleftrightarrow> collect_path e = expected"

fun binary_kind :: "binary_op \<Rightarrow> instruction_kind" where
  "binary_kind BO_Or = I_Or"
| "binary_kind BO_And = I_And"
| "binary_kind BO_Equal = I_Equal"
| "binary_kind BO_NotEqual = I_NotEqual"
| "binary_kind BO_Greater = I_GreaterThan"
| "binary_kind BO_GreaterEqual = I_GreaterThanOrEqual"
| "binary_kind BO_Less = I_LessThan"
| "binary_kind BO_LessEqual = I_LessThanOrEqual"
| "binary_kind BO_Add = I_Add"
| "binary_kind BO_Sub = I_Sub"
| "binary_kind BO_Mul = I_Mul"
| "binary_kind BO_Div = I_Div"
| "binary_kind BO_Mod = I_Mod"

definition lower_index_call :: "string \<Rightarrow> expr list \<Rightarrow> span \<Rightarrow> instruction list \<Rightarrow> ir_error + instruction list" where
  "lower_index_call file args s out =
     (case args of
        E_Integer value _ # _ \<Rightarrow>
          (case u32_try_from value of
             Some index \<Rightarrow> Inr (out @ [mk_instr s (I_Push (V_Integer (ucast index)))])
           | None \<Rightarrow> Inl (ir_unsupported file s ''index exceeds u32''))
      | _ \<Rightarrow> Inl (ir_unsupported file s ''input/output index must be an integer literal''))"

definition lower_continuation :: "string \<Rightarrow> expr list \<Rightarrow> span \<Rightarrow> instruction list \<Rightarrow> ir_error + instruction list" where
  "lower_continuation file args s out =
     (case (case args of _ # b # _ \<Rightarrow> output_call_index b | _ \<Rightarrow> None) of
        Some output_index \<Rightarrow>
          Inr (out @ [mk_instr s I_OutputCount, mk_instr s (I_Push (V_Integer (ucast output_index))),
                      mk_instr s I_GreaterThan])
      | None \<Rightarrow> Inl (ir_unsupported file s ''continuation requires output(index)''))"

definition multisig_required :: "string \<Rightarrow> expr list \<Rightarrow> span \<Rightarrow> ir_error + u32" where
  "multisig_required file args s =
     (case args of
        E_Integer value _ # _ \<Rightarrow> ok_or (u32_try_from value) (ir_unsupported file s ''multisig k exceeds u32'')
      | _ \<Rightarrow> Inl (ir_unsupported file s ''multisig k must be an integer literal''))"

text \<open>\<open>elements.len() as u32\<close> wraps.\<close>

definition multisig_key_count :: "expr list \<Rightarrow> u32" where
  "multisig_key_count args =
     (case args of _ # E_Array elements _ # _ \<Rightarrow> of_nat (length elements) | _ \<Rightarrow> 0)"

text \<open>The field of an input or output call, \<open>None\<close> when the object is something else.\<close>

definition lower_io_field :: "string \<Rightarrow> expr \<Rightarrow> string \<Rightarrow> span \<Rightarrow> (ir_error + instruction) option" where
  "lower_io_field file object field s =
     (case object of
        E_Call (E_Ident root) args _ \<Rightarrow>
          if ident_name root = ''input'' \<or> ident_name root = ''output'' then
            Some (case args of
                    E_Integer value _ # _ \<Rightarrow>
                      (case u32_try_from value of
                         None \<Rightarrow> Inl (ir_unsupported file s ''index exceeds u32'')
                       | Some index \<Rightarrow>
                           if ident_name root = ''input'' \<and> field = ''value'' then Inr (mk_instr s (I_InputValue index))
                           else if ident_name root = ''input'' \<and> field = ''script'' then Inr (mk_instr s (I_InputScript index))
                           else if ident_name root = ''output'' \<and> field = ''value'' then Inr (mk_instr s (I_OutputValue index))
                           else if ident_name root = ''output'' \<and> field = ''script'' then Inr (mk_instr s (I_OutputScript index))
                           else if field = ''covenant_id'' then Inr (mk_instr s I_CovenantId)
                           else Inl (ir_unsupported file s ''unsupported input/output field''))
                  | _ \<Rightarrow> Inl (ir_unsupported file s ''input/output index must be integer''))
          else None
      | _ \<Rightarrow> None)"

function (sequential)
  lower_expr :: "string \<Rightarrow> expr \<Rightarrow> instruction list \<Rightarrow> ir_error + instruction list"
and lower_each :: "string \<Rightarrow> expr list \<Rightarrow> instruction list \<Rightarrow> ir_error + instruction list"
and lower_binary :: "string \<Rightarrow> expr \<Rightarrow> binary_op \<Rightarrow> expr \<Rightarrow> span \<Rightarrow> instruction list \<Rightarrow> ir_error + instruction list"
and lower_call :: "string \<Rightarrow> expr \<Rightarrow> expr list \<Rightarrow> span \<Rightarrow> instruction list \<Rightarrow> ir_error + instruction list"
and lower_multisig :: "string \<Rightarrow> expr list \<Rightarrow> span \<Rightarrow> instruction list \<Rightarrow> ir_error + instruction list"
and lower_field :: "string \<Rightarrow> expr \<Rightarrow> string \<Rightarrow> span \<Rightarrow> instruction list \<Rightarrow> ir_error + instruction list"
where
  "lower_expr file (E_Ident ident) out =
     Inr (out @ [mk_instr (ident_span ident)
       (if ident_name ident = ''input_count'' then I_InputCount
        else if ident_name ident = ''output_count'' then I_OutputCount
        else I_Push (V_Symbol (ident_name ident)))])"
| "lower_expr file (E_Integer value s) out = Inr (out @ [mk_instr s (I_Push (V_Integer value))])"
| "lower_expr file (E_String value s) out = Inr (out @ [mk_instr s (I_Push (V_String value))])"
| "lower_expr file (E_Bool value s) out = Inr (out @ [mk_instr s (I_Push (V_Bool value))])"
| "lower_expr file (E_Array elements s) out = lower_each file elements out"
| "lower_expr file (E_Unary uop e s) out =
     rbind (lower_expr file e out) (\<lambda>out.
       case uop of
         UO_Not \<Rightarrow> Inr (out @ [mk_instr s I_Not])
       | UO_Negate \<Rightarrow> Inl (ir_unsupported file s ''numeric negation is not supported in V1''))"
| "lower_expr file (E_Binary left bop right s) out = lower_binary file left bop right s out"
| "lower_expr file (E_Call callee args s) out = lower_call file callee args s out"
| "lower_expr file (E_Field object field s) out = lower_field file object (ident_name field) s out"
| "lower_each file [] out = Inr out"
| "lower_each file (e # es) out = rbind (lower_expr file e out) (\<lambda>out. lower_each file es out)"
| "lower_binary file left bop right s out =
     (if bop = BO_GreaterEqual \<and> is_path left [''block'', ''height''] then
        (case right of
           E_Integer value _ \<Rightarrow> Inr (out @ [mk_instr s (I_CheckLockHeight value)])
         | _ \<Rightarrow> rbind (lower_expr file right out) (\<lambda>out. Inr (out @ [mk_instr s I_CheckLockHeightFromStack])))
      else if bop = BO_GreaterEqual \<and> is_path left [''block'', ''time''] then
        (case right of
           E_Integer value _ \<Rightarrow> Inr (out @ [mk_instr s (I_CheckLockTime value)])
         | _ \<Rightarrow> rbind (lower_expr file right out) (\<lambda>out. Inr (out @ [mk_instr s I_CheckLockTimeFromStack])))
      else
        rbind (lower_expr file left out) (\<lambda>out.
        rbind (lower_expr file right out) (\<lambda>out.
        Inr (out @ [mk_instr s (binary_kind bop)]))))"
| "lower_call file callee args s out =
     (case verify_receiver callee of
        Some (object, field) \<Rightarrow>
          rbind (lower_expr file object out) (\<lambda>out.
          rbind (case args of [] \<Rightarrow> Inr out | key # _ \<Rightarrow> lower_expr file key out) (\<lambda>out.
          Inr (out @ [mk_instr s (I_CheckSig 0)])))
      | None \<Rightarrow>
          if callee_name callee = ''input'' then lower_index_call file args s out
          else if callee_name callee = ''output'' then lower_index_call file args s out
          else if callee_name callee = ''continuation'' then lower_continuation file args s out
          else if callee_name callee = ''multisig'' then lower_multisig file args s out
          else if callee_name callee = ''zk_verify'' then
            rbind (case args of [] \<Rightarrow> Inr out | proof # _ \<Rightarrow> lower_expr file proof out) (\<lambda>out.
            Inr (out @ [mk_instr s I_ZkVerifyGroth16]))
          else if callee_name callee \<in> set [''sha256'', ''blake2b'', ''hash160''] then
            rbind (case args of [] \<Rightarrow> Inr out | value # _ \<Rightarrow> lower_expr file value out) (\<lambda>out.
            Inr (out @ [mk_instr s (if callee_name callee = ''sha256'' then I_Sha256
                                    else if callee_name callee = ''blake2b'' then I_Blake2b else I_Hash160)]))
          else
            rbind (lower_expr file callee out) (\<lambda>out. lower_each file args out))"
| "lower_multisig file args s out =
     rbind (multisig_required file args s) (\<lambda>required.
     rbind (case args of _ # _ # signatures # _ \<Rightarrow> lower_expr file signatures out | _ \<Rightarrow> Inr out) (\<lambda>out.
     rbind (case args of
              _ # keys # _ \<Rightarrow> lower_expr file keys (out @ [mk_instr s (I_Push (V_Integer (ucast required)))])
            | _ \<Rightarrow> Inr (out @ [mk_instr s (I_Push (V_Integer (ucast required)))])) (\<lambda>out.
     Inr (out @ [mk_instr s (I_CheckMultiSig required (multisig_key_count args))]))))"
| "lower_field file object field s out =
     (case lower_io_field file object field s of
        Some result \<Rightarrow> rbind result (\<lambda>i. Inr (out @ [i]))
      | None \<Rightarrow>
          if is_path object [''covenant_id''] \<and> field = ''depth''
          then Inr (out @ [mk_instr s I_CovenantDepth])
          else if is_path object [''sequencing'']
          then Inr (out @ [mk_instr s I_SequencingCommitment])
          else rbind (lower_expr file object out) (\<lambda>out.
               Inr (out @ [mk_instr s (I_Push (V_Symbol field))])))"
  by pat_completeness auto
termination
  by (relation "measure (case_sum
        (case_sum (\<lambda>(file, e, out). 2 * size e)
           (case_sum (\<lambda>(file, es, out). 2 * size_list size es)
                     (\<lambda>(file, l, bop, r, s, out). 2 * (size l + size r) + 1)))
        (case_sum (\<lambda>(file, callee, args, s, out). 2 * (size callee + size_list size args) + 1)
           (case_sum (\<lambda>(file, args, s, out). 2 * size_list size args)
                     (\<lambda>(file, object, field, s, out). 2 * size object + 1))))")
     (auto dest: verify_receiver_size)

declare lower_binary.simps [simp del] lower_call.simps [simp del] lower_multisig.simps [simp del] lower_field.simps [simp del]


section \<open>Lowering only appends\<close>

lemma appends_case_list:
  "(\<And>a as. xs = a # as \<Longrightarrow> appends (f a as)) \<Longrightarrow> appends (\<lambda>out. case xs of [] \<Rightarrow> Inr out | a # as \<Rightarrow> f a as out)"
  by (cases xs) auto

lemma appends_lower_index_call: "appends (lower_index_call file args s)"
proof (cases args)
  case (Cons a as)
  then show ?thesis
  proof (cases a)
    case (E_Integer v s')
    with Cons show ?thesis by (cases "u32_try_from v") (simp_all add: lower_index_call_def [abs_def])
  qed (simp_all add: lower_index_call_def [abs_def])
qed (simp add: lower_index_call_def [abs_def])

lemma appends_lower_continuation: "appends (lower_continuation file args s)"
  unfolding lower_continuation_def
  by (cases "case args of _ # b # _ \<Rightarrow> output_call_index b | _ \<Rightarrow> None") auto

lemma appends_then_push: "appends f \<Longrightarrow> appends (\<lambda>out. rbind (f out) (\<lambda>out. Inr (out @ c)))"
  by (intro appends_rbind appends_push)

lemma appends_push_then: "appends f \<Longrightarrow> appends (\<lambda>out. f (out @ c))"
  using appends_rbind [OF appends_push, of f c] by simp

lemma appends_eta: "appends (\<lambda>out. f out) \<Longrightarrow> appends f"
  by simp

lemma appends_if: "(b \<Longrightarrow> appends f) \<Longrightarrow> (\<not> b \<Longrightarrow> appends g) \<Longrightarrow> appends (\<lambda>out. if b then f out else g out)"
  by (cases b) auto

lemma appends_cong:
  assumes "appends f" and "\<And>out. f out = g out"
  shows "appends g"
proof -
  have "f = g" using assms(2) by (rule ext)
  with assms(1) show ?thesis by simp
qed

lemma lower_each_appends: "(\<And>e. e \<in> set es \<Longrightarrow> appends (lower_expr file e)) \<Longrightarrow> appends (lower_each file es)"
proof (induction es)
  case Nil
  show ?case by (rule appends_cong [OF appends_id(1)]) simp
next
  case (Cons e es)
  then have "appends (\<lambda>out. rbind (lower_expr file e out) (lower_each file es))"
    by (intro appends_rbind) auto
  then show ?case by (rule appends_cong) simp
qed

text \<open>A step lemma per auxiliary function, over arbitrary sub-lowerings.\<close>

lemma lower_binary_appends:
  assumes "appends (lower_expr file l)" and "appends (lower_expr file r)"
  shows "appends (lower_binary file l bop r s)"
proof (rule appends_cong [OF _ lower_binary.simps [symmetric]], intro appends_if)
  show "appends (\<lambda>out. case r of E_Integer v _ \<Rightarrow> Inr (out @ [mk_instr s (I_CheckLockHeight v)])
      | _ \<Rightarrow> rbind (lower_expr file r out) (\<lambda>out. Inr (out @ [mk_instr s I_CheckLockHeightFromStack])))"
    using assms(2) by (cases r) (auto simp del: lower_expr.simps intro: appends_then_push)
  show "appends (\<lambda>out. case r of E_Integer v _ \<Rightarrow> Inr (out @ [mk_instr s (I_CheckLockTime v)])
      | _ \<Rightarrow> rbind (lower_expr file r out) (\<lambda>out. Inr (out @ [mk_instr s I_CheckLockTimeFromStack])))"
    using assms(2) by (cases r) (auto simp del: lower_expr.simps intro: appends_then_push)
  show "appends (\<lambda>out. rbind (lower_expr file l out) (\<lambda>out. rbind (lower_expr file r out)
      (\<lambda>out. Inr (out @ [mk_instr s (binary_kind bop)]))))"
    by (intro appends_rbind [OF assms(1)] appends_then_push assms(2))
qed

lemma lower_first_appends:
  assumes "\<And>a. a \<in> set args \<Longrightarrow> appends (lower_expr file a)"
  shows "appends (\<lambda>out. rbind (case args of [] \<Rightarrow> Inr out | a # _ \<Rightarrow> lower_expr file a out) (\<lambda>out. Inr (out @ c)))"
  by (intro appends_then_push, cases args) (use assms in auto)

lemma appends_second:
  assumes "\<And>a. a \<in> set args \<Longrightarrow> appends (f a)" and "appends g"
  shows "appends (\<lambda>out. case args of _ # b # _ \<Rightarrow> f b out | _ \<Rightarrow> g out)"
proof (cases args)
  case (Cons a as)
  then show ?thesis using assms by (cases as) auto
qed (use assms in simp)

lemma appends_third:
  assumes "\<And>a. a \<in> set args \<Longrightarrow> appends (f a)"
  shows "appends (\<lambda>out. case args of _ # _ # c # _ \<Rightarrow> f c out | _ \<Rightarrow> Inr out)"
proof (cases args)
  case (Cons a as)
  then show ?thesis using appends_second [of as f "\<lambda>out. Inr out"] assms by (cases as) auto
qed simp

lemma lower_multisig_appends:
  assumes "\<And>a. a \<in> set args \<Longrightarrow> appends (lower_expr file a)"
  shows "appends (lower_multisig file args s)"
proof (cases "multisig_required file args s")
  case (Inl e)
  then show ?thesis by (intro appends_cong [OF appends_fail [of e]]) (simp add: lower_multisig.simps)
next
  case (Inr req)
  let ?push = "[mk_instr s (I_Push (V_Integer (ucast req)))]"
  have "appends (\<lambda>out. rbind (case args of _ # _ # signatures # _ \<Rightarrow> lower_expr file signatures out | _ \<Rightarrow> Inr out) (\<lambda>out.
     rbind (case args of _ # keys # _ \<Rightarrow> lower_expr file keys (out @ ?push) | _ \<Rightarrow> Inr (out @ ?push)) (\<lambda>out.
     Inr (out @ [mk_instr s (I_CheckMultiSig req (multisig_key_count args))]))))"
  proof (intro appends_rbind appends_then_push)
    show "appends (\<lambda>out. case args of _ # _ # signatures # _ \<Rightarrow> lower_expr file signatures out | _ \<Rightarrow> Inr out)"
      by (rule appends_third) (rule assms)
    show "appends (\<lambda>out. case args of _ # keys # _ \<Rightarrow> lower_expr file keys (out @ ?push) | _ \<Rightarrow> Inr (out @ ?push))"
      by (rule appends_second) (use assms in \<open>auto intro: appends_push_then\<close>)
    show "appends (\<lambda>out. Inr (out @ [mk_instr s (I_CheckMultiSig req (multisig_key_count args))]))" ..
  qed
  then show ?thesis by (rule appends_cong) (simp add: lower_multisig.simps Inr)
qed

lemma lower_field_appends:
  assumes "appends (lower_expr file object)"
  shows "appends (lower_field file object field s)"
proof (cases "lower_io_field file object field s")
  case (Some result)
  have "appends (\<lambda>out. rbind result (\<lambda>i. Inr (out @ [i])))" by (cases result) auto
  then show ?thesis by (rule appends_cong) (simp add: lower_field.simps Some)
next
  case None
  have "appends (\<lambda>out. if is_path object [''covenant_id''] \<and> field = ''depth'' then Inr (out @ [mk_instr s I_CovenantDepth])
      else if is_path object [''sequencing''] then Inr (out @ [mk_instr s I_SequencingCommitment])
      else rbind (lower_expr file object out) (\<lambda>out. Inr (out @ [mk_instr s (I_Push (V_Symbol field))])))"
    by (intro appends_if appends_push appends_then_push assms)
  then show ?thesis by (rule appends_cong) (simp add: lower_field.simps None)
qed

lemma lower_call_appends:
  assumes vr: "\<And>object field. verify_receiver callee = Some (object, field) \<Longrightarrow> appends (lower_expr file object)"
    and callee: "appends (lower_expr file callee)"
    and args: "\<And>a. a \<in> set args \<Longrightarrow> appends (lower_expr file a)"
  shows "appends (lower_call file callee args s)"
proof (cases "verify_receiver callee")
  case (Some x)
  obtain object field where x: "x = (object, field)" by (cases x)
  have "appends (\<lambda>out. rbind (lower_expr file object out) (\<lambda>out.
      rbind (case args of [] \<Rightarrow> Inr out | key # _ \<Rightarrow> lower_expr file key out) (\<lambda>out.
      Inr (out @ [mk_instr s (I_CheckSig 0)]))))"
    by (intro appends_rbind [OF vr [OF Some [unfolded x]]] lower_first_appends args)
  then show ?thesis by (rule appends_cong) (simp add: lower_call.simps Some x)
next
  case None
  show ?thesis
    unfolding lower_call.simps [abs_def] None option.case
    by (intro appends_if appends_lower_index_call appends_lower_continuation lower_multisig_appends
          lower_first_appends appends_rbind callee lower_each_appends args)
qed

lemma lower_expr_appends: "appends (lower_expr file e)"
proof (induction e rule: measure_induct_rule [of size])
  case (less e)
  show ?case
  proof (cases e)
    case (E_Array es s)
    have "appends (lower_each file es)"
      by (rule lower_each_appends, rule less) (auto simp: E_Array dest!: element_size)
    then show ?thesis by (rule appends_cong) (simp add: E_Array)
  next
    case (E_Unary uop a s)
    have a: "appends (lower_expr file a)" by (rule less) (simp add: E_Unary)
    have "appends (\<lambda>out. rbind (lower_expr file a out) (\<lambda>out. case uop of UO_Not \<Rightarrow> Inr (out @ [mk_instr s I_Not])
       | UO_Negate \<Rightarrow> Inl (ir_unsupported file s ''numeric negation is not supported in V1'')))"
      by (rule appends_rbind [OF a]) (cases uop; auto)
    then show ?thesis by (rule appends_cong) (simp add: E_Unary)
  next
    case (E_Binary l bop r s)
    have "appends (lower_binary file l bop r s)"
      by (intro lower_binary_appends less) (simp_all add: E_Binary)
    then show ?thesis by (rule appends_cong) (simp add: E_Binary)
  next
    case (E_Call callee args s)
    have "appends (lower_call file callee args s)"
      by (intro lower_call_appends less) (auto simp: E_Call dest!: verify_receiver_size element_size)
    then show ?thesis by (rule appends_cong) (simp add: E_Call)
  next
    case (E_Field object f s)
    have "appends (lower_field file object (ident_name f) s)"
      by (intro lower_field_appends less) (simp add: E_Field)
    then show ?thesis by (rule appends_cong) (simp add: E_Field)
  qed (auto simp: appends_def)
qed

lemma lower_each_emit_all: "lower_each file es = emit_all (lower_expr file) es"
proof (induction es)
  case Nil
  show ?case by (rule ext) simp
next
  case (Cons e es)
  show ?case by (rule ext) (simp add: Cons)
qed

interpretation lowering: emitter "lower_expr f" for f
  by unfold_locales (rule lower_expr_appends)

end
