(* ===== verification/KS_Shape.thy ===== *)
theory KS_Shape
  imports KS_Typing
begin

text \<open>
  The passes of the checker over \<open>require\<close> expressions (exact transaction counts, index
  references, continuation names) against declarative descriptions of what they collect.
\<close>

section \<open>Parts of expressions\<close>

fun conjuncts :: "expr \<Rightarrow> expr list" where
  "conjuncts (E_Binary l BO_And r s) = conjuncts l @ conjuncts r"
| "conjuncts e = [e]"

fun subexprs :: "expr \<Rightarrow> expr list" where
  "subexprs (E_Array es s) = E_Array es s # concat (map subexprs es)"
| "subexprs (E_Unary uop e s) = E_Unary uop e s # subexprs e"
| "subexprs (E_Binary l bop r s) = E_Binary l bop r s # subexprs l @ subexprs r"
| "subexprs (E_Call c as s) = E_Call c as s # subexprs c @ concat (map subexprs as)"
| "subexprs (E_Field ob f s) = E_Field ob f s # subexprs ob"
| "subexprs e = [e]"

definition index_reference :: "expr \<Rightarrow> (count_subject \<times> u64 \<times> span) option" where
  "index_reference e =
     (case e of
        E_Call callee (E_Integer v s # _) _ \<Rightarrow>
          if callee_name callee = ''input'' then Some (CS_Input, v, s)
          else if callee_name callee = ''output'' then Some (CS_Output, v, s) else None
      | _ \<Rightarrow> None)"

section \<open>The passes as folds\<close>

text \<open>A pass over the nodes of an expression, in the order the checker visits them.\<close>

definition note_exact :: "shape_facts \<Rightarrow> expr \<Rightarrow> shape_facts" where
  "note_exact facts c =
     (case exact_count_constraint c of
        None \<Rightarrow> facts
      | Some (subject, v, s) \<Rightarrow>
          if cf_exact (facts_of subject facts) = None
          then update_facts subject (\<lambda>f. f\<lparr>cf_exact := Some (v, s)\<rparr>) facts else facts)"

definition note_reference :: "shape_facts \<Rightarrow> expr \<Rightarrow> shape_facts" where
  "note_reference facts e =
     (case index_reference e of
        None \<Rightarrow> facts
      | Some (subject, v, s) \<Rightarrow>
          (case cf_max_index (facts_of subject facts) of
             Some (current, _) \<Rightarrow>
               if current \<ge> v then facts else update_facts subject (\<lambda>f. f\<lparr>cf_max_index := Some (v, s)\<rparr>) facts
           | None \<Rightarrow> update_facts subject (\<lambda>f. f\<lparr>cf_max_index := Some (v, s)\<rparr>) facts))"

lemma foldl_snoc_concat: "foldl f a (concat (map g xs)) = foldl (\<lambda>a x. foldl f a (g x)) a xs"
  by (induction xs arbitrary: a) auto

lemma note_reference_call: "note_reference facts (E_Call callee args s) = record_index_reference callee args facts"
  by (cases args; cases "hd args")
     (auto simp: note_reference_def record_index_reference_def index_reference_def Let_def split: option.splits)

lemma note_reference_other [simp]:
  "index_reference e = None \<Longrightarrow> note_reference facts e = facts"
  by (simp add: note_reference_def)

lemma index_reference_simps [simp]:
  "index_reference (E_Ident i) = None" "index_reference (E_Integer v s) = None"
  "index_reference (E_String t s) = None" "index_reference (E_Bool b s) = None"
  "index_reference (E_Array es s) = None" "index_reference (E_Unary uop e s) = None"
  "index_reference (E_Binary l bop r s) = None" "index_reference (E_Field ob f s) = None"
  by (simp_all add: index_reference_def)

lemma collect_index_references_fold:
  "collect_index_references e facts = foldl note_reference facts (subexprs e)"
  "collect_index_references_each es facts = foldl note_reference facts (concat (map subexprs es))"
  by (induction e facts and es facts rule: collect_index_references_collect_index_references_each.induct)
     (simp_all add: note_reference_call)

definition note_name :: "checker \<times> string set \<Rightarrow> expr \<Rightarrow> checker \<times> string set" where
  "note_name st e = record_continuation_name e st"

lemma continuation_name_simps [simp]:
  "continuation_name (E_Ident i) = None" "continuation_name (E_Integer v s) = None"
  "continuation_name (E_String t s) = None" "continuation_name (E_Bool b s) = None"
  "continuation_name (E_Array es s) = None" "continuation_name (E_Unary uop e s) = None"
  "continuation_name (E_Binary l bop r s) = None" "continuation_name (E_Field ob f s) = None"
  by (simp_all add: continuation_name_def)

lemma note_name_other [simp]: "continuation_name e = None \<Longrightarrow> note_name st e = st"
  by (simp add: note_name_def record_continuation_name_def)

lemma collect_continuation_names_fold:
  "collect_continuation_names e st = foldl note_name st (subexprs e)"
  "collect_continuation_names_each es st = foldl note_name st (concat (map subexprs es))"
  by (induction e st and es st rule: collect_continuation_names_collect_continuation_names_each.induct)
     (simp_all add: note_name_def [symmetric])

lemma collect_exact_counts_fold: "collect_exact_counts e st = foldl record_exact_count st (conjuncts e)"
  by (induction e st rule: collect_exact_counts.induct) simp_all

section \<open>Exact counts\<close>

lemma facts_of_update [simp]:
  "facts_of s (update_facts s' f facts) = (if s = s' then f (facts_of s facts) else facts_of s facts)"
  by (cases s; cases s') auto

lemma note_exact_facts:
  "cf_max_index (facts_of s (note_exact facts c)) = cf_max_index (facts_of s facts)"
  "cf_exact (facts_of s facts) = Some x \<Longrightarrow> cf_exact (facts_of s (note_exact facts c)) = Some x"
  by (auto simp: note_exact_def split: option.splits)

lemma note_exact_keeps:
  "cf_max_index (facts_of s (foldl note_exact facts cs)) = cf_max_index (facts_of s facts)"
  "cf_exact (facts_of s facts) = Some x \<Longrightarrow> cf_exact (facts_of s (foldl note_exact facts cs)) = Some x"
  by (induction cs arbitrary: facts) (simp_all add: note_exact_facts)

text \<open>A constraint agrees with the facts when its value is the recorded one and fits 32 bits.\<close>

definition agrees :: "shape_facts \<Rightarrow> expr \<Rightarrow> bool" where
  "agrees facts c \<longleftrightarrow>
     (\<forall>s v sp. exact_count_constraint c = Some (s, v, sp) \<longrightarrow>
        unat v < 2 ^ 32 \<and> (\<exists>sp'. cf_exact (facts_of s facts) = Some (v, sp')))"

lemma record_exact_count_step:
  "\<exists>errs. record_exact_count (ck, facts) c = (add_errors ck errs, note_exact facts c) \<and>
     (errs = [] \<longleftrightarrow> agrees (note_exact facts c) c)"
proof (cases "exact_count_constraint c")
  case None
  then show ?thesis by (intro exI [of _ "[]"]) (simp add: record_exact_count_def note_exact_def agrees_def)
next
  case (Some x)
  obtain s v sp where x: "x = (s, v, sp)" by (cases x)
  show ?thesis
    using Some x
    by (cases "cf_exact (facts_of s facts)"; cases "unat v < 2 ^ 32")
       (auto simp: record_exact_count_def note_exact_def agrees_def ck_error_add Let_def
          intro: exI [of _ "[]"])
qed

lemma agrees_mono: "agrees facts c \<Longrightarrow> agrees (foldl note_exact facts cs) c"
  unfolding agrees_def using note_exact_keeps(2) by fast

lemma agrees_mono_iff: "agrees (note_exact facts c) c \<longleftrightarrow> agrees (foldl note_exact (note_exact facts c) cs) c"
proof
  assume *: "agrees (foldl note_exact (note_exact facts c) cs) c"
  show "agrees (note_exact facts c) c"
    unfolding agrees_def
  proof (intro allI impI)
    fix s v sp
    assume c: "exact_count_constraint c = Some (s, v, sp)"
    obtain y where y: "cf_exact (facts_of s (note_exact facts c)) = Some y"
      by (cases "cf_exact (facts_of s facts)") (auto simp: note_exact_def c)
    from * c note_exact_keeps(2) [OF y] y
    show "unat v < 2 ^ 32 \<and> (\<exists>sp'. cf_exact (facts_of s (note_exact facts c)) = Some (v, sp'))"
      unfolding agrees_def by fastforce
  qed
qed (rule agrees_mono)

lemma record_exact_counts_fold:
  "\<exists>errs. foldl record_exact_count (ck, facts) cs = (add_errors ck errs, foldl note_exact facts cs) \<and>
     (errs = [] \<longleftrightarrow> (\<forall>c \<in> set cs. agrees (foldl note_exact facts cs) c))"
proof (induction cs arbitrary: ck facts)
  case Nil
  show ?case by (intro exI [of _ "[]"]) simp
next
  case (Cons c cs)
  obtain e1 where e1: "record_exact_count (ck, facts) c = (add_errors ck e1, note_exact facts c)"
    "e1 = [] \<longleftrightarrow> agrees (note_exact facts c) c" using record_exact_count_step by blast
  obtain e2 where e2: "foldl record_exact_count (add_errors ck e1, note_exact facts c) cs =
      (add_errors (add_errors ck e1) e2, foldl note_exact (note_exact facts c) cs)"
    "e2 = [] \<longleftrightarrow> (\<forall>c' \<in> set cs. agrees (foldl note_exact (note_exact facts c) cs) c')"
    using Cons.IH by blast
  from e1 e2 agrees_mono_iff [of facts c cs] show ?case
    by (intro exI [of _ "e1 @ e2"]) auto
qed

section \<open>Index references\<close>

lemma note_reference_keeps: "cf_exact (facts_of s (foldl note_reference facts es)) = cf_exact (facts_of s facts)"
proof (induction es arbitrary: facts)
  case Nil
  then show ?case by simp
next
  case (Cons e es)
  have "cf_exact (facts_of s (note_reference facts e)) = cf_exact (facts_of s facts)"
    by (auto simp: note_reference_def split: option.splits)
  with Cons show ?case by simp
qed

text \<open>\<open>bounds_max m V\<close>: \<open>m\<close> is the greatest element of \<open>V\<close>, none if \<open>V\<close> is empty.\<close>

definition bounds_max :: "(u64 \<times> span) option \<Rightarrow> u64 set \<Rightarrow> bool" where
  "bounds_max m V \<longleftrightarrow> (case m of None \<Rightarrow> V = {} | Some (v, _) \<Rightarrow> v \<in> V \<and> (\<forall>w \<in> V. w \<le> v))"

definition references :: "count_subject \<Rightarrow> expr list \<Rightarrow> u64 set" where
  "references s es = {v. \<exists>e sp. e \<in> set es \<and> index_reference e = Some (s, v, sp)}"

lemma references_simps [simp]:
  "references s [] = {}"
  "references s (e # es) = (case index_reference e of Some (s', v, _) \<Rightarrow> if s' = s then {v} else {} | None \<Rightarrow> {}) \<union> references s es"
  "references s (xs @ ys) = references s xs \<union> references s ys"
  by (auto simp: references_def split: option.splits)

lemma note_reference_max:
  assumes "\<And>s. bounds_max (cf_max_index (facts_of s facts)) (V s)"
  shows "bounds_max (cf_max_index (facts_of s (foldl note_reference facts es))) (V s \<union> references s es)"
  using assms
proof (induction es arbitrary: facts V)
  case Nil
  then show ?case by simp
next
  case (Cons e es)
  have "bounds_max (cf_max_index (facts_of s (note_reference facts e))) (V s \<union> references s [e])" for s
    using Cons.prems [of s]
    by (auto simp: note_reference_def bounds_max_def split: option.splits if_splits)
  from Cons.IH [OF this] show ?case by (simp add: Un_assoc)
qed

end
