(* ===== verification/KS_Wf.thy ===== *)
theory KS_Wf
  imports KS_Shape
begin

text \<open>
  Well-formed programs, stated without the checker's state, and the proof that
  \<open>analyze_program\<close> accepts exactly these.
\<close>

section \<open>Well-formed programs\<close>

text \<open>Statements in order: \<open>locals\<close> are the names bound in the spend so far.\<close>

inductive wf_body :: "string set \<Rightarrow> scope \<Rightarrow> string set \<Rightarrow> stmt list \<Rightarrow> bool" for names where
  wf_nil: "wf_body names sc locals []"
| wf_let: "has_type names sc e ty \<Longrightarrow> ident_name x \<notin> locals \<Longrightarrow> \<not> scope_contains sc (ident_name x) \<Longrightarrow>
    wf_body names (snd (scope_insert sc (ident_name x) ty)) (insert (ident_name x) locals) rest \<Longrightarrow>
    wf_body names sc locals (S_Let x e s # rest)"
| wf_require: "has_type names sc e T_Bool \<Longrightarrow> wf_body names sc locals rest \<Longrightarrow>
    wf_body names sc locals (S_Require e s # rest)"
| wf_return: "has_type names sc e ty \<Longrightarrow> wf_body names sc locals rest \<Longrightarrow>
    wf_body names sc locals (S_Return e s # rest)"

inductive_simps wf_body_Nil [simp]: "wf_body names sc locals []"
inductive_simps wf_body_Let: "wf_body names sc locals (S_Let x e s # rest)"
inductive_simps wf_body_Require: "wf_body names sc locals (S_Require e s # rest)"
inductive_simps wf_body_Return: "wf_body names sc locals (S_Return e s # rest)"

fun requires :: "stmt list \<Rightarrow> expr list" where
  "requires [] = []"
| "requires (S_Require e s # rest) = e # requires rest"
| "requires (_ # rest) = requires rest"

text \<open>What the requires of a spend say about the transaction.\<close>

definition exact_counts :: "count_subject \<Rightarrow> expr list \<Rightarrow> u64 set" where
  "exact_counts s rs = {v. \<exists>e c sp. e \<in> set rs \<and> c \<in> set (conjuncts e) \<and> exact_count_constraint c = Some (s, v, sp)}"

definition referenced_indices :: "count_subject \<Rightarrow> expr list \<Rightarrow> u64 set" where
  "referenced_indices s rs = references s (concat (map subexprs rs))"

definition continuation_labels :: "expr list \<Rightarrow> string list" where
  "continuation_labels rs = map fst (List.map_filter continuation_name (concat (map subexprs rs)))"

text \<open>Exact counts fit 32 bits, do not conflict, and exceed every referenced index.\<close>

definition consistent_shape :: "expr list \<Rightarrow> bool" where
  "consistent_shape rs \<longleftrightarrow>
     (\<forall>s. \<forall>v \<in> exact_counts s rs. unat v < 2 ^ 32 \<and> (\<forall>w \<in> exact_counts s rs. w = v) \<and>
        (\<forall>i \<in> referenced_indices s rs. i < v))"

definition insert_params :: "scope \<Rightarrow> param list \<Rightarrow> scope" where
  "insert_params sc ps = foldl (\<lambda>sc p. snd (scope_insert sc (ident_name (param_name p)) (param_ty p))) sc ps"

abbreviation param_names :: "param list \<Rightarrow> string list" where
  "param_names ps \<equiv> map (\<lambda>p. ident_name (param_name p)) ps"

abbreviation spend_names :: "contract \<Rightarrow> string list" where
  "spend_names c \<equiv> map (\<lambda>sp. ident_name (spend_name sp)) (contract_spends c)"

definition wf_spend :: "contract \<Rightarrow> scope \<Rightarrow> spend \<Rightarrow> bool" where
  "wf_spend c sc sp \<longleftrightarrow>
     distinct (param_names (spend_params sp)) \<and>
     (\<forall>n \<in> set (param_names (spend_params sp)). \<not> scope_contains sc n) \<and>
     wf_body (set (spend_names c)) (insert_params sc (spend_params sp)) (set (param_names (spend_params sp))) (spend_body sp) \<and>
     requires (spend_body sp) \<noteq> [] \<and>
     (spend_uses_name sp ''covenant_id'' \<longrightarrow> (\<exists>d. contract_finality_depth c = Some d \<and> d \<noteq> 0)) \<and>
     consistent_shape (requires (spend_body sp)) \<and>
     distinct (continuation_labels (requires (spend_body sp)))"

definition wf_contract :: "contract \<Rightarrow> bool" where
  "wf_contract c \<longleftrightarrow>
     contract_finality_depth c \<noteq> Some 0 \<and>
     distinct (param_names (contract_params c)) \<and>
     distinct (spend_names c) \<and>
     (\<forall>sp \<in> set (contract_spends c). wf_spend c (insert_params scope_new (contract_params c)) sp)"

definition wf_program :: "program \<Rightarrow> bool" where
  "wf_program prog \<longleftrightarrow>
     distinct (map (\<lambda>c. ident_name (contract_name c)) (program_contracts prog)) \<and>
     (\<forall>c \<in> set (program_contracts prog). wf_contract c)"

section \<open>Statements\<close>

text \<open>The facts a list of requires leaves, whatever errors it reports.\<close>

definition note_require :: "shape_facts \<Rightarrow> expr \<Rightarrow> shape_facts" where
  "note_require facts e = foldl note_reference (foldl note_exact facts (conjuncts e)) (subexprs e)"

lemma collect_shape_facts_step:
  "\<exists>errs. collect_shape_facts ck e facts = (add_errors ck errs, note_require facts e) \<and>
     (errs = [] \<longleftrightarrow> (\<forall>c \<in> set (conjuncts e). agrees (note_require facts e) c))"
proof -
  obtain errs where errs: "foldl record_exact_count (ck, facts) (conjuncts e) =
      (add_errors ck errs, foldl note_exact facts (conjuncts e))"
    "errs = [] \<longleftrightarrow> (\<forall>c \<in> set (conjuncts e). agrees (foldl note_exact facts (conjuncts e)) c)"
    using record_exact_counts_fold by blast
  have "agrees (note_require facts e) c \<longleftrightarrow> agrees (foldl note_exact facts (conjuncts e)) c" for c
    by (simp add: agrees_def note_require_def note_reference_keeps)
  with errs show ?thesis
    by (auto simp: collect_shape_facts_def collect_exact_counts_fold collect_index_references_fold note_require_def)
qed

lemma note_require_keeps:
  "cf_exact (facts_of s facts) = Some x \<Longrightarrow> cf_exact (facts_of s (foldl note_require facts rs)) = Some x"
proof (induction rs arbitrary: facts)
  case Nil
  then show ?case by simp
next
  case (Cons e rs)
  then show ?case by (simp add: note_require_def note_reference_keeps note_exact_keeps(2))
qed

lemma agrees_later:
  assumes "\<And>s v sp. exact_count_constraint c = Some (s, v, sp) \<Longrightarrow> cf_exact (facts_of s facts) \<noteq> None"
  shows "agrees (foldl note_require facts rs) c \<longleftrightarrow> agrees facts c"
proof
  assume *: "agrees (foldl note_require facts rs) c"
  show "agrees facts c"
    unfolding agrees_def
  proof (intro allI impI)
    fix s v sp
    assume c: "exact_count_constraint c = Some (s, v, sp)"
    from assms [OF c] obtain y where y: "cf_exact (facts_of s facts) = Some y" by blast
    from * c note_require_keeps [OF y] y
    show "unat v < 2 ^ 32 \<and> (\<exists>sp'. cf_exact (facts_of s facts) = Some (v, sp'))"
      unfolding agrees_def by fastforce
  qed
next
  assume "agrees facts c"
  then show "agrees (foldl note_require facts rs) c"
    unfolding agrees_def using note_require_keeps by fast
qed

lemma note_exact_sets:
  "c \<in> set cs \<Longrightarrow> exact_count_constraint c = Some (s, v, sp) \<Longrightarrow> cf_exact (facts_of s (foldl note_exact facts cs)) \<noteq> None"
proof (induction cs arbitrary: facts)
  case Nil
  then show ?case by simp
next
  case (Cons d cs)
  show ?case
  proof (cases "c = d")
    case True
    have "cf_exact (facts_of s (note_exact facts c)) \<noteq> None"
      using Cons.prems(2) by (auto simp: note_exact_def)
    then obtain y where "cf_exact (facts_of s (note_exact facts c)) = Some y" by blast
    from note_exact_keeps(2) [OF this, of cs] True show ?thesis by simp
  next
    case False
    with Cons show ?thesis by simp
  qed
qed

lemma note_require_sets:
  "c \<in> set (conjuncts e) \<Longrightarrow> exact_count_constraint c = Some (s, v, sp) \<Longrightarrow> cf_exact (facts_of s (note_require facts e)) \<noteq> None"
  using note_exact_sets [of c "conjuncts e" s v sp facts] by (simp add: note_require_def note_reference_keeps)

section \<open>Continuation names\<close>

definition labels_of :: "expr list \<Rightarrow> string list" where
  "labels_of es = map fst (List.map_filter continuation_name es)"

lemma labels_of_simps [simp]:
  "labels_of [] = []"
  "labels_of (e # es) = (case continuation_name e of Some (n, _) \<Rightarrow> [n] | None \<Rightarrow> []) @ labels_of es"
  "labels_of (xs @ ys) = labels_of xs @ labels_of ys"
  by (auto simp: labels_of_def List.map_filter_def split: option.splits)

lemma note_names_fold:
  "\<exists>errs. foldl note_name (ck, names) es = (add_errors ck errs, names \<union> set (labels_of es)) \<and>
     (errs = [] \<longleftrightarrow> distinct (labels_of es) \<and> names \<inter> set (labels_of es) = {})"
proof (induction es arbitrary: ck names)
  case Nil
  show ?case by (intro exI [of _ "[]"]) simp
next
  case (Cons e es)
  show ?case
  proof (cases "continuation_name e")
    case None
    with Cons.IH [of ck names] show ?thesis by simp
  next
    case (Some x)
    obtain n s where x: "x = (n, s)" by (cases x)
    obtain e1 where e1: "note_name (ck, names) e = (add_errors ck e1, insert n names)" "e1 = [] \<longleftrightarrow> n \<notin> names"
      using Some x by (cases "n \<in> names") (auto simp: note_name_def record_continuation_name_def ck_error_add intro: exI [of _ "[]"])
    obtain e2 where e2: "foldl note_name (add_errors ck e1, insert n names) es =
        (add_errors (add_errors ck e1) e2, insert n names \<union> set (labels_of es))"
      "e2 = [] \<longleftrightarrow> distinct (labels_of es) \<and> insert n names \<inter> set (labels_of es) = {}"
      using Cons.IH by blast
    from e1 e2 Some x show ?thesis by (intro exI [of _ "e1 @ e2"]) auto
  qed
qed


section \<open>A spend body\<close>

text \<open>What the requires of a body add, relative to the facts and names already collected.\<close>

definition body_ok :: "shape_facts \<Rightarrow> string set \<Rightarrow> stmt list \<Rightarrow> bool" where
  "body_ok facts names body \<longleftrightarrow>
     (\<forall>e \<in> set (requires body). \<forall>c \<in> set (conjuncts e). agrees (foldl note_require facts (requires body)) c) \<and>
     distinct (continuation_labels (requires body)) \<and>
     names \<inter> set (continuation_labels (requires body)) = {}"

lemma continuation_labels_Cons: "continuation_labels (e # rs) = labels_of (subexprs e) @ continuation_labels rs"
  by (simp add: continuation_labels_def labels_of_def [symmetric])

lemma body_ok_require:
  "body_ok facts names (S_Require e s # rest) \<longleftrightarrow>
     (\<forall>c \<in> set (conjuncts e). agrees (note_require facts e) c) \<and>
     distinct (labels_of (subexprs e)) \<and> names \<inter> set (labels_of (subexprs e)) = {} \<and>
     body_ok (note_require facts e) (names \<union> set (labels_of (subexprs e))) rest"
proof -
  have "agrees (foldl note_require (note_require facts e) (requires rest)) c \<longleftrightarrow> agrees (note_require facts e) c"
    if "c \<in> set (conjuncts e)" for c
    by (rule agrees_later) (rule note_require_sets [OF that])
  then show ?thesis
    by (auto simp: body_ok_def continuation_labels_Cons)
qed

lemma body_ok_other:
  "body_ok facts names []" "body_ok facts names (S_Let x e s # rest) \<longleftrightarrow> body_ok facts names rest"
  "body_ok facts names (S_Return e s # rest) \<longleftrightarrow> body_ok facts names rest"
  by (simp_all add: body_ok_def continuation_labels_def)

lemma scope_get_contains: "scope_contains sc n \<longleftrightarrow> scope_get sc n \<noteq> None"
  by (simp add: scope_contains_def scope_get_def)

lemma check_let_step:
  fixes st x e s
  defines "st' \<equiv> check_stmt st (S_Let x e s)"
  shows "\<exists>errs. ss_ck st' = add_errors (ss_ck st) errs \<and>
     ss_local_names st' = insert (ident_name x) (ss_local_names st) \<and>
     ss_shape_facts st' = ss_shape_facts st \<and> ss_continuation_names st' = ss_continuation_names st \<and>
     ss_has_require st' = ss_has_require st \<and>
     (errs = [] \<longleftrightarrow> (\<exists>ty. has_type (ck_spend_names (ss_ck st)) (ss_scope st) e ty) \<and>
        ident_name x \<notin> ss_local_names st \<and> \<not> scope_contains (ss_scope st) (ident_name x)) \<and>
     (\<forall>ty. errs = [] \<longrightarrow> has_type (ck_spend_names (ss_ck st)) (ss_scope st) e ty \<longrightarrow>
        ss_scope st' = snd (scope_insert (ss_scope st) (ident_name x) ty))"
proof -
  obtain ty errs where r: "infer_expr (ss_ck st) e (ss_scope st) = (ty, add_errors (ss_ck st) errs)"
    "\<And>t. has_type (ck_spend_names (ss_ck st)) (ss_scope st) e t \<longleftrightarrow> errs = [] \<and> ty = Some t"
    "errs = [] \<Longrightarrow> ty \<noteq> None"
    using decidesE [OF infer_decides] by metis
  show ?thesis
    unfolding st'_def
    by (cases ty) (auto simp: r ck_error_add Let_def scope_get_contains)
qed

lemma check_require_step:
  fixes st e s
  defines "st' \<equiv> check_stmt st (S_Require e s)"
  shows "\<exists>errs. ss_ck st' = add_errors (ss_ck st) errs \<and> ss_scope st' = ss_scope st \<and>
     ss_local_names st' = ss_local_names st \<and>
     ss_shape_facts st' = note_require (ss_shape_facts st) e \<and>
     ss_continuation_names st' = ss_continuation_names st \<union> set (labels_of (subexprs e)) \<and>
     ss_has_require st' \<and>
     (errs = [] \<longleftrightarrow> has_type (ck_spend_names (ss_ck st)) (ss_scope st) e T_Bool \<and>
        (\<forall>c \<in> set (conjuncts e). agrees (note_require (ss_shape_facts st) e) c) \<and>
        distinct (labels_of (subexprs e)) \<and> ss_continuation_names st \<inter> set (labels_of (subexprs e)) = {})"
proof -
  obtain ty errs where r: "infer_expr (ss_ck st) e (ss_scope st) = (ty, add_errors (ss_ck st) errs)"
    "\<And>t. has_type (ck_spend_names (ss_ck st)) (ss_scope st) e t \<longleftrightarrow> errs = [] \<and> ty = Some t"
    using decidesE [OF infer_decides] by metis
  obtain e1 where e1: "(if ty \<noteq> Some T_Bool
      then ck_error (add_errors (ss_ck st) errs) (expr_span e) (bt ''require'' @ '' expression must be Bool'')
      else add_errors (ss_ck st) errs) = add_errors (ss_ck st) e1"
    "e1 = [] \<longleftrightarrow> has_type (ck_spend_names (ss_ck st)) (ss_scope st) e T_Bool"
    using decides_expect [of _ _ ty "add_errors (ss_ck st) errs" T_Bool] infer_decides [of "ss_ck st" "ss_scope st" e]
    unfolding checks_def r(1) by blast
  obtain e2 where e2: "collect_shape_facts (add_errors (ss_ck st) e1) e (ss_shape_facts st) =
      (add_errors (add_errors (ss_ck st) e1) e2, note_require (ss_shape_facts st) e)"
    "e2 = [] \<longleftrightarrow> (\<forall>c \<in> set (conjuncts e). agrees (note_require (ss_shape_facts st) e) c)"
    using collect_shape_facts_step by blast
  obtain e3 where e3: "collect_continuation_names e
        (add_errors (add_errors (ss_ck st) e1) e2, ss_continuation_names st) =
      (add_errors (add_errors (add_errors (ss_ck st) e1) e2) e3, ss_continuation_names st \<union> set (labels_of (subexprs e)))"
    "e3 = [] \<longleftrightarrow> distinct (labels_of (subexprs e)) \<and> ss_continuation_names st \<inter> set (labels_of (subexprs e)) = {}"
    unfolding collect_continuation_names_fold using note_names_fold by blast
  have "st' = st\<lparr>ss_ck := add_errors (ss_ck st) (e1 @ e2 @ e3), ss_shape_facts := note_require (ss_shape_facts st) e,
      ss_continuation_names := ss_continuation_names st \<union> set (labels_of (subexprs e)), ss_has_require := True\<rparr>"
    unfolding st'_def check_stmt.simps r(1) prod.case Let_def e1(1) e2(1) e3(1) by simp
  with e1(2) e2(2) e3(2) show ?thesis by (intro exI [of _ "e1 @ e2 @ e3"]) auto
qed

lemma check_return_step:
  fixes st e s
  defines "st' \<equiv> check_stmt st (S_Return e s)"
  shows "\<exists>errs. st' = st\<lparr>ss_ck := add_errors (ss_ck st) errs\<rparr> \<and>
     (errs = [] \<longleftrightarrow> (\<exists>ty. has_type (ck_spend_names (ss_ck st)) (ss_scope st) e ty))"
proof -
  obtain ty errs where r: "infer_expr (ss_ck st) e (ss_scope st) = (ty, add_errors (ss_ck st) errs)"
    "\<And>t. has_type (ck_spend_names (ss_ck st)) (ss_scope st) e t \<longleftrightarrow> errs = [] \<and> ty = Some t"
    "errs = [] \<Longrightarrow> ty \<noteq> None"
    using decidesE [OF infer_decides] by metis
  then show ?thesis unfolding st'_def by (auto intro!: exI [of _ errs])
qed

text \<open>The whole body: what it collects, and when it is silent.\<close>

lemma check_stmts:
  fixes st body
  defines "st' \<equiv> foldl check_stmt st body"
  shows "\<exists>errs. ss_ck st' = add_errors (ss_ck st) errs \<and>
     ss_shape_facts st' = foldl note_require (ss_shape_facts st) (requires body) \<and>
     (ss_has_require st' \<longleftrightarrow> ss_has_require st \<or> requires body \<noteq> []) \<and>
     (errs = [] \<longleftrightarrow>
        wf_body (ck_spend_names (ss_ck st)) (ss_scope st) (ss_local_names st) body \<and>
        body_ok (ss_shape_facts st) (ss_continuation_names st) body)"
  unfolding st'_def
proof (induction body arbitrary: st)
  case Nil
  show ?case by (intro exI [of _ "[]"]) (simp add: body_ok_other)
next
  case (Cons x body)
  let ?st1 = "check_stmt st x"
  obtain e2 where e2: "ss_ck (foldl check_stmt ?st1 body) = add_errors (ss_ck ?st1) e2"
    "ss_shape_facts (foldl check_stmt ?st1 body) = foldl note_require (ss_shape_facts ?st1) (requires body)"
    "ss_has_require (foldl check_stmt ?st1 body) \<longleftrightarrow> ss_has_require ?st1 \<or> requires body \<noteq> []"
    "e2 = [] \<longleftrightarrow> wf_body (ck_spend_names (ss_ck ?st1)) (ss_scope ?st1) (ss_local_names ?st1) body \<and>
       body_ok (ss_shape_facts ?st1) (ss_continuation_names ?st1) body"
    using Cons.IH [of ?st1] by blast
  show ?case
  proof (cases x)
    case (S_Let n e s)
    obtain e1 where e1: "ss_ck ?st1 = add_errors (ss_ck st) e1"
      "ss_local_names ?st1 = insert (ident_name n) (ss_local_names st)"
      "ss_shape_facts ?st1 = ss_shape_facts st" "ss_continuation_names ?st1 = ss_continuation_names st"
      "ss_has_require ?st1 = ss_has_require st"
      "e1 = [] \<longleftrightarrow> (\<exists>ty. has_type (ck_spend_names (ss_ck st)) (ss_scope st) e ty) \<and>
        ident_name n \<notin> ss_local_names st \<and> \<not> scope_contains (ss_scope st) (ident_name n)"
      "\<And>ty. e1 = [] \<Longrightarrow> has_type (ck_spend_names (ss_ck st)) (ss_scope st) e ty \<Longrightarrow>
        ss_scope ?st1 = snd (scope_insert (ss_scope st) (ident_name n) ty)"
      using check_let_step [of st n e s] unfolding S_Let by blast
    have "e1 @ e2 = [] \<longleftrightarrow> wf_body (ck_spend_names (ss_ck st)) (ss_scope st) (ss_local_names st) (x # body) \<and>
        body_ok (ss_shape_facts st) (ss_continuation_names st) (x # body)"
    proof (cases "e1 = []")
      case True
      with e1 obtain ty where ty: "has_type (ck_spend_names (ss_ck st)) (ss_scope st) e ty" by blast
      then have "has_type (ck_spend_names (ss_ck st)) (ss_scope st) e ty' \<longleftrightarrow> ty' = ty" for ty'
        using has_type_unique by blast
      with True e1 e2(4) e1(7) [OF True ty] show ?thesis
        by (simp add: S_Let wf_body_Let body_ok_other)
    next
      case False
      with e1(6) show ?thesis by (auto simp: S_Let wf_body_Let)
    qed
    with e1 e2 show ?thesis by (intro exI [of _ "e1 @ e2"]) (simp add: S_Let del: check_stmt.simps)
  next
    case (S_Require e s)
    obtain e1 where e1: "ss_ck ?st1 = add_errors (ss_ck st) e1" "ss_scope ?st1 = ss_scope st"
      "ss_local_names ?st1 = ss_local_names st"
      "ss_shape_facts ?st1 = note_require (ss_shape_facts st) e"
      "ss_continuation_names ?st1 = ss_continuation_names st \<union> set (labels_of (subexprs e))"
      "ss_has_require ?st1"
      "e1 = [] \<longleftrightarrow> has_type (ck_spend_names (ss_ck st)) (ss_scope st) e T_Bool \<and>
        (\<forall>c \<in> set (conjuncts e). agrees (note_require (ss_shape_facts st) e) c) \<and>
        distinct (labels_of (subexprs e)) \<and> ss_continuation_names st \<inter> set (labels_of (subexprs e)) = {}"
      using check_require_step [of st e s] unfolding S_Require by blast
    have "e1 @ e2 = [] \<longleftrightarrow> wf_body (ck_spend_names (ss_ck st)) (ss_scope st) (ss_local_names st) (x # body) \<and>
        body_ok (ss_shape_facts st) (ss_continuation_names st) (x # body)"
      using e1 e2(4) by (simp add: S_Require wf_body_Require body_ok_require del: check_stmt.simps) blast
    with e1 e2 show ?thesis by (intro exI [of _ "e1 @ e2"]) (simp add: S_Require del: check_stmt.simps)
  next
    case (S_Return e s)
    obtain e1 where e1: "?st1 = st\<lparr>ss_ck := add_errors (ss_ck st) e1\<rparr>"
      "e1 = [] \<longleftrightarrow> (\<exists>ty. has_type (ck_spend_names (ss_ck st)) (ss_scope st) e ty)"
      using check_return_step [of st e s] unfolding S_Return by blast
    have "e1 @ e2 = [] \<longleftrightarrow> wf_body (ck_spend_names (ss_ck st)) (ss_scope st) (ss_local_names st) (x # body) \<and>
        body_ok (ss_shape_facts st) (ss_continuation_names st) (x # body)"
      using e1 e2(4) by (simp add: S_Return wf_body_Return body_ok_other del: check_stmt.simps)
    with e1 e2 show ?thesis by (intro exI [of _ "e1 @ e2"]) (simp add: S_Return del: check_stmt.simps)
  qed
qed


section \<open>Spends, contracts, programs\<close>

lemma check_spend_params:
  "\<exists>errs. foldl (check_spend_param csc) (ck, sc, locals) ps =
      (add_errors ck errs, insert_params sc ps, locals \<union> set (param_names ps)) \<and>
     (errs = [] \<longleftrightarrow> distinct (param_names ps) \<and> locals \<inter> set (param_names ps) = {} \<and>
        (\<forall>n \<in> set (param_names ps). \<not> scope_contains csc n))"
proof (induction ps arbitrary: ck sc locals)
  case Nil
  show ?case by (intro exI [of _ "[]"]) (simp add: insert_params_def)
next
  case (Cons p ps)
  let ?n = "ident_name (param_name p)"
  obtain e1 where e1: "check_spend_param csc (ck, sc, locals) p =
      (add_errors ck e1, snd (scope_insert sc ?n (param_ty p)), insert ?n locals)"
    "e1 = [] \<longleftrightarrow> ?n \<notin> locals \<and> \<not> scope_contains csc ?n"
    by (cases "?n \<in> locals"; cases "scope_contains csc ?n")
       (auto simp: check_spend_param_def ck_error_add Let_def intro: exI [of _ "[]"])
  obtain e2 where e2: "foldl (check_spend_param csc)
        (add_errors ck e1, snd (scope_insert sc ?n (param_ty p)), insert ?n locals) ps =
      (add_errors (add_errors ck e1) e2, insert_params (snd (scope_insert sc ?n (param_ty p))) ps,
       insert ?n locals \<union> set (param_names ps))"
    "e2 = [] \<longleftrightarrow> distinct (param_names ps) \<and> insert ?n locals \<inter> set (param_names ps) = {} \<and>
        (\<forall>n \<in> set (param_names ps). \<not> scope_contains csc n)"
    using Cons.IH by blast
  from e1 e2 show ?case by (intro exI [of _ "e1 @ e2"]) (auto simp: insert_params_def)
qed

text \<open>The recorded facts of a whole body, against the sets of the specification.\<close>

lemma exact_counts_Cons:
  "exact_counts s (e # rs) =
     {v. \<exists>c \<in> set (conjuncts e). \<exists>sp. exact_count_constraint c = Some (s, v, sp)} \<union> exact_counts s rs"
  by (auto simp: exact_counts_def)

lemma final_exact:
  "\<exists>sp. cf_exact (facts_of s (foldl note_require shape_facts_default rs)) = Some (v, sp) \<Longrightarrow> v \<in> exact_counts s rs"
proof -
  have step: "\<exists>sp. cf_exact (facts_of s (foldl note_exact facts cs)) = Some (v, sp) \<Longrightarrow>
      (\<exists>sp. cf_exact (facts_of s facts) = Some (v, sp)) \<or>
      (\<exists>c \<in> set cs. \<exists>sp. exact_count_constraint c = Some (s, v, sp))" for facts cs
  proof (induction cs arbitrary: facts)
    case Nil
    then show ?case by simp
  next
    case (Cons c cs)
    then have "(\<exists>sp. cf_exact (facts_of s (note_exact facts c)) = Some (v, sp)) \<or>
      (\<exists>c \<in> set cs. \<exists>sp. exact_count_constraint c = Some (s, v, sp))" by simp
    then show ?case by (auto simp: note_exact_def split: option.splits if_splits)
  qed
  have "\<exists>sp. cf_exact (facts_of s (foldl note_require facts rs)) = Some (v, sp) \<Longrightarrow>
      (\<exists>sp. cf_exact (facts_of s facts) = Some (v, sp)) \<or> v \<in> exact_counts s rs" for facts
  proof (induction rs arbitrary: facts)
    case Nil
    then show ?case by simp
  next
    case (Cons e rs)
    then have "(\<exists>sp. cf_exact (facts_of s (note_require facts e)) = Some (v, sp)) \<or> v \<in> exact_counts s rs" by simp
    then show ?case
      using step [of facts "conjuncts e"]
      by (auto simp: note_require_def note_reference_keeps exact_counts_Cons)
  qed
  moreover have "cf_exact (facts_of s shape_facts_default) = None"
    by (cases s) (simp_all add: shape_facts_default_def count_facts_default_def)
  moreover assume "\<exists>sp. cf_exact (facts_of s (foldl note_require shape_facts_default rs)) = Some (v, sp)"
  ultimately show ?thesis by fastforce
qed

lemma final_references:
  "bounds_max (cf_max_index (facts_of s (foldl note_require shape_facts_default rs))) (referenced_indices s rs)"
proof -
  have main: "bounds_max (cf_max_index (facts_of s (foldl note_require facts rs))) (V s \<union> referenced_indices s rs)"
    if "\<And>s. bounds_max (cf_max_index (facts_of s facts)) (V s)" for facts V
    using that
  proof (induction rs arbitrary: facts V)
    case Nil
    then show ?case by (simp add: referenced_indices_def)
  next
    case (Cons e rs)
    have "bounds_max (cf_max_index (facts_of s (note_require facts e))) (V s \<union> references s (subexprs e))" for s
      unfolding note_require_def by (rule note_reference_max) (simp add: note_exact_keeps Cons.prems)
    from Cons.IH [OF this] show ?case by (simp add: referenced_indices_def Un_assoc)
  qed
  have init: "bounds_max (cf_max_index (facts_of s shape_facts_default)) {}" for s
    by (cases s) (simp_all add: bounds_max_def shape_facts_default_def count_facts_default_def)
  from main [of shape_facts_default "\<lambda>_. {}", OF init] show ?thesis by simp
qed

lemma check_count_facts_checks:
  "\<exists>errs. check_count_facts ck label f = add_errors ck errs \<and>
     (errs = [] \<longleftrightarrow> (\<forall>v sp. cf_exact f = Some (v, sp) \<longrightarrow> (\<forall>i sp'. cf_max_index f = Some (i, sp') \<longrightarrow> i < v)))"
  by (cases "cf_exact f"; cases "cf_max_index f")
     (auto simp: check_count_facts_def ck_error_add not_le intro: exI [of _ "[]"])


lemma count_facts_in_bounds:
  assumes "bounds_max (cf_max_index f) R"
  shows "(\<forall>v sp. cf_exact f = Some (v, sp) \<longrightarrow> (\<forall>i sp'. cf_max_index f = Some (i, sp') \<longrightarrow> i < v)) \<longleftrightarrow>
    (\<forall>v sp. cf_exact f = Some (v, sp) \<longrightarrow> (\<forall>i \<in> R. i < v))"
  using assms by (cases "cf_max_index f") (force simp: bounds_max_def)+

lemma check_shape_facts_checks:
  "\<exists>errs. check_shape_facts ck facts = add_errors ck errs \<and>
     (errs = [] \<longleftrightarrow> (\<forall>s v sp i sp'. cf_exact (facts_of s facts) = Some (v, sp) \<longrightarrow>
        cf_max_index (facts_of s facts) = Some (i, sp') \<longrightarrow> i < v))"
proof -
  obtain e1 where e1: "check_count_facts ck ''input_count'' (sf_inputs facts) = add_errors ck e1"
    "e1 = [] \<longleftrightarrow> (\<forall>v sp. cf_exact (sf_inputs facts) = Some (v, sp) \<longrightarrow> (\<forall>i sp'. cf_max_index (sf_inputs facts) = Some (i, sp') \<longrightarrow> i < v))"
    using check_count_facts_checks by blast
  obtain e2 where e2: "check_count_facts (add_errors ck e1) ''output_count'' (sf_outputs facts) = add_errors (add_errors ck e1) e2"
    "e2 = [] \<longleftrightarrow> (\<forall>v sp. cf_exact (sf_outputs facts) = Some (v, sp) \<longrightarrow> (\<forall>i sp'. cf_max_index (sf_outputs facts) = Some (i, sp') \<longrightarrow> i < v))"
    using check_count_facts_checks by blast
  have all: "(\<forall>s. P (facts_of s facts)) \<longleftrightarrow> P (sf_inputs facts) \<and> P (sf_outputs facts)" for P
    by (metis count_subject.exhaust facts_of.simps)
  have "e1 @ e2 = [] \<longleftrightarrow> (\<forall>s. \<forall>v sp. cf_exact (facts_of s facts) = Some (v, sp) \<longrightarrow>
        (\<forall>i sp'. cf_max_index (facts_of s facts) = Some (i, sp') \<longrightarrow> i < v))"
    unfolding all [of "\<lambda>f. \<forall>v sp. cf_exact f = Some (v, sp) \<longrightarrow> (\<forall>i sp'. cf_max_index f = Some (i, sp') \<longrightarrow> i < v)"]
      append_is_Nil_conv e1(2) e2(2) ..
  with e1(1) e2(1) show ?thesis
    by (intro exI [of _ "e1 @ e2"]) (auto simp: check_shape_facts_def)
qed

text \<open>Silence of the two shape passes is the consistency of the specification.\<close>

lemma body_ok_default:
  "body_ok shape_facts_default {} body \<and>
   (\<forall>s v sp i sp'. cf_exact (facts_of s (foldl note_require shape_facts_default (requires body))) = Some (v, sp) \<longrightarrow>
      cf_max_index (facts_of s (foldl note_require shape_facts_default (requires body))) = Some (i, sp') \<longrightarrow> i < v) \<longleftrightarrow>
   consistent_shape (requires body) \<and> distinct (continuation_labels (requires body))"
proof -
  let ?rs = "requires body"
  let ?f = "foldl note_require shape_facts_default ?rs"
  have bounds: "(\<forall>s v sp i sp'. cf_exact (facts_of s ?f) = Some (v, sp) \<longrightarrow> cf_max_index (facts_of s ?f) = Some (i, sp') \<longrightarrow> i < v)
      \<longleftrightarrow> (\<forall>s v sp. cf_exact (facts_of s ?f) = Some (v, sp) \<longrightarrow> (\<forall>i \<in> referenced_indices s ?rs. i < v))"
    using count_facts_in_bounds [OF final_references] by meson
  have agree: "(\<forall>e \<in> set ?rs. \<forall>c \<in> set (conjuncts e). agrees ?f c) \<longleftrightarrow>
      (\<forall>s. \<forall>v \<in> exact_counts s ?rs. unat v < 2 ^ 32 \<and> (\<exists>sp. cf_exact (facts_of s ?f) = Some (v, sp)))"
    unfolding agrees_def exact_counts_def by blast
  have cons: "(\<forall>s. \<forall>v \<in> exact_counts s ?rs. unat v < 2 ^ 32 \<and> (\<exists>sp. cf_exact (facts_of s ?f) = Some (v, sp))) \<and>
      (\<forall>s v sp. cf_exact (facts_of s ?f) = Some (v, sp) \<longrightarrow> (\<forall>i \<in> referenced_indices s ?rs. i < v)) \<longleftrightarrow>
      consistent_shape ?rs" (is "?L \<longleftrightarrow> _")
  proof
    assume ?L
    then have ex: "\<And>s v. v \<in> exact_counts s ?rs \<Longrightarrow> unat v < 2 ^ 32 \<and> (\<exists>sp. cf_exact (facts_of s ?f) = Some (v, sp))"
      and ref: "\<And>s v sp i. cf_exact (facts_of s ?f) = Some (v, sp) \<Longrightarrow> i \<in> referenced_indices s ?rs \<Longrightarrow> i < v"
      by blast+
    show "consistent_shape ?rs"
      unfolding consistent_shape_def
    proof (intro allI ballI conjI)
      fix s v
      assume v: "v \<in> exact_counts s ?rs"
      from ex [OF v] obtain sp where sp: "cf_exact (facts_of s ?f) = Some (v, sp)" by blast
      from ex [OF v] show "unat v < 2 ^ 32" by blast
      show "w = v" if "w \<in> exact_counts s ?rs" for w using ex [OF that] sp by auto
      show "i < v" if "i \<in> referenced_indices s ?rs" for i using ref [OF sp that] .
    qed
  next
    assume C: "consistent_shape ?rs"
    have sets: "cf_exact (facts_of s ?f) \<noteq> None" if "v \<in> exact_counts s ?rs" for s v
    proof -
      from that obtain e c sp where e: "e \<in> set ?rs" "c \<in> set (conjuncts e)"
          "exact_count_constraint c = Some (s, v, sp)" by (auto simp: exact_counts_def)
      from split_list [OF e(1)] obtain us ws where rs: "?rs = us @ e # ws" by blast
      from note_require_sets [OF e(2,3), of "foldl note_require shape_facts_default us"] obtain y where
        "cf_exact (facts_of s (note_require (foldl note_require shape_facts_default us) e)) = Some y" by blast
      from note_require_keeps [OF this, of ws] show ?thesis by (simp add: rs)
    qed
    show ?L
    proof (intro conjI allI ballI impI)
      fix s v
      assume v: "v \<in> exact_counts s ?rs"
      with C show "unat v < 2 ^ 32" unfolding consistent_shape_def by blast
      from sets [OF v] obtain w sp where w: "cf_exact (facts_of s ?f) = Some (w, sp)" by auto
      with final_exact have "w \<in> exact_counts s ?rs" by blast
      with C v have "w = v" unfolding consistent_shape_def by blast
      with w show "\<exists>sp. cf_exact (facts_of s ?f) = Some (v, sp)" by blast
    next
      fix s v sp i
      assume "cf_exact (facts_of s ?f) = Some (v, sp)" and i: "i \<in> referenced_indices s ?rs"
      then have "v \<in> exact_counts s ?rs" using final_exact by blast
      with C i show "i < v" unfolding consistent_shape_def by blast
    qed
  qed
  show ?thesis
    unfolding body_ok_def bounds agree cons [symmetric] by (simp only: Int_empty_left simp_thms conj_ac)
qed

lemma check_spend_checks:
  "checks (distinct (param_names (spend_params sp)) \<and>
     (\<forall>n \<in> set (param_names (spend_params sp)). \<not> scope_contains sc n) \<and>
     wf_body (ck_spend_names ck) (insert_params sc (spend_params sp)) (set (param_names (spend_params sp))) (spend_body sp) \<and>
     requires (spend_body sp) \<noteq> [] \<and>
     (spend_uses_name sp ''covenant_id'' \<longrightarrow> (\<exists>d. contract_finality_depth c = Some d \<and> d \<noteq> 0)) \<and>
     consistent_shape (requires (spend_body sp)) \<and>
     distinct (continuation_labels (requires (spend_body sp))))
   ck (check_spend ck c sp sc)"
proof -
  obtain e1 where e1: "foldl (check_spend_param sc) (ck, sc, {}) (spend_params sp) =
      (add_errors ck e1, insert_params sc (spend_params sp), set (param_names (spend_params sp)))"
    "e1 = [] \<longleftrightarrow> distinct (param_names (spend_params sp)) \<and> (\<forall>n \<in> set (param_names (spend_params sp)). \<not> scope_contains sc n)"
    using check_spend_params [of sc ck sc "{}" "spend_params sp"] by auto
  let ?st = "\<lparr>ss_ck = add_errors ck e1, ss_scope = insert_params sc (spend_params sp),
      ss_local_names = set (param_names (spend_params sp)), ss_shape_facts = shape_facts_default,
      ss_continuation_names = {}, ss_has_require = False\<rparr>"
  let ?st' = "foldl check_stmt ?st (spend_body sp)"
  obtain e2 where e2: "ss_ck ?st' = add_errors (add_errors ck e1) e2"
    "ss_shape_facts ?st' = foldl note_require shape_facts_default (requires (spend_body sp))"
    "ss_has_require ?st' \<longleftrightarrow> requires (spend_body sp) \<noteq> []"
    "e2 = [] \<longleftrightarrow> wf_body (ck_spend_names ck) (insert_params sc (spend_params sp)) (set (param_names (spend_params sp))) (spend_body sp) \<and>
        body_ok shape_facts_default {} (spend_body sp)"
    using check_stmts [of ?st "spend_body sp"] by auto
  let ?ck2 = "add_errors (add_errors ck e1) e2"
  obtain e3 where e3: "(if \<not> ss_has_require ?st'
      then ck_error ?ck2 (ident_span (spend_name sp))
             (''spend '' @ bt (ident_name (spend_name sp)) @ '' must contain at least one require'') else ?ck2) = add_errors ?ck2 e3"
    "e3 = [] \<longleftrightarrow> requires (spend_body sp) \<noteq> []"
    using checks_guard [OF checks_refl [OF TrueI], of "\<not> ss_has_require ?st'" ?ck2] e2(3) unfolding checks_def by blast
  let ?zero = "(case contract_finality_depth c of None \<Rightarrow> 0 | Some d \<Rightarrow> d) = 0"
  obtain e4 where e4: "(if spend_uses_name sp ''covenant_id'' \<and> ?zero
      then ck_error (add_errors ?ck2 e3) (ident_span (spend_name sp))
             (bt ''covenant_id'' @ '' requires '' @ bt ''finality_depth'' @ '' > 0'') else add_errors ?ck2 e3) =
      add_errors (add_errors ?ck2 e3) e4"
    "e4 = [] \<longleftrightarrow> \<not> (spend_uses_name sp ''covenant_id'' \<and> ?zero)"
    using checks_guard [OF checks_refl [OF TrueI], of "spend_uses_name sp ''covenant_id'' \<and> ?zero" "add_errors ?ck2 e3"]
    unfolding checks_def by blast
  obtain e5 where e5: "check_shape_facts (add_errors (add_errors ?ck2 e3) e4) (ss_shape_facts ?st') =
      add_errors (add_errors (add_errors ?ck2 e3) e4) e5"
    "e5 = [] \<longleftrightarrow> (\<forall>s v s' i s''. cf_exact (facts_of s (ss_shape_facts ?st')) = Some (v, s') \<longrightarrow>
        cf_max_index (facts_of s (ss_shape_facts ?st')) = Some (i, s'') \<longrightarrow> i < v)"
    using check_shape_facts_checks by blast
  have result: "check_spend ck c sp sc = add_errors ck (e1 @ e2 @ e3 @ e4 @ e5)"
    unfolding check_spend_def Let_def e1(1) prod.case e2(1) e3(1) e4(1) e5(1) by simp
  have zero: "\<not> ?zero \<longleftrightarrow> (\<exists>d. contract_finality_depth c = Some d \<and> d \<noteq> 0)"
    by (cases "contract_finality_depth c") auto
  have "e2 = [] \<and> e5 = [] \<longleftrightarrow> wf_body (ck_spend_names ck) (insert_params sc (spend_params sp)) (set (param_names (spend_params sp))) (spend_body sp) \<and>
      consistent_shape (requires (spend_body sp)) \<and> distinct (continuation_labels (requires (spend_body sp)))"
    unfolding e2(4) e5(2) e2(2) using body_ok_default [of "spend_body sp"] by blast
  then show ?thesis
    unfolding checks_def using result e1(2) e3(2) e4(2) zero
    by (intro exI [of _ "e1 @ e2 @ e3 @ e4 @ e5"]) auto
qed


lemma check_contract_params:
  "\<exists>errs. foldl check_contract_param (ck, sc) ps = (add_errors ck errs, insert_params sc ps) \<and>
     (errs = [] \<longleftrightarrow> distinct (param_names ps) \<and> (\<forall>n \<in> set (param_names ps). \<not> scope_contains sc n))"
proof (induction ps arbitrary: ck sc)
  case Nil
  show ?case by (intro exI [of _ "[]"]) (simp add: insert_params_def)
next
  case (Cons p ps)
  let ?n = "ident_name (param_name p)"
  let ?sc = "snd (scope_insert sc ?n (param_ty p))"
  obtain e1 where e1: "check_contract_param (ck, sc) p = (add_errors ck e1, ?sc)"
    "e1 = [] \<longleftrightarrow> \<not> scope_contains sc ?n"
    by (cases "scope_contains sc ?n")
       (auto simp: check_contract_param_def ck_error_add scope_insert_def scope_contains_def intro: exI [of _ "[]"])
  obtain e2 where e2: "foldl check_contract_param (add_errors ck e1, ?sc) ps =
      (add_errors (add_errors ck e1) e2, insert_params ?sc ps)"
    "e2 = [] \<longleftrightarrow> distinct (param_names ps) \<and> (\<forall>n \<in> set (param_names ps). \<not> scope_contains ?sc n)"
    using Cons.IH by blast
  have "e1 @ e2 = [] \<longleftrightarrow> distinct (param_names (p # ps)) \<and> (\<forall>n \<in> set (param_names (p # ps)). \<not> scope_contains sc n)"
    unfolding append_is_Nil_conv e1(2) e2(2) sc.has_ins
    by (simp only: list.map distinct.simps list.set) blast
  moreover have "foldl check_contract_param (ck, sc) (p # ps) = (add_errors ck (e1 @ e2), insert_params sc (p # ps))"
    using e1(1) e2(1) by (simp add: insert_params_def)
  ultimately show ?case by blast
qed

lemma check_contract_spends:
  assumes "ck_spend_names ck = set (spend_names c)"
  shows "\<exists>errs. fst (foldl (check_contract_spend c sc) (ck, seen) sps) = add_errors ck errs \<and>
     (errs = [] \<longleftrightarrow> distinct (map (\<lambda>sp. ident_name (spend_name sp)) sps) \<and>
        seen \<inter> set (map (\<lambda>sp. ident_name (spend_name sp)) sps) = {} \<and> (\<forall>sp \<in> set sps. wf_spend c sc sp))"
  using assms
proof (induction sps arbitrary: ck seen)
  case Nil
  show ?case by (intro exI [of _ "[]"]) simp
next
  case (Cons sp sps)
  let ?n = "ident_name (spend_name sp)"
  obtain e1 where e1: "(if ?n \<in> seen then ck_error ck (ident_span (spend_name sp)) (''duplicate spend '' @ bt ?n) else ck) =
      add_errors ck e1" "e1 = [] \<longleftrightarrow> ?n \<notin> seen"
    using checks_guard [OF checks_refl [OF TrueI], of "?n \<in> seen" ck] unfolding checks_def by blast
  have "checks (wf_spend c sc sp) (add_errors ck e1) (check_spend (add_errors ck e1) c sp sc)"
    using check_spend_checks [of sp sc "add_errors ck e1" c] Cons.prems by (simp add: wf_spend_def)
  then obtain e2 where e2: "check_spend (add_errors ck e1) c sp sc = add_errors (add_errors ck e1) e2"
    "wf_spend c sc sp \<longleftrightarrow> e2 = []" unfolding checks_def by blast
  have step: "check_contract_spend c sc (ck, seen) sp = (add_errors (add_errors ck e1) e2, insert ?n seen)"
    unfolding check_contract_spend_def Let_def prod.case e1(1) e2(1) ..
  obtain e3 where e3: "fst (foldl (check_contract_spend c sc) (add_errors (add_errors ck e1) e2, insert ?n seen) sps) =
      add_errors (add_errors (add_errors ck e1) e2) e3"
    "e3 = [] \<longleftrightarrow> distinct (map (\<lambda>sp. ident_name (spend_name sp)) sps) \<and>
        insert ?n seen \<inter> set (map (\<lambda>sp. ident_name (spend_name sp)) sps) = {} \<and> (\<forall>sp \<in> set sps. wf_spend c sc sp)"
    using Cons.IH [of "add_errors (add_errors ck e1) e2" "insert ?n seen"] Cons.prems by auto
  from e1(2) e2(2) e3 show ?case
    by (intro exI [of _ "e1 @ e2 @ e3"]) (auto simp: step)
qed

lemma check_contract_checks:
  "\<exists>errs. check_contract ck c = (add_errors ck errs)\<lparr>ck_spend_names := set (spend_names c)\<rparr> \<and>
     (errs = [] \<longleftrightarrow> wf_contract c)"
proof -
  let ?N = "set (spend_names c)"
  obtain e1 where e1: "(if contract_finality_depth c = Some 0
      then ck_error ck (ident_span (contract_name c)) (bt ''finality_depth'' @ '' must be > 0'') else ck) = add_errors ck e1"
    "e1 = [] \<longleftrightarrow> contract_finality_depth c \<noteq> Some 0"
    using checks_guard [OF checks_refl [OF TrueI], of "contract_finality_depth c = Some 0" ck] unfolding checks_def by blast
  obtain e2 where e2: "foldl check_contract_param (add_errors ck e1, scope_new) (contract_params c) =
      (add_errors (add_errors ck e1) e2, insert_params scope_new (contract_params c))"
    "e2 = [] \<longleftrightarrow> distinct (param_names (contract_params c))"
    using check_contract_params [of "add_errors ck e1" scope_new "contract_params c"]
    by (auto simp: scope_contains_def scope_new_def)
  let ?ck = "(add_errors (add_errors ck e1) e2)\<lparr>ck_spend_names := ?N\<rparr>"
  obtain e3 where e3: "fst (foldl (check_contract_spend c (insert_params scope_new (contract_params c))) (?ck, {}) (contract_spends c)) =
      add_errors ?ck e3"
    "e3 = [] \<longleftrightarrow> distinct (spend_names c) \<and>
        (\<forall>sp \<in> set (contract_spends c). wf_spend c (insert_params scope_new (contract_params c)) sp)"
    using check_contract_spends [of ?ck c "insert_params scope_new (contract_params c)" "{}" "contract_spends c"] by auto
  have "check_contract ck c = add_errors ?ck e3"
    unfolding check_contract_def Let_def e1(1) e2(1) prod.case using e3(1) by simp
  with e1(2) e2(2) e3(2) show ?thesis
    by (intro exI [of _ "e1 @ e2 @ e3"]) (auto simp: add_errors_def wf_contract_def)
qed

lemma check_program_contracts:
  "\<exists>errs. ck_errors (fst (foldl check_program_contract (ck, seen) cs)) = ck_errors ck @ errs \<and>
     (errs = [] \<longleftrightarrow> distinct (map (\<lambda>c. ident_name (contract_name c)) cs) \<and>
        seen \<inter> set (map (\<lambda>c. ident_name (contract_name c)) cs) = {} \<and> (\<forall>c \<in> set cs. wf_contract c))"
proof (induction cs arbitrary: ck seen)
  case Nil
  show ?case by simp
next
  case (Cons c cs)
  let ?n = "ident_name (contract_name c)"
  obtain e1 where e1: "(if ?n \<in> seen then ck_error ck (ident_span (contract_name c)) (''duplicate contract '' @ bt ?n) else ck) =
      add_errors ck e1" "e1 = [] \<longleftrightarrow> ?n \<notin> seen"
    using checks_guard [OF checks_refl [OF TrueI], of "?n \<in> seen" ck] unfolding checks_def by blast
  obtain e2 where e2: "check_contract (add_errors ck e1) c = (add_errors (add_errors ck e1) e2)\<lparr>ck_spend_names := set (spend_names c)\<rparr>"
    "e2 = [] \<longleftrightarrow> wf_contract c" using check_contract_checks by blast
  let ?ck = "(add_errors (add_errors ck e1) e2)\<lparr>ck_spend_names := set (spend_names c)\<rparr>"
  have step: "check_program_contract (ck, seen) c = (?ck, insert ?n seen)"
    unfolding check_program_contract_def Let_def prod.case e1(1) e2(1) ..
  obtain e3 where e3: "ck_errors (fst (foldl check_program_contract (?ck, insert ?n seen) cs)) = ck_errors ?ck @ e3"
    "e3 = [] \<longleftrightarrow> distinct (map (\<lambda>c. ident_name (contract_name c)) cs) \<and>
        insert ?n seen \<inter> set (map (\<lambda>c. ident_name (contract_name c)) cs) = {} \<and> (\<forall>c \<in> set cs. wf_contract c)"
    using Cons.IH by blast
  from e1(2) e2(2) e3 show ?case
    by (intro exI [of _ "e1 @ e2 @ e3"]) (auto simp: step)
qed

lemma check_program_silent:
  "ck_errors (check_program (checker_new source f) prog) = [] \<longleftrightarrow> wf_program prog"
  using check_program_contracts [of "checker_new source f" "{}" "program_contracts prog"]
  by (auto simp: check_program_def checker_new_def wf_program_def)


section \<open>Properties\<close>

text \<open>C4: the checker decides the type system: it accepts an expression, leaving its state unchanged, with
  a type exactly when the expression has that type, and otherwise reports at least one error
  behind the errors it already had.\<close>

theorem infer_expr_decides_typing:
  "(infer_expr ck e scope = (Some ty, ck) \<longleftrightarrow> has_type (ck_spend_names ck) scope e ty) \<and>
   ((\<exists>ty. has_type (ck_spend_names ck) scope e ty) \<or>
    (\<exists>errs. errs \<noteq> [] \<and> ck_errors (snd (infer_expr ck e scope)) = ck_errors ck @ errs))"
  by (rule decidesE [OF infer_decides [of ck scope e]]) auto


text \<open>The KIPs a node of an expression needs.\<close>

definition node_kips :: "expr \<Rightarrow> u16 set" where
  "node_kips e =
     (case e of
        E_Ident i \<Rightarrow> ident_kips (ident_name i)
      | E_Field ob f s \<Rightarrow> if ident_name f = ''covenant_id'' then {20} else {}
      | _ \<Rightarrow> {})"

lemma collect_expr_kips_nodes:
  "collect_expr_kips e kips = kips \<union> (\<Union>x \<in> set (subexprs e). node_kips x)"
  "collect_each_kips es kips = kips \<union> (\<Union>e \<in> set es. \<Union>x \<in> set (subexprs e). node_kips x)"
  by (induction e kips and es kips rule: collect_expr_kips_collect_each_kips.induct)
     (auto simp: node_kips_def)

text \<open>The KIP requirements of a program are those of its built-ins, each once, in increasing order.\<close>

theorem kip_requirements_exact:
  "set (collect_kip_requirements prog) = (\<Union>e \<in> set (program_exprs prog). \<Union>x \<in> set (subexprs e). node_kips x) \<and>
   sorted (collect_kip_requirements prog) \<and> distinct (collect_kip_requirements prog)"
proof -
  have "finite (collect_each_kips (program_exprs prog) {})" by simp
  then show ?thesis
    by (simp add: collect_kip_requirements_def collect_expr_kips_nodes)
qed

end
