(* ===== verification/KS_LowerTyped.thy ===== *)
theory KS_LowerTyped
  imports KS_LowerExpr KS_Wf
begin

text \<open>
  Lowering after type checking: on a typable expression the only errors left are the two
  limits of the language version, each blamed on a node of the expression.
\<close>

section \<open>Blame\<close>

definition negation_at :: "string \<Rightarrow> expr \<Rightarrow> ir_error \<Rightarrow> bool" where
  "negation_at file x err \<longleftrightarrow>
     (\<exists>a s. x = E_Unary UO_Negate a s \<and>
        err = ir_unsupported file s ''numeric negation is not supported in V1'')"

definition threshold_at :: "string \<Rightarrow> expr \<Rightarrow> ir_error \<Rightarrow> bool" where
  "threshold_at file x err \<longleftrightarrow>
     (\<exists>callee k s' keys sigs s. x = E_Call callee [E_Integer k s', keys, sigs] s \<and>
        callee_name callee = ''multisig'' \<and> 2 ^ 32 \<le> unat k \<and>
        err = ir_unsupported file s ''multisig k exceeds u32'')"

definition blamed :: "string \<Rightarrow> expr \<Rightarrow> ir_error \<Rightarrow> bool" where
  "blamed file e err \<longleftrightarrow> (\<exists>x \<in> set (subexprs e). negation_at file x err \<or> threshold_at file x err)"

lemma self_in_subexprs: "e \<in> set (subexprs e)"
  by (cases e) auto

lemma blamed_self: "negation_at file e err \<or> threshold_at file e err \<Longrightarrow> blamed file e err"
  unfolding blamed_def using self_in_subexprs by blast

lemma blamed_mono: "blamed file a err \<Longrightarrow> set (subexprs a) \<subseteq> set (subexprs e) \<Longrightarrow> blamed file e err"
  unfolding blamed_def by blast

lemma verify_receiver_subexprs:
  "verify_receiver callee = Some (object, field) \<Longrightarrow> set (subexprs object) \<subseteq> set (subexprs callee)"
  by (auto simp: verify_receiver_def split: expr.splits if_splits)

lemma lower_each_error:
  "lower_each file es out = Inl err \<Longrightarrow> \<exists>a \<in> set es. \<exists>out'. lower_expr file a out' = Inl err"
  by (induction es arbitrary: out) (auto simp: rbind_Inl_iff)

lemma first_error:
  "rbind (case args of [] \<Rightarrow> Inr out | a # _ \<Rightarrow> lower_expr file a out) (\<lambda>out. Inr (g out)) = Inl err \<Longrightarrow>
   \<exists>a \<in> set args. \<exists>out'. lower_expr file a out' = Inl err"
  by (cases args) (auto simp: rbind_Inl_iff)

lemma callee_name_nonempty: "callee_name e \<noteq> [] \<Longrightarrow> \<exists>i. e = E_Ident i"
  by (cases e) (auto simp: callee_name_def)

lemma io_field_typed:
  assumes "has_type names sc object ty" and "lower_io_field file object field s = Some r"
    and "ty \<in> {T_Input, T_Output} \<Longrightarrow> transaction_field_type field \<noteq> None"
  shows "\<exists>i. r = Inr i"
proof -
  from assms(2) obtain root args s' where ob: "object = E_Call (E_Ident root) args s'"
    and root: "ident_name root = ''input'' \<or> ident_name root = ''output''"
    by (auto simp: lower_io_field_def split: expr.splits if_splits)
  then have "callee_name (E_Ident root) = ident_name root" by (simp add: callee_name_def)
  with assms(1) root ob obtain v s'' where "args = [E_Integer v s'']" "unat v < 2 ^ 32" "ty \<in> {T_Input, T_Output}"
    by (auto simp: has_type_builtin_call)
  with assms(2,3) ob root show ?thesis
    by (auto simp: lower_io_field_def u32_try_from_def transaction_field_type_def split: if_splits)
qed

lemma lower_typed_error:
  "has_type names sc e ty \<Longrightarrow> lower_expr file e out = Inl err \<Longrightarrow> blamed file e err"
proof (induction e arbitrary: ty out rule: measure_induct_rule [of size])
  case (less e)
  have sub: "blamed file e err"
    if "size a < size e" "set (subexprs a) \<subseteq> set (subexprs e)" "has_type names sc a t" "lower_expr file a out' = Inl err"
    for a t out' using less.IH [OF that(1,3,4)] that(2) by (rule blamed_mono)
  show ?case
  proof (cases e)
    case (E_Array es s)
    with less.prems obtain a out' where a: "a \<in> set es" "lower_expr file a out' = Inl err"
      using lower_each_error by fastforce
    moreover from less.prems(1) a(1) E_Array obtain t where "has_type names sc a t" by auto
    moreover have "size a < size e" using element_size [OF a(1)] E_Array by simp
    moreover have "set (subexprs a) \<subseteq> set (subexprs e)" using a(1) E_Array by auto
    ultimately show ?thesis using sub by blast
  next
    case (E_Unary uop a s)
    from less.prems(1) E_Unary obtain t where t: "has_type names sc a t" by (auto simp: has_type_Unary)
    from less.prems(2) E_Unary consider "lower_expr file a out = Inl err"
      | "uop = UO_Negate" "err = ir_unsupported file s ''numeric negation is not supported in V1''"
      by (cases uop) (auto simp: rbind_Inl_iff)
    then show ?thesis
    proof cases
      case 1
      with t show ?thesis by (intro sub [of a]) (auto simp: E_Unary)
    next
      case 2
      then show ?thesis by (intro blamed_self) (simp add: negation_at_def E_Unary)
    qed
  next
    case (E_Binary l bop r s)
    from less.prems(1) E_Binary obtain t1 t2 where "has_type names sc l t1" "has_type names sc r t2"
      by (auto simp: has_type_Binary)
    moreover have "lower_binary file l bop r s out = Inl err" using less.prems(2) by (simp add: E_Binary)
    then have "\<exists>x \<in> {l, r}. \<exists>out'. lower_expr file x out' = Inl err"
      by (auto simp: lower_binary.simps rbind_Inl_iff simp del: lower_expr.simps split: if_splits expr.splits)
    ultimately show ?thesis using sub [of l] sub [of r] by (auto simp: E_Binary)
  next
    case (E_Call callee args s)
    have callee: "size callee < size e" "set (subexprs callee) \<subseteq> set (subexprs e)" by (auto simp: E_Call)
    have arg: "size a < size e" "set (subexprs a) \<subseteq> set (subexprs e)" if "a \<in> set args" for a
      using element_size [OF that] that by (auto simp: E_Call)
    have call: "lower_call file callee args s out = Inl err" using less.prems(2) by (simp add: E_Call)
    note tyd = less.prems(1) [unfolded E_Call]
    show ?thesis
    proof (cases "verify_receiver callee")
      case (Some x)
      obtain object field where x: "x = (object, field)" by (cases x)
      note vr = Some [unfolded x]
      from tyd obtain a where a: "args = [a]" "has_type names sc object T_Signature" "has_type names sc a T_PublicKey"
        by (auto simp: has_type_verify_call [OF vr])
      from call a(1) obtain out' where "lower_expr file object out = Inl err \<or> lower_expr file a out' = Inl err"
        by (auto simp: lower_call.simps vr rbind_Inl_iff)
      then show ?thesis
        using sub [of object] sub [of a] a arg [of a] callee verify_receiver_size [OF vr] verify_receiver_subexprs [OF vr]
        by auto
    next
      case None
      consider "callee_name callee \<in> {''input'', ''output''}" | "callee_name callee = ''continuation''"
        | "callee_name callee = ''multisig''" | "callee_name callee \<in> {''zk_verify'', ''sha256'', ''blake2b'', ''hash160''}"
        | "callee_name callee \<notin> builtin_calls" by (auto simp: builtin_calls_def)
      then show ?thesis
      proof cases
        case 1
        with tyd call None show ?thesis
          by (auto simp: has_type_builtin_call lower_call.simps lower_index_call_def u32_try_from_def)
      next
        case 2
        with tyd call None show ?thesis
          by (auto simp: has_type_builtin_call lower_call.simps lower_continuation_def)
      next
        case 3
        with tyd obtain k s'' keys sigs t1 t2 where a: "args = [E_Integer k s'', keys, sigs]"
          "has_type names sc keys t1" "has_type names sc sigs t2" by (auto simp: has_type_builtin_call)
        from call 3 None have ms: "lower_multisig file args s out = Inl err" by (simp add: lower_call.simps)
        show ?thesis
        proof (cases "u32_try_from k")
          case None
          with ms a(1) have "err = ir_unsupported file s ''multisig k exceeds u32''"
            by (simp add: lower_multisig.simps multisig_required_def)
          moreover have "2 ^ 32 \<le> unat k" using None by (simp add: u32_try_from_def split: if_splits)
          ultimately show ?thesis
            using 3 a(1) by (intro blamed_self) (simp add: threshold_at_def E_Call)
        next
          case (Some w)
          with ms a(1) obtain out' where "lower_expr file sigs out = Inl err \<or> lower_expr file keys out' = Inl err"
            by (auto simp: lower_multisig.simps multisig_required_def rbind_Inl_iff)
          with a arg [of sigs] arg [of keys] sub [of sigs] sub [of keys] show ?thesis by auto
        qed
      next
        case 4
        with tyd obtain a t where a: "args = [a]" "has_type names sc a t" by (auto simp: has_type_builtin_call)
        from call 4 None have "lower_expr file a out = Inl err"
          by (auto simp: lower_call.simps a(1) rbind_Inl_iff)
        with a arg [of a] sub [of a] show ?thesis by auto
      next
        case 5
        with tyd None obtain t where t: "has_type names sc callee t" "\<And>a. a \<in> set args \<Longrightarrow> \<exists>t. has_type names sc a t"
          by (auto simp: has_type_other_call)
        from call 5 None consider "lower_expr file callee out = Inl err"
          | out' where "lower_each file args out' = Inl err"
          by (auto simp: lower_call.simps builtin_calls_def rbind_Inl_iff)
        then show ?thesis
        proof cases
          case 1
          with sub [OF callee t(1)] show ?thesis .
        next
          case 2
          then obtain a out'' where "a \<in> set args" "lower_expr file a out'' = Inl err" using lower_each_error by blast
          with t(2) arg sub show ?thesis by blast
        qed
      qed
    qed
  next
    case (E_Field object f s)
    have ob: "size object < size e" "set (subexprs object) \<subseteq> set (subexprs e)" by (auto simp: E_Field)
    have low: "lower_field file object (ident_name f) s out = Inl err" using less.prems(2) by (simp add: E_Field)
    from less.prems(1) [unfolded E_Field has_type_Field] consider
        "root_field_type (callee_name object) (ident_name f) \<noteq> None"
      | t where "has_type names sc object t" "t \<in> {T_Input, T_Output} \<Longrightarrow> transaction_field_type (ident_name f) \<noteq> None"
      by auto
    then show ?thesis
    proof cases
      case 1
      then have "callee_name object \<noteq> []" by (auto simp: root_field_type_def)
      then obtain i where "object = E_Ident i" using callee_name_nonempty by blast
      with low show ?thesis by (auto simp: lower_field.simps lower_io_field_def split: if_splits)
    next
      case 2
      show ?thesis
      proof (cases "lower_io_field file object (ident_name f) s")
        case (Some r)
        from io_field_typed [OF 2(1) Some 2(2)] low Some show ?thesis by (auto simp: lower_field.simps)
      next
        case None
        with low have "lower_expr file object out = Inl err"
          by (auto simp: lower_field.simps rbind_Inl_iff split: if_splits)
        with sub [OF ob 2(1)] show ?thesis .
      qed
    qed
  qed (use less.prems in auto)
qed

section \<open>Lowering of checked expressions\<close>

text \<open>Lowering an expression the checker accepts only appends instructions to the buffer, or fails on
  one of the two limits of the language version: a numeric negation, or a multisig threshold
  that exceeds 32 bits, reported at that node of the expression.\<close>

theorem lower_checked_expr:
  assumes "infer_expr ck e scope = (Some ty, ck)"
  shows "case lower_expr path e out of
           Inr out' \<Rightarrow> \<exists>code. out' = out @ code
         | Inl err \<Rightarrow> blamed path e err"
proof -
  from assms have typed: "has_type (ck_spend_names ck) scope e ty"
    by (cases rule: decidesE [OF infer_decides [of ck scope e]]) auto
  show ?thesis
  proof (cases "lower_expr path e out")
    case (Inl err)
    with lower_typed_error [OF typed] show ?thesis by simp
  next
    case (Inr out')
    then have "rbind (lower_expr path e []) (\<lambda>code. Inr (out @ code)) = Inr out'"
      by (simp only: lowering.emit_eq [of path e out, symmetric])
    then show ?thesis by (auto simp: rbind_Inr_iff Inr)
  qed
qed

definition checked_sample :: expr where
  "checked_sample =
     E_Binary (E_Integer 3 \<lparr>span_start = 0, span_end = 1\<rparr>) BO_Less
       (E_Unary UO_Negate (E_Integer 4 \<lparr>span_start = 5, span_end = 6\<rparr>) \<lparr>span_start = 4, span_end = 6\<rparr>)
       \<lparr>span_start = 0, span_end = 6\<rparr>"

lemma lower_checked_expr_witness:
  "infer_expr (checker_new ''3 < -4'' ''a.ks'') checked_sample scope_new = (Some T_Bool, checker_new ''3 < -4'' ''a.ks'') \<and>
   (case lower_expr ''a.ks'' checked_sample [] of
      Inr out' \<Rightarrow> \<exists>code. out' = [] @ code | Inl err \<Rightarrow> blamed ''a.ks'' checked_sample err)"
proof
  show ok: "infer_expr (checker_new ''3 < -4'' ''a.ks'') checked_sample scope_new = (Some T_Bool, checker_new ''3 < -4'' ''a.ks'')"
    by (simp add: checked_sample_def)
  show "case lower_expr ''a.ks'' checked_sample [] of
      Inr out' \<Rightarrow> \<exists>code. out' = [] @ code | Inl err \<Rightarrow> blamed ''a.ks'' checked_sample err"
    by (rule lower_checked_expr [OF ok])
qed

end
