(* ===== verification/KS_Model.thy ===== *)
theory KS_Model
  imports KS_Token
begin

text \<open>
  The application model shared by the compiler and its tooling
  (\<open>compiler/model/src/lib.rs\<close>): its structs and enums, the \<open>Display\<close> texts, the fixed
  assurance profile and the lookup of a transition.
\<close>

section \<open>Operators and expressions\<close>

datatype unary_operator = UOp_Not | UOp_Negate

datatype binary_operator =
    BOp_Or | BOp_And | BOp_Equal | BOp_NotEqual | BOp_Greater | BOp_GreaterEqual | BOp_Less | BOp_LessEqual
  | BOp_Add | BOp_Sub | BOp_Mul | BOp_Div | BOp_Mod

datatype normalized_expression =
    NE_Symbol string
  | NE_Integer u64
  | NE_String string
  | NE_Bool bool
  | NE_Array "normalized_expression list"
  | NE_Unary unary_operator normalized_expression
  | NE_Binary binary_operator normalized_expression normalized_expression
  | NE_Call string "normalized_expression list"
  | NE_Field normalized_expression string

fun show_unary_operator :: "unary_operator \<Rightarrow> string" where
  "show_unary_operator UOp_Not = ''!''"
| "show_unary_operator UOp_Negate = ''-''"

fun show_binary_operator :: "binary_operator \<Rightarrow> string" where
  "show_binary_operator BOp_Or = ''||''"
| "show_binary_operator BOp_And = ''&&''"
| "show_binary_operator BOp_Equal = ''==''"
| "show_binary_operator BOp_NotEqual = ''!=''"
| "show_binary_operator BOp_Greater = ''>''"
| "show_binary_operator BOp_GreaterEqual = ''>=''"
| "show_binary_operator BOp_Less = ''<''"
| "show_binary_operator BOp_LessEqual = ''<=''"
| "show_binary_operator BOp_Add = ''+''"
| "show_binary_operator BOp_Sub = ''-''"
| "show_binary_operator BOp_Mul = ''*''"
| "show_binary_operator BOp_Div = ''/''"
| "show_binary_operator BOp_Mod = ''%''"

text \<open>\<open>Vec::join\<close> and the separator loops of the formatters.\<close>

fun join_with :: "string \<Rightarrow> string list \<Rightarrow> string" where
  "join_with sep [] = []"
| "join_with sep [x] = x"
| "join_with sep (x # xs) = x @ sep @ join_with sep xs"

text \<open>
  The \<open>Debug\<close> text of a string. ASCII is written out; which characters beyond ASCII are
  printable is decided by the Unicode tables of the standard library, and \<open>esc\<close> is that
  rendering of such a character.
\<close>

definition hex_digit :: "nat \<Rightarrow> char" where
  "hex_digit d = char_of (if d < 10 then 48 + d else 87 + d)"

definition debug_char :: "(rchar \<Rightarrow> string) \<Rightarrow> rchar \<Rightarrow> string" where
  "debug_char esc c =
     (case c of
        [b] \<Rightarrow>
          (let v = (of_char b :: nat)
           in if v = 0 then [CHR 0x5C, CHR ''0'']
              else if v = 9 then [CHR 0x5C, CHR ''t'']
              else if v = 10 then [CHR 0x5C, CHR ''n'']
              else if v = 13 then [CHR 0x5C, CHR ''r'']
              else if v = 34 then [CHR 0x5C, CHR 0x22]
              else if v = 92 then [CHR 0x5C, CHR 0x5C]
              else if 32 \<le> v \<and> v < 127 then [b]
              else if v < 16 then [CHR 0x5C, CHR ''u'', CHR 0x7B, hex_digit v, CHR 0x7D]
              else [CHR 0x5C, CHR ''u'', CHR 0x7B, hex_digit (v div 16), hex_digit (v mod 16), CHR 0x7D])
      | _ \<Rightarrow> esc c)"

definition debug_string :: "(rchar \<Rightarrow> string) \<Rightarrow> string \<Rightarrow> string" where
  "debug_string esc s = CHR 0x22 # concat (map (debug_char esc) (chars s)) @ [CHR 0x22]"

fun show_expression :: "(rchar \<Rightarrow> string) \<Rightarrow> normalized_expression \<Rightarrow> string" where
  "show_expression esc (NE_Symbol name) = name"
| "show_expression esc (NE_Integer v) = show_nat (unat v)"
| "show_expression esc (NE_String v) = debug_string esc v"
| "show_expression esc (NE_Bool b) = (if b then ''true'' else ''false'')"
| "show_expression esc (NE_Array es) = ''['' @ join_with '', '' (map (show_expression esc) es) @ '']''"
| "show_expression esc (NE_Unary uop e) = show_unary_operator uop @ show_expression esc e"
| "show_expression esc (NE_Binary bop l r) =
     show_expression esc l @ '' '' @ show_binary_operator bop @ '' '' @ show_expression esc r"
| "show_expression esc (NE_Call f as) = f @ ''('' @ join_with '', '' (map (show_expression esc) as) @ '')''"
| "show_expression esc (NE_Field ob f) = show_expression esc ob @ ''.'' @ f"

section \<open>Transitions\<close>

datatype signing_scheme = SingleSignature | Multisig

record signing_requirement =
  sr_scheme :: signing_scheme
  sr_threshold :: u32
  sr_authorized_keys :: "string list"
  sr_signature_arguments :: "string list"

datatype constraint_kind =
    CK_Authorization | CK_Value | CK_Script | CK_Timelock | CK_Hashlock | CK_Covenant | CK_Sequencing
  | CK_Proof | CK_TransactionShape | CK_Generic

record transition_constraint =
  tc_kind :: constraint_kind
  tc_expression :: normalized_expression
  tc_source_span :: span

record transaction_shape =
  ts_referenced_inputs :: "u32 list"
  ts_referenced_outputs :: "u32 list"
  ts_exact_input_count :: "u32 option"
  ts_exact_output_count :: "u32 option"
  ts_additional_inputs_permitted :: bool
  ts_additional_outputs_permitted :: bool

datatype monetary_responsibility = ExternalExplicit

record monetary_policy =
  mp_value_constraint_count :: nat
  mp_fee_handling :: monetary_responsibility
  mp_change_handling :: monetary_responsibility
  mp_compiler_injects_outputs :: bool
  mp_compiler_injects_recipients :: bool

datatype output_field = OF_Value | OF_Script | OF_CovenantId

fun show_output_field :: "output_field \<Rightarrow> string" where
  "show_output_field OF_Value = ''value''"
| "show_output_field OF_Script = ''script''"
| "show_output_field OF_CovenantId = ''covenant_id''"

record output_binding =
  ob_output_index :: u32
  ob_field :: output_field
  ob_relation :: binary_operator
  ob_expected :: normalized_expression

datatype continuation_kind = CO_Unspecified | CO_NamedOutput | CO_OutputScriptBound | CO_CovenantLineageBound

record named_continuation_output =
  no_name :: string
  no_output_index :: u32

record continuation_model =
  cm_kind :: continuation_kind
  cm_successor_outputs :: "u32 list"
  cm_named_successor_outputs :: "named_continuation_output list"
  cm_note :: string

record parameter =
  pm_name :: string
  pm_ty :: type_name

record transition_model =
  tm_name :: string
  tm_arguments :: "parameter list"
  tm_signing_requirements :: "signing_requirement list"
  tm_constraints :: "transition_constraint list"
  tm_transaction_shape :: transaction_shape
  tm_monetary_policy :: monetary_policy
  tm_output_bindings :: "output_binding list"
  tm_continuation :: continuation_model

record contract_model =
  cmo_name :: string
  cmo_state :: "parameter list"
  cmo_finality_depth :: "u64 option"
  cmo_transitions :: "transition_model list"

section \<open>Assurances\<close>

datatype assurance_actor = AA_Compiler | AA_Application | AA_Wallet | AA_Indexer | AA_Node | AA_Operator

record assurance =
  as_id :: string
  as_actor :: assurance_actor
  as_statement :: string

definition assurance_new :: "string \<Rightarrow> assurance_actor \<Rightarrow> string \<Rightarrow> assurance" where
  "assurance_new i actor statement = \<lparr>as_id = i, as_actor = actor, as_statement = statement\<rparr>"

record assurance_profile =
  ap_compiler_guarantees :: "assurance list"
  ap_external_obligations :: "assurance list"

definition kaspascript_defaults :: assurance_profile where
  "kaspascript_defaults =
     \<lparr>ap_compiler_guarantees =
        [assurance_new ''checked-source'' AA_Compiler
           ''The source parsed and passed KaspaScript semantic checks.'',
         assurance_new ''deterministic-lowering'' AA_Compiler
           ''The checked program lowers deterministically to typed IR and artifact metadata.'',
         assurance_new ''explicit-monetary-effects'' AA_Compiler
           ''Compilation does not create transaction outputs, recipients, fees, or change.'',
         assurance_new ''inspectable-signing-intent'' AA_Compiler
           ''Recognized signature requirements and transaction constraints are preserved in the application model.''],
      ap_external_obligations =
        [assurance_new ''transaction-instantiation'' AA_Application
           ''Construct concrete inputs, outputs, arguments, and continuation records that satisfy every transition constraint.'',
         assurance_new ''fees-and-change'' AA_Wallet
           ''Choose and display fees, change, and every recipient explicitly before signing.'',
         assurance_new ''signature-collection'' AA_Wallet
           ''Resolve authorized keys and collect the signatures required by the selected transition.'',
         assurance_new ''network-validation'' AA_Node
           ''Validate consensus, standardness, mass, fee policy, and target-network rules.'',
         assurance_new ''lineage-and-reorgs'' AA_Indexer
           ''Track accepted UTXOs, covenant lineage, duplicate transitions, and reorg effects.'',
         assurance_new ''activation-evidence'' AA_Operator
           ''Verify release, network, KIP, and activation assumptions against current primary sources.'']\<rparr>"

section \<open>The model\<close>

datatype execution_model = KaspaUtxoStateMachine

record application_model =
  am_schema_version :: string
  am_execution_model :: execution_model
  am_contracts :: "contract_model list"
  am_assurances :: assurance_profile

definition APPLICATION_MODEL_SCHEMA_VERSION :: string where
  "APPLICATION_MODEL_SCHEMA_VERSION = ''kaspascript.application.v0''"

definition application_model_new :: "contract_model list \<Rightarrow> application_model" where
  "application_model_new contracts =
     \<lparr>am_schema_version = APPLICATION_MODEL_SCHEMA_VERSION, am_execution_model = KaspaUtxoStateMachine,
      am_contracts = contracts, am_assurances = kaspascript_defaults\<rparr>"

definition application_model_empty :: application_model where
  "application_model_empty = application_model_new []"

definition am_transition :: "application_model \<Rightarrow> string \<Rightarrow> string \<Rightarrow> transition_model option" where
  "am_transition m contract transition =
     Option.bind (List.find (\<lambda>c. cmo_name c = contract) (am_contracts m))
       (\<lambda>c. List.find (\<lambda>t. tm_name t = transition) (cmo_transitions c))"

section \<open>Facts\<close>

lemma application_model_new_fields [simp]:
  "am_contracts (application_model_new cs) = cs"
  "am_schema_version (application_model_new cs) = APPLICATION_MODEL_SCHEMA_VERSION"
  "am_assurances (application_model_new cs) = kaspascript_defaults"
  by (simp_all add: application_model_new_def)

text \<open>A lookup by the first matching name finds every element when names are distinct.\<close>

lemma find_distinct:
  assumes "distinct (map f xs)" and "x \<in> set xs"
  shows "List.find (\<lambda>y. f y = f x) xs = Some x"
  using assms by (induction xs) (auto simp: rev_image_eqI)

end
