(* ===== verification/KS_Application.thy ===== *)
theory KS_Application
  imports KS_Model KS_Checker
begin

text \<open>
  The application model extracted from the syntax tree (\<open>compiler/ir/src/application.rs\<close>):
  normalised expressions, constraint classes, signing requirements, the transaction shape,
  output bindings and the continuation. Output parameters (\<open>&mut\<close>) are passed and returned;
  a \<open>BTreeSet\<close> is a set, read out in increasing order.
\<close>

section \<open>Normalised expressions\<close>

fun normalize_binary_operator :: "binary_op \<Rightarrow> binary_operator" where
  "normalize_binary_operator BO_Or = BOp_Or"
| "normalize_binary_operator BO_And = BOp_And"
| "normalize_binary_operator BO_Equal = BOp_Equal"
| "normalize_binary_operator BO_NotEqual = BOp_NotEqual"
| "normalize_binary_operator BO_Greater = BOp_Greater"
| "normalize_binary_operator BO_GreaterEqual = BOp_GreaterEqual"
| "normalize_binary_operator BO_Less = BOp_Less"
| "normalize_binary_operator BO_LessEqual = BOp_LessEqual"
| "normalize_binary_operator BO_Add = BOp_Add"
| "normalize_binary_operator BO_Sub = BOp_Sub"
| "normalize_binary_operator BO_Mul = BOp_Mul"
| "normalize_binary_operator BO_Div = BOp_Div"
| "normalize_binary_operator BO_Mod = BOp_Mod"

fun normalize_unary_operator :: "unary_op \<Rightarrow> unary_operator" where
  "normalize_unary_operator UO_Not = UOp_Not"
| "normalize_unary_operator UO_Negate = UOp_Negate"

lemma element_size_le: "x \<in> set es \<Longrightarrow> size (x :: expr) \<le> size_list size es"
  by (rule size_list_estimation' [OF _ order_refl])

function (sequential)
  normalize_expression :: "(rchar \<Rightarrow> string) \<Rightarrow> expr \<Rightarrow> normalized_expression"
and expression_path :: "(rchar \<Rightarrow> string) \<Rightarrow> expr \<Rightarrow> string"
where
  "normalize_expression esc (E_Ident i) = NE_Symbol (ident_name i)"
| "normalize_expression esc (E_Integer v s) = NE_Integer v"
| "normalize_expression esc (E_String v s) = NE_String v"
| "normalize_expression esc (E_Bool b s) = NE_Bool b"
| "normalize_expression esc (E_Array es s) = NE_Array (map (normalize_expression esc) es)"
| "normalize_expression esc (E_Unary uop e s) =
     NE_Unary (normalize_unary_operator uop) (normalize_expression esc e)"
| "normalize_expression esc (E_Binary l bop r s) =
     NE_Binary (normalize_binary_operator bop) (normalize_expression esc l) (normalize_expression esc r)"
| "normalize_expression esc (E_Call callee as s) =
     NE_Call (expression_path esc callee) (map (normalize_expression esc) as)"
| "normalize_expression esc (E_Field ob f s) = NE_Field (normalize_expression esc ob) (ident_name f)"
| "expression_path esc (E_Ident i) = ident_name i"
| "expression_path esc (E_Field ob f s) = expression_path esc ob @ ''.'' @ ident_name f"
| "expression_path esc e = show_expression esc (normalize_expression esc e)"
  by pat_completeness auto
termination
  by (relation "measure (case_sum (\<lambda>(esc, e). 2 * size e) (\<lambda>(esc, e). 2 * size e + 1))")
     (auto dest!: element_size_le)

definition expression_label :: "(rchar \<Rightarrow> string) \<Rightarrow> expr \<Rightarrow> string" where
  "expression_label esc e = show_expression esc (normalize_expression esc e)"

definition array_labels :: "(rchar \<Rightarrow> string) \<Rightarrow> expr \<Rightarrow> string list" where
  "array_labels esc e =
     (case e of
        E_Array elements _ \<Rightarrow> map (expression_label esc) elements
      | other \<Rightarrow> [expression_label esc other])"

section \<open>Constraint classes\<close>

fun expression_contains :: "expr \<Rightarrow> (string \<Rightarrow> bool) \<Rightarrow> bool" where
  "expression_contains (E_Ident i) p = p (ident_name i)"
| "expression_contains (E_Integer v s) p = False"
| "expression_contains (E_String v s) p = False"
| "expression_contains (E_Bool b s) p = False"
| "expression_contains (E_Array es s) p = (\<exists>e \<in> set es. expression_contains e p)"
| "expression_contains (E_Unary uop e s) p = expression_contains e p"
| "expression_contains (E_Binary l bop r s) p = (expression_contains l p \<or> expression_contains r p)"
| "expression_contains (E_Call callee as s) p =
     (expression_contains callee p \<or> (\<exists>a \<in> set as. expression_contains a p))"
| "expression_contains (E_Field ob f s) p = (p (ident_name f) \<or> expression_contains ob p)"

fun expression_contains_field :: "expr \<Rightarrow> string \<Rightarrow> bool" where
  "expression_contains_field (E_Field ob f s) expected =
     (ident_name f = expected \<or> expression_contains_field ob expected)"
| "expression_contains_field (E_Array es s) expected = (\<exists>e \<in> set es. expression_contains_field e expected)"
| "expression_contains_field (E_Unary uop e s) expected = expression_contains_field e expected"
| "expression_contains_field (E_Binary l bop r s) expected =
     (expression_contains_field l expected \<or> expression_contains_field r expected)"
| "expression_contains_field (E_Call callee as s) expected =
     (expression_contains_field callee expected \<or> (\<exists>a \<in> set as. expression_contains_field a expected))"
| "expression_contains_field e expected = False"

definition classify_constraint :: "expr \<Rightarrow> constraint_kind" where
  "classify_constraint e =
     (if expression_contains e (\<lambda>name. name = ''zk_verify'') then CK_Proof
      else if expression_contains e (\<lambda>name. name = ''covenant_id'' \<or> name = ''covenant'') then CK_Covenant
      else if expression_contains e (\<lambda>name. name = ''sequencing'') then CK_Sequencing
      else if expression_contains e (\<lambda>name. name = ''verify'' \<or> name = ''multisig'') then CK_Authorization
      else if expression_contains e (\<lambda>name. name = ''block'') then CK_Timelock
      else if expression_contains e (\<lambda>name. name \<in> set [''sha256'', ''blake2b'', ''hash160'']) then CK_Hashlock
      else if expression_contains_field e ''value'' then CK_Value
      else if expression_contains_field e ''script'' then CK_Script
      else if expression_contains e (\<lambda>name. name \<in> set [''input_count'', ''output_count'', ''continuation''])
      then CK_TransactionShape
      else CK_Generic)"

section \<open>Signing requirements\<close>

definition call_requirement :: "(rchar \<Rightarrow> string) \<Rightarrow> expr \<Rightarrow> expr list \<Rightarrow> signing_requirement list" where
  "call_requirement esc callee args =
     (case callee of
        E_Field ob field _ \<Rightarrow>
          (if ident_name field = ''verify''
           then [\<lparr>sr_scheme = SingleSignature, sr_threshold = 1,
                  sr_authorized_keys = (case args of [] \<Rightarrow> [] | a # _ \<Rightarrow> [expression_label esc a]),
                  sr_signature_arguments = [expression_label esc ob]\<rparr>]
           else [])
      | E_Ident ident \<Rightarrow>
          (if ident_name ident = ''multisig''
           then [\<lparr>sr_scheme = Multisig,
                  sr_threshold =
                    (case args of
                       E_Integer value _ # _ \<Rightarrow>
                         (case u32_try_from value of Some k \<Rightarrow> k | None \<Rightarrow> 2 ^ 32 - 1)
                     | _ \<Rightarrow> 0),
                  sr_authorized_keys = (case args of _ # keys # _ \<Rightarrow> array_labels esc keys | _ \<Rightarrow> []),
                  sr_signature_arguments = (case args of _ # _ # sigs # _ \<Rightarrow> array_labels esc sigs | _ \<Rightarrow> [])\<rparr>]
           else [])
      | _ \<Rightarrow> [])"

fun collect_signing_requirements ::
  "(rchar \<Rightarrow> string) \<Rightarrow> expr \<Rightarrow> signing_requirement list \<Rightarrow> signing_requirement list"
and collect_signing_each ::
  "(rchar \<Rightarrow> string) \<Rightarrow> expr list \<Rightarrow> signing_requirement list \<Rightarrow> signing_requirement list"
where
  "collect_signing_requirements esc (E_Call callee args s) out =
     collect_signing_each esc args
       (collect_signing_requirements esc callee (out @ call_requirement esc callee args))"
| "collect_signing_requirements esc (E_Array elements s) out = collect_signing_each esc elements out"
| "collect_signing_requirements esc (E_Unary uop e s) out = collect_signing_requirements esc e out"
| "collect_signing_requirements esc (E_Binary l bop r s) out =
     collect_signing_requirements esc r (collect_signing_requirements esc l out)"
| "collect_signing_requirements esc (E_Field ob f s) out = collect_signing_requirements esc ob out"
| "collect_signing_requirements esc e out = out"
| "collect_signing_each esc [] out = out"
| "collect_signing_each esc (e # es) out =
     collect_signing_each esc es (collect_signing_requirements esc e out)"

text \<open>The expressions of the \<open>require\<close> statements, which the passes over a spend visit in order.\<close>

fun require_expr :: "stmt \<Rightarrow> expr option" where
  "require_expr (S_Require e s) = Some e"
| "require_expr (S_Let x e s) = None"
| "require_expr (S_Return e s) = None"

definition require_exprs :: "spend \<Rightarrow> expr list" where
  "require_exprs sp = List.map_filter require_expr (spend_body sp)"

definition signing_requirements :: "(rchar \<Rightarrow> string) \<Rightarrow> spend \<Rightarrow> signing_requirement list" where
  "signing_requirements esc sp =
     fold (collect_signing_requirements esc) (require_exprs sp) []"

section \<open>Transaction shape\<close>

definition record_transaction_index ::
  "string \<Rightarrow> normalized_expression list \<Rightarrow> u32 set \<times> u32 set \<Rightarrow> u32 set \<times> u32 set" where
  "record_transaction_index f arguments st =
     (case arguments of
        NE_Integer value # _ \<Rightarrow>
          (case u32_try_from value of
             Some index \<Rightarrow>
               if f = ''input'' then (insert index (fst st), snd st)
               else if f = ''output'' then (fst st, insert index (snd st)) else st
           | None \<Rightarrow> st)
      | _ \<Rightarrow> st)"

fun collect_transaction_indexes :: "normalized_expression \<Rightarrow> u32 set \<times> u32 set \<Rightarrow> u32 set \<times> u32 set"
and collect_transaction_indexes_each ::
  "normalized_expression list \<Rightarrow> u32 set \<times> u32 set \<Rightarrow> u32 set \<times> u32 set"
where
  "collect_transaction_indexes (NE_Call f arguments) st =
     collect_transaction_indexes_each arguments (record_transaction_index f arguments st)"
| "collect_transaction_indexes (NE_Array elements) st = collect_transaction_indexes_each elements st"
| "collect_transaction_indexes (NE_Unary uop e) st = collect_transaction_indexes e st"
| "collect_transaction_indexes (NE_Binary bop l r) st =
     collect_transaction_indexes r (collect_transaction_indexes l st)"
| "collect_transaction_indexes (NE_Field ob f) st = collect_transaction_indexes ob st"
| "collect_transaction_indexes e st = st"
| "collect_transaction_indexes_each [] st = st"
| "collect_transaction_indexes_each (e # es) st =
     collect_transaction_indexes_each es (collect_transaction_indexes e st)"

text \<open>\<open>exact_count_constraint\<close> of this module: a count beyond 32 bits is no constraint.\<close>

definition app_exact_count :: "expr \<Rightarrow> (count_subject \<times> u32) option" where
  "app_exact_count e =
     (case e of
        E_Binary left BO_Equal right _ \<Rightarrow>
          (case (count_subject_of left, right) of
             (Some subject, E_Integer value _) \<Rightarrow> map_option (Pair subject) (u32_try_from value)
           | _ \<Rightarrow>
               (case (left, count_subject_of right) of
                  (E_Integer value _, Some subject) \<Rightarrow> map_option (Pair subject) (u32_try_from value)
                | _ \<Rightarrow> None))
      | _ \<Rightarrow> None)"

definition record_exact_transaction_count ::
  "expr \<Rightarrow> u32 option \<times> u32 option \<Rightarrow> u32 option \<times> u32 option" where
  "record_exact_transaction_count e st =
     (case app_exact_count e of
        None \<Rightarrow> st
      | Some (CS_Input, count) \<Rightarrow> (Some count, snd st)
      | Some (CS_Output, count) \<Rightarrow> (fst st, Some count))"

fun collect_exact_transaction_counts :: "expr \<Rightarrow> u32 option \<times> u32 option \<Rightarrow> u32 option \<times> u32 option" where
  "collect_exact_transaction_counts (E_Binary left BO_And right s) st =
     collect_exact_transaction_counts right (collect_exact_transaction_counts left st)"
| "collect_exact_transaction_counts e st = record_exact_transaction_count e st"

definition exact_transaction_counts :: "spend \<Rightarrow> u32 option \<times> u32 option" where
  "exact_transaction_counts sp = fold collect_exact_transaction_counts (require_exprs sp) (None, None)"

section \<open>Output bindings\<close>

definition bound_output :: "expr \<Rightarrow> (u32 \<times> output_field) option" where
  "bound_output e =
     (case e of
        E_Field (E_Call (E_Ident root) [E_Integer value _] _) field _ \<Rightarrow>
          (if ident_name root \<noteq> ''output'' then None
           else
             (case u32_try_from value of
                None \<Rightarrow> None
              | Some index \<Rightarrow>
                  if ident_name field = ''value'' then Some (index, OF_Value)
                  else if ident_name field = ''script'' then Some (index, OF_Script)
                  else if ident_name field = ''covenant_id'' then Some (index, OF_CovenantId)
                  else None))
      | _ \<Rightarrow> None)"

fun reverse_relation :: "binary_operator \<Rightarrow> binary_operator" where
  "reverse_relation BOp_Greater = BOp_Less"
| "reverse_relation BOp_GreaterEqual = BOp_LessEqual"
| "reverse_relation BOp_Less = BOp_Greater"
| "reverse_relation BOp_LessEqual = BOp_GreaterEqual"
| "reverse_relation other = other"

definition output_binding_of :: "(rchar \<Rightarrow> string) \<Rightarrow> expr \<Rightarrow> output_binding option" where
  "output_binding_of esc e =
     (case e of
        E_Binary left bop right _ \<Rightarrow>
          (let relation = normalize_binary_operator bop
           in case bound_output left of
                Some (index, field) \<Rightarrow>
                  Some \<lparr>ob_output_index = index, ob_field = field, ob_relation = relation,
                        ob_expected = normalize_expression esc right\<rparr>
              | None \<Rightarrow>
                  (case bound_output right of
                     Some (index, field) \<Rightarrow>
                       Some \<lparr>ob_output_index = index, ob_field = field, ob_relation = reverse_relation relation,
                             ob_expected = normalize_expression esc left\<rparr>
                   | None \<Rightarrow> None))
      | _ \<Rightarrow> None)"

section \<open>Continuations\<close>

definition named_successor_output :: "expr \<Rightarrow> named_continuation_output option" where
  "named_successor_output e =
     (case e of
        E_Call (E_Ident ident) (E_String name _ # rest) _ \<Rightarrow>
          (if ident_name ident \<noteq> ''continuation'' then None
           else
             (case rest of
                [] \<Rightarrow> None
              | a # _ \<Rightarrow> map_option (\<lambda>index. \<lparr>no_name = name, no_output_index = index\<rparr>) (output_call_index a)))
      | _ \<Rightarrow> None)"

definition push_some :: "'a option \<Rightarrow> 'a list \<Rightarrow> 'a list" where
  "push_some x out = (case x of None \<Rightarrow> out | Some y \<Rightarrow> out @ [y])"

fun collect_named_successor_outputs ::
  "expr \<Rightarrow> named_continuation_output list \<Rightarrow> named_continuation_output list"
and collect_named_successor_each ::
  "expr list \<Rightarrow> named_continuation_output list \<Rightarrow> named_continuation_output list"
where
  "collect_named_successor_outputs (E_Array elements s) out =
     collect_named_successor_each elements (push_some (named_successor_output (E_Array elements s)) out)"
| "collect_named_successor_outputs (E_Unary uop e s) out =
     collect_named_successor_outputs e (push_some (named_successor_output (E_Unary uop e s)) out)"
| "collect_named_successor_outputs (E_Binary l bop r s) out =
     collect_named_successor_outputs r
       (collect_named_successor_outputs l (push_some (named_successor_output (E_Binary l bop r s)) out))"
| "collect_named_successor_outputs (E_Call callee args s) out =
     collect_named_successor_each args
       (collect_named_successor_outputs callee (push_some (named_successor_output (E_Call callee args s)) out))"
| "collect_named_successor_outputs (E_Field ob f s) out =
     collect_named_successor_outputs ob (push_some (named_successor_output (E_Field ob f s)) out)"
| "collect_named_successor_outputs e out = push_some (named_successor_output e) out"
| "collect_named_successor_each [] out = out"
| "collect_named_successor_each (e # es) out =
     collect_named_successor_each es (collect_named_successor_outputs e out)"

definition named_successor_outputs :: "spend \<Rightarrow> named_continuation_output list" where
  "named_successor_outputs sp = fold collect_named_successor_outputs (require_exprs sp) []"

definition bound_indexes :: "output_field \<Rightarrow> output_binding list \<Rightarrow> u32 set" where
  "bound_indexes field bindings = set (map ob_output_index (filter (\<lambda>b. ob_field b = field) bindings))"

definition continuation_of :: "output_binding list \<Rightarrow> named_continuation_output list \<Rightarrow> continuation_model" where
  "continuation_of bindings named =
     (let covenant_outputs = bound_indexes OF_CovenantId bindings;
          named_indexes = set (map no_output_index named)
      in if covenant_outputs \<noteq> {} then
           \<lparr>cm_kind = CO_CovenantLineageBound,
            cm_successor_outputs = sorted_list_of_set (covenant_outputs \<union> named_indexes),
            cm_named_successor_outputs = named,
            cm_note = ''Source binds successor output covenant lineage.''\<rparr>
         else
           (let covenant_outputs = covenant_outputs \<union> bound_indexes OF_Script bindings
            in if covenant_outputs \<noteq> {} then
                 \<lparr>cm_kind = CO_OutputScriptBound,
                  cm_successor_outputs = sorted_list_of_set (covenant_outputs \<union> named_indexes),
                  cm_named_successor_outputs = named,
                  cm_note = ''Source binds successor output ownership/script, but does not prove covenant lineage.''\<rparr>
               else if named \<noteq> [] then
                 \<lparr>cm_kind = CO_NamedOutput,
                  cm_successor_outputs = sorted_list_of_set named_indexes,
                  cm_named_successor_outputs = named,
                  cm_note = ''Source names successor output(s), but does not bind ownership/script or covenant lineage.''\<rparr>
               else
                 \<lparr>cm_kind = CO_Unspecified, cm_successor_outputs = [], cm_named_successor_outputs = [],
                  cm_note = ''Source does not identify a successor state output; wallets and applications must not infer continuation.''\<rparr>))"

section \<open>The model of a program\<close>

definition constraint_of :: "(rchar \<Rightarrow> string) \<Rightarrow> expr \<Rightarrow> transition_constraint" where
  "constraint_of esc e =
     \<lparr>tc_kind = classify_constraint e, tc_expression = normalize_expression esc e,
      tc_source_span = expr_span e\<rparr>"

definition parameters_of :: "param list \<Rightarrow> parameter list" where
  "parameters_of ps = map (\<lambda>p. \<lparr>pm_name = ident_name (param_name p), pm_ty = param_ty p\<rparr>) ps"

definition build_transition_model :: "(rchar \<Rightarrow> string) \<Rightarrow> spend \<Rightarrow> transition_model" where
  "build_transition_model esc sp =
     (let constraints = map (constraint_of esc) (require_exprs sp);
          (referenced_inputs, referenced_outputs) =
            fold (\<lambda>c. collect_transaction_indexes (tc_expression c)) constraints ({}, {});
          output_bindings = List.map_filter (output_binding_of esc) (require_exprs sp);
          named = named_successor_outputs sp;
          continuation = continuation_of output_bindings named;
          value_constraint_count = length (filter (\<lambda>c. tc_kind c = CK_Value) constraints);
          (exact_input_count, exact_output_count) = exact_transaction_counts sp
      in \<lparr>tm_name = ident_name (spend_name sp),
          tm_arguments = parameters_of (spend_params sp),
          tm_signing_requirements = signing_requirements esc sp,
          tm_constraints = constraints,
          tm_transaction_shape =
            \<lparr>ts_referenced_inputs = sorted_list_of_set referenced_inputs,
             ts_referenced_outputs = sorted_list_of_set referenced_outputs,
             ts_exact_input_count = exact_input_count,
             ts_exact_output_count = exact_output_count,
             ts_additional_inputs_permitted = (exact_input_count = None),
             ts_additional_outputs_permitted = (exact_output_count = None)\<rparr>,
          tm_monetary_policy =
            \<lparr>mp_value_constraint_count = value_constraint_count,
             mp_fee_handling = ExternalExplicit, mp_change_handling = ExternalExplicit,
             mp_compiler_injects_outputs = False, mp_compiler_injects_recipients = False\<rparr>,
          tm_output_bindings = output_bindings,
          tm_continuation = continuation\<rparr>)"

definition build_contract_model :: "(rchar \<Rightarrow> string) \<Rightarrow> contract \<Rightarrow> contract_model" where
  "build_contract_model esc c =
     \<lparr>cmo_name = ident_name (contract_name c), cmo_state = parameters_of (contract_params c),
      cmo_finality_depth = contract_finality_depth c,
      cmo_transitions = map (build_transition_model esc) (contract_spends c)\<rparr>"

definition build_application_model :: "(rchar \<Rightarrow> string) \<Rightarrow> program \<Rightarrow> application_model" where
  "build_application_model esc prog =
     application_model_new (map (build_contract_model esc) (program_contracts prog))"

end
