(* ===== verification/KS_Lower.thy ===== *)
theory KS_Lower
  imports KS_Application KS_LowerExpr
begin

text \<open>
  Lowering of whole programs (\<open>lower_program\<close> and the \<open>Display\<close> of \<open>IrProgram\<close> in
  \<open>compiler/ir/src/gen.rs\<close>). The nested \<open>for\<close> loops with \<open>?\<close> are \<open>try_map\<close> and \<open>try_fold\<close>.
\<close>

section \<open>The intermediate program\<close>

record ir_param =
  ip_name :: string
  ip_ty :: type_name

record ir_spend =
  is_name :: string
  is_params :: "ir_param list"
  is_instructions :: "instruction list"

record ir_contract =
  ic_name :: string
  ic_params :: "ir_param list"
  ic_finality_depth :: "u64 option"
  ic_spends :: "ir_spend list"

record ir_program =
  ir_contracts :: "ir_contract list"
  ir_kip_requirements :: "u16 list"
  ir_application :: application_model

text \<open>A loop that pushes the result of a fallible body for each element.\<close>

fun try_map :: "('a \<Rightarrow> 'e + 'b) \<Rightarrow> 'a list \<Rightarrow> 'e + 'b list" where
  "try_map f [] = Inr []"
| "try_map f (x # xs) = rbind (f x) (\<lambda>y. rbind (try_map f xs) (\<lambda>ys. Inr (y # ys)))"

definition ir_params :: "param list \<Rightarrow> ir_param list" where
  "ir_params ps = map (\<lambda>p. \<lparr>ip_name = ident_name (param_name p), ip_ty = param_ty p\<rparr>) ps"

fun lower_stmt :: "string \<Rightarrow> instruction list \<Rightarrow> stmt \<Rightarrow> ir_error + instruction list" where
  "lower_stmt path instructions (S_Let name e s) =
     rbind (lower_expr path e instructions) (\<lambda>instructions.
     Inr (instructions @ [mk_instr (ident_span name) (I_Push (V_Symbol (ident_name name)))]))"
| "lower_stmt path instructions (S_Require e s) =
     rbind (lower_expr path e instructions) (\<lambda>instructions.
     Inr (instructions @ [mk_instr s I_Verify]))"
| "lower_stmt path instructions (S_Return e s) = lower_expr path e instructions"

definition lower_spend :: "string \<Rightarrow> spend \<Rightarrow> ir_error + ir_spend" where
  "lower_spend path sp =
     rbind (try_fold (lower_stmt path) [] (spend_body sp)) (\<lambda>instructions.
     Inr \<lparr>is_name = ident_name (spend_name sp), is_params = ir_params (spend_params sp),
          is_instructions = instructions\<rparr>)"

definition lower_contract :: "string \<Rightarrow> contract \<Rightarrow> ir_error + ir_contract" where
  "lower_contract path c =
     rbind (try_map (lower_spend path) (contract_spends c)) (\<lambda>spends.
     Inr \<lparr>ic_name = ident_name (contract_name c), ic_params = ir_params (contract_params c),
          ic_finality_depth = contract_finality_depth c, ic_spends = spends\<rparr>)"

definition lower_program ::
  "(rchar \<Rightarrow> string) \<Rightarrow> program \<Rightarrow> u16 list \<Rightarrow> string \<Rightarrow> ir_error + ir_program" where
  "lower_program esc prog kip_requirements path =
     rbind (try_map (lower_contract path) (program_contracts prog)) (\<lambda>contracts.
     Inr \<lparr>ir_contracts = contracts, ir_kip_requirements = kip_requirements,
          ir_application = build_application_model esc prog\<rparr>)"

section \<open>Display\<close>

text \<open>\<open>Debug\<close> texts of the enums, of options and of vectors.\<close>

fun signing_scheme_debug :: "signing_scheme \<Rightarrow> string" where
  "signing_scheme_debug SingleSignature = ''SingleSignature''"
| "signing_scheme_debug Multisig = ''Multisig''"

fun constraint_kind_debug :: "constraint_kind \<Rightarrow> string" where
  "constraint_kind_debug CK_Authorization = ''Authorization''"
| "constraint_kind_debug CK_Value = ''Value''"
| "constraint_kind_debug CK_Script = ''Script''"
| "constraint_kind_debug CK_Timelock = ''Timelock''"
| "constraint_kind_debug CK_Hashlock = ''Hashlock''"
| "constraint_kind_debug CK_Covenant = ''Covenant''"
| "constraint_kind_debug CK_Sequencing = ''Sequencing''"
| "constraint_kind_debug CK_Proof = ''Proof''"
| "constraint_kind_debug CK_TransactionShape = ''TransactionShape''"
| "constraint_kind_debug CK_Generic = ''Generic''"

fun continuation_kind_debug :: "continuation_kind \<Rightarrow> string" where
  "continuation_kind_debug CO_Unspecified = ''Unspecified''"
| "continuation_kind_debug CO_NamedOutput = ''NamedOutput''"
| "continuation_kind_debug CO_OutputScriptBound = ''OutputScriptBound''"
| "continuation_kind_debug CO_CovenantLineageBound = ''CovenantLineageBound''"

definition show_bool :: "bool \<Rightarrow> string" where
  "show_bool b = (if b then ''true'' else ''false'')"

definition debug_u32_list :: "u32 list \<Rightarrow> string" where
  "debug_u32_list xs = ''['' @ join_with '', '' (map (\<lambda>x. show_nat (unat x)) xs) @ '']''"

fun debug_u32_option :: "u32 option \<Rightarrow> string" where
  "debug_u32_option None = ''None''"
| "debug_u32_option (Some n) = ''Some('' @ show_nat (unat n) @ '')''"

definition line :: "string \<Rightarrow> string" where
  "line s = s @ [CHR 0x0A]"

definition display_signing :: "signing_requirement \<Rightarrow> string" where
  "display_signing signing =
     line (''    signing: '' @ signing_scheme_debug (sr_scheme signing) @ '' threshold '' @
           show_nat (unat (sr_threshold signing)) @ '' keys ['' @ join_with '', '' (sr_authorized_keys signing) @
           ''] signatures ['' @ join_with '', '' (sr_signature_arguments signing) @ '']'')"

definition display_transition :: "(rchar \<Rightarrow> string) \<Rightarrow> ir_spend \<Rightarrow> transition_model \<Rightarrow> string" where
  "display_transition esc sp t =
     (let shape = tm_transaction_shape t
      in line (''  transition '' @ is_name sp @ '': '' @ show_nat (length (tm_constraints t)) @ '' constraints, '' @
               show_nat (length (is_instructions sp)) @ '' instructions'') @
         (if tm_signing_requirements t = [] then line ''    signing: no recognized signature requirement''
          else concat (map display_signing (tm_signing_requirements t))) @
         line (''    inputs: '' @ debug_u32_list (ts_referenced_inputs shape) @ ''; outputs: '' @
               debug_u32_list (ts_referenced_outputs shape) @ ''; exact inputs/outputs: '' @
               debug_u32_option (ts_exact_input_count shape) @ ''/'' @ debug_u32_option (ts_exact_output_count shape) @
               ''; additional inputs/outputs permitted: '' @ show_bool (ts_additional_inputs_permitted shape) @ ''/'' @
               show_bool (ts_additional_outputs_permitted shape)) @
         concat (map (\<lambda>c. line (''    require ['' @ constraint_kind_debug (tc_kind c) @ '']: '' @
                                show_expression esc (tc_expression c))) (tm_constraints t)) @
         line (''    continuation: '' @ continuation_kind_debug (cm_kind (tm_continuation t)) @ '' ('' @
               cm_note (tm_continuation t) @ '')'') @
         line (''    monetary: fees/change are external-explicit; compiler outputs/recipients: '' @
               show_bool (mp_compiler_injects_outputs (tm_monetary_policy t)) @ ''/'' @
               show_bool (mp_compiler_injects_recipients (tm_monetary_policy t))))"

definition display_ir_contract :: "(rchar \<Rightarrow> string) \<Rightarrow> ir_contract \<Rightarrow> contract_model \<Rightarrow> string" where
  "display_ir_contract esc c m =
     line (''contract '' @ ic_name c) @
     (case ic_finality_depth c of None \<Rightarrow> [] | Some depth \<Rightarrow> line (''  finality depth: '' @ show_nat (unat depth))) @
     concat (map2 (display_transition esc) (ic_spends c) (cmo_transitions m))"

definition display_ir_program :: "(rchar \<Rightarrow> string) \<Rightarrow> ir_program \<Rightarrow> string" where
  "display_ir_program esc p =
     line (''KaspaScript application: '' @ am_schema_version (ir_application p)) @
     line ''execution model: kaspa-utxo-state-machine'' @
     concat (map2 (display_ir_contract esc) (ir_contracts p) (am_contracts (ir_application p)))"

section \<open>Facts\<close>

lemma try_map_Inr: "try_map f xs = Inr ys \<longleftrightarrow> list_all2 (\<lambda>x y. f x = Inr y) xs ys"
proof (induction xs arbitrary: ys)
  case (Cons x xs)
  then show ?case by (cases ys) (auto simp: rbind_Inr_iff)
qed auto

lemma try_map_Inl: "try_map f xs = Inl e \<Longrightarrow> \<exists>x \<in> set xs. f x = Inl e"
  by (induction xs) (auto simp: rbind_Inl_iff)

text \<open>Statements only append to the buffer.\<close>

lemma lower_stmt_appends: "appends (\<lambda>out. lower_stmt path out st)"
proof (cases st)
  case (S_Let x e s)
  then show ?thesis by (simp add: appends_rbind lowering.emit_appends)
next
  case (S_Require e s)
  then show ?thesis by (simp add: appends_rbind lowering.emit_appends)
next
  case (S_Return e s)
  then show ?thesis using lowering.emit_appends [of path e] by simp
qed

interpretation statements: emitter "\<lambda>st out. lower_stmt path out st" for path
  by unfold_locales (rule lower_stmt_appends)

lemma lower_body_emit_all: "try_fold (lower_stmt path) out body = emit_all (\<lambda>st out. lower_stmt path out st) body out"
  by (simp add: emit_all_def)

text \<open>The instructions of a spend are those of its statements, one after the other.\<close>

lemma lower_spend_Inr:
  "lower_spend path sp = Inr isp \<longleftrightarrow>
     (\<exists>codes. list_all2 (\<lambda>st code. lower_stmt path [] st = Inr code) (spend_body sp) codes \<and>
        isp = \<lparr>is_name = ident_name (spend_name sp), is_params = ir_params (spend_params sp),
               is_instructions = concat codes\<rparr>)"
  unfolding lower_spend_def lower_body_emit_all rbind_Inr_iff statements.emit_all_Inr_iff by auto

lemma lower_spend_Inl:
  assumes "lower_spend path sp = Inl err"
  shows "\<exists>st \<in> set (spend_body sp). lower_stmt path [] st = Inl err"
proof -
  from assms have "emit_all (\<lambda>st out. lower_stmt path out st) (spend_body sp) [] = Inl err"
    by (auto simp: lower_spend_def rbind_Inl_iff lower_body_emit_all)
  then show ?thesis unfolding statements.emit_all_Inl_iff by auto
qed

lemma lower_stmt_Inl: "lower_stmt path [] st = Inl err \<longleftrightarrow> lower_expr path (stmt_expr st) [] = Inl err"
  by (cases st) (auto simp: rbind_Inl_iff)

lemma lower_program_Inl:
  assumes "lower_program esc prog kips path = Inl err"
  shows "\<exists>c \<in> set (program_contracts prog). \<exists>sp \<in> set (contract_spends c). \<exists>st \<in> set (spend_body sp).
           lower_expr path (stmt_expr st) [] = Inl err"
proof -
  from assms obtain c where c: "c \<in> set (program_contracts prog)" "lower_contract path c = Inl err"
    by (auto simp: lower_program_def rbind_Inl_iff dest: try_map_Inl)
  then obtain sp where "sp \<in> set (contract_spends c)" "lower_spend path sp = Inl err"
    by (auto simp: lower_contract_def rbind_Inl_iff dest: try_map_Inl)
  with c(1) lower_spend_Inl lower_stmt_Inl show ?thesis by blast
qed

end
