(* ===== verification/KS_AppFacts.thy ===== *)
theory KS_AppFacts
  imports KS_Application KS_Wf
begin

text \<open>
  What the application model says about a transition, against the source: the indexes and
  counts of the transaction shape, the continuation, and their consistency for programs
  that pass semantic analysis.
\<close>

lemma analyze_program_wf: "analyze_program prog source f = Inr an \<Longrightarrow> wf_program prog"
  using check_program_silent [of source f prog]
  by (auto simp: analyze_program_def Let_def split: if_splits)

lemma require_exprs_requires: "require_exprs sp = requires (spend_body sp)"
proof -
  have "List.map_filter require_expr body = requires body" for body
    by (induction body rule: requires.induct) (auto simp: List.map_filter_simps split: option.splits elim: require_expr.elims)
  then show ?thesis by (simp add: require_exprs_def)
qed

section \<open>Referenced indexes\<close>

text \<open>The nodes of an expression outside the callees of its calls.\<close>

fun value_nodes :: "expr \<Rightarrow> expr list" where
  "value_nodes (E_Array es s) = E_Array es s # concat (map value_nodes es)"
| "value_nodes (E_Unary uop e s) = E_Unary uop e s # value_nodes e"
| "value_nodes (E_Binary l bop r s) = E_Binary l bop r s # value_nodes l @ value_nodes r"
| "value_nodes (E_Call c as s) = E_Call c as s # concat (map value_nodes as)"
| "value_nodes (E_Field ob f s) = E_Field ob f s # value_nodes ob"
| "value_nodes e = [e]"

fun normal_nodes :: "normalized_expression \<Rightarrow> normalized_expression list" where
  "normal_nodes (NE_Array es) = NE_Array es # concat (map normal_nodes es)"
| "normal_nodes (NE_Unary uop e) = NE_Unary uop e # normal_nodes e"
| "normal_nodes (NE_Binary bop l r) = NE_Binary bop l r # normal_nodes l @ normal_nodes r"
| "normal_nodes (NE_Call f as) = NE_Call f as # concat (map normal_nodes as)"
| "normal_nodes (NE_Field ob f) = NE_Field ob f # normal_nodes ob"
| "normal_nodes e = [e]"

lemma value_nodes_subexprs: "set (value_nodes e) \<subseteq> set (subexprs e)"
  by (induction e) auto

lemma normal_nodes_normalize: "normal_nodes (normalize_expression esc e) = map (normalize_expression esc) (value_nodes e)"
proof (induction e)
  case (E_Array es s)
  then have "map (normal_nodes \<circ> normalize_expression esc) es = map (map (normalize_expression esc) \<circ> value_nodes) es"
    by simp
  then show ?case by (simp only: normalize_expression.simps value_nodes.simps normal_nodes.simps map_concat map_map list.map)
next
  case (E_Call c as s)
  then have "map (normal_nodes \<circ> normalize_expression esc) as = map (map (normalize_expression esc) \<circ> value_nodes) as"
    by simp
  then show ?case by (simp only: normalize_expression.simps value_nodes.simps normal_nodes.simps map_concat map_map list.map)
qed simp_all

definition normal_index :: "string \<Rightarrow> normalized_expression \<Rightarrow> u32 option" where
  "normal_index f n =
     (case n of NE_Call g (NE_Integer v # _) \<Rightarrow> if g = f then u32_try_from v else None | _ \<Rightarrow> None)"

definition normal_indexes :: "string \<Rightarrow> normalized_expression list \<Rightarrow> u32 set" where
  "normal_indexes f ns = {i. \<exists>n \<in> set ns. normal_index f n = Some i}"

lemma normal_indexes_simps [simp]:
  "normal_indexes f [] = {}"
  "normal_indexes f (n # ns) = set_option (normal_index f n) \<union> normal_indexes f ns"
  "normal_indexes f (ms @ ns) = normal_indexes f ms \<union> normal_indexes f ns"
  by (auto simp: normal_indexes_def)

lemma normal_index_simps [simp]:
  "normal_index f (NE_Symbol x) = None" "normal_index f (NE_Integer v) = None"
  "normal_index f (NE_String x) = None" "normal_index f (NE_Bool b) = None"
  "normal_index f (NE_Array es) = None" "normal_index f (NE_Unary uop e) = None"
  "normal_index f (NE_Binary bop l r) = None" "normal_index f (NE_Field ob g) = None"
  by (simp_all add: normal_index_def)

lemma record_transaction_index_sets:
  "record_transaction_index f args (I, J) =
     (I \<union> set_option (normal_index ''input'' (NE_Call f args)), J \<union> set_option (normal_index ''output'' (NE_Call f args)))"
  by (auto simp: record_transaction_index_def normal_index_def split: list.splits normalized_expression.splits option.splits)

lemma collect_transaction_indexes_sets:
  "collect_transaction_indexes n (I, J) =
     (I \<union> normal_indexes ''input'' (normal_nodes n), J \<union> normal_indexes ''output'' (normal_nodes n))"
  "collect_transaction_indexes_each ns (I, J) =
     (I \<union> normal_indexes ''input'' (concat (map normal_nodes ns)), J \<union> normal_indexes ''output'' (concat (map normal_nodes ns)))"
  by (induction n "(I, J)" and ns "(I, J)" arbitrary: I J and I J
        rule: collect_transaction_indexes_collect_transaction_indexes_each.induct)
     (simp_all add: record_transaction_index_sets Un_assoc)

text \<open>Only an identifier prints as a plain name.\<close>

lemma show_nat_not_name: "show_nat n \<noteq> c # cs" if "\<not> is_ascii_digit c"
proof
  assume "show_nat n = c # cs"
  with show_nat_digits [of n] that show False by simp
qed

lemma expression_path_name:
  assumes "expression_path esc callee = name" and "name \<in> {''input'', ''output''}"
  shows "\<exists>i. callee = E_Ident i"
proof (cases callee)
  case (E_Integer v s)
  with assms show ?thesis by (auto simp: show_nat_not_name is_ascii_digit_def)
next
  case (E_Binary l bop r s)
  then have "CHR '' '' \<in> set (expression_path esc callee)" by simp
  with assms show ?thesis by auto
next
  case (E_Call c as s)
  then have "CHR ''('' \<in> set (expression_path esc callee)" by simp
  with assms show ?thesis by auto
next
  case (E_Field ob f s)
  then have "CHR ''.'' \<in> set (expression_path esc callee)" by simp
  with assms show ?thesis by auto
next
  case (E_Unary uop e s)
  with assms show ?thesis by (cases uop) auto
next
  case (E_String t s)
  with assms show ?thesis by (auto simp: debug_string_def)
qed (use assms in \<open>auto split: if_splits\<close>)

lemma normal_index_normalize:
  assumes "f = (case s of CS_Input \<Rightarrow> ''input'' | CS_Output \<Rightarrow> ''output'')"
  shows "normal_index f (normalize_expression esc e) = Some i \<longleftrightarrow>
     (\<exists>v sp. index_reference e = Some (s, v, sp) \<and> u32_try_from v = Some i)"
proof (cases e)
  case (E_Call callee args sp)
  show ?thesis
  proof (cases "\<exists>v s' rest. args = E_Integer v s' # rest")
    case True
    then obtain v s' rest where args: "args = E_Integer v s' # rest" by blast
    have "expression_path esc callee = f \<longleftrightarrow> callee_name callee = f"
      using expression_path_name [of esc callee f] assms
      by (cases callee; cases s) (auto simp: callee_name_def)
    with assms show ?thesis
      by (cases s) (auto simp: E_Call args normal_index_def index_reference_def)
  next
    case False
    then have "normal_index f (normalize_expression esc e) = None"
      using E_Call by (cases args; cases "hd args") (auto simp: normal_index_def)
    moreover from False have "index_reference e = None"
      using E_Call by (auto simp: index_reference_def split: list.splits expr.splits)
    ultimately show ?thesis by simp
  qed
qed simp_all

text \<open>The indexes a list of expressions mentions outside callees, as the checker reads them.\<close>

definition mentioned_indexes :: "count_subject \<Rightarrow> expr list \<Rightarrow> u32 set" where
  "mentioned_indexes s rs =
     {i. \<exists>e \<in> set rs. \<exists>x \<in> set (value_nodes e). \<exists>v sp. index_reference x = Some (s, v, sp) \<and> u32_try_from v = Some i}"

lemma mentioned_indexes_simps [simp]:
  "mentioned_indexes s [] = {}"
  "mentioned_indexes s (e # rs) = mentioned_indexes s [e] \<union> mentioned_indexes s rs"
  by (auto simp: mentioned_indexes_def)

lemma normal_indexes_mentioned:
  "normal_indexes ''input'' (normal_nodes (normalize_expression esc e)) = mentioned_indexes CS_Input [e]"
  "normal_indexes ''output'' (normal_nodes (normalize_expression esc e)) = mentioned_indexes CS_Output [e]"
  by (auto simp: normal_indexes_def normal_nodes_normalize mentioned_indexes_def normal_index_normalize [of _ CS_Input]
        normal_index_normalize [of _ CS_Output])

lemma constraint_fields [simp]:
  "tc_expression (constraint_of esc e) = normalize_expression esc e"
  "tc_kind (constraint_of esc e) = classify_constraint e"
  by (simp_all add: constraint_of_def)

lemma fold_transaction_indexes:
  "fold (\<lambda>c. collect_transaction_indexes (tc_expression c)) (map (constraint_of esc) rs) (I, J) =
     (I \<union> mentioned_indexes CS_Input rs, J \<union> mentioned_indexes CS_Output rs)"
proof (induction rs arbitrary: I J)
  case Nil
  then show ?case by simp
next
  case (Cons e rs)
  then show ?case
    by (subst mentioned_indexes_simps(2), subst (2) mentioned_indexes_simps(2))
       (simp del: mentioned_indexes_simps add: constraint_fields collect_transaction_indexes_sets normal_indexes_mentioned Un_assoc)
qed

lemma finite_mentioned [simp]: "finite (mentioned_indexes s rs)"
  by (rule finite_subset [of _ UNIV]) auto

text \<open>The shape of a transition.\<close>

abbreviation transition_shape :: "(rchar \<Rightarrow> string) \<Rightarrow> spend \<Rightarrow> transaction_shape" where
  "transition_shape esc sp \<equiv> tm_transaction_shape (build_transition_model esc sp)"

lemma transition_shape_fields:
  "ts_referenced_inputs (transition_shape esc sp) = sorted_list_of_set (mentioned_indexes CS_Input (require_exprs sp))"
  "ts_referenced_outputs (transition_shape esc sp) = sorted_list_of_set (mentioned_indexes CS_Output (require_exprs sp))"
  "ts_exact_input_count (transition_shape esc sp) = fst (exact_transaction_counts sp)"
  "ts_exact_output_count (transition_shape esc sp) = snd (exact_transaction_counts sp)"
  "ts_additional_inputs_permitted (transition_shape esc sp) = (fst (exact_transaction_counts sp) = None)"
  "ts_additional_outputs_permitted (transition_shape esc sp) = (snd (exact_transaction_counts sp) = None)"
  by (simp_all add: build_transition_model_def fold_transaction_indexes split_beta Let_def)

section \<open>Exact counts\<close>

lemma app_exact_count_eq:
  "app_exact_count e =
     (case exact_count_constraint e of
        None \<Rightarrow> None | Some (s, v, sp) \<Rightarrow> map_option (Pair s) (u32_try_from v))"
  by (auto simp: app_exact_count_def exact_count_constraint_def split: expr.splits option.splits binary_op.splits)

lemma collect_exact_transaction_counts_fold:
  "collect_exact_transaction_counts e st = fold record_exact_transaction_count (conjuncts e) st"
  by (induction e st rule: collect_exact_transaction_counts.induct) simp_all

lemma exact_transaction_counts_fold:
  "exact_transaction_counts sp =
     fold record_exact_transaction_count (concat (map conjuncts (require_exprs sp))) (None, None)"
proof -
  have "fold collect_exact_transaction_counts rs st =
      fold record_exact_transaction_count (concat (map conjuncts rs)) st" for rs st
    by (induction rs arbitrary: st) (simp_all add: collect_exact_transaction_counts_fold)
  then show ?thesis by (simp add: exact_transaction_counts_def)
qed

fun count_for :: "count_subject \<Rightarrow> 'a \<times> 'a \<Rightarrow> 'a" where
  "count_for CS_Input st = fst st"
| "count_for CS_Output st = snd st"

lemma record_exact_transaction_count_for:
  "count_for s (record_exact_transaction_count e st) =
     (case app_exact_count e of
        None \<Rightarrow> count_for s st | Some (s', n) \<Rightarrow> if s' = s then Some n else count_for s st)"
  by (cases s) (auto simp: record_exact_transaction_count_def split: option.splits count_subject.splits)

lemma fold_exact_count_source:
  "count_for s (fold record_exact_transaction_count cs st) = Some n \<Longrightarrow>
     count_for s st = Some n \<or> (\<exists>c \<in> set cs. app_exact_count c = Some (s, n))"
proof (induction cs arbitrary: st)
  case Nil
  then show ?case by simp
next
  case (Cons c cs)
  from Cons.IH [of "record_exact_transaction_count c st"] Cons.prems show ?case
    by (auto simp: record_exact_transaction_count_for split: option.splits if_splits)
qed

lemma fold_exact_count_keeps:
  "count_for s st \<noteq> None \<Longrightarrow> count_for s (fold record_exact_transaction_count cs st) \<noteq> None"
proof (induction cs arbitrary: st)
  case (Cons c cs)
  have "count_for s (record_exact_transaction_count c st) \<noteq> None"
    using Cons.prems by (auto simp: record_exact_transaction_count_for split: option.splits)
  then show ?case using Cons.IH by simp
qed simp

lemma fold_exact_count_found:
  assumes "c \<in> set cs" and "app_exact_count c = Some (s, m)"
  shows "count_for s (fold record_exact_transaction_count cs st) \<noteq> None"
proof -
  from assms(1) obtain xs ys where "cs = xs @ c # ys" by (blast dest: split_list)
  moreover have "count_for s (record_exact_transaction_count c st') \<noteq> None" for st'
    using assms(2) by (simp add: record_exact_transaction_count_for)
  ultimately show ?thesis by (simp add: fold_exact_count_keeps)
qed

text \<open>For consistent requires the count is the one the source fixes.\<close>

lemma exact_transaction_counts_consistent:
  assumes "consistent_shape (require_exprs sp)"
  shows "count_for s (exact_transaction_counts sp) =
     (if exact_counts s (require_exprs sp) = {} then None
      else Some (ucast (the_elem (exact_counts s (require_exprs sp)))))"
proof -
  let ?rs = "require_exprs sp" and ?cs = "concat (map conjuncts (require_exprs sp))"
  have counts: "exact_counts s ?rs = {v. \<exists>c sp. c \<in> set ?cs \<and> exact_count_constraint c = Some (s, v, sp)}"
    by (auto simp: exact_counts_def)
  have small: "unat v < 2 ^ 32" "exact_counts s ?rs = {v}" if "v \<in> exact_counts s ?rs" for v
    using assms that by (auto simp: consistent_shape_def)
  have app: "app_exact_count c = Some (s, n) \<longleftrightarrow>
      (\<exists>v \<in> exact_counts s ?rs. n = ucast v \<and> (\<exists>sp. exact_count_constraint c = Some (s, v, sp)))"
    if "c \<in> set ?cs" for c n
  proof -
    have "v \<in> exact_counts s ?rs" if "exact_count_constraint c = Some (s, v, sp)" for v sp
      using that \<open>c \<in> set ?cs\<close> unfolding counts by blast
    then show ?thesis
      by (fastforce simp: app_exact_count_eq u32_try_from_def dest: small(1) split: option.splits)
  qed
  show ?thesis
  proof (cases "exact_counts s ?rs = {}")
    case True
    have "count_for s (exact_transaction_counts sp) \<noteq> Some n" for n
    proof
      assume "count_for s (exact_transaction_counts sp) = Some n"
      moreover have "count_for s (None, None) \<noteq> Some n" by (cases s) auto
      ultimately obtain c where "c \<in> set ?cs" "app_exact_count c = Some (s, n)"
        using fold_exact_count_source [of s ?cs "(None, None)" n] by (auto simp: exact_transaction_counts_fold)
      with app True show False by blast
    qed
    with True show ?thesis by (cases "count_for s (exact_transaction_counts sp)") auto
  next
    case False
    then obtain v where v: "v \<in> exact_counts s ?rs" by blast
    then obtain c sp' where c: "c \<in> set ?cs" "exact_count_constraint c = Some (s, v, sp')" unfolding counts by blast
    with v app have "app_exact_count c = Some (s, ucast v)" by blast
    with c(1) have "count_for s (exact_transaction_counts sp) \<noteq> None"
      unfolding exact_transaction_counts_fold by (intro fold_exact_count_found)
    then obtain n where n: "count_for s (exact_transaction_counts sp) = Some n" by blast
    have "count_for s (None, None) \<noteq> Some n" by (cases s) auto
    with n fold_exact_count_source [of s ?cs "(None, None)" n] obtain c' where
      "c' \<in> set ?cs" "app_exact_count c' = Some (s, n)" by (auto simp: exact_transaction_counts_fold)
    with app obtain w where "w \<in> exact_counts s ?rs" "n = ucast w" by blast
    with v small(2) [of v] n False show ?thesis by auto
  qed
qed

lemma exact_count_value:
  assumes "consistent_shape (require_exprs sp)"
  shows "count_for s (exact_transaction_counts sp) = Some n \<longleftrightarrow>
     (\<exists>v \<in> exact_counts s (require_exprs sp). n = ucast v \<and> unat n = unat v)"
proof -
  have small: "unat v < 2 ^ 32" "exact_counts s (require_exprs sp) = {v}" "unat (ucast v :: u32) = unat v"
    if "v \<in> exact_counts s (require_exprs sp)" for v
    using assms that u32_try_from_unat [of v "ucast v"] by (auto simp: consistent_shape_def u32_try_from_def)
  show ?thesis
  proof (cases "exact_counts s (require_exprs sp) = {}")
    case True
    with exact_transaction_counts_consistent [OF assms, of s] show ?thesis by simp
  next
    case False
    then obtain v where v: "v \<in> exact_counts s (require_exprs sp)" by blast
    with small(2) [OF v] small(3) [OF v] exact_transaction_counts_consistent [OF assms, of s] show ?thesis by auto
  qed
qed

lemma mentioned_referenced:
  "i \<in> mentioned_indexes s rs \<Longrightarrow> \<exists>v \<in> referenced_indices s rs. u32_try_from v = Some i"
  using value_nodes_subexprs by (fastforce simp: mentioned_indexes_def referenced_indices_def references_def)

lemma ucast_less_u32: "unat v < 2 ^ 32 \<Longrightarrow> w < v \<Longrightarrow> u32_try_from w = Some i \<Longrightarrow> i < (ucast (v :: u64) :: u32)"
  using u32_try_from_unat [of v "ucast v"] u32_try_from_unat [of w i]
  by (simp add: word_less_nat_alt u32_try_from_def split: if_splits)

text \<open>For a program that passes analysis.\<close>

lemma analyzed_spend:
  assumes "analyze_program prog source f = Inr an" and "c \<in> set (program_contracts prog)" and "sp \<in> set (contract_spends c)"
  shows "consistent_shape (require_exprs sp)" and "distinct (continuation_labels (require_exprs sp))"
proof -
  have "wf_spend c (insert_params scope_new (contract_params c)) sp"
    using analyze_program_wf [OF assms(1)] assms(2,3) by (auto simp: wf_program_def wf_contract_def)
  then show "consistent_shape (require_exprs sp)" and "distinct (continuation_labels (require_exprs sp))"
    by (simp_all add: wf_spend_def require_exprs_requires)
qed

lemma indexes_below_count:
  assumes "consistent_shape (require_exprs sp)" and "count_for s (exact_transaction_counts sp) = Some n"
    and "w \<in> referenced_indices s (require_exprs sp)" and "u32_try_from w = Some i"
  shows "i < n"
proof -
  from assms(1,2) obtain v where v: "v \<in> exact_counts s (require_exprs sp)" "exact_counts s (require_exprs sp) = {v}" "n = ucast v"
    by (auto simp: exact_transaction_counts_consistent consistent_shape_def split: if_splits) fastforce
  from assms(1) v(1) assms(3) have "unat v < 2 ^ 32" "w < v" by (auto simp: consistent_shape_def)
  with assms(4) v(3) show ?thesis by (simp add: ucast_less_u32)
qed

section \<open>Continuations\<close>

lemma map_filter_append: "List.map_filter g (xs @ ys) = List.map_filter g xs @ List.map_filter g ys"
  by (simp add: List.map_filter_def)

lemma collect_named_successors_nodes:
  "collect_named_successor_outputs e out = out @ List.map_filter named_successor_output (subexprs e)"
  "collect_named_successor_each es out = out @ List.map_filter named_successor_output (concat (map subexprs es))"
  by (induction e out and es out rule: collect_named_successor_outputs_collect_named_successor_each.induct)
     (simp_all add: push_some_def map_filter_append List.map_filter_simps split: option.splits)

lemma named_successor_outputs_nodes:
  "named_successor_outputs sp = List.map_filter named_successor_output (concat (map subexprs (require_exprs sp)))"
proof -
  have "fold collect_named_successor_outputs rs out =
      out @ List.map_filter named_successor_output (concat (map subexprs rs))" for rs out
    by (induction rs arbitrary: out) (simp_all add: collect_named_successors_nodes map_filter_append)
  then show ?thesis by (simp add: named_successor_outputs_def)
qed

lemma map_filter_image:
  assumes "\<And>x y. f x = Some y \<Longrightarrow> \<exists>z. g x = Some z \<and> k z = h y"
  shows "h ` set (List.map_filter f xs) \<subseteq> k ` set (List.map_filter g xs)"
  using assms by (fastforce simp: List.map_filter_def image_iff)

lemma map_filter_distinct:
  assumes "\<And>x y. f x = Some y \<Longrightarrow> \<exists>z. g x = Some z \<and> k z = h y"
  shows "distinct (map k (List.map_filter g xs)) \<Longrightarrow> distinct (map h (List.map_filter f xs))"
proof (induction xs)
  case Nil
  then show ?case by (simp add: List.map_filter_simps)
next
  case (Cons x xs)
  have image: "h ` set (List.map_filter f xs) \<subseteq> k ` set (List.map_filter g xs)"
    using assms by (rule map_filter_image)
  show ?case
  proof (cases "f x")
    case None
    with Cons show ?thesis by (auto simp: List.map_filter_simps split: option.splits)
  next
    case (Some y)
    with assms obtain z where z: "g x = Some z" "k z = h y" by blast
    with Cons.prems have "k z \<notin> k ` set (List.map_filter g xs)" by (simp add: List.map_filter_simps)
    with image z(2) have "h y \<notin> h ` set (List.map_filter f xs)" by auto
    with Cons Some z(1) show ?thesis by (simp add: List.map_filter_simps)
  qed
qed

lemma named_successor_label:
  "named_successor_output x = Some y \<Longrightarrow> \<exists>z. continuation_name x = Some z \<and> fst z = no_name y"
  by (auto simp: named_successor_output_def continuation_name_def split: expr.splits list.splits if_splits)

text \<open>Successor outputs are indexes the requires mention.\<close>

lemma output_call_reference:
  "output_call_index b = Some i \<Longrightarrow> \<exists>v s. index_reference b = Some (CS_Output, v, s) \<and> u32_try_from v = Some i"
  by (auto simp: output_call_index_def index_reference_def callee_name_def split: expr.splits list.splits if_splits)

lemma subexprs_trans: "y \<in> set (subexprs x) \<Longrightarrow> set (subexprs y) \<subseteq> set (subexprs x)"
  by (induction x) auto

lemma subexprs_self: "x \<in> set (subexprs x)"
  by (cases x) auto

lemma referenced_indicesI:
  "e \<in> set rs \<Longrightarrow> x \<in> set (subexprs e) \<Longrightarrow> index_reference x = Some (s, v, sp) \<Longrightarrow> v \<in> referenced_indices s rs"
  by (auto simp: referenced_indices_def references_def)

lemma named_successor_reference:
  assumes "y \<in> set (named_successor_outputs sp)"
  shows "\<exists>v \<in> referenced_indices CS_Output (require_exprs sp). u32_try_from v = Some (no_output_index y)"
proof -
  from assms obtain e x where x: "e \<in> set (require_exprs sp)" "x \<in> set (subexprs e)" "named_successor_output x = Some y"
    by (auto simp: named_successor_outputs_nodes List.map_filter_def)
  then obtain c n s b rest s' where call: "x = E_Call c (E_String n s # b # rest) s'"
    and b: "output_call_index b = Some (no_output_index y)"
    by (auto simp: named_successor_output_def split: expr.splits list.splits if_splits)
  then have "b \<in> set (subexprs x)" using subexprs_self [of b] by simp
  then have "b \<in> set (subexprs e)" using subexprs_trans [OF x(2)] by blast
  with x(1) output_call_reference [OF b] show ?thesis by (blast intro: referenced_indicesI)
qed

lemma bound_output_reference:
  assumes "bound_output x = Some (i, field)"
  shows "\<exists>b \<in> set (subexprs x). \<exists>v s. index_reference b = Some (CS_Output, v, s) \<and> u32_try_from v = Some i"
proof -
  from assms obtain root v s s' fd s'' where "x = E_Field (E_Call (E_Ident root) [E_Integer v s] s') fd s''"
    "ident_name root = ''output''" "u32_try_from v = Some i"
    by (auto simp: bound_output_def split: expr.splits list.splits if_splits option.splits)
  then show ?thesis
    by (intro bexI [of _ "E_Call (E_Ident root) [E_Integer v s] s'"]) (auto simp: index_reference_def callee_name_def)
qed

lemma output_binding_reference:
  assumes "y \<in> set (tm_output_bindings (build_transition_model esc sp))"
  shows "\<exists>v \<in> referenced_indices CS_Output (require_exprs sp). u32_try_from v = Some (ob_output_index y)"
proof -
  from assms obtain e where e: "e \<in> set (require_exprs sp)" "output_binding_of esc e = Some y"
    by (auto simp: build_transition_model_def List.map_filter_def split_beta Let_def)
  then obtain l bop r s where bin: "e = E_Binary l bop r s"
    by (auto simp: output_binding_of_def split: expr.splits)
  with e(2) have "\<exists>x \<in> {l, r}. \<exists>field. bound_output x = Some (ob_output_index y, field)"
    by (auto simp: output_binding_of_def Let_def split: option.splits)
  then obtain x field where "x \<in> {l, r}" "bound_output x = Some (ob_output_index y, field)" by blast
  moreover from this(1) have "set (subexprs x) \<subseteq> set (subexprs e)" by (auto simp: bin)
  ultimately show ?thesis using bound_output_reference e(1) by (blast intro: referenced_indicesI)
qed

lemma finite_bound [simp]: "finite (bound_indexes field bindings)"
  by (simp add: bound_indexes_def)

lemma continuation_of_facts:
  "sorted (cm_successor_outputs (continuation_of bindings named)) \<and>
   distinct (cm_successor_outputs (continuation_of bindings named))"
  "cm_named_successor_outputs (continuation_of bindings named) = named"
  "no_output_index ` set named \<subseteq> set (cm_successor_outputs (continuation_of bindings named))"
  "set (cm_successor_outputs (continuation_of bindings named)) \<subseteq> ob_output_index ` set bindings \<union> no_output_index ` set named"
  "cm_kind (continuation_of bindings named) = CO_Unspecified \<longleftrightarrow> cm_successor_outputs (continuation_of bindings named) = []"
  by (auto simp: continuation_of_def Let_def bound_indexes_def)

lemma continuation_fields:
  "tm_continuation (build_transition_model esc sp) =
     continuation_of (tm_output_bindings (build_transition_model esc sp)) (named_successor_outputs sp)"
  by (simp add: build_transition_model_def Let_def split_beta)

section \<open>Properties\<close>

text \<open>The input and output indexes of a transition are listed in increasing order without repetition,
  and are exactly the literal indexes below \<open>2^32\<close> of the \<open>input\<close> and \<open>output\<close> calls in the
  requires, outside the callees of other calls.\<close>

theorem transition_indexes_exact:
  "sorted (ts_referenced_inputs (transition_shape esc sp)) \<and> distinct (ts_referenced_inputs (transition_shape esc sp)) \<and>
   set (ts_referenced_inputs (transition_shape esc sp)) = mentioned_indexes CS_Input (require_exprs sp) \<and>
   sorted (ts_referenced_outputs (transition_shape esc sp)) \<and> distinct (ts_referenced_outputs (transition_shape esc sp)) \<and>
   set (ts_referenced_outputs (transition_shape esc sp)) = mentioned_indexes CS_Output (require_exprs sp)"
  unfolding transition_shape_fields by simp

text \<open>C29: in a program that passes analysis, a transition's exact counts are the ones its requires fix,
  further inputs or outputs are permitted exactly when the requires fix no count, and every index
  listed is below the exact count.\<close>

theorem checked_transition_counts:
  assumes "analyze_program prog source f = Inr an" and "c \<in> set (program_contracts prog)" and "sp \<in> set (contract_spends c)"
  shows "(\<forall>n. ts_exact_input_count (transition_shape esc sp) = Some n \<longleftrightarrow>
            (\<exists>v \<in> exact_counts CS_Input (require_exprs sp). n = ucast v \<and> unat n = unat v)) \<and>
         (\<forall>n. ts_exact_output_count (transition_shape esc sp) = Some n \<longleftrightarrow>
            (\<exists>v \<in> exact_counts CS_Output (require_exprs sp). n = ucast v \<and> unat n = unat v)) \<and>
         ts_additional_inputs_permitted (transition_shape esc sp) = (exact_counts CS_Input (require_exprs sp) = {}) \<and>
         ts_additional_outputs_permitted (transition_shape esc sp) = (exact_counts CS_Output (require_exprs sp) = {}) \<and>
         (\<forall>n. ts_exact_input_count (transition_shape esc sp) = Some n \<longrightarrow>
            (\<forall>i \<in> set (ts_referenced_inputs (transition_shape esc sp)). i < n)) \<and>
         (\<forall>n. ts_exact_output_count (transition_shape esc sp) = Some n \<longrightarrow>
            (\<forall>i \<in> set (ts_referenced_outputs (transition_shape esc sp)). i < n))"
proof -
  note ok = analyzed_spend(1) [OF assms]
  note counts = exact_transaction_counts_consistent [OF ok]
  have exact: "count_for s (exact_transaction_counts sp) = Some n \<longleftrightarrow>
      (\<exists>v \<in> exact_counts s (require_exprs sp). n = ucast v \<and> unat n = unat v)" for s n
    by (rule exact_count_value [OF ok])
  have below: "i < n" if "count_for s (exact_transaction_counts sp) = Some n" "i \<in> mentioned_indexes s (require_exprs sp)" for s n i
    using mentioned_referenced [OF that(2)] indexes_below_count [OF ok that(1)] by blast
  from exact [of CS_Input] exact [of CS_Output] below [of CS_Input] below [of CS_Output] counts [of CS_Input] counts [of CS_Output]
  show ?thesis unfolding transition_shape_fields by (simp split: if_splits)
qed


section \<open>A sample program\<close>

text \<open>
  \<open>contract Channel { params { owner: PublicKey } spend advance(sig: Signature) {
     require sig.verify(owner); require input_count == 1 && output_count == 2;
     require continuation("state", output(1)); } }\<close>, with all spans at the origin.
\<close>

abbreviation (input) sp0 :: span where
  "sp0 \<equiv> \<lparr>span_start = 0, span_end = 0\<rparr>"

definition sample_verify :: expr where
  "sample_verify =
     E_Call (E_Field (E_Ident (mk_ident ''sig'' sp0)) (mk_ident ''verify'' sp0) sp0) [E_Ident (mk_ident ''owner'' sp0)] sp0"

definition sample_counts :: expr where
  "sample_counts =
     E_Binary (E_Binary (E_Ident (mk_ident ''input_count'' sp0)) BO_Equal (E_Integer 1 sp0) sp0) BO_And
       (E_Binary (E_Ident (mk_ident ''output_count'' sp0)) BO_Equal (E_Integer 2 sp0) sp0) sp0"

definition sample_next :: expr where
  "sample_next =
     E_Call (E_Ident (mk_ident ''continuation'' sp0))
       [E_String ''state'' sp0, E_Call (E_Ident (mk_ident ''output'' sp0)) [E_Integer 1 sp0] sp0] sp0"

definition sample_spend :: spend where
  "sample_spend =
     \<lparr>spend_name = mk_ident ''advance'' sp0,
      spend_params = [\<lparr>param_name = mk_ident ''sig'' sp0, param_ty = T_Signature, param_span = sp0\<rparr>],
      spend_body = [S_Require sample_verify sp0, S_Require sample_counts sp0, S_Require sample_next sp0],
      spend_span = sp0\<rparr>"

definition sample_contract :: contract where
  "sample_contract =
     \<lparr>contract_name = mk_ident ''Channel'' sp0,
      contract_params = [\<lparr>param_name = mk_ident ''owner'' sp0, param_ty = T_PublicKey, param_span = sp0\<rparr>],
      contract_finality_depth = None, contract_spends = [sample_spend], contract_span = sp0\<rparr>"

definition sample_program :: program where
  "sample_program = \<lparr>program_contracts = [sample_contract]\<rparr>"

definition sample_scope :: scope where
  "sample_scope = \<lparr>sc_symbols = [''owner'' \<mapsto> T_PublicKey, ''sig'' \<mapsto> T_Signature]\<rparr>"

lemma sample_typed:
  "has_type {''advance''} sample_scope sample_verify T_Bool"
  "has_type {''advance''} sample_scope sample_counts T_Bool"
  "has_type {''advance''} sample_scope sample_next T_Bool"
proof -
  show "has_type {''advance''} sample_scope sample_verify T_Bool"
    unfolding sample_verify_def
    by (rule ht_verify [where object = "E_Ident (mk_ident ''sig'' sp0)" and field = "mk_ident ''verify'' sp0"])
       (simp_all add: verify_receiver_def has_type_Ident builtin_type_def sample_scope_def scope_get_def)
  have "has_type {''advance''} sample_scope (E_Ident (mk_ident n sp0)) T_Amount" if "n \<in> {''input_count'', ''output_count''}" for n
    using that by (auto simp: has_type_Ident builtin_type_def)
  then show "has_type {''advance''} sample_scope sample_counts T_Bool"
    unfolding sample_counts_def by (auto simp: has_type_Binary)
  have "is_valid_continuation_name ''state''" by code_simp
  then show "has_type {''advance''} sample_scope sample_next T_Bool"
    unfolding sample_next_def
    by (intro ht_continuation) (simp_all add: callee_name_def output_call_index_def u32_try_from_def)
qed

lemma sample_scope_params:
  "insert_params (insert_params scope_new (contract_params sample_contract)) (spend_params sample_spend) = sample_scope"
  "\<not> scope_contains (insert_params scope_new (contract_params sample_contract)) ''sig''"
  by (simp_all add: sample_contract_def sample_spend_def insert_params_def scope_insert_def scope_new_def sample_scope_def
        scope_contains_def)

lemma sample_requires: "requires (spend_body sample_spend) = [sample_verify, sample_counts, sample_next]"
  by (simp add: sample_spend_def)

lemma sample_exact:
  "exact_counts s [sample_verify, sample_counts, sample_next] = (case s of CS_Input \<Rightarrow> {1} | CS_Output \<Rightarrow> {2})"
proof -
  have none: "conjuncts sample_verify = [sample_verify]" "exact_count_constraint sample_verify = None"
    "conjuncts sample_next = [sample_next]" "exact_count_constraint sample_next = None"
    by (simp_all add: sample_verify_def sample_next_def exact_count_constraint_def)
  obtain a b where counts: "conjuncts sample_counts = [a, b]" "exact_count_constraint a = Some (CS_Input, 1, sp0)"
    "exact_count_constraint b = Some (CS_Output, 2, sp0)"
    by (simp add: sample_counts_def exact_count_constraint_def count_subject_of_def)
  show ?thesis
    by (cases s) (simp_all add: exact_counts_Cons none counts, simp_all add: exact_counts_def)
qed

lemma sample_references:
  "referenced_indices s [sample_verify, sample_counts, sample_next] = (case s of CS_Input \<Rightarrow> {} | CS_Output \<Rightarrow> {1})"
  by (cases s) (simp_all add: referenced_indices_def sample_verify_def sample_counts_def sample_next_def
       index_reference_def callee_name_def)

lemma sample_shape:
  "consistent_shape [sample_verify, sample_counts, sample_next]"
  "distinct (continuation_labels [sample_verify, sample_counts, sample_next])"
proof -
  show "consistent_shape [sample_verify, sample_counts, sample_next]"
    unfolding consistent_shape_def sample_exact sample_references
    by (simp split: count_subject.splits)
  have "continuation_labels [sample_verify, sample_counts, sample_next] = [''state'']"
    by (simp add: continuation_labels_def sample_verify_def sample_counts_def sample_next_def List.map_filter_simps)
       (simp add: continuation_name_def)
  then show "distinct (continuation_labels [sample_verify, sample_counts, sample_next])" by simp
qed

lemma sample_wf: "wf_program sample_program"
proof -
  have "wf_spend sample_contract (insert_params scope_new (contract_params sample_contract)) sample_spend"
    unfolding wf_spend_def sample_requires sample_scope_params(1)
    using sample_scope_params(2) sample_shape sample_typed
    by (simp add: sample_spend_def sample_contract_def wf_body_Require spend_uses_name_def
          sample_verify_def sample_counts_def sample_next_def)
  then show ?thesis by (simp add: wf_program_def wf_contract_def sample_program_def sample_contract_def)
qed

lemma sample_analyzed: "\<exists>an. analyze_program sample_program [] ''channel.ks'' = Inr an"
  using sample_wf check_program_silent [of "[]" "''channel.ks''" sample_program]
  by (simp add: analyze_program_def Let_def)

lemma sample_members: "sample_contract \<in> set (program_contracts sample_program)" "sample_spend \<in> set (contract_spends sample_contract)"
  by (simp_all add: sample_program_def sample_contract_def)

lemma checked_transition_counts_witness:
  "ts_exact_input_count (transition_shape id sample_spend) = Some 1 \<and>
   ts_exact_output_count (transition_shape id sample_spend) = Some 2 \<and>
   ts_additional_outputs_permitted (transition_shape id sample_spend) = False"
proof -
  obtain an where an: "analyze_program sample_program [] ''channel.ks'' = Inr an" using sample_analyzed by blast
  have "exact_counts CS_Output (require_exprs sample_spend) = {2}" "exact_counts CS_Input (require_exprs sample_spend) = {1}"
    by (simp_all add: require_exprs_requires sample_requires sample_exact)
  with checked_transition_counts [OF an sample_members, of id] show ?thesis by simp
qed


end
