(* ===== verification/KS_Signing.thy ===== *)
theory KS_Signing
  imports KS_Lower KS_AppFacts KS_LowerTyped "HOL-Library.Multiset"
begin

text \<open>
  Lowering of checked programs as a whole, and the agreement of the two products of lowering:
  the signature checks in the emitted instructions and the signing requirements of the
  application model.
\<close>

section \<open>Checked programs\<close>

lemma wf_body_typed:
  "wf_body names sc locals body \<Longrightarrow> st \<in> set body \<Longrightarrow> \<exists>sc ty. has_type names sc (stmt_expr st) ty"
proof (induction rule: wf_body.induct)
  case wf_nil
  then show ?case by simp
qed (simp, elim disjE; simp; blast)+

lemma analyzed_stmt_typed:
  assumes "analyze_program prog source f = Inr an" and "c \<in> set (program_contracts prog)"
    and "sp \<in> set (contract_spends c)" and "st \<in> set (spend_body sp)"
  shows "\<exists>sc ty. has_type (set (spend_names c)) sc (stmt_expr st) ty"
proof -
  have "wf_spend c (insert_params scope_new (contract_params c)) sp"
    using analyze_program_wf [OF assms(1)] assms(2,3) by (auto simp: wf_program_def wf_contract_def)
  with wf_body_typed assms(4) show ?thesis by (auto simp: wf_spend_def)
qed

text \<open>\<open>lowers_to\<close>: an intermediate spend has the names, the parameters and the code of its source.\<close>

definition spend_lowers_to :: "string \<Rightarrow> spend \<Rightarrow> ir_spend \<Rightarrow> bool" where
  "spend_lowers_to path sp isp \<longleftrightarrow>
     is_name isp = ident_name (spend_name sp) \<and> is_params isp = ir_params (spend_params sp) \<and>
     (\<exists>codes. list_all2 (\<lambda>st code. lower_stmt path [] st = Inr code) (spend_body sp) codes \<and>
        is_instructions isp = concat codes)"

definition contract_lowers_to :: "string \<Rightarrow> contract \<Rightarrow> ir_contract \<Rightarrow> bool" where
  "contract_lowers_to path c ic \<longleftrightarrow>
     ic_name ic = ident_name (contract_name c) \<and> ic_params ic = ir_params (contract_params c) \<and>
     ic_finality_depth ic = contract_finality_depth c \<and>
     list_all2 (spend_lowers_to path) (contract_spends c) (ic_spends ic)"

lemma lower_spend_lowers: "lower_spend path sp = Inr isp \<Longrightarrow> spend_lowers_to path sp isp"
  by (auto simp: lower_spend_Inr spend_lowers_to_def)

lemma lower_contract_lowers: "lower_contract path c = Inr ic \<Longrightarrow> contract_lowers_to path c ic"
  by (auto simp: lower_contract_def rbind_Inr_iff contract_lowers_to_def try_map_Inr
        elim!: list_all2_mono intro: lower_spend_lowers)



section \<open>Signature checks\<close>

text \<open>What an instruction checks, and what a requirement asks for.\<close>

fun checked_signature :: "instruction_kind \<Rightarrow> (signing_scheme \<times> u32) option" where
  "checked_signature (I_CheckSig slot) = Some (SingleSignature, 1)"
| "checked_signature (I_CheckMultiSig required keys) = Some (Multisig, required)"
| "checked_signature k = None"

definition signature_checks :: "instruction list \<Rightarrow> (signing_scheme \<times> u32) multiset" where
  "signature_checks code = mset (List.map_filter (\<lambda>i. checked_signature (instr_kind i)) code)"

definition requirement_key :: "signing_requirement \<Rightarrow> signing_scheme \<times> u32" where
  "requirement_key r = (sr_scheme r, sr_threshold r)"

lemma signature_checks_simps [simp]:
  "signature_checks [] = {#}"
  "signature_checks (i # code) = mset (map id (List.map_filter checked_signature [instr_kind i])) + signature_checks code"
  "signature_checks (code @ code') = signature_checks code + signature_checks code'"
  by (simp_all add: signature_checks_def List.map_filter_def)

lemma signature_checks_concat: "signature_checks (concat codes) = sum_list (map signature_checks codes)"
  by (induction codes) simp_all

text \<open>The requirement a node states.\<close>

definition node_signatures :: "expr \<Rightarrow> (signing_scheme \<times> u32) list" where
  "node_signatures x =
     (case x of E_Call callee args _ \<Rightarrow> map requirement_key (call_requirement id callee args) | _ \<Rightarrow> [])"

definition stated_signatures :: "expr \<Rightarrow> (signing_scheme \<times> u32) multiset" where
  "stated_signatures e = mset (concat (map node_signatures (subexprs e)))"

lemma call_requirement_key:
  "map requirement_key (call_requirement esc callee args) = map requirement_key (call_requirement id callee args)"
  by (auto simp: call_requirement_def requirement_key_def split: expr.splits)

lemma mset_concat_map: "mset (concat (map f (concat (map g xs)))) = sum_list (map (\<lambda>x. mset (concat (map f (g x)))) xs)"
  by (induction xs) simp_all

lemma stated_signatures_simps [simp]:
  "stated_signatures (E_Ident i) = {#}" "stated_signatures (E_Integer v s) = {#}"
  "stated_signatures (E_String t s) = {#}" "stated_signatures (E_Bool b s) = {#}"
  "stated_signatures (E_Array es s) = sum_list (map stated_signatures es)"
  "stated_signatures (E_Unary uop e s) = stated_signatures e"
  "stated_signatures (E_Binary l bop r s) = stated_signatures l + stated_signatures r"
  "stated_signatures (E_Call callee args s) =
     mset (map requirement_key (call_requirement id callee args)) + stated_signatures callee +
     sum_list (map stated_signatures args)"
  "stated_signatures (E_Field ob f s) = stated_signatures ob"
  by (simp_all add: stated_signatures_def [abs_def] node_signatures_def mset_concat_map)

lemma collect_signing_keys:
  "mset (map requirement_key (collect_signing_requirements esc e out)) =
     mset (map requirement_key out) + stated_signatures e"
  "mset (map requirement_key (collect_signing_each esc es out)) =
     mset (map requirement_key out) + sum_list (map stated_signatures es)"
proof (induction esc e out and esc es out rule: collect_signing_requirements_collect_signing_each.induct)
  case (1 esc callee args s out)
  have "mset (map requirement_key (call_requirement esc callee args)) = mset (map requirement_key (call_requirement id callee args))"
    using call_requirement_key [of esc callee args] by simp
  with 1 show ?case by (simp del: mset_map)
qed (simp_all del: mset_map)

section \<open>Agreement with the code\<close>

text \<open>
  Field paths are recognised from their names alone, so a path of two fields on anything but an
  identifier (\<open>sig.verify(k).block.height\<close>) is lowered without its receiver.
\<close>

definition direct_paths :: "expr \<Rightarrow> bool" where
  "direct_paths e \<longleftrightarrow>
     (\<forall>x \<in> set (subexprs e). case x of E_Field (E_Field ob f s) g s' \<Rightarrow> collect_path ob \<noteq> [] | _ \<Rightarrow> True)"

lemma direct_paths_mono: "direct_paths e \<Longrightarrow> set (subexprs a) \<subseteq> set (subexprs e) \<Longrightarrow> direct_paths a"
  by (auto simp: direct_paths_def)

lemma direct_path_one:
  assumes "direct_paths (E_Field ob f s)" and "collect_path ob = [n]"
  shows "\<exists>i. ob = E_Ident i"
  using assms by (cases ob) (auto simp: direct_paths_def)

lemma direct_path_two:
  assumes "direct_paths e" and "is_path e [a, b]"
  shows "\<exists>i f s. e = E_Field (E_Ident i) f s"
proof -
  from assms(2) obtain ob f s where e: "e = E_Field ob f s" and "collect_path ob = [a]"
    by (cases e) (auto simp: is_path_def)
  with direct_path_one assms(1) show ?thesis by blast
qed

lemma binary_kind_unchecked [simp]: "checked_signature (binary_kind bop) = None"
  by (cases bop) auto

definition agrees_with_code :: "string \<Rightarrow> expr \<Rightarrow> bool" where
  "agrees_with_code path e \<longleftrightarrow>
     (\<forall>out code. lower_expr path e out = Inr code \<longrightarrow> signature_checks code = signature_checks out + stated_signatures e)"

lemma agreesD:
  "agrees_with_code path e \<Longrightarrow> lower_expr path e out = Inr code \<Longrightarrow>
   signature_checks code = signature_checks out + stated_signatures e"
  by (auto simp: agrees_with_code_def)

lemma lower_each_agrees:
  "(\<And>a. a \<in> set es \<Longrightarrow> agrees_with_code path a) \<Longrightarrow> lower_each path es out = Inr code \<Longrightarrow>
   signature_checks code = signature_checks out + sum_list (map stated_signatures es)"
proof (induction es arbitrary: out)
  case (Cons e es)
  from Cons.prems(2) obtain out' where out': "lower_expr path e out = Inr out'" "lower_each path es out' = Inr code"
    by (auto simp: rbind_Inr_iff)
  have "signature_checks code = signature_checks out' + sum_list (map stated_signatures es)"
    by (rule Cons.IH [OF _ out'(2)]) (simp add: Cons.prems(1))
  moreover have "signature_checks out' = signature_checks out + stated_signatures e"
    by (rule agreesD [OF _ out'(1)]) (simp add: Cons.prems(1))
  ultimately show ?case by (simp add: ac_simps)
qed simp


lemma lower_first_agrees:
  assumes "(case args of [] \<Rightarrow> Inr out | a # _ \<Rightarrow> lower_expr path a out) = Inr code" and "args = [a]" and "agrees_with_code path a"
  shows "signature_checks code = signature_checks out + stated_signatures a"
  using assms by (auto dest: agreesD)

lemma lower_io_unchecked:
  "lower_io_field path ob f s = Some (Inr i) \<Longrightarrow> checked_signature (instr_kind i) = None"
  by (auto simp: lower_io_field_def split: expr.splits if_splits list.splits option.splits)

lemma lower_call_agrees:
  assumes call: "lower_call path callee args s out = Inr code" and tyd: "has_type names sc (E_Call callee args s) ty"
    and args: "\<And>a t. a \<in> set args \<Longrightarrow> has_type names sc a t \<Longrightarrow> agrees_with_code path a"
    and callee: "\<And>t. has_type names sc callee t \<Longrightarrow> agrees_with_code path callee"
    and receiver: "\<And>object field t. verify_receiver callee = Some (object, field) \<Longrightarrow> has_type names sc object t \<Longrightarrow>
      agrees_with_code path object"
  shows "signature_checks code = signature_checks out + stated_signatures (E_Call callee args s)"
proof (cases "verify_receiver callee")
  case (Some x)
  obtain object field where x: "x = (object, field)" by (cases x)
  note vr = Some [unfolded x]
  then have cl: "\<exists>s'. callee = E_Field object field s'" "ident_name field = ''verify''"
    by (auto simp: verify_receiver_def split: expr.splits if_splits)
  from tyd obtain a where a: "args = [a]" "has_type names sc object T_Signature" "has_type names sc a T_PublicKey"
    by (auto simp: has_type_verify_call [OF vr])
  from call a(1) obtain out' out'' where "lower_expr path object out = Inr out'" "lower_expr path a out' = Inr out''"
    "code = out'' @ [mk_instr s (I_CheckSig 0)]"
    by (auto simp: lower_call.simps vr rbind_Inr_iff)
  with a cl agreesD [OF receiver [OF vr a(2)]] agreesD [OF args [OF _ a(3)]] show ?thesis
    by (auto simp: List.map_filter_simps call_requirement_def requirement_key_def)
next
  case None
  consider "callee_name callee \<in> {''input'', ''output''}" | "callee_name callee = ''continuation''"
    | "callee_name callee = ''multisig''" | "callee_name callee \<in> {''zk_verify'', ''sha256'', ''blake2b'', ''hash160''}"
    | "callee_name callee \<notin> builtin_calls" by (auto simp: builtin_calls_def)
  then show ?thesis
  proof cases
    case 1
    then obtain i where "callee = E_Ident i" using callee_name_nonempty [of callee] by auto
    with 1 tyd call None show ?thesis
      by (auto simp: has_type_builtin_call lower_call.simps lower_index_call_def u32_try_from_def callee_name_def
            call_requirement_def List.map_filter_simps)
  next
    case 2
    then obtain i where i: "callee = E_Ident i" using callee_name_nonempty [of callee] by auto
    from 2 tyd obtain n s' b where b: "args = [E_String n s', b]" "output_call_index b \<noteq> None"
      by (auto simp: has_type_builtin_call)
    from b(2) obtain j v s1 s2 where j: "b = E_Call (E_Ident j) [E_Integer v s1] s2" "ident_name j = ''output''"
      by (auto simp: output_call_index_def split: expr.splits list.splits if_splits)
    then have "stated_signatures b = {#}" by (simp add: call_requirement_def)
    moreover have "call_requirement id callee args = []"
      using 2 by (simp add: i call_requirement_def callee_name_def)
    moreover from 2 call None have "lower_continuation path args s out = Inr code"
      by (simp add: lower_call.simps)
    then have "signature_checks code = signature_checks out"
      by (auto simp: lower_continuation_def b List.map_filter_simps split: option.splits)
    ultimately show ?thesis by (simp add: b i)
  next
    case 3
    then obtain i where i: "callee = E_Ident i" using callee_name_nonempty [of callee] by auto
    from 3 tyd obtain k s'' keys sigs t1 t2 where a: "args = [E_Integer k s'', keys, sigs]"
      "has_type names sc keys t1" "has_type names sc sigs t2" by (auto simp: has_type_builtin_call)
    from call 3 None have "lower_multisig path args s out = Inr code" by (simp add: lower_call.simps)
    with a(1) obtain required out' out'' where r: "u32_try_from k = Some required" "lower_expr path sigs out = Inr out'"
      "lower_expr path keys (out' @ [mk_instr s (I_Push (V_Integer (ucast required)))]) = Inr out''"
      "code = out'' @ [mk_instr s (I_CheckMultiSig required (multisig_key_count args))]"
      by (auto simp: lower_multisig.simps multisig_required_def rbind_Inr_iff ok_or_Inr_iff)
    from agreesD [OF args [OF _ a(3)] r(2)] agreesD [OF args [OF _ a(2)] r(3)] 3 i r(1,4) a(1) show ?thesis
      by (auto simp: List.map_filter_simps call_requirement_def requirement_key_def callee_name_def)
  next
    case 4
    then obtain i where i: "callee = E_Ident i" using callee_name_nonempty [of callee] by auto
    from 4 tyd obtain a t where a: "args = [a]" "has_type names sc a t" by (auto simp: has_type_builtin_call)
    from call 4 None a(1) obtain out' k where "lower_expr path a out = Inr out'" "code = out' @ [mk_instr s k]"
      "checked_signature k = None"
      by (auto simp: lower_call.simps rbind_Inr_iff)
    with agreesD [OF args [OF _ a(2)]] a 4 i show ?thesis
      by (auto simp: List.map_filter_simps call_requirement_def callee_name_def)
  next
    case 5
    with tyd None obtain t where t: "has_type names sc callee t" "\<And>a. a \<in> set args \<Longrightarrow> \<exists>t. has_type names sc a t"
      by (auto simp: has_type_other_call)
    from call 5 None obtain out' where out': "lower_expr path callee out = Inr out'" "lower_each path args out' = Inr code"
      by (auto simp: lower_call.simps builtin_calls_def rbind_Inr_iff)
    have "agrees_with_code path a" if "a \<in> set args" for a using args [OF that] t(2) [OF that] by blast
    from lower_each_agrees [OF this out'(2)] agreesD [OF callee [OF t(1)] out'(1)]
    have "signature_checks code = signature_checks out + stated_signatures callee + sum_list (map stated_signatures args)"
      by simp
    moreover have "call_requirement id callee args = []"
      using None 5 by (auto simp: call_requirement_def verify_receiver_def callee_name_def builtin_calls_def split: expr.splits if_splits)
    ultimately show ?thesis by simp
  qed
qed

lemma lower_typed_agrees:
  "has_type names sc e ty \<Longrightarrow> direct_paths e \<Longrightarrow> agrees_with_code path e"
proof (induction e arbitrary: ty rule: measure_induct_rule [of size])
  case (less e)
  have sub: "agrees_with_code path a"
    if "size a < size e" "set (subexprs a) \<subseteq> set (subexprs e)" "has_type names sc a t" for a t
    using less.IH [OF that(1,3) direct_paths_mono [OF less.prems(2) that(2)]] .
  show ?case
    unfolding agrees_with_code_def
  proof (intro allI impI)
    fix out code
    assume low: "lower_expr path e out = Inr code"
    show "signature_checks code = signature_checks out + stated_signatures e"
    proof (cases e)
      case (E_Array es s)
      have "agrees_with_code path a" if "a \<in> set es" for a
      proof -
        from less.prems(1) that E_Array obtain t where "has_type names sc a t" by auto
        then show ?thesis using sub [of a] element_size [OF that] that by (auto simp: E_Array)
      qed
      with lower_each_agrees [of es path out code] low E_Array show ?thesis by simp
    next
      case (E_Unary uop a s)
      from less.prems(1) E_Unary obtain t where "has_type names sc a t" by (auto simp: has_type_Unary)
      then have "agrees_with_code path a" using sub [of a] by (auto simp: E_Unary)
      with low E_Unary show ?thesis by (cases uop) (auto simp: rbind_Inr_iff List.map_filter_simps dest: agreesD)
    next
      case (E_Binary l bop r s)
      from less.prems(1) E_Binary obtain t1 t2 where t: "has_type names sc l t1" "has_type names sc r t2"
        by (auto simp: has_type_Binary)
      have l: "agrees_with_code path l" using sub [OF _ _ t(1)] by (auto simp: E_Binary)
      have r: "agrees_with_code path r" using sub [OF _ _ t(2)] by (auto simp: E_Binary)
      have bin: "lower_binary path l bop r s out = Inr code" using low by (simp add: E_Binary)
      have direct: "direct_paths l" using direct_paths_mono [OF less.prems(2)] by (auto simp: E_Binary)
      have no_left: "stated_signatures l = {#}" if "is_path l [a, b]" for a b
        using direct_path_two [OF direct that] by auto
      from bin l r show ?thesis
        by (auto simp: lower_binary.simps rbind_Inr_iff E_Binary no_left List.map_filter_simps
              simp del: lower_expr.simps split: if_splits expr.splits dest!: agreesD)
    next
      case (E_Call callee args s)
      have callee: "size callee < size e" "set (subexprs callee) \<subseteq> set (subexprs e)" by (auto simp: E_Call)
      have arg: "size a < size e" "set (subexprs a) \<subseteq> set (subexprs e)" if "a \<in> set args" for a
        using element_size [OF that] that by (auto simp: E_Call)
      have call: "lower_call path callee args s out = Inr code" using low by (simp add: E_Call)
      note tyd = less.prems(1) [unfolded E_Call]
      show ?thesis
        unfolding E_Call
      proof (rule lower_call_agrees [OF call tyd])
        show "agrees_with_code path a" if "a \<in> set args" "has_type names sc a t" for a t
          using sub [OF arg [OF that(1)] that(2)] .
        show "agrees_with_code path callee" if "has_type names sc callee t" for t
          using sub [OF callee that] .
        show "agrees_with_code path object" if "verify_receiver callee = Some (object, field)" "has_type names sc object t" for object field t
          using sub [OF _ _ that(2)] verify_receiver_size [OF that(1)] verify_receiver_subexprs [OF that(1)] callee by auto
      qed
    next
      case (E_Field object f s)
      have object: "size object < size e" "set (subexprs object) \<subseteq> set (subexprs e)" by (auto simp: E_Field)
      have low': "lower_field path object (ident_name f) s out = Inr code" using low by (simp add: E_Field)
      have one: "stated_signatures object = {#}" if "is_path object [n]" for n
        using direct_path_one [of object f s n] less.prems(2) that by (auto simp: E_Field is_path_def)
      show ?thesis
      proof (cases "lower_io_field path object (ident_name f) s")
        case None
        show ?thesis
        proof (cases "is_path object [''covenant_id''] \<and> ident_name f = ''depth'' \<or> is_path object [''sequencing'']")
          case True
          with low' None one show ?thesis by (auto simp: E_Field lower_field.simps List.map_filter_simps split: if_splits)
        next
          case False
          have out: "\<exists>out'. lower_expr path object out = Inr out' \<and> code = out' @ [mk_instr s (I_Push (V_Symbol (ident_name f)))]"
            using low' None False by (auto simp: lower_field.simps rbind_Inr_iff split: if_splits)
          show ?thesis
          proof (cases "callee_name object = []")
            case True
            then have "root_field_type (callee_name object) (ident_name f) = None" by (simp add: root_field_type_def)
            then obtain t where "has_type names sc object t" using less.prems(1) by (auto simp: E_Field has_type_Field)
            then have "agrees_with_code path object" using sub object by blast
            with out show ?thesis by (auto simp: E_Field List.map_filter_simps dest: agreesD)
          next
            case False
            then obtain i where "object = E_Ident i" using callee_name_nonempty by blast
            with out show ?thesis by (auto simp: E_Field List.map_filter_simps)
          qed
        qed
      next
        case (Some r)
        with low' obtain i where i: "lower_io_field path object (ident_name f) s = Some (Inr i)" "code = out @ [i]"
          by (auto simp: lower_field.simps rbind_Inr_iff)
        then obtain root args s' where ob: "object = E_Call (E_Ident root) args s'"
          and root: "ident_name root = ''input'' \<or> ident_name root = ''output''"
          by (auto simp: lower_io_field_def split: expr.splits if_splits)
        then have "callee_name object = []" "callee_name (E_Ident root) = ident_name root" by (simp_all add: callee_name_def)
        moreover from this(1) have "root_field_type (callee_name object) (ident_name f) = None" by (simp add: root_field_type_def)
        then obtain t where "has_type names sc object t" using less.prems(1) by (auto simp: E_Field has_type_Field)
        ultimately obtain v s'' where "args = [E_Integer v s'']"
          using ob root by (auto simp: has_type_builtin_call)
        with ob root have "stated_signatures object = {#}" by (auto simp: call_requirement_def)
        with i lower_io_unchecked [OF i(1)] show ?thesis by (simp add: E_Field List.map_filter_simps)
      qed
    qed (use low in \<open>auto simp: List.map_filter_simps\<close>)
  qed
qed

section \<open>Spends\<close>

lemma signing_requirements_keys:
  "mset (map requirement_key (signing_requirements esc sp)) = sum_list (map stated_signatures (require_exprs sp))"
proof -
  have "mset (map requirement_key (fold (collect_signing_requirements esc) rs out)) =
      mset (map requirement_key out) + sum_list (map stated_signatures rs)" for rs out
    by (induction rs arbitrary: out) (simp_all add: collect_signing_keys ac_simps del: mset_map)
  then show ?thesis by (simp add: signing_requirements_def del: mset_map)
qed

fun unrequired_expr :: "stmt \<Rightarrow> expr option" where
  "unrequired_expr (S_Require e s) = None"
| "unrequired_expr (S_Let x e s) = Some e"
| "unrequired_expr (S_Return e s) = Some e"

definition unrequired_exprs :: "spend \<Rightarrow> expr list" where
  "unrequired_exprs sp = List.map_filter unrequired_expr (spend_body sp)"

lemma stmts_split:
  "sum_list (map (\<lambda>st. stated_signatures (stmt_expr st)) body) =
     sum_list (map stated_signatures (List.map_filter require_expr body)) +
     sum_list (map stated_signatures (List.map_filter unrequired_expr body))"
proof (induction body)
  case (Cons st body)
  then show ?case by (cases st) (simp_all add: List.map_filter_simps ac_simps)
qed (simp add: List.map_filter_simps)

lemma lower_stmt_agrees:
  assumes "agrees_with_code path (stmt_expr st)" and "lower_stmt path [] st = Inr code"
  shows "signature_checks code = stated_signatures (stmt_expr st)"
  using assms by (cases st) (auto simp: rbind_Inr_iff List.map_filter_simps dest: agreesD)


lemma sample_direct: "\<forall>st \<in> set (spend_body sample_spend). direct_paths (stmt_expr st)"
  by (simp add: sample_spend_def sample_verify_def sample_counts_def sample_next_def direct_paths_def)


section \<open>A path on a call\<close>

definition dropped_sample :: expr where
  "dropped_sample =
     E_Binary (E_Field (E_Field sample_verify (mk_ident ''block'' sp0) sp0) (mk_ident ''height'' sp0) sp0)
       BO_GreaterEqual (E_Integer 5 sp0) sp0"

text \<open>The checker accepts \<open>sig.verify(owner).block.height >= 5\<close>, the application model lists its
  signature, and lowering drops it: the code only checks the lock height.\<close>

theorem signature_dropped_on_path:
  "has_type {''advance''} sample_scope dropped_sample T_Bool \<and>
   map requirement_key (collect_signing_requirements esc dropped_sample []) = [(SingleSignature, 1)] \<and>
   lower_stmt path [] (S_Require dropped_sample sp0) =
     Inr [mk_instr sp0 (I_CheckLockHeight 5), mk_instr sp0 I_Verify]"
proof (intro conjI)
  have "has_type {''advance''} sample_scope (E_Field sample_verify (mk_ident ''block'' sp0) sp0) T_Bool"
    by (rule ht_other_field [OF _ sample_typed(1)]) (simp_all add: root_field_type_def callee_name_def sample_verify_def)
  then have "has_type {''advance''} sample_scope (E_Field (E_Field sample_verify (mk_ident ''block'' sp0) sp0) (mk_ident ''height'' sp0) sp0) T_Bool"
    by (rule ht_other_field [rotated]) (simp_all add: root_field_type_def callee_name_def)
  then show "has_type {''advance''} sample_scope dropped_sample T_Bool"
    unfolding dropped_sample_def using ht_relational [of BO_GreaterEqual, OF _ _ has_type.ht_integer] by fastforce
qed (simp_all add: dropped_sample_def sample_verify_def call_requirement_def requirement_key_def lower_binary.simps is_path_def)

end
