(* ===== verification/KS_Parser.thy ===== *)
theory KS_Parser
  imports KS_Ast KS_Errors
begin

text \<open>
  The Pratt parser (\<open>compiler/parser/src/parser.rs\<close>). The state is the \<open>Parser\<close> struct; a parse
  returns the value and the state after it, or the error. The \<open>while\<close> and \<open>loop\<close> statements are
  \<open>ploop\<close>, and the recursion of the expression parser takes fuel; \<open>None\<close> is running out of it,
  which \<open>KS_ParserTotal\<close> shows does not happen for the fuel \<open>parse_program\<close> takes.
\<close>

section \<open>The parser state\<close>

record parser =
  ps_tokens :: "token list"
  ps_source :: string
  ps_file :: string
  ps_cursor :: nat

definition parser_new :: "token list \<Rightarrow> string \<Rightarrow> string \<Rightarrow> parser" where
  "parser_new tokens source path =
     \<lparr>ps_tokens = tokens, ps_source = source, ps_file = path, ps_cursor = 0\<rparr>"

type_synonym 'a presult = "(parse_error + 'a \<times> parser) option"

definition pok :: "'a \<Rightarrow> parser \<Rightarrow> 'a presult" where
  "pok x st = Some (Inr (x, st))"

definition perr :: "parse_error \<Rightarrow> 'a presult" where
  "perr e = Some (Inl e)"

definition pbind :: "'a presult \<Rightarrow> ('a \<Rightarrow> parser \<Rightarrow> 'b presult) \<Rightarrow> 'b presult" where
  "pbind r f =
     (case r of None \<Rightarrow> None | Some (Inl e) \<Rightarrow> Some (Inl e) | Some (Inr (x, st)) \<Rightarrow> f x st)"

text \<open>\<open>while !stop(parser) { s = body(s)?; }\<close>\<close>

fun ploop :: "nat \<Rightarrow> (parser \<Rightarrow> bool) \<Rightarrow> ('s \<Rightarrow> parser \<Rightarrow> 's presult) \<Rightarrow> 's \<Rightarrow> parser \<Rightarrow> 's presult" where
  "ploop 0 stop body s st = None"
| "ploop (Suc n) stop body s st =
     (if stop st then pok s st else pbind (body s st) (\<lambda>s st. ploop n stop body s st))"

section \<open>Tokens\<close>

fun discriminant :: "token_kind \<Rightarrow> token_kind" where
  "discriminant (TK_Type ty) = TK_Type T_PublicKey"
| "discriminant (TK_Identifier x) = TK_Identifier []"
| "discriminant (TK_Integer x) = TK_Integer []"
| "discriminant (TK_String x) = TK_String []"
| "discriminant k = k"

definition discriminant_eq :: "token_kind \<Rightarrow> token_kind \<Rightarrow> bool" where
  "discriminant_eq left right \<longleftrightarrow> discriminant left = discriminant right"

text \<open>The derived \<open>Debug\<close> text; the kinds with a text are displayed otherwise.\<close>

fun token_debug :: "token_kind \<Rightarrow> string" where
  "token_debug (TK_Type ty) = ''Type('' @ type_debug ty @ '')''"
| "token_debug TK_Contract = ''Contract''"
| "token_debug TK_Params = ''Params''"
| "token_debug TK_Spend = ''Spend''"
| "token_debug TK_Require = ''Require''"
| "token_debug TK_Let = ''Let''"
| "token_debug TK_If = ''If''"
| "token_debug TK_Else = ''Else''"
| "token_debug TK_Return = ''Return''"
| "token_debug TK_True = ''True''"
| "token_debug TK_False = ''False''"
| "token_debug TK_Covenant = ''Covenant''"
| "token_debug TK_CovenantId = ''CovenantId''"
| "token_debug TK_ZkVerify = ''ZkVerify''"
| "token_debug TK_FinalityDepth = ''FinalityDepth''"
| "token_debug TK_Sequencing = ''Sequencing''"
| "token_debug TK_Multisig = ''Multisig''"
| "token_debug TK_InputBuiltin = ''InputBuiltin''"
| "token_debug TK_OutputBuiltin = ''OutputBuiltin''"
| "token_debug TK_Block = ''Block''"
| "token_debug TK_Equal = ''Equal''"
| "token_debug TK_EqualEqual = ''EqualEqual''"
| "token_debug TK_Bang = ''Bang''"
| "token_debug TK_BangEqual = ''BangEqual''"
| "token_debug TK_Greater = ''Greater''"
| "token_debug TK_GreaterEqual = ''GreaterEqual''"
| "token_debug TK_Less = ''Less''"
| "token_debug TK_LessEqual = ''LessEqual''"
| "token_debug TK_AndAnd = ''AndAnd''"
| "token_debug TK_OrOr = ''OrOr''"
| "token_debug TK_Plus = ''Plus''"
| "token_debug TK_Minus = ''Minus''"
| "token_debug TK_Star = ''Star''"
| "token_debug TK_Slash = ''Slash''"
| "token_debug TK_Percent = ''Percent''"
| "token_debug TK_Arrow = ''Arrow''"
| "token_debug TK_LeftBrace = ''LeftBrace''"
| "token_debug TK_RightBrace = ''RightBrace''"
| "token_debug TK_LeftParen = ''LeftParen''"
| "token_debug TK_RightParen = ''RightParen''"
| "token_debug TK_LeftBracket = ''LeftBracket''"
| "token_debug TK_RightBracket = ''RightBracket''"
| "token_debug TK_Comma = ''Comma''"
| "token_debug TK_Colon = ''Colon''"
| "token_debug TK_Semicolon = ''Semicolon''"
| "token_debug TK_Dot = ''Dot''"
| "token_debug (TK_Identifier x) = ''Identifier''"
| "token_debug (TK_Integer x) = ''Integer''"
| "token_debug (TK_String x) = ''String''"

definition display_kind :: "token_kind \<Rightarrow> string" where
  "display_kind kind =
     (case kind of
        TK_Identifier value \<Rightarrow> ''identifier '' @ bt value
      | TK_Integer value \<Rightarrow> ''integer '' @ bt value
      | TK_String _ \<Rightarrow> ''string''
      | other \<Rightarrow> token_debug other)"

fun token_text :: "token_kind \<Rightarrow> string" where
  "token_text TK_Covenant = ''covenant''"
| "token_text TK_CovenantId = ''covenant_id''"
| "token_text TK_ZkVerify = ''zk_verify''"
| "token_text TK_FinalityDepth = ''finality_depth''"
| "token_text TK_Sequencing = ''sequencing''"
| "token_text TK_Multisig = ''multisig''"
| "token_text TK_InputBuiltin = ''input''"
| "token_text TK_OutputBuiltin = ''output''"
| "token_text TK_Block = ''block''"
| "token_text kind = ''<token>''"

definition is_value_keyword :: "token_kind \<Rightarrow> bool" where
  "is_value_keyword kind \<longleftrightarrow>
     kind \<in> set [TK_Covenant, TK_CovenantId, TK_ZkVerify, TK_FinalityDepth, TK_Sequencing, TK_Multisig,
       TK_InputBuiltin, TK_OutputBuiltin, TK_Block]"

definition current_kind :: "parser \<Rightarrow> token_kind option" where
  "current_kind st =
     (if ps_cursor st < length (ps_tokens st) then Some (tok_kind (ps_tokens st ! ps_cursor st)) else None)"

definition is_at_end :: "parser \<Rightarrow> bool" where
  "is_at_end st \<longleftrightarrow> length (ps_tokens st) \<le> ps_cursor st"

definition check_exact :: "parser \<Rightarrow> token_kind \<Rightarrow> bool" where
  "check_exact st expected = (case current_kind st of None \<Rightarrow> False | Some kind \<Rightarrow> discriminant_eq kind expected)"

definition bump :: "parser \<Rightarrow> parser" where
  "bump st = st\<lparr>ps_cursor := ps_cursor st + 1\<rparr>"

definition match_exact :: "parser \<Rightarrow> token_kind \<Rightarrow> bool \<times> parser" where
  "match_exact st expected = (if check_exact st expected then (True, bump st) else (False, st))"

definition previous_span :: "parser \<Rightarrow> span" where
  "previous_span st =
     (if ps_cursor st - 1 < length (ps_tokens st) then tok_span (ps_tokens st ! (ps_cursor st - 1)) else mk_span 0 0)"

definition p_error_at :: "parser \<Rightarrow> span \<Rightarrow> string \<Rightarrow> parse_error" where
  "p_error_at st s message = parse_error_at (ps_source st) (ps_file st) s message"

definition error_here :: "parser \<Rightarrow> string \<Rightarrow> parse_error" where
  "error_here st message =
     p_error_at st
       (if ps_cursor st < length (ps_tokens st) then tok_span (ps_tokens st ! ps_cursor st)
        else if ps_tokens st \<noteq> [] then tok_span (last (ps_tokens st))
        else mk_span 0 0) message"

definition advance_or_error :: "parser \<Rightarrow> string \<Rightarrow> token presult" where
  "advance_or_error st message =
     (if ps_cursor st < length (ps_tokens st) then pok (ps_tokens st ! ps_cursor st) (bump st)
      else perr (error_here st message))"

definition expect_exact :: "parser \<Rightarrow> token_kind \<Rightarrow> string \<Rightarrow> token presult" where
  "expect_exact st expected label =
     pbind (advance_or_error st (''expected '' @ label)) (\<lambda>token st.
       if discriminant_eq (tok_kind token) expected then pok token st
       else perr (p_error_at st (tok_span token)
              (''expected '' @ label @ '' found '' @ display_kind (tok_kind token))))"

definition parse_u64 :: "parser \<Rightarrow> string \<Rightarrow> span \<Rightarrow> u64 presult" where
  "parse_u64 st value s =
     (case parse_u64_str value of
        Some v \<Rightarrow> pok v st
      | None \<Rightarrow> perr (p_error_at st s ''integer literal exceeds u64 range''))"

text \<open>The name a token stands for as an identifier.\<close>

fun name_of_kind :: "token_kind \<Rightarrow> string option" where
  "name_of_kind (TK_Identifier name) = Some name"
| "name_of_kind kind = (if is_value_keyword kind then Some (token_text kind) else None)"

definition parse_identifier :: "parser \<Rightarrow> ident presult" where
  "parse_identifier st =
     pbind (advance_or_error st ''expected identifier'') (\<lambda>token st.
       case name_of_kind (tok_kind token) of
         Some name \<Rightarrow> pok (mk_ident name (tok_span token)) st
       | None \<Rightarrow> perr (p_error_at st (tok_span token) ''expected identifier''))"

fun binary_op_of :: "token_kind \<Rightarrow> (binary_op \<times> nat) option" where
  "binary_op_of TK_OrOr = Some (BO_Or, 1)"
| "binary_op_of TK_AndAnd = Some (BO_And, 2)"
| "binary_op_of TK_EqualEqual = Some (BO_Equal, 3)"
| "binary_op_of TK_BangEqual = Some (BO_NotEqual, 3)"
| "binary_op_of TK_Greater = Some (BO_Greater, 4)"
| "binary_op_of TK_GreaterEqual = Some (BO_GreaterEqual, 4)"
| "binary_op_of TK_Less = Some (BO_Less, 4)"
| "binary_op_of TK_LessEqual = Some (BO_LessEqual, 4)"
| "binary_op_of TK_Plus = Some (BO_Add, 5)"
| "binary_op_of TK_Minus = Some (BO_Sub, 5)"
| "binary_op_of TK_Star = Some (BO_Mul, 6)"
| "binary_op_of TK_Slash = Some (BO_Div, 6)"
| "binary_op_of TK_Percent = Some (BO_Mod, 6)"
| "binary_op_of kind = None"

definition current_binary_op :: "parser \<Rightarrow> (binary_op \<times> nat) option" where
  "current_binary_op st = Option.bind (current_kind st) binary_op_of"

text \<open>The separator test at the end of each turn of a list loop.\<close>

definition comma_or :: "parser \<Rightarrow> token_kind \<Rightarrow> string \<Rightarrow> 'a \<Rightarrow> 'a presult" where
  "comma_or st terminator message x =
     (let (matched, st') = match_exact st TK_Comma
      in if \<not> matched \<and> \<not> check_exact st' terminator then perr (error_here st' message) else pok x st')"

section \<open>Expressions\<close>

text \<open>A list of expressions up to a closing token, \<open>parse\<close> being the expression parser.\<close>

definition expr_list_loop ::
  "nat \<Rightarrow> (parser \<Rightarrow> expr presult) \<Rightarrow> token_kind \<Rightarrow> string \<Rightarrow> parser \<Rightarrow> expr list presult" where
  "expr_list_loop n parse terminator message st =
     ploop n (\<lambda>st. check_exact st terminator)
       (\<lambda>xs st. pbind (parse st) (\<lambda>e st. comma_or st terminator message (xs @ [e]))) [] st"

text \<open>The loop of \<open>parse_precedence\<close>: when it stops, and one turn of it.\<close>

definition precedence_stop :: "nat \<Rightarrow> parser \<Rightarrow> bool" where
  "precedence_stop min_precedence st =
     (case current_binary_op st of None \<Rightarrow> True | Some (bop, precedence) \<Rightarrow> precedence < min_precedence)"

definition precedence_turn :: "(nat \<Rightarrow> parser \<Rightarrow> expr presult) \<Rightarrow> expr \<Rightarrow> parser \<Rightarrow> expr presult" where
  "precedence_turn parse left st =
     (case current_binary_op st of
        None \<Rightarrow> pok left st
      | Some (bop, precedence) \<Rightarrow>
          pbind (parse (precedence + 1) (bump st)) (\<lambda>right st.
          pok (E_Binary left bop right (mk_span (span_start (expr_span left)) (span_end (expr_span right)))) st))"

text \<open>The loop of \<open>parse_postfix\<close>.\<close>

definition postfix_stop :: "parser \<Rightarrow> bool" where
  "postfix_stop st \<longleftrightarrow> \<not> check_exact st TK_LeftParen \<and> \<not> check_exact st TK_Dot"

definition postfix_turn :: "nat \<Rightarrow> (parser \<Rightarrow> expr presult) \<Rightarrow> expr \<Rightarrow> parser \<Rightarrow> expr presult" where
  "postfix_turn n parse e st =
     (if check_exact st TK_LeftParen then
        pbind (expr_list_loop n parse TK_RightParen (''expected '' @ bt '','' @ '' or '' @ bt '')'') (bump st)) (\<lambda>args st.
        pbind (expect_exact st TK_RightParen (bt '')'')) (\<lambda>token st.
        pok (E_Call e args (mk_span (span_start (expr_span e)) (span_end (tok_span token)))) st))
      else
        pbind (parse_identifier (bump st)) (\<lambda>field st.
        pok (E_Field e field (mk_span (span_start (expr_span e)) (span_end (ident_span field)))) st))"

text \<open>\<open>parse_primary\<close> after its first token.\<close>

definition primary_rest :: "nat \<Rightarrow> (parser \<Rightarrow> expr presult) \<Rightarrow> token \<Rightarrow> parser \<Rightarrow> expr presult" where
  "primary_rest n parse token st =
     (case tok_kind token of
        TK_Identifier name \<Rightarrow> pok (E_Ident (mk_ident name (tok_span token))) st
      | TK_Integer value \<Rightarrow> pbind (parse_u64 st value (tok_span token)) (\<lambda>v st. pok (E_Integer v (tok_span token)) st)
      | TK_String value \<Rightarrow> pok (E_String value (tok_span token)) st
      | TK_True \<Rightarrow> pok (E_Bool True (tok_span token)) st
      | TK_False \<Rightarrow> pok (E_Bool False (tok_span token)) st
      | TK_LeftParen \<Rightarrow>
          pbind (parse st) (\<lambda>e st.
          pbind (expect_exact st TK_RightParen (bt '')'')) (\<lambda>_ st. pok e st))
      | TK_LeftBracket \<Rightarrow>
          pbind (expr_list_loop n parse TK_RightBracket (''expected '' @ bt '','' @ '' or '' @ bt '']'') st) (\<lambda>elements st.
          pbind (expect_exact st TK_RightBracket (bt '']'')) (\<lambda>close st.
          pok (E_Array elements (mk_span (span_start (tok_span token)) (span_end (tok_span close)))) st))
      | kind \<Rightarrow>
          (if is_value_keyword kind then pok (E_Ident (mk_ident (token_text kind) (tok_span token))) st
           else perr (p_error_at st (tok_span token) ''expected expression'')))"

fun parse_precedence :: "nat \<Rightarrow> nat \<Rightarrow> parser \<Rightarrow> expr presult"
and parse_unary :: "nat \<Rightarrow> parser \<Rightarrow> expr presult"
and parse_postfix :: "nat \<Rightarrow> parser \<Rightarrow> expr presult"
and parse_primary :: "nat \<Rightarrow> parser \<Rightarrow> expr presult"
where
  "parse_precedence 0 min_precedence st = None"
| "parse_precedence (Suc n) min_precedence st =
     pbind (parse_unary n st) (\<lambda>left st.
     ploop (Suc n) (precedence_stop min_precedence) (precedence_turn (\<lambda>p st. parse_precedence n p st)) left st)"
| "parse_unary 0 st = None"
| "parse_unary (Suc n) st =
     (if check_exact st TK_Bang then
        (let st = bump st; start = span_start (previous_span st)
         in pbind (parse_unary n st) (\<lambda>e st. pok (E_Unary UO_Not e (mk_span start (span_end (expr_span e)))) st))
      else if check_exact st TK_Minus then
        (let st = bump st; start = span_start (previous_span st)
         in pbind (parse_unary n st) (\<lambda>e st. pok (E_Unary UO_Negate e (mk_span start (span_end (expr_span e)))) st))
      else parse_postfix n st)"
| "parse_postfix 0 st = None"
| "parse_postfix (Suc n) st =
     pbind (parse_primary n st) (\<lambda>e st.
     ploop (Suc n) postfix_stop (postfix_turn (Suc n) (\<lambda>st. parse_precedence n 0 st)) e st)"
| "parse_primary 0 st = None"
| "parse_primary (Suc n) st =
     pbind (advance_or_error st ''expected expression'') (\<lambda>token st.
     primary_rest (Suc n) (\<lambda>st. parse_precedence n 0 st) token st)"

definition parse_expression :: "nat \<Rightarrow> parser \<Rightarrow> expr presult" where
  "parse_expression n st = parse_precedence n 0 st"

section \<open>Declarations\<close>

definition parse_typed_params :: "nat \<Rightarrow> parser \<Rightarrow> token_kind \<Rightarrow> param list presult" where
  "parse_typed_params n st terminator =
     ploop n (\<lambda>st. check_exact st terminator)
       (\<lambda>params st.
          pbind (parse_identifier st) (\<lambda>name st.
          pbind (expect_exact st TK_Colon (bt '':'')) (\<lambda>_ st.
          pbind (advance_or_error st ''expected type'') (\<lambda>token st.
          pbind (case tok_kind token of
                   TK_Type ty \<Rightarrow> pok ty st
                 | _ \<Rightarrow> perr (p_error_at st (tok_span token) ''expected type'')) (\<lambda>ty st.
          comma_or st terminator (''expected '' @ bt '','' @ '' or terminator'')
            (params @ [\<lparr>param_name = name, param_ty = ty,
                        param_span = mk_span (span_start (ident_span name)) (span_end (tok_span token))\<rparr>]))))))
       [] st"

text \<open>One turn of the loop of \<open>parse_params_block\<close>.\<close>

definition parse_params_entry ::
  "param list \<times> u64 option \<Rightarrow> parser \<Rightarrow> (param list \<times> u64 option) presult" where
  "parse_params_entry acc st =
     (let (params, finality_depth) = acc
      in pbind (parse_identifier st) (\<lambda>name st.
         pbind (expect_exact st TK_Colon (bt '':'')) (\<lambda>_ st.
         pbind
           (if ident_name name = ''finality_depth'' then
              pbind (advance_or_error st ''expected integer literal'') (\<lambda>token st.
              pbind (case tok_kind token of
                       TK_Integer value \<Rightarrow> parse_u64 st value (tok_span token)
                     | _ \<Rightarrow> perr (p_error_at st (tok_span token) ''expected integer literal'')) (\<lambda>value st.
              pok (params, Some value) st))
            else
              pbind (advance_or_error st ''expected type'') (\<lambda>token st.
              pbind (case tok_kind token of
                       TK_Type ty \<Rightarrow> pok ty st
                     | _ \<Rightarrow> perr (p_error_at st (tok_span token) ''expected type'')) (\<lambda>ty st.
              pok (params @ [\<lparr>param_name = name, param_ty = ty,
                              param_span = mk_span (span_start (ident_span name)) (span_end (previous_span st))\<rparr>],
                   finality_depth) st))) (\<lambda>acc st.
         comma_or st TK_RightBrace (''expected '' @ bt '','' @ '' or '' @ bt [CHR 0x7D]) acc))))"

definition parse_params_block :: "nat \<Rightarrow> parser \<Rightarrow> (param list \<times> u64 option) presult" where
  "parse_params_block n st =
     pbind (expect_exact st TK_LeftBrace (bt [CHR 0x7B])) (\<lambda>_ st.
     pbind (ploop n (\<lambda>st. check_exact st TK_RightBrace) parse_params_entry ([], None) st) (\<lambda>acc st.
     pbind (expect_exact st TK_RightBrace (bt [CHR 0x7D])) (\<lambda>_ st.
     pok acc st)))"

definition parse_statement :: "nat \<Rightarrow> parser \<Rightarrow> stmt presult" where
  "parse_statement n st =
     (if check_exact st TK_Let then
        (let st = bump st; start = span_start (previous_span st)
         in pbind (parse_identifier st) (\<lambda>name st.
            pbind (expect_exact st TK_Equal (bt ''='')) (\<lambda>_ st.
            pbind (parse_expression n st) (\<lambda>e st.
            pbind (expect_exact st TK_Semicolon (bt '';'')) (\<lambda>token st.
            pok (S_Let name e (mk_span start (span_end (tok_span token)))) st)))))
      else if check_exact st TK_Require then
        (let st = bump st; start = span_start (previous_span st)
         in pbind (parse_expression n st) (\<lambda>e st.
            pbind (expect_exact st TK_Semicolon (bt '';'')) (\<lambda>token st.
            pok (S_Require e (mk_span start (span_end (tok_span token)))) st)))
      else if check_exact st TK_Return then
        (let st = bump st; start = span_start (previous_span st)
         in pbind (parse_expression n st) (\<lambda>e st.
            pbind (expect_exact st TK_Semicolon (bt '';'')) (\<lambda>token st.
            pok (S_Return e (mk_span start (span_end (tok_span token)))) st)))
      else perr (error_here st ''expected statement''))"

definition parse_spend :: "nat \<Rightarrow> parser \<Rightarrow> spend presult" where
  "parse_spend n st =
     pbind (parse_identifier st) (\<lambda>name st.
     pbind (expect_exact st TK_LeftParen (bt ''('')) (\<lambda>_ st.
     pbind (parse_typed_params n st TK_RightParen) (\<lambda>params st.
     pbind (expect_exact st TK_RightParen (bt '')'')) (\<lambda>_ st.
     pbind (expect_exact st TK_LeftBrace (bt [CHR 0x7B])) (\<lambda>_ st.
     pbind (ploop n (\<lambda>st. check_exact st TK_RightBrace)
              (\<lambda>body st.
                 if is_at_end st then perr (error_here st (''expected '' @ bt [CHR 0x7D]))
                 else pbind (parse_statement n st) (\<lambda>stmt st. pok (body @ [stmt]) st)) [] st) (\<lambda>body st.
     pbind (expect_exact st TK_RightBrace (bt [CHR 0x7D])) (\<lambda>token st.
     pok \<lparr>spend_name = name, spend_params = params, spend_body = body,
          spend_span = mk_span (span_start (ident_span name)) (span_end (tok_span token))\<rparr> st)))))))"

text \<open>One turn of the loop of \<open>parse_contract\<close>.\<close>

definition parse_contract_item ::
  "nat \<Rightarrow> param list \<times> u64 option \<times> spend list \<Rightarrow> parser \<Rightarrow> (param list \<times> u64 option \<times> spend list) presult" where
  "parse_contract_item n acc st =
     (let (params, finality_depth, spends) = acc
      in if is_at_end st then perr (error_here st (''expected '' @ bt [CHR 0x7D]))
         else if check_exact st TK_Params then
           pbind (parse_params_block n (bump st)) (\<lambda>parsed st.
           pok (params @ fst parsed, if snd parsed \<noteq> None then snd parsed else finality_depth, spends) st)
         else if check_exact st TK_Spend then
           pbind (parse_spend n (bump st)) (\<lambda>spend st. pok (params, finality_depth, spends @ [spend]) st)
         else perr (error_here st (''expected '' @ bt ''params'' @ '', '' @ bt ''spend'' @ '', or '' @ bt [CHR 0x7D])))"

definition parse_contract :: "nat \<Rightarrow> parser \<Rightarrow> contract presult" where
  "parse_contract n st =
     pbind (expect_exact st TK_Contract (bt ''contract'')) (\<lambda>token st.
     pbind (parse_identifier st) (\<lambda>name st.
     pbind (expect_exact st TK_LeftBrace (bt [CHR 0x7B])) (\<lambda>_ st.
     pbind (ploop n (\<lambda>st. check_exact st TK_RightBrace) (parse_contract_item n) ([], None, []) st) (\<lambda>acc st.
     pbind (expect_exact st TK_RightBrace (bt [CHR 0x7D])) (\<lambda>close st.
     pok \<lparr>contract_name = name, contract_params = fst acc, contract_finality_depth = fst (snd acc),
          contract_spends = snd (snd acc),
          contract_span = mk_span (span_start (tok_span token)) (span_end (tok_span close))\<rparr> st)))))"

definition parse_program :: "nat \<Rightarrow> parser \<Rightarrow> program presult" where
  "parse_program n st =
     pbind (ploop n is_at_end
              (\<lambda>contracts st. pbind (parse_contract n st) (\<lambda>c st. pok (contracts @ [c]) st)) [] st) (\<lambda>contracts st.
     pok \<lparr>program_contracts = contracts\<rparr> st)"

text \<open>Fuel for a token list; \<open>the\<close> is only applied to a value (\<open>KS_ParserTotal\<close>).\<close>

definition parse_fuel :: "token list \<Rightarrow> nat" where
  "parse_fuel tokens = 4 * length tokens + 8"

definition parse_tokens :: "token list \<Rightarrow> string \<Rightarrow> string \<Rightarrow> parse_error + program" where
  "parse_tokens tokens source path =
     rbind (the (parse_program (parse_fuel tokens) (parser_new tokens source path))) (\<lambda>(prog, st). Inr prog)"

end
