(* ===== verification/KS_ParserTotal.thy ===== *)
theory KS_ParserTotal
  imports KS_Parser
begin

text \<open>
  The parser terminates: every routine consumes tokens, so with fuel linear in the tokens left
  it yields a value or an error, and more fuel changes nothing. \<open>safe k r st\<close> says that a parse
  \<open>r\<close> started in \<open>st\<close> returns, and on success has consumed at least \<open>k\<close> tokens.
\<close>

section \<open>Progress\<close>

definition tokens_left :: "parser \<Rightarrow> nat" where
  "tokens_left st = length (ps_tokens st) - ps_cursor st"

definition same_input :: "parser \<Rightarrow> parser \<Rightarrow> bool" where
  "same_input st st' \<longleftrightarrow>
     ps_tokens st' = ps_tokens st \<and> ps_source st' = ps_source st \<and> ps_file st' = ps_file st"

lemma same_input_refl [simp]: "same_input st st"
  by (simp add: same_input_def)

lemma same_input_trans [trans]: "same_input st st' \<Longrightarrow> same_input st' st'' \<Longrightarrow> same_input st st''"
  by (simp add: same_input_def)

definition safe :: "nat \<Rightarrow> 'a presult \<Rightarrow> parser \<Rightarrow> bool" where
  "safe k r st \<longleftrightarrow>
     r \<noteq> None \<and> (\<forall>x st'. r = Some (Inr (x, st')) \<longrightarrow> tokens_left st' + k \<le> tokens_left st \<and> same_input st st')"

lemma safe_returns: "safe k r st \<Longrightarrow> r \<noteq> None"
  by (simp add: safe_def)

lemma safe_weaken: "safe k r st \<Longrightarrow> j \<le> k \<Longrightarrow> safe j r st"
  by (fastforce simp: safe_def)

lemma safe_pok [simp, intro]: "safe 0 (pok x st) st"
  by (simp add: safe_def pok_def)

lemma safe_perr [simp, intro]: "safe k (perr e) st"
  by (simp add: safe_def perr_def)

lemma safe_if: "(c \<Longrightarrow> safe k r st) \<Longrightarrow> (\<not> c \<Longrightarrow> safe k r' st) \<Longrightarrow> safe k (if c then r else r') st"
  by simp

lemma safe_pbind:
  assumes "safe k r st"
    and "\<And>x st'. tokens_left st' + k \<le> tokens_left st \<Longrightarrow> same_input st st' \<Longrightarrow> safe j (f x st') st'"
  shows "safe (k + j) (pbind r f) st"
proof (cases r)
  case None
  with assms(1) show ?thesis by (simp add: safe_def)
next
  case (Some v)
  show ?thesis
  proof (cases v)
    case (Inl e)
    with Some show ?thesis by (simp add: pbind_def safe_def)
  next
    case (Inr p)
    obtain x st' where p: "p = (x, st')" by (cases p)
    with Some Inr assms(1) have st': "tokens_left st' + k \<le> tokens_left st" "same_input st st'" by (auto simp: safe_def)
    with assms(2) [OF st', of x] show ?thesis
      by (fastforce simp: Some Inr p pbind_def safe_def intro: same_input_trans)
  qed
qed

lemma safe_pbind_0:
  assumes "safe k r st"
    and "\<And>x st'. tokens_left st' + k \<le> tokens_left st \<Longrightarrow> same_input st st' \<Longrightarrow> safe 0 (f x st') st'"
  shows "safe k (pbind r f) st"
  using safe_pbind [OF assms(1), of 0 f] assms(2) by simp

lemma safe_ploop:
  assumes "tokens_left st < n"
    and "\<And>s st'. \<not> stop st' \<Longrightarrow> tokens_left st' \<le> tokens_left st \<Longrightarrow> same_input st st' \<Longrightarrow> safe 1 (body s st') st'"
  shows "safe 0 (ploop n stop body s st) st"
  using assms
proof (induction n arbitrary: s st)
  case (Suc n)
  show ?case
  proof (cases "stop st")
    case False
    have "safe 1 (pbind (body s st) (\<lambda>s st. ploop n stop body s st)) st"
    proof (rule safe_pbind_0)
      show "safe 1 (body s st) st" using False Suc.prems(2) by simp
    next
      fix x st'
      assume st': "tokens_left st' + 1 \<le> tokens_left st" "same_input st st'"
      show "safe 0 (ploop n stop body x st') st'"
      proof (rule Suc.IH)
        show "tokens_left st' < n" using st'(1) Suc.prems(1) by simp
        show "safe 1 (body s st'') st''"
          if "\<not> stop st''" "tokens_left st'' \<le> tokens_left st'" "same_input st' st''" for s st''
          using Suc.prems(2) [OF that(1)] that(2,3) st' same_input_trans [OF st'(2) that(3)] by simp
      qed
    qed
    with False show ?thesis by (simp add: safe_weaken)
  qed simp
qed simp

lemma bump_same [simp]: "same_input st (bump st)"
  by (simp add: same_input_def bump_def)

lemma current_kind_bump: "current_kind st \<noteq> None \<Longrightarrow> tokens_left (bump st) + 1 = tokens_left st"
  by (auto simp: current_kind_def tokens_left_def bump_def split: if_splits)

lemma check_exact_bump: "check_exact st k \<Longrightarrow> tokens_left (bump st) + 1 = tokens_left st"
  by (rule current_kind_bump) (auto simp: check_exact_def split: option.splits)

lemma safe_bump: "safe k r (bump st) \<Longrightarrow> tokens_left (bump st) + 1 = tokens_left st \<Longrightarrow> safe (k + 1) r st"
  by (fastforce simp: safe_def intro: same_input_trans [OF bump_same])

lemma safe_after:
  "safe k r st' \<Longrightarrow> tokens_left st' + j \<le> tokens_left st \<Longrightarrow> same_input st st' \<Longrightarrow> safe (k + j) r st"
  by (fastforce simp: safe_def intro: same_input_trans)

lemma safe_advance [intro]: "safe 1 (advance_or_error st message) st"
  by (auto simp: advance_or_error_def safe_def pok_def perr_def bump_def tokens_left_def same_input_def)

lemma safe_expect [intro]: "safe 1 (expect_exact st k label) st"
  unfolding expect_exact_def by (rule safe_pbind_0 [OF safe_advance]) auto

lemma safe_identifier [intro]: "safe 1 (parse_identifier st) st"
  unfolding parse_identifier_def by (rule safe_pbind_0 [OF safe_advance]) (auto split: option.split)

lemma safe_u64 [intro]: "safe 0 (parse_u64 st value s) st"
  by (auto simp: parse_u64_def split: option.split)

lemma safe_comma_or [intro]: "safe 0 (comma_or st terminator message x) st"
proof (cases "check_exact st TK_Comma")
  case True
  have "safe (0 + 1) (comma_or st terminator message x) st"
    by (rule safe_bump [OF _ check_exact_bump [OF True]]) (auto simp: comma_or_def match_exact_def True)
  then show ?thesis by (rule safe_weaken) simp
next
  case False
  then show ?thesis by (auto simp: comma_or_def match_exact_def)
qed

lemma safe_type [intro]:
  "safe 0 (case tok_kind token of TK_Type ty \<Rightarrow> pok ty st | _ \<Rightarrow> perr e) st"
  by (cases "tok_kind token") auto

lemma safe_integer [intro]:
  "safe 0 (case tok_kind token of TK_Integer value \<Rightarrow> parse_u64 st value s | _ \<Rightarrow> perr e) st"
  by (cases "tok_kind token") auto

lemma safe_expr_list:
  assumes "tokens_left st < n"
    and "\<And>st'. tokens_left st' \<le> tokens_left st \<Longrightarrow> same_input st st' \<Longrightarrow> safe 1 (p st') st'"
  shows "safe 0 (expr_list_loop n p terminator message st) st"
  unfolding expr_list_loop_def using assms
  by (intro safe_ploop safe_pbind_0 [where k = 1]) auto

lemma safe_pbind_expect:
  "(\<And>token st'. tokens_left st' + 1 \<le> tokens_left st \<Longrightarrow> same_input st st' \<Longrightarrow> safe 0 (f token st') st') \<Longrightarrow>
   safe 1 (pbind (expect_exact st k label) f) st"
  by (rule safe_pbind_0 [OF safe_expect])

lemma safe_pbind_expect_0:
  "(\<And>token st'. tokens_left st' + 1 \<le> tokens_left st \<Longrightarrow> same_input st st' \<Longrightarrow> safe 0 (f token st') st') \<Longrightarrow>
   safe 0 (pbind (expect_exact st k label) f) st"
  by (rule safe_weaken [OF safe_pbind_expect]) auto

lemma safe_after_match: "check_exact st k \<Longrightarrow> safe 1 r (bump st) \<Longrightarrow> safe 1 r st"
  by (rule safe_weaken [OF safe_bump [OF _ check_exact_bump]]) auto

text \<open>The turns of the loops, given a parser of subexpressions that works on shorter inputs.\<close>

lemma precedence_turn_safe:
  assumes "\<not> precedence_stop m st" and "\<And>p. safe 1 (parse p (bump st)) (bump st)"
  shows "safe 1 (precedence_turn parse left st) st"
proof -
  from assms(1) obtain bop p where op: "current_binary_op st = Some (bop, p)"
    by (auto simp: precedence_stop_def split: option.splits)
  then have b: "tokens_left (bump st) + 1 = tokens_left st"
    by (intro current_kind_bump) (auto simp: current_binary_op_def bind_eq_Some_conv)
  have "safe 1 (precedence_turn parse left st) (bump st)"
    unfolding precedence_turn_def op option.case prod.case by (intro safe_pbind_0 [OF assms(2)] safe_pok)
  from safe_bump [OF this b] show ?thesis by (rule safe_weaken) simp
qed

lemma postfix_turn_safe:
  assumes "\<not> postfix_stop st" and "tokens_left st \<le> n"
    and "\<And>st'. tokens_left st' + 1 \<le> tokens_left st \<Longrightarrow> same_input st st' \<Longrightarrow> safe 1 (parse st') st'"
  shows "safe 1 (postfix_turn n parse e st) st"
proof -
  from assms(1) have b: "tokens_left (bump st) + 1 = tokens_left st"
    using check_exact_bump by (auto simp: postfix_stop_def)
  have "safe 0 (postfix_turn n parse e st) (bump st)"
    unfolding postfix_turn_def
  proof (intro safe_if safe_pbind_0 [OF safe_expr_list] safe_pbind_expect_0 safe_pok
      safe_pbind_0 [OF safe_weaken [OF safe_identifier]])
    show "tokens_left (bump st) < n" using b assms(2) by simp
    show "safe 1 (parse st') st'" if "tokens_left st' \<le> tokens_left (bump st)" "same_input (bump st) st'" for st'
      using that b same_input_trans [OF bump_same that(2)] by (intro assms(3)) auto
  qed simp_all
  from safe_bump [OF this b] show ?thesis by simp
qed

lemma primary_rest_safe:
  assumes "tokens_left st < n"
    and "\<And>st'. tokens_left st' \<le> tokens_left st \<Longrightarrow> same_input st st' \<Longrightarrow> safe 1 (parse st') st'"
  shows "safe 0 (primary_rest n parse token st) st"
proof -
  have "safe 0 (parse st) st" using assms(2) [of st] by (auto intro: safe_weaken)
  with assms show ?thesis
    unfolding primary_rest_def
    by (cases "tok_kind token")
       (auto intro!: safe_pbind_0 [OF safe_u64] safe_pbind_0 [where k = 0] safe_expr_list safe_pbind_expect_0)
qed

text \<open>Fuel for each level of the expression parser.\<close>

lemma expressions_safe:
  "(\<forall>m st. 4 * tokens_left st + 4 \<le> n \<longrightarrow> safe 1 (parse_precedence n m st) st) \<and>
   (\<forall>st. 4 * tokens_left st + 3 \<le> n \<longrightarrow> safe 1 (parse_unary n st) st) \<and>
   (\<forall>st. 4 * tokens_left st + 2 \<le> n \<longrightarrow> safe 1 (parse_postfix n st) st) \<and>
   (\<forall>st. 4 * tokens_left st + 1 \<le> n \<longrightarrow> safe 1 (parse_primary n st) st)"
proof (induction n)
  case (Suc n)
  then have prec: "safe 1 (parse_precedence n m st) st" if "4 * tokens_left st + 4 \<le> n" for m st using that by blast
  from Suc have unary: "safe 1 (parse_unary n st) st" if "4 * tokens_left st + 3 \<le> n" for st using that by blast
  from Suc have postfix: "safe 1 (parse_postfix n st) st" if "4 * tokens_left st + 2 \<le> n" for st using that by blast
  from Suc have primary: "safe 1 (parse_primary n st) st" if "4 * tokens_left st + 1 \<le> n" for st using that by blast
  have "safe 1 (parse_precedence (Suc n) m st) st" if f: "4 * tokens_left st + 4 \<le> Suc n" for m st
    unfolding parse_precedence.simps
  proof (rule safe_pbind_0 [OF unary], goal_cases)
    case (2 left st')
    show ?case
    proof (rule safe_ploop)
      fix e st''
      assume st'': "\<not> precedence_stop m st''" "tokens_left st'' \<le> tokens_left st'"
      then have "tokens_left (bump st'') + 1 \<le> tokens_left st" using 2 by (simp add: bump_def tokens_left_def)
      with st'' f show "safe 1 (precedence_turn (parse_precedence n) e st'') st''"
        by (intro precedence_turn_safe prec) auto
    qed (use f 2 in simp)
  qed (use f in simp)
  moreover have "safe 1 (parse_unary (Suc n) st) st" if f: "4 * tokens_left st + 3 \<le> Suc n" for st
  proof -
    have "safe 1 (pbind (parse_unary n (bump st)) (\<lambda>e st. pok (g e) st)) st" if "check_exact st k" for k and g :: "expr \<Rightarrow> expr"
      using f check_exact_bump [OF that]
      by (intro safe_after_match [OF that] safe_pbind_0 [OF unary] safe_pok) auto
    moreover have "safe 1 (parse_postfix n st) st" using f by (intro postfix) simp
    ultimately show ?thesis by (simp add: Let_def)
  qed
  moreover have "safe 1 (parse_postfix (Suc n) st) st" if f: "4 * tokens_left st + 2 \<le> Suc n" for st
    unfolding parse_postfix.simps
  proof (rule safe_pbind_0 [OF primary], goal_cases)
    case (2 e st')
    show ?case
    proof (rule safe_ploop)
      fix e st''
      assume st'': "\<not> postfix_stop st''" "tokens_left st'' \<le> tokens_left st'"
      with 2 f show "safe 1 (postfix_turn (Suc n) (\<lambda>st. parse_precedence n 0 st) e st'') st''"
        by (intro postfix_turn_safe prec) auto
    qed (use f 2 in simp)
  qed (use f in simp)
  moreover have "safe 1 (parse_primary (Suc n) st) st" if f: "4 * tokens_left st + 1 \<le> Suc n" for st
    unfolding parse_primary.simps using f
    by (intro safe_pbind_0 [OF safe_advance] primary_rest_safe prec) auto
  ultimately show ?case by blast
qed simp

lemma parse_expression_safe: "4 * tokens_left st + 4 \<le> n \<Longrightarrow> safe 1 (parse_expression n st) st"
  using expressions_safe [of n] by (simp add: parse_expression_def)

section \<open>Declarations\<close>

lemma parse_typed_params_safe: "tokens_left st < n \<Longrightarrow> safe 0 (parse_typed_params n st terminator) st"
  unfolding parse_typed_params_def
  by (intro safe_ploop safe_pbind_0 [OF safe_identifier] safe_pbind_expect_0 safe_pbind_0 [OF safe_type]
        safe_pbind_0 [OF safe_weaken [OF safe_advance]] safe_comma_or) auto

lemma parse_params_entry_safe: "safe 1 (parse_params_entry acc st) st"
  unfolding parse_params_entry_def Let_def
proof (cases acc, simp only: prod.case, rule safe_pbind_0 [OF safe_identifier], rule safe_pbind_expect_0,
    rule safe_pbind_0 [where k = 0])
  show "safe 0 (if c then
              pbind (advance_or_error st m) (\<lambda>token st.
              pbind (case tok_kind token of
                       TK_Integer value \<Rightarrow> parse_u64 st value (tok_span token)
                     | _ \<Rightarrow> perr (p_error_at st (tok_span token) m')) (\<lambda>value st. pok (f value) st))
            else
              pbind (advance_or_error st m'') (\<lambda>token st.
              pbind (case tok_kind token of
                       TK_Type ty \<Rightarrow> pok ty st
                     | _ \<Rightarrow> perr (p_error_at st (tok_span token) m'')) (\<lambda>ty st. pok (g ty st) st))) st"
    for c m m' m'' st and f :: "u64 \<Rightarrow> 'a" and g
    by (intro safe_if safe_pbind_0 [OF safe_weaken [OF safe_advance]] safe_pbind_0 [OF safe_type] safe_pbind_0 [OF safe_integer])
       auto
qed (rule safe_comma_or)

lemma parse_params_block_safe: "tokens_left st < n \<Longrightarrow> safe 1 (parse_params_block n st) st"
  unfolding parse_params_block_def
  by (intro safe_pbind_expect safe_pbind_expect_0 safe_pbind_0 [OF safe_ploop] parse_params_entry_safe) auto

lemma parse_statement_safe:
  assumes "4 * tokens_left st \<le> n"
  shows "safe 1 (parse_statement n st) st"
proof -
  have expr: "safe 1 (pbind (parse_expression n st') (\<lambda>e st.
      pbind (expect_exact st TK_Semicolon label) (\<lambda>token st. pok (g e token) st))) st'"
    if "4 * tokens_left st' + 4 \<le> n" for st' label and g :: "expr \<Rightarrow> token \<Rightarrow> stmt"
    using that by (intro safe_pbind_0 [OF parse_expression_safe] safe_pbind_expect_0 safe_pok)
  have bumped: "4 * tokens_left (bump st) + 4 \<le> n" if "check_exact st k" for k
    using check_exact_bump [OF that] assms by simp
  have keyword: "safe 1 (pbind (parse_expression n (bump st)) (\<lambda>e st.
      pbind (expect_exact st TK_Semicolon label) (\<lambda>token st. pok (g e token) st))) st"
    if "check_exact st k" for k label and g :: "expr \<Rightarrow> token \<Rightarrow> stmt"
    by (rule safe_after_match [OF that expr [OF bumped [OF that]]])
  have binding: "safe 1 (pbind (parse_identifier (bump st)) (\<lambda>name st.
            pbind (expect_exact st TK_Equal label) (\<lambda>_ st.
            pbind (parse_expression n st) (\<lambda>e st.
            pbind (expect_exact st TK_Semicolon label') (\<lambda>token st. pok (g name e token) st))))) st"
    if "check_exact st k" for k label label' and g :: "ident \<Rightarrow> expr \<Rightarrow> token \<Rightarrow> stmt"
  proof (rule safe_after_match [OF that], rule safe_pbind_0 [OF safe_identifier], rule safe_pbind_expect_0)
    fix name token st1 st2
    assume "tokens_left st1 + 1 \<le> tokens_left (bump st)" "tokens_left st2 + 1 \<le> tokens_left st1"
    then show "safe 0 (pbind (parse_expression n st2) (\<lambda>e st.
            pbind (expect_exact st TK_Semicolon label') (\<lambda>token st. pok (g name e token) st))) st2"
      using bumped [OF that] by (intro safe_weaken [OF expr]) auto
  qed
  show ?thesis
    unfolding parse_statement_def Let_def
    by (intro safe_if safe_perr) (rule binding, assumption, (rule keyword, assumption)+)
qed

lemma parse_spend_safe:
  assumes "4 * tokens_left st + 1 \<le> n"
  shows "safe 1 (parse_spend n st) st"
proof -
  have body: "safe 1 (if is_at_end st' then perr e
      else pbind (parse_statement n st') (\<lambda>stmt st. pok (body @ [stmt]) st)) st'"
    if "tokens_left st' \<le> tokens_left st" for st' e body
    using that assms by (intro safe_if safe_perr safe_pbind_0 [OF parse_statement_safe] safe_pok) auto
  show ?thesis
    unfolding parse_spend_def using assms
    by (intro safe_pbind_0 [OF safe_identifier] safe_pbind_expect_0 safe_pbind_0 [OF parse_typed_params_safe]
          safe_pbind_0 [OF safe_ploop] body safe_pok) auto
qed

lemma parse_contract_item_safe:
  assumes "4 * tokens_left st + 1 \<le> n"
  shows "safe 1 (parse_contract_item n acc st) st"
proof (cases acc)
  case (fields params depth spends)
  have block: "safe 1 (pbind (parse_params_block n (bump st)) (\<lambda>parsed st. pok (f parsed) st)) st"
    if "check_exact st k" for k and f :: "_ \<Rightarrow> param list \<times> u64 option \<times> spend list"
    using check_exact_bump [OF that] assms
    by (intro safe_after_match [OF that] safe_pbind_0 [OF parse_params_block_safe] safe_pok) auto
  have spend: "safe 1 (pbind (parse_spend n (bump st)) (\<lambda>sp st. pok (f sp) st)) st"
    if "check_exact st k" for k and f :: "_ \<Rightarrow> param list \<times> u64 option \<times> spend list"
    using check_exact_bump [OF that] assms
    by (intro safe_after_match [OF that] safe_pbind_0 [OF parse_spend_safe] safe_pok) auto
  show ?thesis
    unfolding parse_contract_item_def fields Let_def prod.case
    by (intro safe_if safe_perr) (rule block, assumption, rule spend, assumption)
qed

lemma parse_contract_safe:
  assumes "4 * tokens_left st + 1 \<le> n"
  shows "safe 1 (parse_contract n st) st"
  unfolding parse_contract_def using assms
  by (intro safe_pbind_expect safe_pbind_expect_0 safe_pbind_0 [OF safe_weaken [OF safe_identifier]]
        safe_pbind_0 [OF safe_ploop] parse_contract_item_safe safe_pok) auto

lemma parse_program_safe:
  assumes "4 * tokens_left st + 1 \<le> n"
  shows "safe 0 (parse_program n st) st"
  unfolding parse_program_def using assms
  by (intro safe_pbind_0 [OF safe_ploop] safe_pbind_0 [OF parse_contract_safe] safe_pok) auto

section \<open>More fuel\<close>

text \<open>\<open>r'\<close> extends \<open>r\<close>: it is the same result unless \<open>r\<close> ran out of fuel.\<close>

definition extends :: "'a option \<Rightarrow> 'a option \<Rightarrow> bool" where
  "extends r r' \<longleftrightarrow> (r \<noteq> None \<longrightarrow> r' = r)"

lemma extends_refl [simp, intro]: "extends r r"
  by (simp add: extends_def)

lemma extends_None [simp, intro]: "extends None r"
  by (simp add: extends_def)

lemma extends_if: "(c \<Longrightarrow> extends a a') \<Longrightarrow> (\<not> c \<Longrightarrow> extends b b') \<Longrightarrow> extends (if c then a else b) (if c then a' else b')"
  by simp

lemma extends_pbind:
  "extends r r' \<Longrightarrow> (\<And>x st. extends (f x st) (f' x st)) \<Longrightarrow> extends (pbind r f) (pbind r' f')"
  by (cases r) (auto simp: extends_def pbind_def split: option.splits sum.splits)

lemma ploop_stop: "stop st \<Longrightarrow> ploop (Suc n) stop body s st = pok s st"
  by simp

lemma ploop_go: "\<not> stop st \<Longrightarrow> ploop (Suc n) stop body s st = pbind (body s st) (ploop n stop body)"
  by simp

lemma extends_ploop:
  assumes "n' = Suc n" and "\<And>s st. extends (body s st) (body' s st)"
  shows "extends (ploop n stop body s st) (ploop n' stop body' s st)"
  unfolding assms(1)
proof (induction n arbitrary: s st)
  case (Suc n)
  have "extends (pbind (body s st) (ploop n stop body)) (pbind (body' s st) (ploop (Suc n) stop body'))"
    by (intro extends_pbind assms(2) Suc.IH)
  then show ?case
    by (cases "stop st") (simp_all only: ploop_go ploop_stop extends_refl not_False_eq_True)
qed simp

lemma extends_expr_list:
  "n' = Suc n \<Longrightarrow> (\<And>st. extends (p st) (p' st)) \<Longrightarrow> extends (expr_list_loop n p t m st) (expr_list_loop n' p' t m st)"
  unfolding expr_list_loop_def by (intro extends_ploop extends_pbind) auto

lemma extends_precedence_turn:
  "(\<And>q st. extends (p q st) (p' q st)) \<Longrightarrow> extends (precedence_turn p e st) (precedence_turn p' e st)"
  unfolding precedence_turn_def by (auto intro!: extends_pbind split: option.split)

lemma extends_postfix_turn:
  "n' = Suc n \<Longrightarrow> (\<And>st. extends (p st) (p' st)) \<Longrightarrow> extends (postfix_turn n p e st) (postfix_turn n' p' e st)"
  unfolding postfix_turn_def by (intro extends_if extends_pbind extends_expr_list) auto

lemma extends_primary_rest:
  "n' = Suc n \<Longrightarrow> (\<And>st. extends (p st) (p' st)) \<Longrightarrow> extends (primary_rest n p token st) (primary_rest n' p' token st)"
  unfolding primary_rest_def by (cases "tok_kind token") (auto intro!: extends_pbind extends_expr_list)

lemma expressions_extend:
  "extends (parse_precedence n m st) (parse_precedence (Suc n) m st) \<and>
   extends (parse_unary n st) (parse_unary (Suc n) st) \<and>
   extends (parse_postfix n st) (parse_postfix (Suc n) st) \<and>
   extends (parse_primary n st) (parse_primary (Suc n) st)"
proof (induction n arbitrary: m st)
  case (Suc n)
  obtain n' where n': "n' = Suc n" by simp
  from Suc have IH: "extends (parse_precedence n m st) (parse_precedence n' m st)"
    "extends (parse_unary n st) (parse_unary n' st)" "extends (parse_postfix n st) (parse_postfix n' st)"
    "extends (parse_primary n st) (parse_primary n' st)" for m st unfolding n' by blast+
  have step: "Suc n' = Suc (Suc n)" using n' by simp
  have "extends (parse_precedence (Suc n) m st) (parse_precedence (Suc n') m st)"
    unfolding parse_precedence.simps by (intro extends_pbind extends_ploop [OF step] extends_precedence_turn IH)
  moreover have "extends (parse_unary (Suc n) st) (parse_unary (Suc n') st)"
    unfolding parse_unary.simps Let_def by (intro extends_if extends_pbind IH extends_refl)
  moreover have "extends (parse_postfix (Suc n) st) (parse_postfix (Suc n') st)"
    unfolding parse_postfix.simps
    by (intro extends_pbind extends_ploop [OF step] extends_postfix_turn [OF step] IH)
  moreover have "extends (parse_primary (Suc n) st) (parse_primary (Suc n') st)"
    unfolding parse_primary.simps by (intro extends_pbind extends_primary_rest [OF step] IH extends_refl)
  ultimately show ?case unfolding n' by blast
qed simp

lemma extends_expression: "extends (parse_expression n st) (parse_expression (Suc n) st)"
  using expressions_extend [of n] by (simp add: parse_expression_def)

lemma extends_typed_params: "extends (parse_typed_params n st t) (parse_typed_params (Suc n) st t)"
  unfolding parse_typed_params_def by (intro extends_ploop extends_refl) simp

lemma extends_params_block: "extends (parse_params_block n st) (parse_params_block (Suc n) st)"
  unfolding parse_params_block_def by (intro extends_pbind extends_ploop extends_refl) simp

lemma extends_statement: "extends (parse_statement n st) (parse_statement (Suc n) st)"
  unfolding parse_statement_def Let_def by (intro extends_if extends_pbind extends_expression extends_refl)

lemma extends_spend: "extends (parse_spend n st) (parse_spend (Suc n) st)"
  unfolding parse_spend_def
  by (intro extends_pbind extends_typed_params extends_ploop extends_if extends_statement extends_refl) simp

lemma extends_contract_item: "extends (parse_contract_item n acc st) (parse_contract_item (Suc n) acc st)"
  unfolding parse_contract_item_def Let_def
  by (cases acc) (auto intro!: extends_if extends_pbind extends_params_block extends_spend)

lemma extends_contract: "extends (parse_contract n st) (parse_contract (Suc n) st)"
  unfolding parse_contract_def by (intro extends_pbind extends_ploop extends_contract_item extends_refl) simp

lemma extends_program: "extends (parse_program n st) (parse_program (Suc n) st)"
  unfolding parse_program_def by (intro extends_pbind extends_ploop extends_contract extends_refl) simp

text \<open>The interface of a computation with fuel, and its one consequence: enough is enough.\<close>

locale fuelled =
  fixes run :: "nat \<Rightarrow> 'i \<Rightarrow> 'o option"
    and bound :: "'i \<Rightarrow> nat"
  assumes more: "extends (run n x) (run (Suc n) x)"
    and enough: "bound x \<le> n \<Longrightarrow> run n x \<noteq> None"
begin

lemma stable: "run n x \<noteq> None \<Longrightarrow> run (n + k) x = run n x"
proof (induction k)
  case (Suc k)
  then show ?case using more [of "n + k" x] by (simp add: extends_def)
qed simp

lemma agree:
  assumes "bound x \<le> n" and "bound x \<le> m"
  shows "run n x = run m x"
proof -
  have "run (bound x) x \<noteq> None" by (rule enough) simp
  from stable [OF this, of "n - bound x"] stable [OF this, of "m - bound x"] assms show ?thesis by simp
qed

end

lemma expressions_enough:
  "4 * tokens_left st + 4 \<le> n \<Longrightarrow> parse_precedence n m st \<noteq> None"
  "4 * tokens_left st + 3 \<le> n \<Longrightarrow> parse_unary n st \<noteq> None"
  "4 * tokens_left st + 2 \<le> n \<Longrightarrow> parse_postfix n st \<noteq> None"
  "4 * tokens_left st + 1 \<le> n \<Longrightarrow> parse_primary n st \<noteq> None"
  using expressions_safe [of n] safe_returns by blast+

interpretation precedence: fuelled "\<lambda>n (m, st). parse_precedence n m st" "\<lambda>(m, st). 4 * tokens_left st + 4"
  by unfold_locales (auto simp: expressions_extend simp del: parse_precedence.simps dest: expressions_enough(1))

interpretation unary: fuelled parse_unary "\<lambda>st. 4 * tokens_left st + 3"
  by unfold_locales (simp add: expressions_extend del: parse_unary.simps, rule expressions_enough(2))

interpretation postfix: fuelled parse_postfix "\<lambda>st. 4 * tokens_left st + 2"
  by unfold_locales (simp add: expressions_extend del: parse_postfix.simps, rule expressions_enough(3))

interpretation primary: fuelled parse_primary "\<lambda>st. 4 * tokens_left st + 1"
  by unfold_locales (simp add: expressions_extend del: parse_primary.simps, rule expressions_enough(4))

interpretation programs: fuelled parse_program "\<lambda>st. 4 * tokens_left st + 1"
  by unfold_locales (rule extends_program, rule safe_returns [OF parse_program_safe])

text \<open>C10: parsing terminates: with the fuel of \<open>parse_tokens\<close>, linear in the number of tokens, it yields a
  program or an error, and no larger fuel changes the outcome.\<close>

theorem parse_program_terminates:
  "parse_program (parse_fuel tokens) (parser_new tokens source path) \<noteq> None \<and>
   parse_program (parse_fuel tokens + k) (parser_new tokens source path) =
     parse_program (parse_fuel tokens) (parser_new tokens source path)"
proof -
  have left: "tokens_left (parser_new tokens source path) = length tokens"
    by (simp add: tokens_left_def parser_new_def)
  have "parse_program (parse_fuel tokens) (parser_new tokens source path) \<noteq> None"
    by (rule programs.enough) (simp add: left parse_fuel_def)
  then show ?thesis using programs.stable by blast
qed

end
