(* ===== verification/KS_ParserEqs.thy ===== *)
theory KS_ParserEqs
  imports KS_ParserTotal
begin

text \<open>
  The expression parser without fuel: each routine run with enough of it satisfies the equation
  the source writes, with \<open>rloop\<close> for the loops.
\<close>

definition rloop :: "(parser \<Rightarrow> bool) \<Rightarrow> ('s \<Rightarrow> parser \<Rightarrow> 's presult) \<Rightarrow> 's \<Rightarrow> parser \<Rightarrow> 's presult" where
  "rloop stop body s st = ploop (Suc (tokens_left st)) stop body s st"

definition run_precedence :: "nat \<Rightarrow> parser \<Rightarrow> expr presult" where
  "run_precedence m st = parse_precedence (4 * tokens_left st + 4) m st"

definition run_unary :: "parser \<Rightarrow> expr presult" where
  "run_unary st = parse_unary (4 * tokens_left st + 3) st"

definition run_postfix :: "parser \<Rightarrow> expr presult" where
  "run_postfix st = parse_postfix (4 * tokens_left st + 2) st"

definition run_primary :: "parser \<Rightarrow> expr presult" where
  "run_primary st = parse_primary (4 * tokens_left st + 1) st"

definition run_exprs :: "token_kind \<Rightarrow> string \<Rightarrow> parser \<Rightarrow> expr list presult" where
  "run_exprs terminator message st = expr_list_loop (Suc (tokens_left st)) (run_precedence 0) terminator message st"

lemma pbind_cong:
  assumes "safe k r st" and "\<And>x st'. tokens_left st' + k \<le> tokens_left st \<Longrightarrow> same_input st st' \<Longrightarrow> f x st' = g x st'"
  shows "pbind r f = pbind r g"
  using assms by (fastforce simp: pbind_def safe_def split: option.splits sum.splits)

lemma ploop_agree:
  assumes "tokens_left st < n" and "tokens_left st < n'"
    and "\<And>s st'. \<not> stop st' \<Longrightarrow> tokens_left st' \<le> tokens_left st \<Longrightarrow> same_input st st' \<Longrightarrow>
           safe 1 (body s st') st' \<and> body' s st' = body s st'"
  shows "ploop n' stop body' s st = ploop n stop body s st"
  using assms
proof (induction n arbitrary: n' s st)
  case (Suc n)
  from Suc.prems(2) obtain m where m: "n' = Suc m" by (cases n') auto
  show ?case
  proof (cases "stop st")
    case True
    then show ?thesis by (simp add: m)
  next
    case False
    with Suc.prems(3) have body: "safe 1 (body s st) st" "body' s st = body s st" by simp_all
    have "pbind (body s st) (ploop m stop body') = pbind (body s st) (ploop n stop body)"
    proof (rule pbind_cong [OF body(1)])
      fix x st'
      assume st': "tokens_left st' + 1 \<le> tokens_left st" "same_input st st'"
      show "ploop m stop body' x st' = ploop n stop body x st'"
        by (rule Suc.IH) (use st' Suc.prems m same_input_trans in auto)
    qed
    with False body(2) show ?thesis by (simp add: m)
  qed
qed simp

lemma ploop_rloop:
  assumes "tokens_left st < n"
    and "\<And>s st'. \<not> stop st' \<Longrightarrow> tokens_left st' \<le> tokens_left st \<Longrightarrow> same_input st st' \<Longrightarrow>
           safe 1 (body s st') st' \<and> body' s st' = body s st'"
  shows "ploop n stop body s st = rloop stop body' s st"
  unfolding rloop_def by (rule ploop_agree [symmetric]) (use assms in auto)

lemma rloop_stop: "stop st \<Longrightarrow> rloop stop body s st = pok s st"
  by (simp add: rloop_def)

lemma rloop_go:
  assumes "\<not> stop st" and "\<And>s st'. \<not> stop st' \<Longrightarrow> safe 1 (body s st') st'"
  shows "rloop stop body s st = pbind (body s st) (rloop stop body)"
proof -
  have "rloop stop body s st = pbind (body s st) (ploop (tokens_left st) stop body)"
    unfolding rloop_def using assms(1) by (rule ploop_go)
  also have "\<dots> = pbind (body s st) (rloop stop body)"
  proof (rule pbind_cong)
    show "safe 1 (body s st) st" using assms by simp
    show "ploop (tokens_left st) stop body x st' = rloop stop body x st'" if "tokens_left st' + 1 \<le> tokens_left st" for x st'
      using that assms(2) by (intro ploop_rloop) auto
  qed
  finally show ?thesis .
qed

text \<open>Enough fuel.\<close>

lemma run_precedence_fuel: "4 * tokens_left st + 4 \<le> n \<Longrightarrow> parse_precedence n m st = run_precedence m st"
  using precedence.agree [of "(m, st)" n "4 * tokens_left st + 4"] by (simp add: run_precedence_def del: parse_precedence.simps)

lemma run_unary_fuel: "4 * tokens_left st + 3 \<le> n \<Longrightarrow> parse_unary n st = run_unary st"
  unfolding run_unary_def by (rule unary.agree) auto

lemma run_postfix_fuel: "4 * tokens_left st + 2 \<le> n \<Longrightarrow> parse_postfix n st = run_postfix st"
  unfolding run_postfix_def by (rule postfix.agree) auto

lemma run_primary_fuel: "4 * tokens_left st + 1 \<le> n \<Longrightarrow> parse_primary n st = run_primary st"
  unfolding run_primary_def by (rule primary.agree) auto

lemma run_safe:
  "safe 1 (run_precedence m st) st" "safe 1 (run_unary st) st" "safe 1 (run_postfix st) st" "safe 1 (run_primary st) st"
  using expressions_safe by (auto simp: run_precedence_def run_unary_def run_postfix_def run_primary_def
      simp del: parse_precedence.simps parse_unary.simps parse_postfix.simps parse_primary.simps)

lemma run_exprs_safe: "safe 0 (run_exprs t m st) st"
  unfolding run_exprs_def by (rule safe_expr_list [OF _ run_safe(1)]) simp

lemma run_exprs_fuel:
  assumes "tokens_left st < n" and "\<And>st'. tokens_left st' \<le> tokens_left st \<Longrightarrow> same_input st st' \<Longrightarrow> p st' = run_precedence 0 st'"
  shows "expr_list_loop n p t m st = run_exprs t m st"
  unfolding run_exprs_def expr_list_loop_def
proof (rule ploop_agree)
  fix s st'
  assume "\<not> check_exact st' t" "tokens_left st' \<le> tokens_left st" "same_input st st'"
  with assms(2) show "safe 1 (pbind (run_precedence 0 st') (\<lambda>e st. comma_or st t m (s @ [e]))) st' \<and>
      pbind (p st') (\<lambda>e st. comma_or st t m (s @ [e])) = pbind (run_precedence 0 st') (\<lambda>e st. comma_or st t m (s @ [e]))"
    by (intro conjI safe_pbind_0 [OF run_safe(1)] safe_comma_or) simp
qed (use assms(1) in auto)

section \<open>The equations\<close>

lemma run_precedence_eq:
  "run_precedence m st = pbind (run_unary st) (rloop (precedence_stop m) (precedence_turn run_precedence))"
proof -
  let ?n = "4 * tokens_left st + 3"
  have "run_precedence m st = pbind (parse_unary ?n st)
      (ploop (Suc ?n) (precedence_stop m) (precedence_turn (\<lambda>p st. parse_precedence ?n p st)))"
  proof -
    have "4 * tokens_left st + 4 = Suc ?n" by simp
    then show ?thesis by (simp only: run_precedence_def parse_precedence.simps)
  qed
  also have "\<dots> = pbind (run_unary st) (ploop (Suc ?n) (precedence_stop m) (precedence_turn (\<lambda>p st. parse_precedence ?n p st)))"
    by (simp only: run_unary_def)
  also have "\<dots> = pbind (run_unary st) (rloop (precedence_stop m) (precedence_turn run_precedence))"
  proof (rule pbind_cong [OF run_safe(2)])
    fix x st'
    assume st': "tokens_left st' + 1 \<le> tokens_left st"
    show "ploop (Suc ?n) (precedence_stop m) (precedence_turn (\<lambda>p st. parse_precedence ?n p st)) x st' =
        rloop (precedence_stop m) (precedence_turn run_precedence) x st'"
    proof (rule ploop_rloop)
      fix e st''
      assume st'': "\<not> precedence_stop m st''" "tokens_left st'' \<le> tokens_left st'"
      have "tokens_left (bump st'') \<le> tokens_left st''" by (simp add: bump_def tokens_left_def)
      with st' st'' have eq: "(\<lambda>p. parse_precedence ?n p (bump st'')) = (\<lambda>p. run_precedence p (bump st''))"
        by (intro ext run_precedence_fuel) simp
      then have "precedence_turn run_precedence e st'' = precedence_turn (\<lambda>p st. parse_precedence ?n p st) e st''"
        by (simp add: precedence_turn_def fun_eq_iff del: parse_precedence.simps split: option.split)
      moreover have "safe 1 (precedence_turn run_precedence e st'') st''"
        by (rule precedence_turn_safe [OF st''(1)]) (rule run_safe)
      ultimately show "safe 1 (precedence_turn (\<lambda>p st. parse_precedence ?n p st) e st'') st'' \<and>
          precedence_turn run_precedence e st'' = precedence_turn (\<lambda>p st. parse_precedence ?n p st) e st''" by simp
    qed (use st' in simp)
  qed
  finally show ?thesis .
qed

lemma run_unary_eq:
  "run_unary st =
     (if check_exact st TK_Bang then
        pbind (run_unary (bump st)) (\<lambda>e st'. pok (E_Unary UO_Not e (mk_span (span_start (previous_span (bump st))) (span_end (expr_span e)))) st')
      else if check_exact st TK_Minus then
        pbind (run_unary (bump st)) (\<lambda>e st'. pok (E_Unary UO_Negate e (mk_span (span_start (previous_span (bump st))) (span_end (expr_span e)))) st')
      else run_postfix st)"
proof -
  let ?n = "4 * tokens_left st + 2"
  have "parse_unary ?n (bump st) = run_unary (bump st)" if "check_exact st k" for k
    using check_exact_bump [OF that] by (intro run_unary_fuel) simp
  moreover have "parse_postfix ?n st = run_postfix st" by (simp only: run_postfix_def)
  moreover have "4 * tokens_left st + 3 = Suc ?n" by simp
  then have "run_unary st = parse_unary (Suc ?n) st" by (simp only: run_unary_def)
  ultimately show ?thesis unfolding parse_unary.simps(2) [of ?n] Let_def by (simp del: parse_unary.simps)
qed

lemma run_postfix_eq:
  "run_postfix st =
     pbind (run_primary st) (rloop postfix_stop (\<lambda>e st. postfix_turn (tokens_left st) (run_precedence 0) e st))"
proof -
  let ?n = "4 * tokens_left st + 1"
  have "run_postfix st = parse_postfix (Suc ?n) st" by (simp only: run_postfix_def) simp
  also have "\<dots> = pbind (run_primary st) (ploop (Suc ?n) postfix_stop (postfix_turn (Suc ?n) (\<lambda>st. parse_precedence ?n 0 st)))"
    by (simp only: parse_postfix.simps run_primary_def)
  also have "\<dots> = pbind (run_primary st) (rloop postfix_stop (\<lambda>e st. postfix_turn (tokens_left st) (run_precedence 0) e st))"
  proof (rule pbind_cong [OF run_safe(4)])
    fix x st'
    assume st': "tokens_left st' + 1 \<le> tokens_left st"
    show "ploop (Suc ?n) postfix_stop (postfix_turn (Suc ?n) (\<lambda>st. parse_precedence ?n 0 st)) x st' =
        rloop postfix_stop (\<lambda>e st. postfix_turn (tokens_left st) (run_precedence 0) e st) x st'"
    proof (rule ploop_rloop)
      fix e st''
      assume st'': "\<not> postfix_stop st''" "tokens_left st'' \<le> tokens_left st'"
      then have b: "tokens_left (bump st'') + 1 = tokens_left st''"
        using check_exact_bump by (auto simp: postfix_stop_def)
      have "expr_list_loop (Suc ?n) (\<lambda>st. parse_precedence ?n 0 st) t m (bump st'') = run_exprs t m (bump st'')" for t m
        using b st' st''(2) by (intro run_exprs_fuel run_precedence_fuel) auto
      moreover have "expr_list_loop (tokens_left st'') (run_precedence 0) t m (bump st'') = run_exprs t m (bump st'')" for t m
        using b by (intro run_exprs_fuel) auto
      ultimately have "postfix_turn (tokens_left st'') (run_precedence 0) e st'' =
          postfix_turn (Suc ?n) (\<lambda>st. parse_precedence ?n 0 st) e st''"
        by (simp only: postfix_turn_def)
      moreover have "safe 1 (postfix_turn (tokens_left st'') (run_precedence 0) e st'') st''"
        by (rule postfix_turn_safe [OF st''(1) _ run_safe(1)]) simp
      ultimately show "safe 1 (postfix_turn (Suc ?n) (\<lambda>st. parse_precedence ?n 0 st) e st'') st'' \<and>
          postfix_turn (tokens_left st'') (run_precedence 0) e st'' = postfix_turn (Suc ?n) (\<lambda>st. parse_precedence ?n 0 st) e st''"
        by simp
    qed (use st' in simp)
  qed
  finally show ?thesis .
qed

lemma run_primary_eq:
  "run_primary st =
     pbind (advance_or_error st ''expected expression'') (\<lambda>token st. primary_rest (Suc (tokens_left st)) (run_precedence 0) token st)"
proof -
  let ?n = "4 * tokens_left st"
  have "run_primary st = parse_primary (Suc ?n) st" by (simp only: run_primary_def) simp
  also have "\<dots> = pbind (advance_or_error st ''expected expression'') (primary_rest (Suc ?n) (\<lambda>st. parse_precedence ?n 0 st))"
    by (simp only: parse_primary.simps)
  also have "\<dots> = pbind (advance_or_error st ''expected expression'') (\<lambda>token st. primary_rest (Suc (tokens_left st)) (run_precedence 0) token st)"
  proof (rule pbind_cong [OF safe_advance])
    fix token st'
    assume st': "tokens_left st' + 1 \<le> tokens_left st"
    have "parse_precedence ?n 0 st' = run_precedence 0 st'" using st' by (intro run_precedence_fuel) simp
    moreover have "expr_list_loop (Suc ?n) (\<lambda>st. parse_precedence ?n 0 st) t m st' = run_exprs t m st'" for t m
      using st' by (intro run_exprs_fuel run_precedence_fuel) auto
    moreover have "expr_list_loop (Suc (tokens_left st')) (run_precedence 0) t m st' = run_exprs t m st'" for t m
      by (simp only: run_exprs_def)
    ultimately show "primary_rest (Suc ?n) (\<lambda>st. parse_precedence ?n 0 st) token st' =
        primary_rest (Suc (tokens_left st')) (run_precedence 0) token st'"
      by (simp only: primary_rest_def)
  qed
  finally show ?thesis .
qed

lemma run_exprs_eq:
  "run_exprs t m st = rloop (\<lambda>st. check_exact st t) (\<lambda>xs st. pbind (run_precedence 0 st) (\<lambda>e st. comma_or st t m (xs @ [e]))) [] st"
  by (simp only: run_exprs_def expr_list_loop_def rloop_def)

end
