(* ===== verification/KS_ParserRoundtrip.thy ===== *)
theory KS_ParserRoundtrip
  imports KS_ParserEqs
begin

text \<open>
  Parsing inverts printing: a printer that writes the fewest parentheses precedence and
  associativity allow, and the proof that the parser reads the printed tokens back, whatever
  their spans, to the same tree up to spans.
\<close>

lemma parse_show_word [simp]: "parse_u64_str (show_nat (unat (v :: u64))) = Some v"
proof -
  have "unat v < 2 ^ 64" using unsigned_less [of v, where 'a = nat] by simp
  then show ?thesis using parse_show_nat [of "unat v"] by simp
qed

section \<open>Trees without spans\<close>

definition erase_ident :: "ident \<Rightarrow> ident" where
  "erase_ident i = mk_ident (ident_name i) (mk_span 0 0)"

fun erase :: "expr \<Rightarrow> expr" where
  "erase (E_Ident i) = E_Ident (erase_ident i)"
| "erase (E_Integer v s) = E_Integer v (mk_span 0 0)"
| "erase (E_String v s) = E_String v (mk_span 0 0)"
| "erase (E_Bool b s) = E_Bool b (mk_span 0 0)"
| "erase (E_Array es s) = E_Array (map erase es) (mk_span 0 0)"
| "erase (E_Unary uop e s) = E_Unary uop (erase e) (mk_span 0 0)"
| "erase (E_Binary l bop r s) = E_Binary (erase l) bop (erase r) (mk_span 0 0)"
| "erase (E_Call c as s) = E_Call (erase c) (map erase as) (mk_span 0 0)"
| "erase (E_Field ob f s) = E_Field (erase ob) (erase_ident f) (mk_span 0 0)"

section \<open>The printer\<close>

fun binary_token :: "binary_op \<Rightarrow> token_kind" where
  "binary_token BO_Or = TK_OrOr"
| "binary_token BO_And = TK_AndAnd"
| "binary_token BO_Equal = TK_EqualEqual"
| "binary_token BO_NotEqual = TK_BangEqual"
| "binary_token BO_Greater = TK_Greater"
| "binary_token BO_GreaterEqual = TK_GreaterEqual"
| "binary_token BO_Less = TK_Less"
| "binary_token BO_LessEqual = TK_LessEqual"
| "binary_token BO_Add = TK_Plus"
| "binary_token BO_Sub = TK_Minus"
| "binary_token BO_Mul = TK_Star"
| "binary_token BO_Div = TK_Slash"
| "binary_token BO_Mod = TK_Percent"

definition precedence_of :: "binary_op \<Rightarrow> nat" where
  "precedence_of bop = snd (the (binary_op_of (binary_token bop)))"

lemma binary_op_of_token [simp]: "binary_op_of (binary_token bop) = Some (bop, precedence_of bop)"
  by (cases bop) (simp_all add: precedence_of_def)

lemma precedence_bounds: "1 \<le> precedence_of bop" "precedence_of bop \<le> 6"
  by (cases bop; simp add: precedence_of_def)+

definition parens :: "bool \<Rightarrow> token_kind list \<Rightarrow> token_kind list" where
  "parens b ks = (if b then TK_LeftParen # ks @ [TK_RightParen] else ks)"

fun commas :: "token_kind list list \<Rightarrow> token_kind list" where
  "commas [] = []"
| "commas [ks] = ks"
| "commas (ks # kss) = ks @ TK_Comma # commas kss"

text \<open>
  \<open>print_expr l e\<close>: levels up to 6 are those of the binary operators, 7 is a unary operand, 8 the
  object of a call or a field.
\<close>

fun print_expr :: "nat \<Rightarrow> expr \<Rightarrow> token_kind list" where
  "print_expr l (E_Ident i) = [TK_Identifier (ident_name i)]"
| "print_expr l (E_Integer v s) = [TK_Integer (show_nat (unat v))]"
| "print_expr l (E_String v s) = [TK_String v]"
| "print_expr l (E_Bool b s) = [if b then TK_True else TK_False]"
| "print_expr l (E_Array es s) = TK_LeftBracket # commas (map (print_expr 0) es) @ [TK_RightBracket]"
| "print_expr l (E_Unary uop e s) =
     parens (7 < l) ((case uop of UO_Not \<Rightarrow> TK_Bang | UO_Negate \<Rightarrow> TK_Minus) # print_expr 7 e)"
| "print_expr l (E_Binary a bop b s) =
     parens (precedence_of bop < l)
       (print_expr (precedence_of bop) a @ binary_token bop # print_expr (precedence_of bop + 1) b)"
| "print_expr l (E_Call c as s) =
     print_expr 8 c @ TK_LeftParen # commas (map (print_expr 0) as) @ [TK_RightParen]"
| "print_expr l (E_Field ob f s) = print_expr 8 ob @ [TK_Dot, TK_Identifier (ident_name f)]"

section \<open>States by the kinds ahead\<close>

definition ahead :: "parser \<Rightarrow> token_kind list \<Rightarrow> bool" where
  "ahead st ks \<longleftrightarrow> map tok_kind (drop (ps_cursor st) (ps_tokens st)) = ks"

lemma ahead_Cons:
  assumes "ahead st (k # ks)"
  shows "ps_cursor st < length (ps_tokens st)" and "tok_kind (ps_tokens st ! ps_cursor st) = k" and "ahead (bump st) ks"
proof -
  have d: "map tok_kind (drop (ps_cursor st) (ps_tokens st)) = k # ks" using assms by (simp add: ahead_def)
  then show l: "ps_cursor st < length (ps_tokens st)" by (cases "ps_cursor st < length (ps_tokens st)") auto
  then have "drop (ps_cursor st) (ps_tokens st) = ps_tokens st ! ps_cursor st # drop (Suc (ps_cursor st)) (ps_tokens st)"
    by (rule Cons_nth_drop_Suc [symmetric])
  with d show "tok_kind (ps_tokens st ! ps_cursor st) = k" "ahead (bump st) ks"
    by (simp_all add: ahead_def bump_def)
qed

lemma ahead_kind: "ahead st ks \<Longrightarrow> current_kind st = (case ks of [] \<Rightarrow> None | k # _ \<Rightarrow> Some k)"
proof (cases ks)
  case Nil
  assume "ahead st ks"
  with Nil show ?thesis by (auto simp: ahead_def current_kind_def)
next
  case (Cons k ks')
  assume "ahead st ks"
  with Cons ahead_Cons [of st k ks'] show ?thesis by (simp add: current_kind_def)
qed

lemma ahead_check: "ahead st ks \<Longrightarrow> check_exact st k = (case ks of [] \<Rightarrow> False | k' # _ \<Rightarrow> discriminant_eq k' k)"
  by (simp add: check_exact_def ahead_kind split: list.split)

lemma ahead_op: "ahead st ks \<Longrightarrow> current_binary_op st = (case ks of [] \<Rightarrow> None | k # _ \<Rightarrow> binary_op_of k)"
  by (simp add: current_binary_op_def ahead_kind split: list.split)

lemma discriminant_eq_refl [simp]: "discriminant_eq k k"
  by (simp add: discriminant_eq_def)

text \<open>Reading a token that is there.\<close>

lemma advance_ahead:
  assumes "ahead st (k # ks)"
  shows "\<exists>token. advance_or_error st message = pok token (bump st) \<and> tok_kind token = k"
  using ahead_Cons [OF assms]
  by (intro exI [of _ "ps_tokens st ! ps_cursor st"]) (simp add: advance_or_error_def)

lemma expect_ahead:
  assumes "ahead st (k # ks)"
  shows "\<exists>token. expect_exact st k label = pok token (bump st)"
  using advance_ahead [OF assms, of "''expected '' @ label"] by (auto simp: expect_exact_def pbind_def pok_def)

lemma pbind_pok [simp]: "pbind (pok x st) f = f x st"
  by (simp add: pbind_def pok_def)

text \<open>
  \<open>leads r K e rest st\<close>: the parse \<open>r\<close> read \<open>e\<close> up to spans, has \<open>rest\<close> ahead, and goes on as \<open>K\<close>.
\<close>

definition leads :: "'b presult \<Rightarrow> (expr \<Rightarrow> parser \<Rightarrow> 'b presult) \<Rightarrow> expr \<Rightarrow> token_kind list \<Rightarrow> bool" where
  "leads r K e rest \<longleftrightarrow> (\<exists>e' st'. r = K e' st' \<and> erase e' = erase e \<and> ahead st' rest)"

lemma leadsI: "r = K e' st' \<Longrightarrow> erase e' = erase e \<Longrightarrow> ahead st' rest \<Longrightarrow> leads r K e rest"
  by (auto simp: leads_def)

text \<open>What may follow an expression at a level.\<close>

definition no_postfix :: "token_kind list \<Rightarrow> bool" where
  "no_postfix ks \<longleftrightarrow> (case ks of [] \<Rightarrow> True | k # _ \<Rightarrow> k \<noteq> TK_LeftParen \<and> k \<noteq> TK_Dot)"

definition weaker_than :: "token_kind list \<Rightarrow> nat \<Rightarrow> bool" where
  "weaker_than ks l \<longleftrightarrow>
     (case ks of [] \<Rightarrow> True | k # _ \<Rightarrow> (case binary_op_of k of None \<Rightarrow> True | Some (_, p) \<Rightarrow> p \<le> l))"

lemma discriminant_plain:
  "discriminant_eq k TK_LeftParen \<longleftrightarrow> k = TK_LeftParen" "discriminant_eq k TK_Dot \<longleftrightarrow> k = TK_Dot"
  "discriminant_eq k TK_Bang \<longleftrightarrow> k = TK_Bang" "discriminant_eq k TK_Minus \<longleftrightarrow> k = TK_Minus"
  "discriminant_eq k TK_Comma \<longleftrightarrow> k = TK_Comma" "discriminant_eq k TK_RightParen \<longleftrightarrow> k = TK_RightParen"
  "discriminant_eq k TK_RightBracket \<longleftrightarrow> k = TK_RightBracket" "discriminant_eq k TK_RightBrace \<longleftrightarrow> k = TK_RightBrace"
  "discriminant_eq k TK_Let \<longleftrightarrow> k = TK_Let" "discriminant_eq k TK_Require \<longleftrightarrow> k = TK_Require"
  "discriminant_eq k TK_Return \<longleftrightarrow> k = TK_Return" "discriminant_eq k TK_Params \<longleftrightarrow> k = TK_Params"
  "discriminant_eq k TK_Spend \<longleftrightarrow> k = TK_Spend"
  by (cases k; simp add: discriminant_eq_def)+

lemma postfix_stop_ahead: "ahead st ks \<Longrightarrow> postfix_stop st = no_postfix ks"
  by (auto simp: postfix_stop_def ahead_check no_postfix_def discriminant_plain split: list.split)

lemma binary_token_not_postfix: "no_postfix (binary_token bop # ks)"
  by (cases bop) (simp_all add: no_postfix_def)

text \<open>The first token of a printed expression.\<close>

definition starts_expr :: "token_kind \<Rightarrow> bool" where
  "starts_expr k \<longleftrightarrow> k \<notin> {TK_RightParen, TK_RightBracket, TK_Comma}"

lemma print_head:
  "\<exists>k ks. print_expr l e = k # ks \<and> starts_expr k \<and> (l = 8 \<longrightarrow> k \<noteq> TK_Bang \<and> k \<noteq> TK_Minus)"
proof (induction e arbitrary: l)
  case (E_Unary uop e s)
  then show ?case by (cases uop) (auto simp: parens_def starts_expr_def)
next
  case (E_Binary a bop b s)
  from E_Binary(1) [of "precedence_of bop"] precedence_bounds [of bop] show ?case
    by (auto simp: parens_def starts_expr_def)
next
  case (E_Call c as s)
  from E_Call(1) [of 8] show ?case by auto
next
  case (E_Field ob f s)
  from E_Field [of 8] show ?case by auto
qed (auto simp: starts_expr_def)

lemma print_nonempty [simp]: "print_expr l e \<noteq> []"
  using print_head [of l e] by auto

section \<open>Expressions\<close>

abbreviation (input) postfix_loop :: "expr \<Rightarrow> parser \<Rightarrow> expr presult" where
  "postfix_loop \<equiv> rloop postfix_stop (\<lambda>e st. postfix_turn (tokens_left st) (run_precedence 0) e st)"

abbreviation (input) precedence_loop :: "nat \<Rightarrow> expr \<Rightarrow> parser \<Rightarrow> expr presult" where
  "precedence_loop m \<equiv> rloop (precedence_stop m) (precedence_turn run_precedence)"

definition postfix_reads :: "expr \<Rightarrow> bool" where
  "postfix_reads e \<longleftrightarrow> (\<forall>st rest. ahead st (print_expr 8 e @ rest) \<longrightarrow> leads (run_postfix st) postfix_loop e rest)"

definition unary_reads :: "expr \<Rightarrow> bool" where
  "unary_reads e \<longleftrightarrow>
     (\<forall>st rest. ahead st (print_expr 7 e @ rest) \<longrightarrow> no_postfix rest \<longrightarrow> leads (run_unary st) pok e rest)"

definition precedence_reads :: "nat \<Rightarrow> expr \<Rightarrow> bool" where
  "precedence_reads l e \<longleftrightarrow>
     (\<forall>m st rest. m \<le> l \<longrightarrow> ahead st (print_expr l e @ rest) \<longrightarrow> no_postfix rest \<longrightarrow> weaker_than rest l \<longrightarrow>
        leads (run_precedence m st) (precedence_loop m) e rest)"

lemma leads_pbind:
  assumes "leads r pok e rest" and "\<And>e' st'. erase e' = erase e \<Longrightarrow> ahead st' rest \<Longrightarrow> leads (f e' st') K x rest'"
  shows "leads (pbind r f) K x rest'"
  using assms by (auto simp: leads_def)

lemma leads_continue: "leads r pok e rest \<Longrightarrow> leads (pbind r K) K e rest"
  by (erule leads_pbind) (rule leadsI [OF refl])

lemma postfix_turn_safe': "\<not> postfix_stop st \<Longrightarrow> safe 1 (postfix_turn (tokens_left st) (run_precedence 0) e st) st"
  by (rule postfix_turn_safe) (auto intro: run_safe(1) [unfolded One_nat_def])

lemma precedence_turn_safe': "\<not> precedence_stop m st \<Longrightarrow> safe 1 (precedence_turn run_precedence e st) st"
  by (erule precedence_turn_safe) (rule run_safe)

lemma postfix_loop_stop: "ahead st rest \<Longrightarrow> no_postfix rest \<Longrightarrow> postfix_loop e st = pok e st"
  by (rule rloop_stop) (simp add: postfix_stop_ahead)

lemma precedence_loop_stop:
  assumes "ahead st rest" and "weaker_than rest l" and "l < m \<or> l = 0"
  shows "precedence_loop m e st = pok e st"
proof (rule rloop_stop)
  have "1 \<le> p" if "binary_op_of k = Some (bop, p)" for k bop p
    using that by (cases k) auto
  with assms show "precedence_stop m st"
    by (force simp: precedence_stop_def ahead_op weaker_than_def split: list.splits option.splits)
qed

lemma leads_stop:
  assumes "leads r K e rest" and "\<And>e' st'. ahead st' rest \<Longrightarrow> K e' st' = pok e' st'"
  shows "leads r pok e rest"
  using assms by (auto simp: leads_def)

lemma precedence_reads_0:
  assumes "precedence_reads 0 e" and "ahead st (print_expr 0 e @ rest)" and "no_postfix rest" and "weaker_than rest 0"
  shows "leads (run_precedence 0 st) pok e rest"
proof (rule leads_stop)
  show "leads (run_precedence 0 st) (precedence_loop 0) e rest"
    using assms by (auto simp: precedence_reads_def)
  show "precedence_loop 0 e' st' = pok e' st'" if "ahead st' rest" for e' st'
    using that assms(4) by (rule precedence_loop_stop) simp
qed

lemma unary_from_postfix:
  assumes "postfix_reads e" and "print_expr 7 e = print_expr 8 e"
  shows "unary_reads e"
  unfolding unary_reads_def
proof (intro allI impI)
  fix st rest
  assume a: "ahead st (print_expr 7 e @ rest)" and rest: "no_postfix rest"
  obtain k ks where k: "print_expr 8 e = k # ks" "k \<noteq> TK_Bang" "k \<noteq> TK_Minus" using print_head [of 8 e] by blast
  with a assms(2) have "run_unary st = run_postfix st"
    by (subst run_unary_eq) (simp add: ahead_check discriminant_plain)
  moreover have "leads (run_postfix st) postfix_loop e rest"
    using assms a by (auto simp: postfix_reads_def)
  then have "leads (run_postfix st) pok e rest"
    by (rule leads_stop) (rule postfix_loop_stop [OF _ rest])
  ultimately show "leads (run_unary st) pok e rest" by simp
qed

lemma precedence_from_unary:
  assumes "unary_reads e" and "print_expr l e = print_expr 7 e"
  shows "precedence_reads l e"
  unfolding precedence_reads_def
proof (intro allI impI)
  fix m st rest
  assume "ahead st (print_expr l e @ rest)" and "no_postfix rest"
  with assms have "leads (run_unary st) pok e rest" by (simp add: unary_reads_def)
  then show "leads (run_precedence m st) (precedence_loop m) e rest"
    by (subst run_precedence_eq) (rule leads_continue)
qed

lemma postfix_from_primary:
  assumes "leads (run_primary st) pok e rest"
  shows "leads (run_postfix st) postfix_loop e rest"
  using assms by (subst run_postfix_eq) (rule leads_continue)

lemma postfix_from_parens:
  assumes "precedence_reads 0 e" and "print_expr 8 e = TK_LeftParen # print_expr 0 e @ [TK_RightParen]"
  shows "postfix_reads e"
  unfolding postfix_reads_def
proof (intro allI impI)
  fix st rest
  assume a: "ahead st (print_expr 8 e @ rest)"
  then have a': "ahead st (TK_LeftParen # print_expr 0 e @ TK_RightParen # rest)" by (simp add: assms(2))
  obtain token where token: "advance_or_error st ''expected expression'' = pok token (bump st)" "tok_kind token = TK_LeftParen"
    using advance_ahead [OF a'] by blast
  have "leads (run_precedence 0 (bump st)) pok e (TK_RightParen # rest)"
    using assms(1) ahead_Cons(3) [OF a'] by (rule precedence_reads_0) (simp_all add: no_postfix_def weaker_than_def)
  then have "leads (pbind (run_precedence 0 (bump st)) (\<lambda>e st. pbind (expect_exact st TK_RightParen (bt '')'')) (\<lambda>_ st. pok e st))) pok e rest"
  proof (rule leads_pbind)
    fix e' st'
    assume e': "erase e' = erase e" "ahead st' (TK_RightParen # rest)"
    obtain token' where "expect_exact st' TK_RightParen (bt '')'') = pok token' (bump st')" using expect_ahead [OF e'(2)] by blast
    with e' ahead_Cons(3) [OF e'(2)] show "leads (pbind (expect_exact st' TK_RightParen (bt '')'')) (\<lambda>_ st. pok e' st)) pok e rest"
      by (auto intro: leadsI)
  qed
  then have "leads (run_primary st) pok e rest"
    by (simp add: run_primary_eq token primary_rest_def)
  then show "leads (run_postfix st) postfix_loop e rest" by (rule postfix_from_primary)
qed

lemma binary_reads:
  assumes l: "precedence_reads (precedence_of bop) a" and r: "precedence_reads (precedence_of bop + 1) b"
    and le: "l \<le> precedence_of bop"
  shows "precedence_reads l (E_Binary a bop b s)"
  unfolding precedence_reads_def
proof (intro allI impI)
  fix m st rest
  let ?p = "precedence_of bop"
  assume m: "m \<le> l" and a: "ahead st (print_expr l (E_Binary a bop b s) @ rest)"
    and rest: "no_postfix rest" "weaker_than rest l"
  let ?mid = "binary_token bop # print_expr (?p + 1) b @ rest"
  have "ahead st (print_expr ?p a @ ?mid)" using a le by (simp add: parens_def)
  moreover have "weaker_than ?mid ?p" by (simp add: weaker_than_def)
  ultimately have "leads (run_precedence m st) (precedence_loop m) a ?mid"
    using l m le by (auto simp: precedence_reads_def binary_token_not_postfix)
  then obtain a' st1 where a': "run_precedence m st = precedence_loop m a' st1" "erase a' = erase a" "ahead st1 ?mid"
    by (auto simp: leads_def)
  have op: "current_binary_op st1 = Some (bop, ?p)" using a'(3) by (simp add: ahead_op)
  have "ahead (bump st1) (print_expr (?p + 1) b @ rest)" using ahead_Cons(3) [OF a'(3)] .
  moreover have weak: "weaker_than rest (?p + 1)" "weaker_than rest ?p"
    using rest(2) le by (auto simp: weaker_than_def split: list.splits option.splits)
  ultimately have "leads (run_precedence (?p + 1) (bump st1)) (precedence_loop (?p + 1)) b rest"
    using r rest(1) by (auto simp: precedence_reads_def)
  then have "leads (run_precedence (?p + 1) (bump st1)) pok b rest"
    by (rule leads_stop) (rule precedence_loop_stop [OF _ weak(2)], assumption, simp)
  then obtain b' st2 where b': "run_precedence (?p + 1) (bump st1) = pok b' st2" "erase b' = erase b" "ahead st2 rest"
    by (auto simp: leads_def)
  have "\<not> precedence_stop m st1" using op m le by (simp add: precedence_stop_def)
  from rloop_go [where stop = "precedence_stop m" and body = "precedence_turn run_precedence", OF this precedence_turn_safe']
  have "run_precedence m st = pbind (precedence_turn run_precedence a' st1) (precedence_loop m)"
    unfolding a'(1) .
  also have "precedence_turn run_precedence a' st1 =
      pok (E_Binary a' bop b' (mk_span (span_start (expr_span a')) (span_end (expr_span b')))) st2"
    using b'(1) by (simp add: precedence_turn_def op)
  finally show "leads (run_precedence m st) (precedence_loop m) (E_Binary a bop b s) rest"
    using a'(2) b'(2,3) by (auto intro: leadsI)
qed

text \<open>Lists of expressions.\<close>

text \<open>Parses that yield a result with a property, and what is then ahead.\<close>

definition yields :: "'a presult \<Rightarrow> ('a \<Rightarrow> bool) \<Rightarrow> token_kind list \<Rightarrow> bool" where
  "yields r P rest \<longleftrightarrow> (\<exists>x st. r = pok x st \<and> P x \<and> ahead st rest)"

lemma yields_pok: "P x \<Longrightarrow> ahead st rest \<Longrightarrow> yields (pok x st) P rest"
  by (auto simp: yields_def)

lemma yields_pbind:
  assumes "yields r P mid" and "\<And>x st. P x \<Longrightarrow> ahead st mid \<Longrightarrow> yields (f x st) Q rest"
  shows "yields (pbind r f) Q rest"
  using assms by (auto simp: yields_def)

lemma yields_advance: "ahead st (k # ks) \<Longrightarrow> yields (advance_or_error st message) (\<lambda>token. tok_kind token = k) ks"
  using advance_ahead [of st k ks message] ahead_Cons(3) [of st k ks] by (auto simp: yields_def)

lemma yields_expect: "ahead st (k # ks) \<Longrightarrow> yields (expect_exact st k label) (\<lambda>_. True) ks"
  using expect_ahead [of st k ks label] ahead_Cons(3) [of st k ks] by (auto simp: yields_def)

lemma tokens_left_ahead: "ahead st ks \<Longrightarrow> tokens_left st = length ks"
  by (auto simp: ahead_def tokens_left_def)

definition closes :: "token_kind \<Rightarrow> bool" where
  "closes k \<longleftrightarrow> k = TK_RightParen \<or> k = TK_RightBracket \<or> k = TK_RightBrace"

lemma closes_intro [simp]: "closes TK_RightParen" "closes TK_RightBracket" "closes TK_RightBrace"
  by (simp_all add: closes_def)

lemma closes_check: "closes k \<Longrightarrow> discriminant_eq k' k \<longleftrightarrow> k' = k"
  by (auto simp: closes_def discriminant_plain)

lemma closes_not_comma: "closes k \<Longrightarrow> k \<noteq> TK_Comma"
  by (auto simp: closes_def)

definition item_end :: "token_kind \<Rightarrow> token_kind list \<Rightarrow> bool" where
  "item_end close ks \<longleftrightarrow> (\<exists>ks'. ks = TK_Comma # ks' \<or> ks = close # ks')"

lemma item_end_follow: "closes close \<Longrightarrow> item_end close ks \<Longrightarrow> no_postfix ks \<and> weaker_than ks l"
  by (auto simp: item_end_def closes_def no_postfix_def weaker_than_def)

lemma comma_or_comma:
  "ahead st (TK_Comma # ks) \<Longrightarrow> comma_or st close m x = pok x (bump st)"
  by (simp add: comma_or_def match_exact_def ahead_check discriminant_plain)

lemma comma_or_close:
  "closes close \<Longrightarrow> ahead st (close # ks) \<Longrightarrow> comma_or st close m x = pok x st"
  using closes_not_comma [of close]
  by (simp add: comma_or_def match_exact_def ahead_check discriminant_plain)

lemma foldl_snoc [simp]: "foldl (\<lambda>xs x. xs @ [x]) acc ys = acc @ ys"
  by (induction ys arbitrary: acc) simp_all

text \<open>A loop over items separated by commas.\<close>

lemma comma_loop_reads:
  assumes close: "closes close"
    and "ahead st (commas (map pr xs) @ close # rest)" and "length xs < n"
    and "\<And>x. x \<in> set xs \<Longrightarrow> pr x \<noteq> [] \<and> hd (pr x) \<noteq> close"
    and "\<And>x st ks acc. x \<in> set xs \<Longrightarrow> ahead st (pr x @ ks) \<Longrightarrow> item_end close ks \<Longrightarrow>
          \<exists>y st'. body acc st = comma_or st' close m (step acc y) \<and> er y = er x \<and> ahead st' ks"
  shows "yields (ploop n (\<lambda>st. check_exact st close) body acc st)
      (\<lambda>acc'. \<exists>ys. acc' = foldl step acc ys \<and> map er ys = map er xs) (close # rest)"
  using assms(2-)
proof (induction xs arbitrary: n acc st)
  case Nil
  then obtain n' where n: "n = Suc n'" by (cases n) auto
  from Nil show ?case by (auto simp: n ahead_check intro!: yields_pok exI [of _ "[]"])
next
  case (Cons x xs)
  let ?loop = "\<lambda>n. ploop n (\<lambda>st. check_exact st close) body"
  let ?P = "\<lambda>acc xs acc'. \<exists>ys. acc' = foldl step acc ys \<and> map er ys = map er xs"
  obtain n' where n: "n = Suc n'" using Cons.prems(2) by (cases n) auto
  define ks where "ks = (if xs = [] then close # rest else TK_Comma # commas (map pr xs) @ close # rest)"
  have a: "ahead st (pr x @ ks)" using Cons.prems(1) by (cases xs) (simp_all add: ks_def)
  have "item_end close ks" by (auto simp: ks_def item_end_def)
  with Cons.prems(4) [OF _ a] obtain y st1 where
    y: "body acc st = comma_or st1 close m (step acc y)" "er y = er x" "ahead st1 ks" by fastforce
  have "\<not> check_exact st close"
    using a Cons.prems(3) [of x] closes_check [OF close] by (cases "pr x") (auto simp: ahead_check)
  then have loop: "?loop n acc st = pbind (comma_or st1 close m (step acc y)) (?loop n')" by (simp add: n y(1))
  have "\<exists>st2. ?loop n acc st = ?loop n' (step acc y) st2 \<and> ahead st2 (commas (map pr xs) @ close # rest)"
  proof (cases xs)
    case Nil
    with y(3) have "ahead st1 (close # rest)" by (simp add: ks_def)
    with Nil show ?thesis unfolding loop by (auto simp: comma_or_close [OF close])
  next
    case (Cons x2 xs2)
    with y(3) have "ahead st1 (TK_Comma # commas (map pr xs) @ close # rest)" by (simp add: ks_def)
    with ahead_Cons(3) [OF this] show ?thesis unfolding loop by (auto simp: comma_or_comma)
  qed
  then obtain st2 where st2: "?loop n acc st = ?loop n' (step acc y) st2" "ahead st2 (commas (map pr xs) @ close # rest)" by blast
  have "yields (?loop n' (step acc y) st2) (?P (step acc y) xs) (close # rest)"
    by (rule Cons.IH [OF st2(2)]) (use Cons.prems n in auto)
  then obtain ys st3 where "?loop n' (step acc y) st2 = pok (foldl step (step acc y) ys) st3" "map er ys = map er xs" "ahead st3 (close # rest)"
    by (auto simp: yields_def)
  with st2(1) y(2) show ?case by (auto intro!: yields_pok exI [of _ "y # ys"])
qed

lemma commas_length: "[] \<notin> set kss \<Longrightarrow> length kss \<le> length (commas kss)"
proof (induction kss rule: commas.induct)
  case (3 ks ks' kss)
  then have "ks \<noteq> []" "length (ks' # kss) \<le> length (commas (ks' # kss))" by auto
  then show ?case by (cases ks) auto
qed (simp_all add: Suc_le_eq)

lemma run_exprs_reads:
  assumes "\<And>e. e \<in> set es \<Longrightarrow> precedence_reads 0 e" and close: "closes close" "close \<noteq> TK_RightBrace"
    and a: "ahead st (commas (map (print_expr 0) es) @ close # rest)"
  shows "\<exists>es' st'. run_exprs close m st = pok es' st' \<and> map erase es' = map erase es \<and> ahead st' (close # rest)"
proof -
  have "yields (run_exprs close m st) (\<lambda>acc'. \<exists>ys. acc' = foldl (\<lambda>xs x. xs @ [x]) [] ys \<and> map erase ys = map erase es) (close # rest)"
    unfolding run_exprs_def expr_list_loop_def
  proof (rule comma_loop_reads [OF close(1) a])
    show "length es < Suc (tokens_left st)"
      using tokens_left_ahead [OF a] commas_length [of "map (print_expr 0) es"] by (force dest: print_nonempty [THEN notE, OF sym])
  next
    fix e
    show "print_expr 0 e \<noteq> [] \<and> hd (print_expr 0 e) \<noteq> close"
      using print_head [of 0 e] close by (auto simp: starts_expr_def closes_def)
  next
    fix e st ks acc
    assume e: "e \<in> set es" "ahead st (print_expr 0 e @ ks)" "item_end close ks"
    with precedence_reads_0 [OF assms(1) e(2)] item_end_follow [OF close(1) e(3)]
    obtain e' st' where "run_precedence 0 st = pok e' st'" "erase e' = erase e" "ahead st' ks" by (auto simp: leads_def)
    then show "\<exists>y st'. pbind (run_precedence 0 st) (\<lambda>e st. comma_or st close m (acc @ [e])) = comma_or st' close m (acc @ [y]) \<and>
        erase y = erase e \<and> ahead st' ks" by auto
  qed
  then show ?thesis by (auto simp: yields_def)
qed

text \<open>Primary expressions.\<close>

lemma atom_reads:
  assumes "print_expr 8 e = [k]" and "\<And>token st. tok_kind token = k \<Longrightarrow>
      primary_rest (Suc (tokens_left st)) (run_precedence 0) token st = pok (f token) st \<and> erase (f token) = erase e"
  shows "postfix_reads e"
  unfolding postfix_reads_def
proof (intro allI impI)
  fix st rest
  assume "ahead st (print_expr 8 e @ rest)"
  then have a: "ahead st (k # rest)" by (simp add: assms(1))
  obtain token where token: "advance_or_error st ''expected expression'' = pok token (bump st)" "tok_kind token = k"
    using advance_ahead [OF a] by blast
  with assms(2) [OF token(2), of "bump st"] have "leads (run_primary st) pok e rest"
    using ahead_Cons(3) [OF a] by (auto simp: run_primary_eq intro: leadsI)
  then show "leads (run_postfix st) postfix_loop e rest" by (rule postfix_from_primary)
qed

lemma array_reads:
  assumes "\<And>e. e \<in> set es \<Longrightarrow> precedence_reads 0 e"
  shows "postfix_reads (E_Array es s)"
  unfolding postfix_reads_def
proof (intro allI impI)
  fix st rest
  assume "ahead st (print_expr 8 (E_Array es s) @ rest)"
  then have a: "ahead st (TK_LeftBracket # commas (map (print_expr 0) es) @ TK_RightBracket # rest)" by simp
  obtain token where token: "advance_or_error st ''expected expression'' = pok token (bump st)" "tok_kind token = TK_LeftBracket"
    using advance_ahead [OF a] by blast
  obtain es' st1 where es': "run_exprs TK_RightBracket (''expected '' @ bt '','' @ '' or '' @ bt '']'') (bump st) = pok es' st1"
    "map erase es' = map erase es" "ahead st1 (TK_RightBracket # rest)"
    using run_exprs_reads [OF assms closes_intro(2) _ ahead_Cons(3) [OF a]] by blast
  obtain close where "expect_exact st1 TK_RightBracket (bt '']'') = pok close (bump st1)" using expect_ahead [OF es'(3)] by blast
  with es' have "leads (run_primary st) pok (E_Array es s) rest"
    by (auto simp: run_primary_eq token primary_rest_def run_exprs_def [symmetric] intro: leadsI ahead_Cons(3))
  then show "leads (run_postfix st) postfix_loop (E_Array es s) rest" by (rule postfix_from_primary)
qed

text \<open>A turn of the postfix loop.\<close>

lemma postfix_step:
  assumes "postfix_reads c" and "ahead st (print_expr 8 c @ follow)" and "\<not> no_postfix follow"
    and "\<And>c' st'. erase c' = erase c \<Longrightarrow> ahead st' follow \<Longrightarrow>
           leads (postfix_turn (tokens_left st') (run_precedence 0) c' st') pok e rest"
  shows "leads (run_postfix st) postfix_loop e rest"
proof -
  from assms(1,2) have "leads (run_postfix st) postfix_loop c follow" by (simp add: postfix_reads_def)
  then obtain c' st' where c': "run_postfix st = postfix_loop c' st'" "erase c' = erase c" "ahead st' follow"
    by (auto simp: leads_def)
  have "\<not> postfix_stop st'" using c'(3) assms(3) by (simp add: postfix_stop_ahead)
  from rloop_go [where stop = postfix_stop and body = "\<lambda>e st. postfix_turn (tokens_left st) (run_precedence 0) e st",
      OF this postfix_turn_safe'] c'(1)
  have "run_postfix st = pbind (postfix_turn (tokens_left st') (run_precedence 0) c' st') postfix_loop" by simp
  with leads_continue [OF assms(4) [OF c'(2,3)]] show ?thesis by simp
qed

lemma call_reads:
  assumes "postfix_reads c" and "\<And>a. a \<in> set as \<Longrightarrow> precedence_reads 0 a"
  shows "postfix_reads (E_Call c as s)"
  unfolding postfix_reads_def
proof (intro allI impI)
  fix st rest
  let ?follow = "TK_LeftParen # commas (map (print_expr 0) as) @ TK_RightParen # rest"
  assume "ahead st (print_expr 8 (E_Call c as s) @ rest)"
  then have a: "ahead st (print_expr 8 c @ ?follow)" by simp
  show "leads (run_postfix st) postfix_loop (E_Call c as s) rest"
  proof (rule postfix_step [OF assms(1) a])
    fix c' st'
    assume c': "erase c' = erase c" "ahead st' ?follow"
    obtain as' st1 where as': "run_exprs TK_RightParen (''expected '' @ bt '','' @ '' or '' @ bt '')'') (bump st') = pok as' st1"
      "map erase as' = map erase as" "ahead st1 (TK_RightParen # rest)"
      using run_exprs_reads [OF assms(2) closes_intro(1) _ ahead_Cons(3) [OF c'(2)]] by blast
    obtain token where token: "expect_exact st1 TK_RightParen (bt '')'') = pok token (bump st1)" using expect_ahead [OF as'(3)] by blast
    have check: "check_exact st' TK_LeftParen" using c'(2) by (simp add: ahead_check)
    then have "expr_list_loop (tokens_left st') (run_precedence 0) TK_RightParen m (bump st') = run_exprs TK_RightParen m (bump st')" for m
      using check_exact_bump [OF check] by (intro run_exprs_fuel) auto
    with check as' token c'(1) show "leads (postfix_turn (tokens_left st') (run_precedence 0) c' st') pok (E_Call c as s) rest"
      by (auto simp: postfix_turn_def intro: leadsI ahead_Cons(3))
  qed (simp add: no_postfix_def)
qed

lemma identifier_ahead:
  assumes "ahead st (TK_Identifier x # rest)"
  shows "\<exists>i. parse_identifier st = pok i (bump st) \<and> ident_name i = x"
  using advance_ahead [OF assms, of "''expected identifier''"] by (auto simp: parse_identifier_def)

lemma field_reads:
  assumes "postfix_reads ob"
  shows "postfix_reads (E_Field ob f s)"
  unfolding postfix_reads_def
proof (intro allI impI)
  fix st rest
  let ?follow = "TK_Dot # TK_Identifier (ident_name f) # rest"
  assume "ahead st (print_expr 8 (E_Field ob f s) @ rest)"
  then have a: "ahead st (print_expr 8 ob @ ?follow)" by simp
  show "leads (run_postfix st) postfix_loop (E_Field ob f s) rest"
  proof (rule postfix_step [OF assms a])
    fix ob' st'
    assume ob': "erase ob' = erase ob" "ahead st' ?follow"
    have n: "ahead (bump st') (TK_Identifier (ident_name f) # rest)" using ahead_Cons(3) [OF ob'(2)] .
    obtain i where i: "parse_identifier (bump st') = pok i (bump (bump st'))" "ident_name i = ident_name f"
      using identifier_ahead [OF n] by blast
    have "\<not> check_exact st' TK_LeftParen" using ob'(2) by (simp add: ahead_check discriminant_plain)
    with i ob'(1) ahead_Cons(3) [OF n] show "leads (postfix_turn (tokens_left st') (run_precedence 0) ob' st') pok (E_Field ob f s) rest"
      by (auto simp: postfix_turn_def erase_ident_def intro: leadsI)
  qed (simp add: no_postfix_def)
qed

lemma unary_operand_reads:
  assumes "unary_reads e"
  shows "unary_reads (E_Unary uop e s)"
  unfolding unary_reads_def
proof (intro allI impI)
  fix st rest
  let ?k = "case uop of UO_Not \<Rightarrow> TK_Bang | UO_Negate \<Rightarrow> TK_Minus"
  assume "ahead st (print_expr 7 (E_Unary uop e s) @ rest)" and rest: "no_postfix rest"
  then have a: "ahead st (?k # print_expr 7 e @ rest)" by (simp add: parens_def)
  from assms ahead_Cons(3) [OF a] rest have "leads (run_unary (bump st)) pok e rest" by (auto simp: unary_reads_def)
  then obtain e' st' where "run_unary (bump st) = pok e' st'" "erase e' = erase e" "ahead st' rest" by (auto simp: leads_def)
  then show "leads (run_unary st) pok (E_Unary uop e s) rest"
    using a by (subst run_unary_eq) (cases uop, auto simp: ahead_check discriminant_plain intro: leadsI)
qed

text \<open>All levels at once.\<close>

lemma expressions_read:
  "postfix_reads e \<and> unary_reads e \<and> (\<forall>l \<le> 7. precedence_reads l e)"
proof (induction e)
  case (E_Unary uop e s)
  then have u: "unary_reads (E_Unary uop e s)" by (intro unary_operand_reads) simp
  then have p: "precedence_reads l (E_Unary uop e s)" if "l \<le> 7" for l
    using that by (intro precedence_from_unary) (auto simp: parens_def)
  have "postfix_reads (E_Unary uop e s)"
    by (rule postfix_from_parens [OF p]) (auto simp: parens_def)
  with u p show ?case by blast
next
  case (E_Binary a bop b s)
  have direct: "precedence_reads l (E_Binary a bop b s)" if "l \<le> precedence_of bop" for l
    using E_Binary precedence_bounds(2) [of bop] that by (intro binary_reads) auto
  then have post: "postfix_reads (E_Binary a bop b s)"
    using precedence_bounds(2) [of bop] by (intro postfix_from_parens) (auto simp: parens_def)
  then have un: "unary_reads (E_Binary a bop b s)"
    using precedence_bounds(2) [of bop] by (intro unary_from_postfix) (auto simp: parens_def)
  have "precedence_reads l (E_Binary a bop b s)" if "\<not> l \<le> precedence_of bop" for l
    using that precedence_bounds(2) [of bop] by (intro precedence_from_unary [OF un]) (auto simp: parens_def)
  with direct post un show ?case by blast
next
  case (E_Ident i)
  have post: "postfix_reads (E_Ident i)" by (rule atom_reads [where k = "TK_Identifier (ident_name i)" and f = "\<lambda>token. E_Ident (mk_ident (ident_name i) (tok_span token))"]) (simp_all add: primary_rest_def erase_ident_def)
  then have "unary_reads (E_Ident i)" by (rule unary_from_postfix) simp
  with post show ?case by (auto intro: precedence_from_unary)
next
  case (E_Integer v s)
  have post: "postfix_reads (E_Integer v s)" by (rule atom_reads [where k = "TK_Integer (show_nat (unat v))" and f = "\<lambda>token. E_Integer v (tok_span token)"]) (simp_all add: primary_rest_def parse_u64_def)
  then have "unary_reads (E_Integer v s)" by (rule unary_from_postfix) simp
  with post show ?case by (auto intro: precedence_from_unary)
next
  case (E_String v s)
  have post: "postfix_reads (E_String v s)" by (rule atom_reads [where k = "TK_String v" and f = "\<lambda>token. E_String v (tok_span token)"]) (simp_all add: primary_rest_def)
  then have "unary_reads (E_String v s)" by (rule unary_from_postfix) simp
  with post show ?case by (auto intro: precedence_from_unary)
next
  case (E_Bool b s)
  have post: "postfix_reads (E_Bool b s)" by (rule atom_reads [where k = "if b then TK_True else TK_False" and f = "\<lambda>token. E_Bool b (tok_span token)"]) (cases b; simp add: primary_rest_def)+
  then have "unary_reads (E_Bool b s)" by (rule unary_from_postfix) simp
  with post show ?case by (auto intro: precedence_from_unary)
next
  case (E_Array es s)
  then have post: "postfix_reads (E_Array es s)" by (intro array_reads) auto
  then have "unary_reads (E_Array es s)" by (rule unary_from_postfix) simp
  with post show ?case by (auto intro: precedence_from_unary)
next
  case (E_Call c as s)
  then have post: "postfix_reads (E_Call c as s)" by (intro call_reads) auto
  then have "unary_reads (E_Call c as s)" by (rule unary_from_postfix) simp
  with post show ?case by (auto intro: precedence_from_unary)
next
  case (E_Field ob f s)
  then have post: "postfix_reads (E_Field ob f s)" by (intro field_reads) auto
  then have "unary_reads (E_Field ob f s)" by (rule unary_from_postfix) simp
  with post show ?case by (auto intro: precedence_from_unary)
qed

end
