(* ===== verification/KS_ProgramRoundtrip.thy ===== *)
theory KS_ProgramRoundtrip
  imports KS_ParserRoundtrip
begin

text \<open>
  Printing whole programs: the layout of contracts, parameter blocks, spends and statements, and
  the proof that \<open>parse_tokens\<close> reads it back.
\<close>

section \<open>Programs without spans\<close>

definition erase_param :: "param \<Rightarrow> param" where
  "erase_param p = \<lparr>param_name = erase_ident (param_name p), param_ty = param_ty p, param_span = mk_span 0 0\<rparr>"

fun erase_stmt :: "stmt \<Rightarrow> stmt" where
  "erase_stmt (S_Let n e s) = S_Let (erase_ident n) (erase e) (mk_span 0 0)"
| "erase_stmt (S_Require e s) = S_Require (erase e) (mk_span 0 0)"
| "erase_stmt (S_Return e s) = S_Return (erase e) (mk_span 0 0)"

definition erase_spend :: "spend \<Rightarrow> spend" where
  "erase_spend s =
     \<lparr>spend_name = erase_ident (spend_name s), spend_params = map erase_param (spend_params s),
      spend_body = map erase_stmt (spend_body s), spend_span = mk_span 0 0\<rparr>"

definition erase_contract :: "contract \<Rightarrow> contract" where
  "erase_contract c =
     \<lparr>contract_name = erase_ident (contract_name c), contract_params = map erase_param (contract_params c),
      contract_finality_depth = contract_finality_depth c, contract_spends = map erase_spend (contract_spends c),
      contract_span = mk_span 0 0\<rparr>"

definition erase_program :: "program \<Rightarrow> program" where
  "erase_program p = \<lparr>program_contracts = map erase_contract (program_contracts p)\<rparr>"

section \<open>The layout\<close>

definition print_ident :: "ident \<Rightarrow> token_kind" where
  "print_ident i = TK_Identifier (ident_name i)"

definition print_param :: "param \<Rightarrow> token_kind list" where
  "print_param p = [print_ident (param_name p), TK_Colon, TK_Type (param_ty p)]"

fun print_stmt :: "stmt \<Rightarrow> token_kind list" where
  "print_stmt (S_Let n e s) = TK_Let # print_ident n # TK_Equal # print_expr 0 e @ [TK_Semicolon]"
| "print_stmt (S_Require e s) = TK_Require # print_expr 0 e @ [TK_Semicolon]"
| "print_stmt (S_Return e s) = TK_Return # print_expr 0 e @ [TK_Semicolon]"

definition print_spend :: "spend \<Rightarrow> token_kind list" where
  "print_spend s =
     TK_Spend # print_ident (spend_name s) # TK_LeftParen # commas (map print_param (spend_params s)) @
       TK_RightParen # TK_LeftBrace # concat (map print_stmt (spend_body s)) @ [TK_RightBrace]"

text \<open>An entry of a parameter block: a parameter or the finality depth.\<close>

fun print_entry :: "param + u64 \<Rightarrow> token_kind list" where
  "print_entry (Inl p) = print_param p"
| "print_entry (Inr d) = [TK_Identifier ''finality_depth'', TK_Colon, TK_Integer (show_nat (unat d))]"

definition entries_of :: "contract \<Rightarrow> (param + u64) list" where
  "entries_of c = map Inl (contract_params c) @
     (case contract_finality_depth c of None \<Rightarrow> [] | Some d \<Rightarrow> [Inr d])"

definition print_contract :: "contract \<Rightarrow> token_kind list" where
  "print_contract c =
     TK_Contract # print_ident (contract_name c) # TK_LeftBrace #
       TK_Params # TK_LeftBrace # commas (map print_entry (entries_of c)) @ TK_RightBrace #
       concat (map print_spend (contract_spends c)) @ [TK_RightBrace]"

definition print_program :: "program \<Rightarrow> token_kind list" where
  "print_program p = concat (map print_contract (program_contracts p))"

text \<open>
  In a parameter block the name \<open>finality_depth\<close> is not a parameter's: that is the one thing the
  syntax cannot express.
\<close>

definition printable :: "program \<Rightarrow> bool" where
  "printable p = list_all (\<lambda>c. list_all (\<lambda>q. ident_name (param_name q) \<noteq> ''finality_depth'') (contract_params c))
     (program_contracts p)"

section \<open>Identifiers, expressions and loops\<close>

lemma yields_mono: "yields r P rest \<Longrightarrow> (\<And>x. P x \<Longrightarrow> Q x) \<Longrightarrow> yields r Q rest"
  by (auto simp: yields_def)

lemma yields_identifier:
  "ahead st (print_ident i # ks) \<Longrightarrow> yields (parse_identifier st) (\<lambda>j. erase_ident j = erase_ident i) ks"
  using identifier_ahead [of st "ident_name i" ks] ahead_Cons(3) [of st "print_ident i" ks]
  by (auto simp: yields_def print_ident_def erase_ident_def)

lemma yields_expression:
  assumes "ahead st (print_expr 0 e @ TK_Semicolon # ks)" and "4 * length (print_expr 0 e @ TK_Semicolon # ks) + 4 \<le> n"
  shows "yields (parse_expression n st) (\<lambda>e'. erase e' = erase e) (TK_Semicolon # ks)"
proof -
  have "parse_expression n st = run_precedence 0 st"
    unfolding parse_expression_def using tokens_left_ahead [OF assms(1)] assms(2) by (intro run_precedence_fuel) simp
  moreover have "leads (run_precedence 0 st) pok e (TK_Semicolon # ks)"
    using expressions_read [of e] assms(1)
    by (intro precedence_reads_0) (auto simp: no_postfix_def weaker_than_def)
  ultimately show ?thesis by (auto simp: leads_def yields_def)
qed

lemma loop_reads:
  assumes "ahead st (concat (map pr xs) @ rest)" and "length xs < n" and "length (concat (map pr xs) @ rest) \<le> N"
    and item: "\<And>x st follow acc. x \<in> set xs \<Longrightarrow> ahead st (pr x @ follow) \<Longrightarrow> length (pr x @ follow) \<le> N \<Longrightarrow>
          \<not> stop st \<and> yields (body acc st) (\<lambda>acc'. \<exists>y. acc' = step acc y \<and> er y = er x) follow"
    and stop: "\<And>st. ahead st rest \<Longrightarrow> stop st"
  shows "yields (ploop n stop body acc st) (\<lambda>acc'. \<exists>ys. acc' = foldl step acc ys \<and> map er ys = map er xs) rest"
  using assms(1-3) item
proof (induction xs arbitrary: n acc st)
  case Nil
  then obtain m where n: "n = Suc m" by (cases n) auto
  from Nil stop [of st] show ?case by (auto simp: n intro!: yields_pok exI [of _ "[]"])
next
  case (Cons x xs)
  then obtain m where n: "n = Suc m" by (cases n) auto
  have a: "ahead st (pr x @ concat (map pr xs) @ rest)" using Cons.prems by simp
  with Cons.prems(3) Cons.prems(4) [of x st "concat (map pr xs) @ rest" acc]
  have go: "\<not> stop st" "yields (body acc st) (\<lambda>acc'. \<exists>y. acc' = step acc y \<and> er y = er x) (concat (map pr xs) @ rest)"
    by simp_all
  have "yields (pbind (body acc st) (ploop m stop body))
      (\<lambda>acc'. \<exists>ys. acc' = foldl step acc ys \<and> map er ys = map er (x # xs)) rest"
  proof (rule yields_pbind [OF go(2)])
    fix acc1 st1
    assume "\<exists>y. acc1 = step acc y \<and> er y = er x" and a1: "ahead st1 (concat (map pr xs) @ rest)"
    then obtain y where y: "acc1 = step acc y" "er y = er x" by blast
    have "yields (ploop m stop body acc1 st1) (\<lambda>acc'. \<exists>ys. acc' = foldl step acc1 ys \<and> map er ys = map er xs) rest"
      using Cons.prems n a1 by (intro Cons.IH) auto
    then obtain ys st2 where "ploop m stop body acc1 st1 = pok (foldl step acc1 ys) st2" "map er ys = map er xs" "ahead st2 rest"
      by (auto simp: yields_def)
    with y show "yields (ploop m stop body acc1 st1) (\<lambda>acc'. \<exists>ys. acc' = foldl step acc ys \<and> map er ys = map er (x # xs)) rest"
      by (auto intro!: yields_pok exI [of _ "y # ys"])
  qed
  with go(1) show ?case by (simp add: n)
qed


section \<open>Declarations\<close>

lemma param_head: "print_param p \<noteq> [] \<and> (closes close \<longrightarrow> hd (print_param p) \<noteq> close)"
  by (auto simp: print_param_def print_ident_def closes_def)

lemma type_yields:
  "ahead st (TK_Type ty # ks) \<Longrightarrow>
     \<exists>token. advance_or_error st m = pok token (bump st) \<and> tok_kind token = TK_Type ty \<and> ahead (bump st) ks"
  using advance_ahead [of st "TK_Type ty" ks m] ahead_Cons(3) [of st "TK_Type ty" ks] by auto

lemma typed_name:
  assumes "ahead st (print_param p @ ks)"
  obtains name colon token where "parse_identifier st = pok name (bump st)" "ident_name name = ident_name (param_name p)"
    "expect_exact (bump st) TK_Colon l = pok colon (bump (bump st))"
    "advance_or_error (bump (bump st)) m = pok token (bump (bump (bump st)))"
    "tok_kind token = TK_Type (param_ty p)" "ahead (bump (bump (bump st))) ks"
proof -
  from assms have a: "ahead st (TK_Identifier (ident_name (param_name p)) # TK_Colon # TK_Type (param_ty p) # ks)"
    by (simp add: print_param_def print_ident_def)
  note b = ahead_Cons(3) [OF a]
  note c = ahead_Cons(3) [OF b]
  from identifier_ahead [OF a] expect_ahead [OF b, of l] type_yields [OF c, of m] that show thesis by blast
qed

lemma typed_params_yield:
  assumes "ahead st (commas (map print_param ps) @ TK_RightParen # rest)" and "length ps < n"
  shows "yields (parse_typed_params n st TK_RightParen) (\<lambda>ps'. map erase_param ps' = map erase_param ps) (TK_RightParen # rest)"
proof -
  have "yields (parse_typed_params n st TK_RightParen)
      (\<lambda>acc. \<exists>ys. acc = foldl (\<lambda>ps p. ps @ [p]) [] ys \<and> map erase_param ys = map erase_param ps) (TK_RightParen # rest)"
    unfolding parse_typed_params_def
  proof (rule comma_loop_reads [OF closes_intro(1) assms])
    fix p st ks acc
    assume "ahead st (print_param p @ ks)"
    from typed_name [OF this, of "bt '':''" "''expected type''"] obtain name colon token where
      p: "parse_identifier st = pok name (bump st)" "ident_name name = ident_name (param_name p)"
      "expect_exact (bump st) TK_Colon (bt '':'') = pok colon (bump (bump st))"
      "advance_or_error (bump (bump st)) ''expected type'' = pok token (bump (bump (bump st)))"
      "tok_kind token = TK_Type (param_ty p)" "ahead (bump (bump (bump st))) ks" .
    show "\<exists>y st'. pbind (parse_identifier st) (\<lambda>name st.
          pbind (expect_exact st TK_Colon (bt '':'')) (\<lambda>_ st.
          pbind (advance_or_error st ''expected type'') (\<lambda>token st.
          pbind (case tok_kind token of TK_Type ty \<Rightarrow> pok ty st | _ \<Rightarrow> perr (p_error_at st (tok_span token) ''expected type'')) (\<lambda>ty st.
          comma_or st TK_RightParen (''expected '' @ bt '','' @ '' or terminator'')
            (acc @ [\<lparr>param_name = name, param_ty = ty,
                     param_span = mk_span (span_start (ident_span name)) (span_end (tok_span token))\<rparr>]))))) =
        comma_or st' TK_RightParen (''expected '' @ bt '','' @ '' or terminator'') (acc @ [y]) \<and>
        erase_param y = erase_param p \<and> ahead st' ks"
      by (intro exI [of _ "\<lparr>param_name = name, param_ty = param_ty p,
            param_span = mk_span (span_start (ident_span name)) (span_end (tok_span token))\<rparr>"]
          exI [of _ "bump (bump (bump st))"])
         (simp add: p p(3) [simplified] erase_param_def erase_ident_def)
  qed (use param_head [where close = TK_RightParen] in simp)
  then show ?thesis by (auto simp: yields_def)
qed

lemma statement_yields:
  assumes "ahead st (print_stmt s @ ks)" and "4 * length (print_stmt s @ ks) + 4 \<le> n"
  shows "yields (parse_statement n st) (\<lambda>s'. erase_stmt s' = erase_stmt s) ks"
proof (cases s)
  case (S_Let x e sp)
  with assms(1) have a: "ahead st (TK_Let # print_ident x # TK_Equal # print_expr 0 e @ TK_Semicolon # ks)" by simp
  then have "check_exact st TK_Let" by (simp add: ahead_check)
  with assms(2) S_Let show ?thesis
    unfolding parse_statement_def Let_def
    by (auto intro!: yields_pbind [OF yields_identifier [OF ahead_Cons(3) [OF a]]] yields_pbind [OF yields_expect]
        yields_pbind [OF yields_expression] yields_pok)
next
  case (S_Require e sp)
  with assms(1) have a: "ahead st (TK_Require # print_expr 0 e @ TK_Semicolon # ks)" by simp
  then have "check_exact st TK_Require" "\<not> check_exact st TK_Let" by (simp_all add: ahead_check discriminant_plain)
  with assms(2) S_Require show ?thesis
    unfolding parse_statement_def Let_def
    by (auto intro!: yields_pbind [OF yields_expression [OF ahead_Cons(3) [OF a]]] yields_pbind [OF yields_expect] yields_pok)
next
  case (S_Return e sp)
  with assms(1) have a: "ahead st (TK_Return # print_expr 0 e @ TK_Semicolon # ks)" by simp
  then have "check_exact st TK_Return" "\<not> check_exact st TK_Let" "\<not> check_exact st TK_Require"
    by (simp_all add: ahead_check discriminant_plain)
  with assms(2) S_Return show ?thesis
    unfolding parse_statement_def Let_def
    by (auto intro!: yields_pbind [OF yields_expression [OF ahead_Cons(3) [OF a]]] yields_pbind [OF yields_expect] yields_pok)
qed

text \<open>Parameter blocks.\<close>

fun add_entry :: "param list \<times> u64 option \<Rightarrow> param + u64 \<Rightarrow> param list \<times> u64 option" where
  "add_entry (ps, fd) (Inl p) = (ps @ [p], fd)"
| "add_entry (ps, fd) (Inr d) = (ps, Some d)"

fun erase_entry :: "param + u64 \<Rightarrow> param + u64" where
  "erase_entry (Inl p) = Inl (erase_param p)"
| "erase_entry (Inr d) = Inr d"

definition plain_entry :: "param + u64 \<Rightarrow> bool" where
  "plain_entry x = (case x of Inl p \<Rightarrow> ident_name (param_name p) \<noteq> ''finality_depth'' | Inr d \<Rightarrow> True)"

lemma entry_reads:
  assumes "ahead st (print_entry x @ ks)" and "plain_entry x"
  shows "\<exists>y st'. parse_params_entry acc st =
      comma_or st' TK_RightBrace (''expected '' @ bt '','' @ '' or '' @ bt [CHR 0x7D]) (add_entry acc y) \<and>
      erase_entry y = erase_entry x \<and> ahead st' ks"
proof (cases x)
  case (Inl p)
  with assms(1) have a: "ahead st (print_param p @ ks)" by simp
  obtain name colon token where
    p: "parse_identifier st = pok name (bump st)" "ident_name name = ident_name (param_name p)"
    "expect_exact (bump st) TK_Colon (bt '':'') = pok colon (bump (bump st))"
    "advance_or_error (bump (bump st)) ''expected type'' = pok token (bump (bump (bump st)))"
    "tok_kind token = TK_Type (param_ty p)" "ahead (bump (bump (bump st))) ks"
    by (rule typed_name [OF a, of "bt '':''" "''expected type''"])
  show ?thesis
    using assms(2) Inl
    by (intro exI [of _ "Inl \<lparr>param_name = name, param_ty = param_ty p,
            param_span = mk_span (span_start (ident_span name)) (span_end (previous_span (bump (bump (bump st)))))\<rparr>"]
          exI [of _ "bump (bump (bump st))"])
       (cases acc, simp add: parse_params_entry_def p p(3) [simplified] plain_entry_def erase_param_def erase_ident_def)
next
  case (Inr d)
  with assms(1) have a: "ahead st (TK_Identifier ''finality_depth'' # TK_Colon # TK_Integer (show_nat (unat d)) # ks)" by simp
  note b = ahead_Cons(3) [OF a]
  note c = ahead_Cons(3) [OF b]
  obtain name where name: "parse_identifier st = pok name (bump st)" "ident_name name = ''finality_depth''"
    using identifier_ahead [OF a] by blast
  obtain colon where colon: "expect_exact (bump st) TK_Colon (bt '':'') = pok colon (bump (bump st))"
    using expect_ahead [OF b] by blast
  obtain token where token: "advance_or_error (bump (bump st)) ''expected integer literal'' = pok token (bump (bump (bump st)))"
    "tok_kind token = TK_Integer (show_nat (unat d))"
    using advance_ahead [OF c] by blast
  show ?thesis
    using ahead_Cons(3) [OF c] Inr
    by (intro exI [of _ "Inr d"] exI [of _ "bump (bump (bump st))"])
       (cases acc, simp add: parse_params_entry_def name colon [simplified] token parse_u64_def)
qed

lemma entry_head: "print_entry x \<noteq> [] \<and> hd (print_entry x) \<noteq> TK_RightBrace"
  by (cases x) (simp_all add: print_param_def print_ident_def)

lemma params_block_yields:
  assumes "ahead st (TK_LeftBrace # commas (map print_entry xs) @ TK_RightBrace # ks)" and "length xs < n"
    and "\<And>x. x \<in> set xs \<Longrightarrow> plain_entry x"
  shows "yields (parse_params_block n st)
      (\<lambda>acc. \<exists>ys. acc = foldl add_entry ([], None) ys \<and> map erase_entry ys = map erase_entry xs) ks"
  unfolding parse_params_block_def
  using assms entry_head
  by (auto intro!: yields_pbind [OF yields_expect] yields_pbind [OF comma_loop_reads [where pr = print_entry and xs = xs]]
      yields_pok entry_reads)

text \<open>Spends.\<close>

lemma not_at_end: "ahead st (k # ks) \<Longrightarrow> \<not> is_at_end st"
  using ahead_Cons(1) [of st k ks] by (simp add: is_at_end_def)

lemma stmt_head: "\<exists>k ks. print_stmt s = k # ks \<and> k \<noteq> TK_RightBrace"
  by (cases s) simp_all

lemma concat_length: "(\<And>x. x \<in> set xs \<Longrightarrow> f x \<noteq> []) \<Longrightarrow> length xs \<le> length (concat (map f xs))"
proof (induction xs)
  case (Cons x xs)
  then have "f x \<noteq> []" "length xs \<le> length (concat (map f xs))" by auto
  then show ?case by (cases "f x") auto
qed simp

lemma commas_length_map: "(\<And>x. x \<in> set xs \<Longrightarrow> f x \<noteq> []) \<Longrightarrow> length xs \<le> length (commas (map f xs))"
  using commas_length [of "map f xs"] by (fastforce simp: image_iff)

lemma body_yields:
  assumes "ahead st (concat (map print_stmt ss) @ TK_RightBrace # ks)"
    and "4 * length (concat (map print_stmt ss) @ TK_RightBrace # ks) + 4 \<le> n"
  shows "yields (ploop n (\<lambda>st. check_exact st TK_RightBrace)
              (\<lambda>body st.
                 if is_at_end st then perr (error_here st m)
                 else pbind (parse_statement n st) (\<lambda>stmt st. pok (body @ [stmt]) st)) [] st)
      (\<lambda>ss'. map erase_stmt ss' = map erase_stmt ss) (TK_RightBrace # ks)"
proof -
  have "yields (ploop n (\<lambda>st. check_exact st TK_RightBrace)
              (\<lambda>body st.
                 if is_at_end st then perr (error_here st m)
                 else pbind (parse_statement n st) (\<lambda>stmt st. pok (body @ [stmt]) st)) [] st)
      (\<lambda>acc. \<exists>ys. acc = foldl (\<lambda>xs x. xs @ [x]) [] ys \<and> map erase_stmt ys = map erase_stmt ss) (TK_RightBrace # ks)"
  proof (rule loop_reads [OF assms(1) _ order_refl])
    have "\<And>s. print_stmt s \<noteq> []" using stmt_head by (metis list.discI)
    then show "length ss < n" using concat_length [of ss print_stmt] assms(2) by simp
  next
    fix s st' follow acc
    assume a: "ahead st' (print_stmt s @ follow)"
      and le: "length (print_stmt s @ follow) \<le> length (concat (map print_stmt ss) @ TK_RightBrace # ks)"
    obtain k ks' where k: "print_stmt s = k # ks'" "k \<noteq> TK_RightBrace" using stmt_head by blast
    with a have "\<not> check_exact st' TK_RightBrace" "\<not> is_at_end st'"
      by (auto simp: ahead_check discriminant_plain not_at_end)
    moreover have "yields (pbind (parse_statement n st') (\<lambda>stmt st. pok (acc @ [stmt]) st))
        (\<lambda>acc'. \<exists>y. acc' = acc @ [y] \<and> erase_stmt y = erase_stmt s) follow"
      using le assms(2) by (intro yields_pbind [OF statement_yields [OF a]] yields_pok) auto
    ultimately show "\<not> check_exact st' TK_RightBrace \<and>
        yields (if is_at_end st' then perr (error_here st' m) else pbind (parse_statement n st') (\<lambda>stmt st. pok (acc @ [stmt]) st))
          (\<lambda>acc'. \<exists>y. acc' = acc @ [y] \<and> erase_stmt y = erase_stmt s) follow"
      by simp
  qed (simp add: ahead_check)
  then show ?thesis by (auto simp: yields_def)
qed

lemma spend_yields:
  assumes "ahead st (print_ident (spend_name s) # TK_LeftParen # commas (map print_param (spend_params s)) @
       TK_RightParen # TK_LeftBrace # concat (map print_stmt (spend_body s)) @ TK_RightBrace # ks)"
    and "4 * length (print_spend s @ ks) \<le> n"
  shows "yields (parse_spend n st) (\<lambda>s'. erase_spend s' = erase_spend s) ks"
proof -
  have "length (spend_params s) \<le> length (commas (map print_param (spend_params s)))"
    using param_head by (intro commas_length_map) blast
  with assms(2) have n: "length (spend_params s) < n"
    "4 * length (concat (map print_stmt (spend_body s)) @ TK_RightBrace # ks) + 4 \<le> n"
    by (simp_all add: print_spend_def)
  show ?thesis
    unfolding parse_spend_def
    by (rule yields_pbind [OF yields_identifier [OF assms(1)]], rule yields_pbind [OF yields_expect], assumption,
        rule yields_pbind [OF typed_params_yield [OF _ n(1)]], assumption, rule yields_pbind [OF yields_expect], assumption,
        rule yields_pbind [OF yields_expect], assumption, rule yields_pbind [OF body_yields [OF _ n(2)]], assumption,
        rule yields_pbind [OF yields_expect], assumption, rule yields_pok) (simp_all add: erase_spend_def)
qed

text \<open>Contracts: a parameter block followed by the spends.\<close>

type_synonym items = "param list \<times> u64 option \<times> spend list"

lemma params_item_yields:
  assumes "ahead st (TK_Params # TK_LeftBrace # commas (map print_entry xs) @ TK_RightBrace # ks)" and "length xs < n"
    and "\<And>x. x \<in> set xs \<Longrightarrow> plain_entry x"
  shows "yields (parse_contract_item n ([], None, []) st)
      (\<lambda>acc. \<exists>ys. acc = (fst (foldl add_entry ([], None) ys), snd (foldl add_entry ([], None) ys), []) \<and> map erase_entry ys = map erase_entry xs) ks"
proof -
  have "yields (pbind (parse_params_block n (bump st)) (\<lambda>parsed st.
           pok ([] @ fst parsed, if snd parsed \<noteq> None then snd parsed else None, []) st))
      (\<lambda>acc. \<exists>ys. acc = (fst (foldl add_entry ([], None) ys), snd (foldl add_entry ([], None) ys), []) \<and> map erase_entry ys = map erase_entry xs) ks"
    using assms(2,3)
    by (intro yields_pbind [OF params_block_yields [OF ahead_Cons(3) [OF assms(1)]]] yields_pok)
       auto
  with assms(1) show ?thesis
    using not_at_end [OF assms(1)] by (simp add: parse_contract_item_def ahead_check)
qed

definition add_spend :: "items \<Rightarrow> spend \<Rightarrow> items" where
  "add_spend acc s = (let (ps, fd, ss) = acc in (ps, fd, ss @ [s]))"

lemma foldl_add_spend: "foldl add_spend (ps, fd, ss) ys = (ps, fd, ss @ ys)"
  by (induction ys arbitrary: ss) (simp_all add: add_spend_def)

lemma spend_item_yields:
  assumes "ahead st (print_spend s @ ks)" and "4 * length (print_spend s @ ks) \<le> n"
  shows "\<not> check_exact st TK_RightBrace \<and>
    yields (parse_contract_item n acc st) (\<lambda>acc'. \<exists>y. acc' = add_spend acc y \<and> erase_spend y = erase_spend s) ks"
proof -
  obtain ps fd ss where acc: "acc = (ps, fd, ss)" by (cases acc)
  from assms(1) have a: "ahead st (TK_Spend # print_ident (spend_name s) # TK_LeftParen # commas (map print_param (spend_params s)) @
       TK_RightParen # TK_LeftBrace # concat (map print_stmt (spend_body s)) @ TK_RightBrace # ks)"
    by (simp add: print_spend_def)
  have "yields (pbind (parse_spend n (bump st)) (\<lambda>spend st. pok (ps, fd, ss @ [spend]) st))
      (\<lambda>acc'. \<exists>y. acc' = (ps, fd, ss @ [y]) \<and> erase_spend y = erase_spend s) ks"
    by (rule yields_pbind [OF spend_yields [OF ahead_Cons(3) [OF a] assms(2)]]) (auto intro: yields_pok)
  with a not_at_end [OF a] show ?thesis
    by (simp add: acc add_spend_def parse_contract_item_def ahead_check discriminant_plain)
qed

lemma erase_entries:
  "map_prod (map erase_param) id (foldl add_entry acc ys) =
     foldl add_entry (map_prod (map erase_param) id acc) (map erase_entry ys)"
proof (induction ys arbitrary: acc)
  case (Cons y ys)
  have "map_prod (map erase_param) id (add_entry acc y) = add_entry (map_prod (map erase_param) id acc) (erase_entry y)"
    by (cases acc; cases y) simp_all
  with Cons show ?case by (simp only: foldl.simps list.map)
qed simp

lemma entries_foldl: "foldl add_entry ([], None) (entries_of c) = (contract_params c, contract_finality_depth c)"
proof -
  have "foldl add_entry (ps, fd) (map Inl qs) = (ps @ qs, fd)" for ps fd qs
    by (induction qs arbitrary: ps) simp_all
  then show ?thesis by (simp add: entries_of_def split: option.split)
qed

lemma entries_back:
  assumes "map erase_entry ys = map erase_entry (entries_of c)"
  shows "map erase_param (fst (foldl add_entry ([], None) ys)) = map erase_param (contract_params c)"
    and "snd (foldl add_entry ([], None) ys) = contract_finality_depth c"
proof -
  have "map_prod (map erase_param) id (foldl add_entry ([], None) ys) =
      map_prod (map erase_param) id (foldl add_entry ([], None) (entries_of c))"
    unfolding erase_entries assms ..
  then have "map_prod (map erase_param) id (foldl add_entry ([], None) ys) =
      (map erase_param (contract_params c), contract_finality_depth c)" by (simp add: entries_foldl)
  then show "map erase_param (fst (foldl add_entry ([], None) ys)) = map erase_param (contract_params c)"
    "snd (foldl add_entry ([], None) ys) = contract_finality_depth c"
    by (simp_all add: prod_eq_iff)
qed

definition named :: "contract \<Rightarrow> bool" where
  "named c \<longleftrightarrow> list_all (\<lambda>q. ident_name (param_name q) \<noteq> ''finality_depth'') (contract_params c)"

lemma named_entries: "named c \<Longrightarrow> x \<in> set (entries_of c) \<Longrightarrow> plain_entry x"
  by (auto simp: named_def entries_of_def plain_entry_def list_all_iff split: option.splits)

lemma contract_items_yield:
  assumes a: "ahead st (TK_Params # TK_LeftBrace # commas (map print_entry (entries_of c)) @ TK_RightBrace #
       concat (map print_spend (contract_spends c)) @ TK_RightBrace # ks)"
    and n: "4 * length (print_contract c @ ks) \<le> n" and "named c"
  shows "yields (ploop n (\<lambda>st. check_exact st TK_RightBrace) (parse_contract_item n) ([], None, []) st)
      (\<lambda>acc. map erase_param (fst acc) = map erase_param (contract_params c) \<and>
             fst (snd acc) = contract_finality_depth c \<and>
             map erase_spend (snd (snd acc)) = map erase_spend (contract_spends c)) (TK_RightBrace # ks)"
proof -
  have "length (entries_of c) \<le> length (commas (map print_entry (entries_of c)))"
    using entry_head by (intro commas_length_map) blast
  moreover have spends: "length (contract_spends c) \<le> length (concat (map print_spend (contract_spends c)))"
    by (rule concat_length) (simp add: print_spend_def)
  ultimately obtain n' where n': "n = Suc n'" "length (entries_of c) < n" "length (contract_spends c) < n'"
    using n by (cases n) (auto simp: print_contract_def)
  have go: "\<not> check_exact st TK_RightBrace" using a by (simp add: ahead_check discriminant_plain)
  have "yields (pbind (parse_contract_item n ([], None, []) st) (ploop n' (\<lambda>st. check_exact st TK_RightBrace) (parse_contract_item n)))
      (\<lambda>acc. map erase_param (fst acc) = map erase_param (contract_params c) \<and>
             fst (snd acc) = contract_finality_depth c \<and>
             map erase_spend (snd (snd acc)) = map erase_spend (contract_spends c)) (TK_RightBrace # ks)"
  proof (rule yields_pbind [OF params_item_yields [OF a n'(2) named_entries [OF assms(3)]]], assumption)
    fix acc :: items and st1
    assume "\<exists>ys. acc = (fst (foldl add_entry ([], None) ys), snd (foldl add_entry ([], None) ys), []) \<and>
        map erase_entry ys = map erase_entry (entries_of c)"
      and st1: "ahead st1 (concat (map print_spend (contract_spends c)) @ TK_RightBrace # ks)"
    then obtain ps fd where acc: "acc = (ps, fd, [])" "map erase_param ps = map erase_param (contract_params c)"
      "fd = contract_finality_depth c" using entries_back by blast
    have "yields (ploop n' (\<lambda>st. check_exact st TK_RightBrace) (parse_contract_item n) acc st1)
       (\<lambda>acc'. \<exists>ys. acc' = foldl add_spend acc ys \<and> map erase_spend ys = map erase_spend (contract_spends c)) (TK_RightBrace # ks)"
      using n by (intro loop_reads [OF st1 n'(3) order_refl] spend_item_yields) (auto simp: ahead_check print_contract_def)
    then show "yields (ploop n' (\<lambda>st. check_exact st TK_RightBrace) (parse_contract_item n) acc st1)
      (\<lambda>acc. map erase_param (fst acc) = map erase_param (contract_params c) \<and>
             fst (snd acc) = contract_finality_depth c \<and>
             map erase_spend (snd (snd acc)) = map erase_spend (contract_spends c)) (TK_RightBrace # ks)"
      by (rule yields_mono) (auto simp: acc foldl_add_spend)
  qed
  with go show ?thesis by (simp add: n'(1))
qed

lemma contract_yields:
  assumes "ahead st (print_contract c @ ks)" and "4 * length (print_contract c @ ks) \<le> n" and "named c"
  shows "yields (parse_contract n st) (\<lambda>c'. erase_contract c' = erase_contract c) ks"
proof -
  from assms(1) have a: "ahead st (TK_Contract # print_ident (contract_name c) # TK_LeftBrace #
       TK_Params # TK_LeftBrace # commas (map print_entry (entries_of c)) @ TK_RightBrace #
       concat (map print_spend (contract_spends c)) @ TK_RightBrace # ks)"
    by (simp add: print_contract_def)
  show ?thesis
    unfolding parse_contract_def
    by (rule yields_pbind [OF yields_expect [OF a]], rule yields_pbind [OF yields_identifier], assumption,
        rule yields_pbind [OF yields_expect], assumption,
        rule yields_pbind [OF contract_items_yield [OF _ assms(2,3)]], assumption,
        rule yields_pbind [OF yields_expect], assumption, rule yields_pok) (simp_all add: erase_contract_def)
qed

section \<open>Programs\<close>

lemma program_yields:
  assumes "ahead st (print_program p)" and "4 * length (print_program p) < n" and "printable p"
  shows "yields (parse_program n st) (\<lambda>p'. erase_program p' = erase_program p) []"
proof -
  have "length (program_contracts p) \<le> length (concat (map print_contract (program_contracts p)))"
    by (rule concat_length) (simp add: print_contract_def)
  with assms(2) have n: "length (program_contracts p) < n" by (simp add: print_program_def)
  have "yields (ploop n is_at_end (\<lambda>contracts st. pbind (parse_contract n st) (\<lambda>c st. pok (contracts @ [c]) st)) [] st)
      (\<lambda>acc. \<exists>ys. acc = foldl (\<lambda>xs x. xs @ [x]) [] ys \<and> map erase_contract ys = map erase_contract (program_contracts p)) []"
  proof (rule loop_reads [OF _ n order_refl])
    show "ahead st (concat (map print_contract (program_contracts p)) @ [])" using assms(1) by (simp add: print_program_def)
  next
    fix c st' follow acc
    assume c: "c \<in> set (program_contracts p)" "ahead st' (print_contract c @ follow)"
      "length (print_contract c @ follow) \<le> length (concat (map print_contract (program_contracts p)) @ [])"
    have "named c" using c(1) assms(3) by (simp add: printable_def named_def list_all_iff)
    moreover have "\<not> is_at_end st'" using c(2) by (auto simp: print_contract_def dest: not_at_end)
    ultimately show "\<not> is_at_end st' \<and>
        yields (pbind (parse_contract n st') (\<lambda>c st. pok (acc @ [c]) st))
          (\<lambda>acc'. \<exists>y. acc' = acc @ [y] \<and> erase_contract y = erase_contract c) follow"
      using c(3) assms(2)
      by (auto intro!: yields_pbind [OF contract_yields [OF c(2)]] yields_pok simp: print_program_def)
  qed (simp add: ahead_def is_at_end_def)
  then show ?thesis
    unfolding parse_program_def
    by (rule yields_pbind) (auto intro!: yields_pok simp: erase_program_def)
qed

text \<open>C7: parsing inverts printing: whatever spans its tokens carry, a token list whose kinds are the
  layout of a program (fewest parentheses, commas between items) parses to that program up to spans; the
  only programs without a layout have a contract parameter named \<open>finality_depth\<close>.\<close>

theorem parse_print_program:
  assumes "map tok_kind tokens = print_program p" and "printable p"
  shows "\<exists>p'. parse_tokens tokens source path = Inr p' \<and> erase_program p' = erase_program p"
proof -
  have "ahead (parser_new tokens source path) (print_program p)"
    by (simp add: ahead_def parser_new_def assms(1))
  moreover have "4 * length (print_program p) < parse_fuel tokens"
    using assms(1) [symmetric] by (simp add: parse_fuel_def)
  ultimately have "yields (parse_program (parse_fuel tokens) (parser_new tokens source path))
      (\<lambda>p'. erase_program p' = erase_program p) []"
    using assms(2) by (rule program_yields)
  then show ?thesis by (auto simp: yields_def parse_tokens_def pok_def)
qed

text \<open>A program with a parameter block, a spend, precedence, a call, a field and an array.\<close>

definition sample_layout :: program where
  "sample_layout =
     (let s = mk_span 0 0; i = (\<lambda>x. mk_ident x s); v = (\<lambda>x. E_Ident (i x)); k = (\<lambda>n. E_Integer n s) in
      \<lparr>program_contracts = [
        \<lparr>contract_name = i ''Vault'',
         contract_params = [\<lparr>param_name = i ''owner'', param_ty = T_PublicKey, param_span = s\<rparr>],
         contract_finality_depth = Some 10,
         contract_spends = [
           \<lparr>spend_name = i ''claim'', spend_params = [\<lparr>param_name = i ''sig'', param_ty = T_Signature, param_span = s\<rparr>],
            spend_body =
              [S_Let (i ''limit'') (E_Binary (E_Binary (k 1) BO_Add (k 2) s) BO_Mul (k 3) s) s,
               S_Require (E_Unary UO_Not (E_Call (E_Field (v ''sig'') (i ''verify'') s) [v ''owner'', E_Array [k 1] s] s) s) s,
               S_Return (E_Bool True s) s],
            spend_span = s\<rparr>],
         contract_span = s\<rparr>]\<rparr>)"

theorem parse_print_program_witness:
  "\<exists>p'. parse_tokens (map (\<lambda>k. \<lparr>tok_kind = k, tok_span = mk_span 0 1\<rparr>) (print_program sample_layout)) [] [] = Inr p' \<and>
     erase_program p' = erase_program sample_layout"
  by (rule parse_print_program) (simp_all add: printable_def sample_layout_def Let_def comp_def)

end
