(* ===== verification/KS_Codegen.thy ===== *)
theory KS_Codegen
  imports KS_Disasm KS_Signing KS_ParserTotal
begin

text \<open>
  Code generation (\<open>compiler/codegen/src/lib.rs\<close>, \<open>backends/toccata.rs\<close>): targets, the gate that
  collects source-grounding warnings, artifacts, \<open>compile_toccata\<close>, and the drivers that run the
  phases from the source text on. SHA-256, the package version, the scanner and the Unicode
  escapes of \<open>Debug\<close> are not code of the repository: they are arguments.
\<close>

section \<open>Targets\<close>

datatype target = VerifiedTn12 | Tn10Toccata | ToccataPreview | FutureMainnet

fun target_as_str :: "target \<Rightarrow> string" where
  "target_as_str VerifiedTn12 = ''verified-tn12''"
| "target_as_str Tn10Toccata = ''tn10-toccata''"
| "target_as_str ToccataPreview = ''toccata-preview''"
| "target_as_str FutureMainnet = ''future-mainnet''"

definition target_parse :: "string \<Rightarrow> target option" where
  "target_parse label =
     (if label = ''verified-tn12'' then Some VerifiedTn12
      else if label = ''tn10-toccata'' then Some Tn10Toccata
      else if label = ''toccata-preview'' then Some ToccataPreview
      else if label = ''future-mainnet'' then Some FutureMainnet
      else None)"

fun allows_gated_warnings :: "target \<Rightarrow> bool" where
  "allows_gated_warnings Tn10Toccata = True"
| "allows_gated_warnings ToccataPreview = True"
| "allows_gated_warnings _ = False"

section \<open>Artifacts\<close>

record artifact_param =
  arp_name :: string
  arp_ty :: type_name

record artifact_spend =
  ars_name :: string
  ars_params :: "artifact_param list"
  ars_instructions :: "instruction list"

record artifact_contract =
  arc_name :: string
  arc_params :: "artifact_param list"
  arc_finality_depth :: "u64 option"
  arc_spends :: "artifact_spend list"

record compiled_artifact =
  ca_bytecode :: "u8 list"
  ca_source_hash :: "u8 list"
  ca_compiler_version :: string
  ca_backend :: string
  ca_target :: string
  ca_finality_depth :: "u64 option"
  ca_kip_requirements :: "u16 list"
  ca_warnings :: "grounding_warning list"
  ca_application :: application_model
  ca_contracts :: "artifact_contract list"

definition artifact_params :: "ir_param list \<Rightarrow> artifact_param list" where
  "artifact_params ps = map (\<lambda>p. \<lparr>arp_name = ip_name p, arp_ty = ip_ty p\<rparr>) ps"

definition artifact_spend_of :: "ir_spend \<Rightarrow> artifact_spend" where
  "artifact_spend_of s =
     \<lparr>ars_name = is_name s, ars_params = artifact_params (is_params s), ars_instructions = is_instructions s\<rparr>"

definition artifact_contract_of :: "ir_contract \<Rightarrow> artifact_contract" where
  "artifact_contract_of c =
     \<lparr>arc_name = ic_name c, arc_params = artifact_params (ic_params c), arc_finality_depth = ic_finality_depth c,
      arc_spends = map artifact_spend_of (ic_spends c)\<rparr>"

section \<open>The grounding gate\<close>

text \<open>The warnings collected so far and the set of their ids.\<close>

type_synonym gate = "grounding_warning list \<times> string set"

definition collect_grounding :: "target \<Rightarrow> gate \<Rightarrow> grounding_record \<Rightarrow> codegen_error + gate" where
  "collect_grounding t gate r =
     (case gr_status r of
        VS_Verified \<Rightarrow> Inr gate
      | VS_Gated \<Rightarrow>
          (if allows_gated_warnings t then
             (let (warnings, warning_ids) = gate
              in if gr_id r \<in> warning_ids then Inr gate
                 else Inr (warnings @ [record_warning r], insert (gr_id r) warning_ids))
           else Inl (CE_GatedGrounding (gr_id r) (target_as_str t) (gr_citation r) (gr_note r)))
      | VS_Unsupported \<Rightarrow> Inl (CE_UnsupportedGrounding (gr_id r) (gr_citation r) (gr_note r)))"

definition collect_kip_grounding :: "target \<Rightarrow> gate \<Rightarrow> u16 \<Rightarrow> codegen_error + gate" where
  "collect_kip_grounding t gate kip =
     (case record_for_kip kip of None \<Rightarrow> Inr gate | Some r \<Rightarrow> collect_grounding t gate r)"

definition collect_instruction_grounding :: "target \<Rightarrow> gate \<Rightarrow> instruction list \<Rightarrow> codegen_error + gate" where
  "collect_instruction_grounding t gate instructions =
     try_fold (\<lambda>gate i. collect_grounding t gate (record_for_instruction (instr_kind i))) gate instructions"

section \<open>Compilation\<close>

definition compile_spend_into :: "target \<Rightarrow> gate \<times> u8 list \<Rightarrow> ir_spend \<Rightarrow> codegen_error + gate \<times> u8 list" where
  "compile_spend_into t acc spend =
     (let (gate, bytecode) = acc
      in rbind (collect_instruction_grounding t gate (is_instructions spend)) (\<lambda>gate.
         rbind (encode_instruction_sequence_into (is_instructions spend) bytecode) (\<lambda>bytecode.
         Inr (gate, bytecode))))"

definition compile_toccata ::
  "(string \<Rightarrow> u8 list) \<Rightarrow> string \<Rightarrow> ir_program \<Rightarrow> string \<Rightarrow> target \<Rightarrow> codegen_error + compiled_artifact" where
  "compile_toccata sha256 source ir compiler_version t =
     rbind (try_fold (collect_kip_grounding t) ([], {}) (ir_kip_requirements ir)) (\<lambda>gate.
     rbind (try_fold (\<lambda>acc c. try_fold (compile_spend_into t) acc (ic_spends c)) (gate, []) (ir_contracts ir))
       (\<lambda>((warnings, _), bytecode).
     Inr \<lparr>ca_bytecode = bytecode, ca_source_hash = sha256 source, ca_compiler_version = compiler_version,
          ca_backend = ''kaspa-txscript'', ca_target = target_as_str t,
          ca_finality_depth = opt_max (List.map_filter ic_finality_depth (ir_contracts ir)),
          ca_kip_requirements = ir_kip_requirements ir, ca_warnings = warnings,
          ca_application = ir_application ir,
          ca_contracts = map artifact_contract_of (ir_contracts ir)\<rparr>))"

section \<open>From the source text\<close>

definition parse_file :: "scanner \<Rightarrow> string \<Rightarrow> string \<Rightarrow> parse_error + program" where
  "parse_file logos source file =
     (case lex_file logos source file of
        Inl e \<Rightarrow> Inl (parse_error_of_lex e)
      | Inr tokens \<Rightarrow> parse_tokens tokens source file)"

definition analyze_file :: "scanner \<Rightarrow> string \<Rightarrow> string \<Rightarrow> analyze_failure + analysis" where
  "analyze_file logos source file =
     (case parse_file logos source file of
        Inl e \<Rightarrow> Inl \<lparr>af_error = AE_Parse e, af_errors = []\<rparr>
      | Inr prog \<Rightarrow> analyze_program prog source file)"

definition lower_file :: "(rchar \<Rightarrow> string) \<Rightarrow> scanner \<Rightarrow> string \<Rightarrow> string \<Rightarrow> ir_error + ir_program" where
  "lower_file esc logos source file =
     (case parse_file logos source file of
        Inl e \<Rightarrow> Inl (IE_Semantic \<lparr>af_error = AE_Parse e, af_errors = []\<rparr>)
      | Inr prog \<Rightarrow>
          (case analyze_program prog source file of
             Inl f \<Rightarrow> Inl (IE_Semantic f)
           | Inr an \<Rightarrow> lower_program esc (an_program an) (an_kip_requirements an) file))"

definition lower_source :: "(rchar \<Rightarrow> string) \<Rightarrow> scanner \<Rightarrow> string \<Rightarrow> ir_error + ir_program" where
  "lower_source esc logos source = lower_file esc logos source ''<source>''"

text \<open>What the compiler takes from outside the repository.\<close>

record environment =
  env_scanner :: scanner
  env_escape :: "rchar \<Rightarrow> string"
  env_sha256 :: "string \<Rightarrow> u8 list"
  env_version :: string

definition compile_file_for_target ::
  "environment \<Rightarrow> string \<Rightarrow> string \<Rightarrow> target \<Rightarrow> codegen_error + compiled_artifact" where
  "compile_file_for_target env source file t =
     (case lower_file (env_escape env) (env_scanner env) source file of
        Inl e \<Rightarrow> Inl (CE_Ir e)
      | Inr ir \<Rightarrow> compile_toccata (env_sha256 env) source ir (env_version env) t)"

definition compile_file :: "environment \<Rightarrow> string \<Rightarrow> string \<Rightarrow> codegen_error + compiled_artifact" where
  "compile_file env source file = compile_file_for_target env source file VerifiedTn12"

definition verify_artifact :: "compiled_artifact \<Rightarrow> codegen_error + unit" where
  "verify_artifact artifact =
     (if ca_bytecode artifact = [] then Inl CE_EmptyBytecode
      else rbind (disassemble (ca_bytecode artifact)) (\<lambda>_. Inr ()))"

end
