(* ===== verification/KS_CodegenFacts.thy ===== *)
theory KS_CodegenFacts
  imports KS_Codegen
begin

text \<open>
  What code generation guarantees: which programs it admits for a target, what the artifact holds,
  that targets agree on the code, that artifacts verify, and the contract of the whole pipeline.
\<close>

section \<open>The gate\<close>

lemma try_fold_Inr_foldl:
  assumes "\<And>s x s'. f s x = Inr s' \<longleftrightarrow> ok x \<and> s' = upd s x"
  shows "try_fold f s xs = Inr s' \<longleftrightarrow> (\<forall>x \<in> set xs. ok x) \<and> s' = foldl upd s xs"
  by (induction xs arbitrary: s) (auto simp: assms rbind_Inr_iff)

definition admitted :: "target \<Rightarrow> verification_status \<Rightarrow> bool" where
  "admitted t st \<longleftrightarrow> st = VS_Verified \<or> st = VS_Gated \<and> allows_gated_warnings t"

definition add_warning :: "gate \<Rightarrow> grounding_record \<Rightarrow> gate" where
  "add_warning gate r =
     (if gr_status r = VS_Gated \<and> gr_id r \<notin> snd gate
      then (fst gate @ [record_warning r], insert (gr_id r) (snd gate)) else gate)"

lemma collect_grounding_Inr:
  "collect_grounding t gate r = Inr gate' \<longleftrightarrow> admitted t (gr_status r) \<and> gate' = add_warning gate r"
  by (cases gate; cases "gr_status r") (auto simp: collect_grounding_def admitted_def add_warning_def)

definition kip_admitted :: "target \<Rightarrow> u16 \<Rightarrow> bool" where
  "kip_admitted t kip \<longleftrightarrow> (\<forall>r. record_for_kip kip = Some r \<longrightarrow> admitted t (gr_status r))"

definition add_kip :: "gate \<Rightarrow> u16 \<Rightarrow> gate" where
  "add_kip gate kip = (case record_for_kip kip of None \<Rightarrow> gate | Some r \<Rightarrow> add_warning gate r)"

lemma collect_kips_Inr:
  "try_fold (collect_kip_grounding t) gate kips = Inr gate' \<longleftrightarrow>
     (\<forall>kip \<in> set kips. kip_admitted t kip) \<and> gate' = foldl add_kip gate kips"
  by (rule try_fold_Inr_foldl)
     (auto simp: collect_kip_grounding_def kip_admitted_def add_kip_def collect_grounding_Inr split: option.split)

lemma collect_instructions_Inr:
  "collect_instruction_grounding t gate is = Inr gate' \<longleftrightarrow>
     (\<forall>i \<in> set is. \<not> unemittable (instr_kind i)) \<and> gate' = gate"
proof -
  have "foldl (\<lambda>gate i. gate) gate is = gate" by (induction "is") simp_all
  then show ?thesis
    unfolding collect_instruction_grounding_def
    by (subst try_fold_Inr_foldl [where ok = "\<lambda>i. \<not> unemittable (instr_kind i)" and upd = "\<lambda>gate i. gate"])
       (auto simp: collect_grounding_Inr record_for_instruction_status admitted_def add_warning_def)
qed

section \<open>The code of a program\<close>

definition ir_code :: "ir_program \<Rightarrow> instruction list" where
  "ir_code ir = concat (map is_instructions (concat (map ic_spends (ir_contracts ir))))"

lemma encode_into_emittable:
  "encode_instruction_sequence_into is out = Inr code \<Longrightarrow> i \<in> set is \<Longrightarrow> \<not> unemittable (instr_kind i)"
  unfolding encode_instruction_sequence_into_def
  using encoder.emit_all_success_iff [of "is" out] by (auto simp: encode_instruction_success)

lemma compile_spend_into_Inr:
  "compile_spend_into t (gate, out) s = Inr acc \<longleftrightarrow>
     (\<exists>code. encode_instruction_sequence_into (is_instructions s) out = Inr code \<and> acc = (gate, code))"
  by (auto simp: compile_spend_into_def rbind_Inr_iff collect_instructions_Inr dest: encode_into_emittable)

lemma compile_spends_Inr:
  "try_fold (compile_spend_into t) (gate, out) ss = Inr acc \<longleftrightarrow>
     (\<exists>code. encode_instruction_sequence_into (concat (map is_instructions ss)) out = Inr code \<and> acc = (gate, code))"
proof (induction ss arbitrary: out)
  case Nil
  then show ?case by (auto simp: encode_instruction_sequence_into_def)
next
  case (Cons s ss)
  then show ?case
    by (cases gate) (auto simp: rbind_Inr_iff compile_spend_into_Inr encode_instruction_sequence_into_def emit_all_append)
qed

lemma compile_contracts_Inr:
  "try_fold (\<lambda>acc c. try_fold (compile_spend_into t) acc (ic_spends c)) (gate, out) cs = Inr acc \<longleftrightarrow>
     (\<exists>code. encode_instruction_sequence_into (concat (map is_instructions (concat (map ic_spends cs)))) out = Inr code \<and>
        acc = (gate, code))"
proof (induction cs arbitrary: out)
  case Nil
  then show ?case by (auto simp: encode_instruction_sequence_into_def)
next
  case (Cons c cs)
  then show ?case
    by (cases gate) (auto simp: rbind_Inr_iff compile_spends_Inr encode_instruction_sequence_into_def emit_all_append)
qed

definition kip_warnings :: "u16 list \<Rightarrow> grounding_warning list" where
  "kip_warnings kips = fst (foldl add_kip ([], {}) kips)"

lemma compile_toccata_Inr:
  "compile_toccata sha256 source ir version t = Inr art \<longleftrightarrow>
     (\<forall>kip \<in> set (ir_kip_requirements ir). kip_admitted t kip) \<and>
     (\<exists>code. compile_instruction_sequence (ir_code ir) = Inr code \<and>
        art = \<lparr>ca_bytecode = code, ca_source_hash = sha256 source, ca_compiler_version = version,
          ca_backend = ''kaspa-txscript'', ca_target = target_as_str t,
          ca_finality_depth = opt_max (List.map_filter ic_finality_depth (ir_contracts ir)),
          ca_kip_requirements = ir_kip_requirements ir, ca_warnings = kip_warnings (ir_kip_requirements ir),
          ca_application = ir_application ir,
          ca_contracts = map artifact_contract_of (ir_contracts ir)\<rparr>)"
proof -
  obtain ws ids where g: "foldl add_kip ([], {}) (ir_kip_requirements ir) = (ws, ids)" by fastforce
  show ?thesis
    unfolding compile_toccata_def rbind_Inr_iff collect_kips_Inr compile_instruction_sequence_def ir_code_def kip_warnings_def
    by (auto simp: compile_contracts_Inr g)
qed

lemma artifact_code:
  "map ars_instructions (concat (map (arc_spends \<circ> artifact_contract_of) cs)) = map is_instructions (concat (map ic_spends cs))"
  by (simp add: map_concat comp_def artifact_contract_of_def artifact_spend_of_def)

text \<open>The warnings are those of the gated KIPs, each once.\<close>

definition gated_kips :: "u16 list \<Rightarrow> grounding_record set" where
  "gated_kips kips = {r. \<exists>kip \<in> set kips. record_for_kip kip = Some r \<and> gr_status r = VS_Gated}"

lemma gated_kips_simps:
  "gated_kips [] = {}"
  "gated_kips (kips @ [kip]) =
     gated_kips kips \<union> (case record_for_kip kip of None \<Rightarrow> {} | Some r \<Rightarrow> if gr_status r = VS_Gated then {r} else {})"
  by (auto simp: gated_kips_def split: option.split)

lemma kip_record_ids: "distinct (map gr_id kip_records)"
  by code_simp

lemma record_for_kip_inj:
  assumes "record_for_kip kip = Some r" and "record_for_kip kip' = Some r'" and "gr_id r = gr_id r'"
  shows "r = r'"
proof -
  have "r \<in> set kip_records" "r' \<in> set kip_records"
    using assms(1,2) by (auto simp: record_for_kip_def find_Some_iff)
  with kip_record_ids assms(3) show ?thesis by (auto simp: distinct_map dest: inj_onD)
qed

lemma warning_id [simp]: "gw_id (record_warning r) = gr_id r"
  by (simp add: record_warning_def)

lemma add_kip_simps:
  "record_for_kip kip = None \<Longrightarrow> add_kip gate kip = gate"
  "record_for_kip kip = Some r \<Longrightarrow> add_kip gate kip = add_warning gate r"
  by (simp_all add: add_kip_def)

lemma kip_gate:
  "snd (foldl add_kip ([], {}) kips) = gr_id ` gated_kips kips \<and>
   set (fst (foldl add_kip ([], {}) kips)) = record_warning ` gated_kips kips \<and>
   distinct (map gw_id (fst (foldl add_kip ([], {}) kips)))"
proof (induction kips rule: rev_induct)
  case Nil
  then show ?case by (simp add: gated_kips_simps)
next
  case (snoc kip kips)
  obtain ws ids where g: "foldl add_kip ([], {}) kips = (ws, ids)" by fastforce
  with snoc have ih: "ids = gr_id ` gated_kips kips" "set ws = record_warning ` gated_kips kips" "distinct (map gw_id ws)"
    by simp_all
  have ids: "gw_id ` set ws = ids" by (simp add: ih(1,2) image_image)
  show ?case
  proof (cases "record_for_kip kip")
    case None
    with ih g show ?thesis by (simp add: gated_kips_simps add_kip_simps)
  next
    case (Some r)
    show ?thesis
    proof (cases "gr_status r = VS_Gated")
      case False
      with Some ih g show ?thesis by (simp add: gated_kips_simps add_kip_simps add_warning_def)
    next
      case gated: True
      show ?thesis
      proof (cases "gr_id r \<in> ids")
        case True
        then obtain r' where r': "r' \<in> gated_kips kips" "gr_id r = gr_id r'" by (auto simp: ih(1))
        then obtain kip' where "record_for_kip kip' = Some r'" by (auto simp: gated_kips_def)
        with Some r' have "r \<in> gated_kips kips" using record_for_kip_inj by metis
        then have "insert r (gated_kips kips) = gated_kips kips" by blast
        with Some True gated ih g show ?thesis by (simp add: gated_kips_simps add_kip_simps add_warning_def)
      next
        case False
        with Some gated ih g ids show ?thesis by (auto simp: gated_kips_simps add_kip_simps add_warning_def)
      qed
    qed
  qed
qed

lemma kip_warnings_facts:
  "set (kip_warnings kips) = record_warning ` gated_kips kips" "distinct (map gw_id (kip_warnings kips))"
  using kip_gate [of kips] by (simp_all add: kip_warnings_def)

lemma strict_kips:
  assumes "\<not> allows_gated_warnings t" and "\<forall>kip \<in> set kips. kip_admitted t kip"
  shows "kip_admitted t' kip \<or> kip \<notin> set kips" and "kip_warnings kips = []"
proof -
  show "kip_admitted t' kip \<or> kip \<notin> set kips" using assms by (auto simp: kip_admitted_def admitted_def)
  have "gated_kips kips = {}" using assms by (fastforce simp: gated_kips_def kip_admitted_def admitted_def)
  then show "kip_warnings kips = []" using kip_warnings_facts(1) [of kips] by simp
qed

section \<open>Properties\<close>

text \<open>C8: a program compiles for a target exactly when every KIP it requires that the registry lists is
  verified, or gated with the target allowing warnings, and every instruction of its spends can be
  encoded.\<close>

theorem compile_toccata_admits:
  "(\<exists>art. compile_toccata sha256 source ir version t = Inr art) \<longleftrightarrow>
     (\<forall>kip \<in> set (ir_kip_requirements ir). \<forall>r. record_for_kip kip = Some r \<longrightarrow>
        gr_status r = VS_Verified \<or> gr_status r = VS_Gated \<and> allows_gated_warnings t) \<and>
     (\<forall>c \<in> set (ir_contracts ir). \<forall>s \<in> set (ic_spends c). \<forall>i \<in> set (is_instructions s).
        \<not> unemittable (instr_kind i) \<and> operands_fit (instr_kind i))"
  unfolding compile_toccata_Inr compile_instruction_sequence_def encode_instruction_sequence_into_def
  using encoder.emit_all_success_iff [of "ir_code ir" "[]"]
  by (auto simp: kip_admitted_def admitted_def encode_instruction_success ir_code_def)

definition gated_ir :: ir_program where
  "gated_ir =
     \<lparr>ir_contracts = [\<lparr>ic_name = ''Preview'', ic_params = [], ic_finality_depth = None,
         ic_spends = [\<lparr>is_name = ''claim'', is_params = [], is_instructions = [mk_instr (mk_span 0 1) I_Verify]\<rparr>]\<rparr>],
      ir_kip_requirements = [16], ir_application = application_model_empty\<rparr>"

theorem compile_toccata_admits_witness:
  "(\<exists>art. compile_toccata (\<lambda>_. []) [] gated_ir [] ToccataPreview = Inr art) \<and>
   \<not> (\<exists>art. compile_toccata (\<lambda>_. []) [] gated_ir [] VerifiedTn12 = Inr art)"
proof -
  obtain r where r: "record_for_kip 16 = Some r" "gr_status r = VS_Gated"
    using record_for_kip_status(3) by auto
  show ?thesis
    unfolding compile_toccata_admits by (simp add: gated_ir_def r)
qed

text \<open>An artifact holds the encoding of the concatenated instructions of its spends, and one warning
  for each gated KIP the program requires; the contracts carry the instructions themselves.\<close>

theorem compiled_artifact_contents:
  assumes "compile_toccata sha256 source ir version t = Inr art"
  shows "compile_instruction_sequence (concat (map ars_instructions (concat (map arc_spends (ca_contracts art))))) =
           Inr (ca_bytecode art) \<and>
         distinct (map gw_id (ca_warnings art)) \<and>
         set (ca_warnings art) = {record_warning r |r kip. kip \<in> set (ca_kip_requirements art) \<and>
            record_for_kip kip = Some r \<and> gr_status r = VS_Gated}"
proof -
  have "{record_warning r |r kip. kip \<in> set kips \<and> record_for_kip kip = Some r \<and> gr_status r = VS_Gated} =
      record_warning ` gated_kips kips" for kips
    by (auto simp: gated_kips_def)
  then show ?thesis
    using assms kip_warnings_facts [of "ir_kip_requirements ir"]
    by (elim compile_toccata_Inr [THEN iffD1, elim_format] conjE exE) (simp add: ir_code_def artifact_code)
qed

text \<open>What compiles for the verified target compiles for every target to the same artifact, up to the
  target's label, and without warnings.\<close>

theorem verified_artifact_for_every_target:
  assumes "compile_toccata sha256 source ir version VerifiedTn12 = Inr art"
  shows "compile_toccata sha256 source ir version t = Inr (art\<lparr>ca_target := target_as_str t\<rparr>) \<and> ca_warnings art = []"
proof -
  have strict: "\<not> allows_gated_warnings VerifiedTn12" by simp
  have "\<forall>kip \<in> set (ir_kip_requirements ir). kip_admitted VerifiedTn12 kip" using assms by (simp add: compile_toccata_Inr)
  note facts = strict_kips [OF strict this]
  have "\<forall>kip \<in> set (ir_kip_requirements ir). kip_admitted t kip" using facts(1) by blast
  with assms facts(2) show ?thesis by (auto simp: compile_toccata_Inr)
qed

lemma asm_of_kind_nonempty: "\<not> unemittable k \<Longrightarrow> asm_of_kind k \<noteq> []"
  by (cases k) simp_all

lemma encoded_nonempty: "compile_instruction_sequence is = Inr [] \<longleftrightarrow> is = []"
proof
  assume *: "compile_instruction_sequence is = Inr []"
  then have "disassemble [] = Inr (concat (map (\<lambda>i. asm_of_kind (instr_kind i)) is))"
    unfolding compile_instruction_sequence_def encode_instruction_sequence_into_def
    by (intro disassemble_reads codec.emit_all_reads) simp_all
  moreover have "disassemble [] = Inr []" by code_simp
  ultimately have nil: "asm_of_kind (instr_kind i) = []" if "i \<in> set is" for i using that by simp
  have "\<not> unemittable (instr_kind i)" if "i \<in> set is" for i
    using encode_into_emittable [OF * [unfolded compile_instruction_sequence_def] that] .
  with nil asm_of_kind_nonempty have "i \<notin> set is" for i by metis
  then show "is = []" by (cases "is") auto
qed (simp add: compile_instruction_sequence_def encode_instruction_sequence_into_def)

text \<open>A compiled artifact whose code fits the address space verifies exactly when some spend has an
  instruction; the only other outcome is the empty-bytecode error.\<close>

theorem compiled_artifact_verifies:
  assumes "compile_toccata sha256 source ir version t = Inr art" and "length (ca_bytecode art) < 2 ^ 64"
  shows "verify_artifact art =
     (if \<exists>c \<in> set (ca_contracts art). \<exists>s \<in> set (arc_spends c). ars_instructions s \<noteq> []
      then Inr () else Inl CE_EmptyBytecode)"
proof -
  from assms(1) have code: "compile_instruction_sequence (ir_code ir) = Inr (ca_bytecode art)"
    and contracts: "ca_contracts art = map artifact_contract_of (ir_contracts ir)"
    by (auto simp: compile_toccata_Inr)
  have "(\<exists>c \<in> set (ca_contracts art). \<exists>s \<in> set (arc_spends c). ars_instructions s \<noteq> []) \<longleftrightarrow> ir_code ir \<noteq> []"
    by (auto simp: contracts ir_code_def artifact_contract_of_def artifact_spend_of_def)
  moreover have "ca_bytecode art = [] \<longleftrightarrow> ir_code ir = []"
    using code encoded_nonempty [of "ir_code ir"] by auto
  moreover have "disassemble (ca_bytecode art) = Inr (concat (map (\<lambda>i. asm_of_kind (instr_kind i)) (ir_code ir)))"
    using code assms(2) unfolding compile_instruction_sequence_def encode_instruction_sequence_into_def
    by (intro disassemble_reads codec.emit_all_reads)
  ultimately show ?thesis by (simp add: verify_artifact_def)
qed

text \<open>A program of one instruction for the witnesses.\<close>

definition plain_ir :: ir_program where
  "plain_ir = gated_ir\<lparr>ir_kip_requirements := [10]\<rparr>"

lemma plain_compiles:
  "\<exists>art. compile_toccata (\<lambda>_. []) [] plain_ir [] VerifiedTn12 = Inr art \<and> ca_bytecode art = [0x69]"
proof -
  have "case compile_toccata (\<lambda>_. []) [] plain_ir [] VerifiedTn12 of Inr art \<Rightarrow> ca_bytecode art = [0x69] | Inl e \<Rightarrow> False"
    by code_simp
  then show ?thesis by (auto split: sum.splits)
qed

lemma gated_compiles:
  "\<exists>art. compile_toccata (\<lambda>_. []) [] gated_ir [] Tn10Toccata = Inr art \<and> ca_kip_requirements art = [16]"
proof -
  have "case compile_toccata (\<lambda>_. []) [] gated_ir [] Tn10Toccata of Inr art \<Rightarrow> ca_kip_requirements art = [16] | Inl e \<Rightarrow> False"
    by code_simp
  then show ?thesis by (auto split: sum.splits)
qed

theorem compiled_artifact_contents_witness:
  "\<exists>art. compile_toccata (\<lambda>_. []) [] gated_ir [] Tn10Toccata = Inr art \<and> distinct (map gw_id (ca_warnings art)) \<and>
     (\<exists>w \<in> set (ca_warnings art). gw_id w = ''kip-16'')"
proof -
  obtain art where art: "compile_toccata (\<lambda>_. []) [] gated_ir [] Tn10Toccata = Inr art" "ca_kip_requirements art = [16]"
    using gated_compiles by blast
  obtain r where r: "record_for_kip 16 = Some r" "gr_status r = VS_Gated"
    using record_for_kip_status(3) by auto
  have "map_option gr_id (record_for_kip 16) = Some ''kip-16''" by code_simp
  with r(1) have "gr_id r = ''kip-16''" by simp
  with compiled_artifact_contents [OF art(1)] art r show ?thesis by force
qed

theorem verified_artifact_for_every_target_witness:
  "\<exists>art. compile_toccata (\<lambda>_. []) [] plain_ir [] VerifiedTn12 = Inr art \<and>
     compile_toccata (\<lambda>_. []) [] plain_ir [] FutureMainnet = Inr (art\<lparr>ca_target := ''future-mainnet''\<rparr>) \<and> ca_warnings art = []"
proof -
  obtain art where "compile_toccata (\<lambda>_. []) [] plain_ir [] VerifiedTn12 = Inr art" using plain_compiles by blast
  with verified_artifact_for_every_target [OF this, of FutureMainnet] show ?thesis by auto
qed

theorem compiled_artifact_verifies_witness:
  "\<exists>art. compile_toccata (\<lambda>_. []) [] plain_ir [] VerifiedTn12 = Inr art \<and>
     verify_artifact art = (if \<exists>c \<in> set (ca_contracts art). \<exists>s \<in> set (arc_spends c). ars_instructions s \<noteq> []
      then Inr () else Inl CE_EmptyBytecode)"
proof -
  obtain art where art: "compile_toccata (\<lambda>_. []) [] plain_ir [] VerifiedTn12 = Inr art" "ca_bytecode art = [0x69]"
    using plain_compiles by blast
  with compiled_artifact_verifies [OF art(1)] show ?thesis by auto
qed

end
