(* ===== verification/KS_Pipeline.thy ===== *)
theory KS_Pipeline
  imports KS_CodegenFacts
begin

text \<open>
  The whole compiler: what an artifact compiled from source text says about the program in the
  text, on which errors it stops, and two sources run through every phase.
\<close>

section \<open>The artifact against the program\<close>

text \<open>An artifact contract has the interface of its source and, per spend, the code of its statements.\<close>

definition spend_compiles_to :: "string \<Rightarrow> spend \<Rightarrow> artifact_spend \<Rightarrow> bool" where
  "spend_compiles_to path sp s \<longleftrightarrow>
     ars_name s = ident_name (spend_name sp) \<and>
     map (\<lambda>p. (arp_name p, arp_ty p)) (ars_params s) = map (\<lambda>p. (ident_name (param_name p), param_ty p)) (spend_params sp) \<and>
     (\<exists>codes. list_all2 (\<lambda>st code. lower_stmt path [] st = Inr code) (spend_body sp) codes \<and>
        ars_instructions s = concat codes)"

definition contract_compiles_to :: "string \<Rightarrow> contract \<Rightarrow> artifact_contract \<Rightarrow> bool" where
  "contract_compiles_to path c a \<longleftrightarrow>
     arc_name a = ident_name (contract_name c) \<and>
     map (\<lambda>p. (arp_name p, arp_ty p)) (arc_params a) = map (\<lambda>p. (ident_name (param_name p), param_ty p)) (contract_params c) \<and>
     arc_finality_depth a = contract_finality_depth c \<and>
     list_all2 (spend_compiles_to path) (contract_spends c) (arc_spends a)"

lemma artifact_params_ir: "map (\<lambda>p. (arp_name p, arp_ty p)) (artifact_params (ir_params ps)) =
    map (\<lambda>p. (ident_name (param_name p), param_ty p)) ps"
  by (simp add: artifact_params_def ir_params_def comp_def)

lemma spend_artifact: "spend_lowers_to path sp s \<Longrightarrow> spend_compiles_to path sp (artifact_spend_of s)"
  by (simp add: spend_lowers_to_def spend_compiles_to_def artifact_spend_of_def artifact_params_ir)

lemma contract_artifact:
  assumes "contract_lowers_to path c ic"
  shows "contract_compiles_to path c (artifact_contract_of ic)"
proof -
  have "list_all2 (spend_lowers_to path) (contract_spends c) (ic_spends ic)" using assms by (simp add: contract_lowers_to_def)
  then have "list_all2 (\<lambda>sp s. spend_compiles_to path sp (artifact_spend_of s)) (contract_spends c) (ic_spends ic)"
    by (rule list_all2_mono) (rule spend_artifact)
  then have "list_all2 (spend_compiles_to path) (contract_spends c) (map artifact_spend_of (ic_spends ic))"
    by (simp add: list_all2_map2)
  with assms show ?thesis
    by (simp add: contract_lowers_to_def contract_compiles_to_def artifact_contract_of_def artifact_params_ir)
qed

lemma lower_program_lowers:
  assumes "lower_program esc prog kips path = Inr ir"
  shows "list_all2 (contract_lowers_to path) (program_contracts prog) (ir_contracts ir)"
    and "ir_kip_requirements ir = kips" and "ir_application ir = build_application_model esc prog"
proof -
  from assms obtain contracts where contracts: "list_all2 (\<lambda>c ic. lower_contract path c = Inr ic) (program_contracts prog) contracts"
    and ir: "ir = \<lparr>ir_contracts = contracts, ir_kip_requirements = kips, ir_application = build_application_model esc prog\<rparr>"
    by (auto simp: lower_program_def rbind_Inr_iff try_map_Inr)
  from contracts have "list_all2 (contract_lowers_to path) (program_contracts prog) contracts"
    by (rule list_all2_mono) (rule lower_contract_lowers)
  with ir show "list_all2 (contract_lowers_to path) (program_contracts prog) (ir_contracts ir)"
    "ir_kip_requirements ir = kips" "ir_application ir = build_application_model esc prog" by simp_all
qed

lemma lower_file_Inr:
  "lower_file esc logos source path = Inr ir \<longleftrightarrow>
     (\<exists>tokens prog. lex_file logos source path = Inr tokens \<and> parse_tokens tokens source path = Inr prog \<and>
        (\<exists>an. analyze_program prog source path = Inr an) \<and>
        lower_program esc prog (collect_kip_requirements prog) path = Inr ir)"
proof -
  have "an_program an = prog \<and> an_kip_requirements an = collect_kip_requirements prog"
    if "analyze_program prog source path = Inr an" for prog an
    using that by (auto simp: analyze_program_def Let_def split: if_splits)
  then show ?thesis
    by (fastforce simp: lower_file_def parse_file_def split: sum.splits)
qed

text \<open>C2: when source text compiles, it lexes and parses to a well-formed program; each contract of the
  artifact has that program's interface and the code of its statements in order, the bytecode is the
  encoding of that code, and the application model and KIP requirements are the program's.\<close>

theorem compiled_source_refines_program:
  assumes "compile_file_for_target env source path t = Inr art"
  shows "\<exists>tokens prog. lex_file (env_scanner env) source path = Inr tokens \<and>
     parse_tokens tokens source path = Inr prog \<and> wf_program prog \<and>
     list_all2 (contract_compiles_to path) (program_contracts prog) (ca_contracts art) \<and>
     compile_instruction_sequence (concat (map ars_instructions (concat (map arc_spends (ca_contracts art))))) =
       Inr (ca_bytecode art) \<and>
     ca_application art = build_application_model (env_escape env) prog \<and>
     ca_kip_requirements art = collect_kip_requirements prog \<and>
     ca_source_hash art = env_sha256 env source"
proof -
  from assms obtain ir where ir: "lower_file (env_escape env) (env_scanner env) source path = Inr ir"
    and art: "compile_toccata (env_sha256 env) source ir (env_version env) t = Inr art"
    by (auto simp: compile_file_for_target_def split: sum.splits)
  from ir obtain tokens prog an where *: "lex_file (env_scanner env) source path = Inr tokens"
    "parse_tokens tokens source path = Inr prog" "analyze_program prog source path = Inr an"
    "lower_program (env_escape env) prog (collect_kip_requirements prog) path = Inr ir"
    by (auto simp: lower_file_Inr)
  have contracts: "list_all2 (contract_compiles_to path) (program_contracts prog) (map artifact_contract_of (ir_contracts ir))"
    unfolding list_all2_map2 using lower_program_lowers(1) [OF *(4)]
    by (rule list_all2_mono) (rule contract_artifact)
  show ?thesis
    using * analyze_program_wf [OF *(3)] contracts lower_program_lowers(2,3) [OF *(4)] art
    by (intro exI [of _ tokens] exI [of _ prog]) (auto simp: compile_toccata_Inr ir_code_def artifact_code)
qed

section \<open>A source compiled\<close>

definition tiny_source :: string where
  "tiny_source = ''contract C{spend s(){require true;}}''"

definition tiny_scanner :: scanner where
  "tiny_scanner source =
     (if source = tiny_source then
        [(Some (Rule_Literal RT_Contract), mk_span 0 8), (Some Rule_Identifier, mk_span 9 10),
         (Some (Rule_Literal RT_LeftBrace), mk_span 10 11), (Some (Rule_Literal RT_Spend), mk_span 11 16),
         (Some Rule_Identifier, mk_span 17 18), (Some (Rule_Literal RT_LeftParen), mk_span 18 19),
         (Some (Rule_Literal RT_RightParen), mk_span 19 20), (Some (Rule_Literal RT_LeftBrace), mk_span 20 21),
         (Some (Rule_Literal RT_Require), mk_span 21 28), (Some (Rule_Literal RT_True), mk_span 29 33),
         (Some (Rule_Literal RT_Semicolon), mk_span 33 34), (Some (Rule_Literal RT_RightBrace), mk_span 34 35),
         (Some (Rule_Literal RT_RightBrace), mk_span 35 36)]
      else [])"

definition environment_of :: "scanner \<Rightarrow> environment" where
  "environment_of logos = \<lparr>env_scanner = logos, env_escape = id, env_sha256 = (\<lambda>_. replicate 32 0), env_version = ''0.1.0''\<rparr>"

lemma tiny_compiles:
  "case compile_file (environment_of tiny_scanner) tiny_source ''t.ks'' of
     Inr art \<Rightarrow> ca_bytecode art = [0x51, 0x69] | Inl e \<Rightarrow> False"
  by code_simp

theorem compiled_source_refines_program_witness:
  "\<exists>art. compile_file (environment_of tiny_scanner) tiny_source ''t.ks'' = Inr art \<and> ca_bytecode art = [0x51, 0x69] \<and>
    (\<exists>tokens prog. lex_file tiny_scanner tiny_source ''t.ks'' = Inr tokens \<and>
     parse_tokens tokens tiny_source ''t.ks'' = Inr prog \<and> wf_program prog \<and>
     list_all2 (contract_compiles_to ''t.ks'') (program_contracts prog) (ca_contracts art))"
proof -
  obtain art where art: "compile_file (environment_of tiny_scanner) tiny_source ''t.ks'' = Inr art" "ca_bytecode art = [0x51, 0x69]"
    using tiny_compiles by (auto split: sum.splits)
  from compiled_source_refines_program [OF art(1) [unfolded compile_file_def]] art show ?thesis
    by (auto simp: environment_of_def)
qed

section \<open>A built-in that is not called\<close>

definition bare_source :: string where
  "bare_source = ''contract C{spend s(){require multisig;}}''"

definition bare_scanner :: scanner where
  "bare_scanner source =
     (if source = bare_source then
        [(Some (Rule_Literal RT_Contract), mk_span 0 8), (Some Rule_Identifier, mk_span 9 10),
         (Some (Rule_Literal RT_LeftBrace), mk_span 10 11), (Some (Rule_Literal RT_Spend), mk_span 11 16),
         (Some Rule_Identifier, mk_span 17 18), (Some (Rule_Literal RT_LeftParen), mk_span 18 19),
         (Some (Rule_Literal RT_RightParen), mk_span 19 20), (Some (Rule_Literal RT_LeftBrace), mk_span 20 21),
         (Some (Rule_Literal RT_Require), mk_span 21 28), (Some (Rule_Literal RT_Multisig), mk_span 29 37),
         (Some (Rule_Literal RT_Semicolon), mk_span 37 38), (Some (Rule_Literal RT_RightBrace), mk_span 38 39),
         (Some (Rule_Literal RT_RightBrace), mk_span 39 40)]
      else [])"

text \<open>A built-in named without a call compiles for the verified target into a push of its name: the
  source \<open>require multisig;\<close> becomes \<open>OP_DATA_8 "multisig" OP_VERIFY\<close>, a check every spender passes.\<close>

theorem bare_builtin_compiles:
  "\<exists>art. compile_file (environment_of bare_scanner) bare_source ''t.ks'' = Inr art \<and>
     ca_bytecode art = 8 # as_bytes ''multisig'' @ [0x69]"
proof -
  have "case compile_file (environment_of bare_scanner) bare_source ''t.ks'' of
     Inr art \<Rightarrow> ca_bytecode art = 8 # as_bytes ''multisig'' @ [0x69] | Inl e \<Rightarrow> False"
    by code_simp
  then show ?thesis by (auto split: sum.splits)
qed

end
