(* ===== verification/KS_Kernel.thy ===== *)
theory KS_Kernel
  imports KS_Lower
begin

text \<open>
  The programmability kernel (\<open>kernel/src/lib.rs\<close>): evidence and its strength, blueprints and
  their builder, readiness reports, capability profiles, wallet previews, packages, and the fee
  policy. Names are prefixed where the crate reuses a name of the application model.
\<close>

section \<open>Networks, features, evidence\<close>

definition TOCCATA_AUDIT_DATE :: string where "TOCCATA_AUDIT_DATE = ''2026-06-17T13:00:00Z''"
definition KERNEL_PACKAGE_SCHEMA_VERSION :: string where "KERNEL_PACKAGE_SCHEMA_VERSION = ''kaspascript.kernel.package.v0''"
definition SOURCE_SNAPSHOT_AUDIT_DATE :: string where "SOURCE_SNAPSHOT_AUDIT_DATE = ''2026-06-17''"

datatype network = N_Mainnet | N_Tn10 | N_Tn12 | N_Simnet | N_Devnet | N_Unknown

fun show_network :: "network \<Rightarrow> string" where
  "show_network N_Mainnet = ''mainnet''"
| "show_network N_Tn10 = ''tn10''"
| "show_network N_Tn12 = ''tn12''"
| "show_network N_Simnet = ''simnet''"
| "show_network N_Devnet = ''devnet''"
| "show_network N_Unknown = ''unknown''"

datatype kernel_feature =
    KF_BaseScript | KF_TransactionIntrospection | KF_CovenantIds | KF_SequencingCommitments
  | KF_ZkVerification | KF_FeePolicy | KF_WalletPreview | KF_IndexerLineage

fun show_feature :: "kernel_feature \<Rightarrow> string" where
  "show_feature KF_BaseScript = ''base-script''"
| "show_feature KF_TransactionIntrospection = ''transaction-introspection''"
| "show_feature KF_CovenantIds = ''covenant-ids''"
| "show_feature KF_SequencingCommitments = ''sequencing-commitments''"
| "show_feature KF_ZkVerification = ''zk-verification''"
| "show_feature KF_FeePolicy = ''fee-policy''"
| "show_feature KF_WalletPreview = ''wallet-preview''"
| "show_feature KF_IndexerLineage = ''indexer-lineage''"

datatype evidence_level =
    EL_Unknown | EL_ResearchSignal | EL_DocsSignal | EL_BranchCode | EL_MergedKip | EL_MergedCode
  | EL_TestnetActivation | EL_MainnetPreActivation | EL_MainnetActivation

fun rank :: "evidence_level \<Rightarrow> nat" where
  "rank EL_Unknown = 0"
| "rank EL_ResearchSignal = 10"
| "rank EL_DocsSignal = 20"
| "rank EL_BranchCode = 30"
| "rank EL_MergedKip = 40"
| "rank EL_MergedCode = 50"
| "rank EL_TestnetActivation = 60"
| "rank EL_MainnetPreActivation = 70"
| "rank EL_MainnetActivation = 100"

fun proves_mainnet_activation :: "evidence_level \<Rightarrow> bool" where
  "proves_mainnet_activation EL_MainnetActivation = True"
| "proves_mainnet_activation _ = False"

text \<open>\<open>Ord\<close> compares ranks; it is consistent with the derived equality because ranks differ.\<close>

lemma rank_inject: "rank a = rank b \<longleftrightarrow> a = b"
  by (cases a; cases b; simp)

instantiation evidence_level :: linorder
begin

definition less_eq_evidence_level :: "evidence_level \<Rightarrow> evidence_level \<Rightarrow> bool" where
  "less_eq_evidence_level a b \<longleftrightarrow> rank a \<le> rank b"

definition less_evidence_level :: "evidence_level \<Rightarrow> evidence_level \<Rightarrow> bool" where
  "less_evidence_level a b \<longleftrightarrow> rank a < rank b"

instance
  by standard (auto simp: less_eq_evidence_level_def less_evidence_level_def rank_inject)

end

fun show_evidence_level :: "evidence_level \<Rightarrow> string" where
  "show_evidence_level EL_Unknown = ''unknown''"
| "show_evidence_level EL_ResearchSignal = ''research-signal''"
| "show_evidence_level EL_DocsSignal = ''docs-signal''"
| "show_evidence_level EL_BranchCode = ''branch-code''"
| "show_evidence_level EL_MergedKip = ''merged-kip''"
| "show_evidence_level EL_MergedCode = ''merged-code''"
| "show_evidence_level EL_TestnetActivation = ''testnet-activation''"
| "show_evidence_level EL_MainnetPreActivation = ''mainnet-pre-activation''"
| "show_evidence_level EL_MainnetActivation = ''mainnet-activation''"

record source_evidence =
  ev_label :: string
  ev_url :: string
  ev_audit_date :: string
  ev_network :: network
  ev_level :: evidence_level
  ev_features :: "kernel_feature list"
  ev_note :: string

record source_snapshot =
  ss_upstream_repo :: string
  ss_tag :: string
  ss_commit :: string
  ss_audit_date :: string

definition source_snapshot_new :: "string \<Rightarrow> string \<Rightarrow> string \<Rightarrow> string \<Rightarrow> source_snapshot" where
  "source_snapshot_new upstream_repo tag commit audit_date =
     \<lparr>ss_upstream_repo = upstream_repo, ss_tag = tag, ss_commit = commit, ss_audit_date = audit_date\<rparr>"

definition source_evidence_new ::
  "string \<Rightarrow> string \<Rightarrow> network \<Rightarrow> evidence_level \<Rightarrow> kernel_feature list \<Rightarrow> string \<Rightarrow> source_evidence" where
  "source_evidence_new label url network level features note =
     \<lparr>ev_label = label, ev_url = url, ev_audit_date = TOCCATA_AUDIT_DATE, ev_network = network,
      ev_level = level, ev_features = features, ev_note = note\<rparr>"

definition covers :: "source_evidence \<Rightarrow> kernel_feature \<Rightarrow> network \<Rightarrow> bool" where
  "covers e feature network \<longleftrightarrow>
     feature \<in> set (ev_features e) \<and> (ev_network e = N_Unknown \<or> ev_network e = network)"

section \<open>Blueprints\<close>

datatype state_type =
    ST_PublicKey | ST_Signature | ST_Sompi | ST_DaaScore | ST_BlockHeight | ST_CovenantId
  | ST_Hash | ST_Bool | ST_U64 | ST_Bytes

record state_field =
  sf_name :: string
  sf_ty :: state_type
  sf_description :: string

definition state_field_new :: "string \<Rightarrow> state_type \<Rightarrow> string \<Rightarrow> state_field" where
  "state_field_new name ty description = \<lparr>sf_name = name, sf_ty = ty, sf_description = description\<rparr>"

datatype transition_kind = TK_Deposit | TK_Spend | TK_Timeout | TK_Recover | TK_Close | TK_Custom string

record feature_requirement =
  fr_feature :: kernel_feature
  fr_minimum_evidence :: evidence_level
  fr_reason :: string

definition feature_requirement_new :: "kernel_feature \<Rightarrow> evidence_level \<Rightarrow> string \<Rightarrow> feature_requirement" where
  "feature_requirement_new feature minimum_evidence reason =
     \<lparr>fr_feature = feature, fr_minimum_evidence = minimum_evidence, fr_reason = reason\<rparr>"

datatype proof_verifier = PV_None | PV_Groth16 | PV_Risc0Succinct | PV_External string

record proof_requirement =
  pr_verifier :: proof_verifier
  pr_public_inputs :: "string list"
  pr_payload_hint :: string

record transition =
  t_name :: string
  t_kind :: transition_kind
  t_consumes :: "string list"
  t_creates :: "string list"
  t_signers :: "string list"
  t_requirements :: "feature_requirement list"
  t_proof :: proof_requirement
  t_wallet_warnings :: "string list"
  t_semantics :: "transition_model option"

definition transition_new :: "string \<Rightarrow> transition_kind \<Rightarrow> transition" where
  "transition_new name kind =
     \<lparr>t_name = name, t_kind = kind, t_consumes = [], t_creates = [], t_signers = [], t_requirements = [],
      t_proof = \<lparr>pr_verifier = PV_None, pr_public_inputs = [], pr_payload_hint = ''no proof payload''\<rparr>,
      t_wallet_warnings = [], t_semantics = None\<rparr>"

text \<open>The builder methods of \<open>Transition\<close>.\<close>

definition t_add_consumes :: "string \<Rightarrow> transition \<Rightarrow> transition" where
  "t_add_consumes field t = t\<lparr>t_consumes := t_consumes t @ [field]\<rparr>"

definition t_add_creates :: "string \<Rightarrow> transition \<Rightarrow> transition" where
  "t_add_creates field t = t\<lparr>t_creates := t_creates t @ [field]\<rparr>"

definition t_add_signer :: "string \<Rightarrow> transition \<Rightarrow> transition" where
  "t_add_signer signer t = t\<lparr>t_signers := t_signers t @ [signer]\<rparr>"

definition t_add_requires :: "feature_requirement \<Rightarrow> transition \<Rightarrow> transition" where
  "t_add_requires requirement t = t\<lparr>t_requirements := t_requirements t @ [requirement]\<rparr>"

definition t_set_proof :: "proof_requirement \<Rightarrow> transition \<Rightarrow> transition" where
  "t_set_proof proof_req t = t\<lparr>t_proof := proof_req\<rparr>"

definition t_add_wallet_warning :: "string \<Rightarrow> transition \<Rightarrow> transition" where
  "t_add_wallet_warning warning t = t\<lparr>t_wallet_warnings := t_wallet_warnings t @ [warning]\<rparr>"

definition t_set_semantics :: "transition_model \<Rightarrow> transition \<Rightarrow> transition" where
  "t_set_semantics semantics t = t\<lparr>t_semantics := Some semantics\<rparr>"

record blueprint =
  bp_name :: string
  bp_network :: network
  bp_state :: "state_field list"
  bp_transitions :: "transition list"
  bp_evidence :: "source_evidence list"

datatype kernel_error =
    KE_EmptyContractName
  | KE_NoTransitions string
  | KE_UnknownTransition string
  | KE_ArithmeticOverflow

fun kernel_error_display :: "kernel_error \<Rightarrow> string" where
  "kernel_error_display KE_EmptyContractName = ''contract name cannot be empty''"
| "kernel_error_display (KE_NoTransitions contract) =
     ''contract '' @ bt contract @ '' must define at least one transition''"
| "kernel_error_display (KE_UnknownTransition name) = ''unknown transition '' @ bt name"
| "kernel_error_display KE_ArithmeticOverflow = ''arithmetic overflow''"

text \<open>\<open>ContractBuilder\<close> wraps the blueprint it builds.\<close>

definition blueprint_builder :: "string \<Rightarrow> blueprint" where
  "blueprint_builder name =
     \<lparr>bp_name = name, bp_network = N_Unknown, bp_state = [], bp_transitions = [], bp_evidence = []\<rparr>"

definition define_kaspa_contract :: "string \<Rightarrow> blueprint" where
  "define_kaspa_contract name = blueprint_builder name"

definition b_network :: "network \<Rightarrow> blueprint \<Rightarrow> blueprint" where
  "b_network network b = b\<lparr>bp_network := network\<rparr>"

definition b_state_field :: "state_field \<Rightarrow> blueprint \<Rightarrow> blueprint" where
  "b_state_field field b = b\<lparr>bp_state := bp_state b @ [field]\<rparr>"

definition b_transition :: "transition \<Rightarrow> blueprint \<Rightarrow> blueprint" where
  "b_transition t b = b\<lparr>bp_transitions := bp_transitions b @ [t]\<rparr>"

definition b_evidence :: "source_evidence \<Rightarrow> blueprint \<Rightarrow> blueprint" where
  "b_evidence e b = b\<lparr>bp_evidence := bp_evidence b @ [e]\<rparr>"

definition b_build :: "blueprint \<Rightarrow> kernel_error + blueprint" where
  "b_build b =
     (if trim (bp_name b) = [] then Inl KE_EmptyContractName
      else if bp_transitions b = [] then Inl (KE_NoTransitions (bp_name b))
      else Inr b)"

definition with_network :: "network \<Rightarrow> blueprint \<Rightarrow> blueprint" where
  "with_network network b = b\<lparr>bp_network := network\<rparr>"

definition bp_transition :: "blueprint \<Rightarrow> string \<Rightarrow> transition option" where
  "bp_transition b name = find (\<lambda>t. t_name t = name) (bp_transitions b)"

section \<open>Previews\<close>

datatype readiness_level = RL_Verified | RL_Preview | RL_Blocked

datatype preview_classification = PC_OrdinaryPayment | PC_CovenantStateTransition | PC_ProofBearingTransition

record wallet_preview =
  wp_contract :: string
  wp_transition :: string
  wp_network :: network
  wp_classification :: preview_classification
  wp_consumes :: "string list"
  wp_creates :: "string list"
  wp_signers :: "string list"
  wp_proof :: proof_requirement
  wp_semantics :: "transition_model option"
  wp_warnings :: "string list"

definition mainnet_unproven :: "blueprint \<Rightarrow> bool" where
  "mainnet_unproven b \<longleftrightarrow>
     bp_network b = N_Mainnet \<and> \<not> (\<exists>e \<in> set (bp_evidence b). proves_mainnet_activation (ev_level e))"

definition preview_transition :: "blueprint \<Rightarrow> string \<Rightarrow> kernel_error + wallet_preview" where
  "preview_transition b name =
     (case bp_transition b name of
        None \<Rightarrow> Inl (KE_UnknownTransition name)
      | Some t \<Rightarrow>
          (let warnings = t_wallet_warnings t @
                 [''This is a covenant state transition preview, not an ordinary payment preview.''];
               warnings =
                 (if mainnet_unproven b
                  then warnings @ [''Mainnet activation is not verified for this contract blueprint.'']
                  else warnings)
           in Inr \<lparr>wp_contract = bp_name b, wp_transition = t_name t, wp_network = bp_network b,
                   wp_classification = PC_CovenantStateTransition, wp_consumes = t_consumes t,
                   wp_creates = t_creates t, wp_signers = t_signers t, wp_proof = t_proof t,
                   wp_semantics = t_semantics t, wp_warnings = warnings\<rparr>))"

section \<open>Readiness\<close>

record feature_readiness =
  fr_transition :: string
  fr_ready_feature :: kernel_feature
  fr_required :: evidence_level
  fr_best :: "evidence_level option"
  fr_level :: readiness_level
  fr_satisfied :: bool
  fr_source_label :: "string option"

record readiness_report =
  rr_contract :: string
  rr_network :: network
  rr_level :: readiness_level
  rr_ready :: bool
  rr_blockers :: "string list"
  rr_features :: "feature_readiness list"

text \<open>\<open>Iterator::max_by_key\<close>: the last of the greatest elements.\<close>

definition max_by_key :: "('a \<Rightarrow> 'k::linorder) \<Rightarrow> 'a list \<Rightarrow> 'a option" where
  "max_by_key key xs =
     foldl (\<lambda>best x. case best of None \<Rightarrow> Some x | Some y \<Rightarrow> if key y \<le> key x then Some x else Some y) None xs"

definition best_evidence :: "blueprint \<Rightarrow> kernel_feature \<Rightarrow> source_evidence option" where
  "best_evidence b feature = max_by_key ev_level (filter (\<lambda>e. covers e feature (bp_network b)) (bp_evidence b))"

definition requirement_satisfied :: "blueprint \<Rightarrow> feature_requirement \<Rightarrow> bool" where
  "requirement_satisfied b r =
     (case best_evidence b (fr_feature r) of None \<Rightarrow> False | Some e \<Rightarrow> fr_minimum_evidence r \<le> ev_level e)"

text \<open>One turn of the loop over the requirements: the blockers and the reports so far.\<close>

definition check_requirement ::
  "blueprint \<Rightarrow> transition \<Rightarrow> string list \<times> feature_readiness list \<Rightarrow> feature_requirement \<Rightarrow>
     string list \<times> feature_readiness list" where
  "check_requirement b t acc r =
     (let (blockers, reports) = acc;
          best = best_evidence b (fr_feature r);
          satisfied = requirement_satisfied b r;
          blockers =
            (if satisfied then blockers
             else blockers @ [''transition '' @ bt (t_name t) @ '' requires '' @ show_feature (fr_feature r) @ '' at '' @
               show_evidence_level (fr_minimum_evidence r) @ '', best evidence is '' @
               show_evidence_level (case best of None \<Rightarrow> EL_Unknown | Some e \<Rightarrow> ev_level e)]);
          level = (if satisfied then RL_Verified else if best \<noteq> None then RL_Preview else RL_Blocked)
      in (blockers,
          reports @ [\<lparr>fr_transition = t_name t, fr_ready_feature = fr_feature r, fr_required = fr_minimum_evidence r,
                      fr_best = map_option ev_level best, fr_level = level, fr_satisfied = satisfied,
                      fr_source_label = map_option ev_label best\<rparr>]))"

definition readiness_report_of :: "blueprint \<Rightarrow> readiness_report" where
  "readiness_report_of b =
     (let blockers =
            (if mainnet_unproven b
             then [''mainnet activation is not verified; pre-activation releases are not enough''] else []);
          (blockers, reports) =
            foldl (\<lambda>acc t. foldl (check_requirement b t) acc (t_requirements t)) (blockers, []) (bp_transitions b);
          level =
            (if blockers \<noteq> [] then RL_Blocked
             else if bp_network b = N_Unknown then RL_Preview
             else RL_Verified)
      in \<lparr>rr_contract = bp_name b, rr_network = bp_network b, rr_level = level, rr_ready = (blockers = []),
          rr_blockers = blockers, rr_features = reports\<rparr>)"

section \<open>Indexer schema\<close>

record column_spec =
  co_name :: string
  co_ty :: string
  co_required :: bool

record table_spec =
  ta_name :: string
  ta_columns :: "column_spec list"

record indexer_schema =
  ix_contract :: string
  ix_network :: network
  ix_tables :: "table_spec list"

definition column :: "string \<Rightarrow> string \<Rightarrow> bool \<Rightarrow> column_spec" where
  "column name ty req = \<lparr>co_name = name, co_ty = ty, co_required = req\<rparr>"

definition covenant_lineage_schema :: "string \<Rightarrow> network \<Rightarrow> indexer_schema" where
  "covenant_lineage_schema contract network =
     \<lparr>ix_contract = contract, ix_network = network, ix_tables =
       [
        \<lparr>ta_name = ''covenant_lineage'', ta_columns =
          [column ''covenant_id'' ''bytes32'' True,
           column ''network'' ''text'' True,
           column ''genesis_tx_id'' ''bytes32'' True,
           column ''genesis_output_index'' ''u32'' True,
           column ''current_tip_tx_id'' ''bytes32'' True,
           column ''current_tip_output_index'' ''u32'' True,
           column ''last_seen_daa_score'' ''u64'' True,
           column ''status'' ''text'' True]\<rparr>,
        \<lparr>ta_name = ''covenant_transition'', ta_columns =
          [column ''covenant_id'' ''bytes32'' True,
           column ''spending_tx_id'' ''bytes32'' True,
           column ''consumed_outpoint'' ''text'' True,
           column ''successor_outpoint'' ''text'' True,
           column ''authorizing_input_index'' ''u32'' True,
           column ''accepting_block_hash'' ''bytes32'' True,
           column ''accepting_daa_score'' ''u64'' True,
           column ''transition_status'' ''text'' True]\<rparr>,
        \<lparr>ta_name = ''wallet_preview_audit'', ta_columns =
          [column ''preview_id'' ''text'' True,
           column ''contract'' ''text'' True,
           column ''transition'' ''text'' True,
           column ''network'' ''text'' True,
           column ''consumes_json'' ''json'' True,
           column ''creates_json'' ''json'' True,
           column ''warnings_json'' ''json'' True]\<rparr>]\<rparr>"

definition indexer_schema_of :: "blueprint \<Rightarrow> indexer_schema" where
  "indexer_schema_of b = covenant_lineage_schema (bp_name b) (bp_network b)"

section \<open>Capabilities\<close>

record capability_feature =
  cf_feature :: kernel_feature
  cf_level :: readiness_level
  cf_best_evidence :: "evidence_level option"
  cf_description :: string

record transition_capability =
  tcap_transition :: string
  tcap_kind :: transition_kind
  tcap_signer_count :: nat
  tcap_signers :: "string list"
  tcap_proof_verifier :: proof_verifier
  tcap_required_features :: "kernel_feature list"
  tcap_wallet_effect :: string
  tcap_constraint_kinds :: "constraint_kind list"
  tcap_transaction_shape :: "transaction_shape option"
  tcap_monetary_policy :: "monetary_policy option"
  tcap_continuation :: "continuation_model option"

record capability_profile =
  cp_schema_version :: string
  cp_contract :: string
  cp_network :: network
  cp_readiness_level :: readiness_level
  cp_ready :: bool
  cp_execution_model :: string
  cp_scope :: "string list"
  cp_features :: "capability_feature list"
  cp_transition_profiles :: "transition_capability list"
  cp_wallet_requirements :: "string list"
  cp_indexer_requirements :: "string list"
  cp_policy_limits :: "string list"

text \<open>A push of what the vector does not hold yet.\<close>

definition push_unique :: "'a list \<Rightarrow> 'a \<Rightarrow> 'a list" where
  "push_unique xs x = (if x \<in> set xs then xs else xs @ [x])"

fun feature_description :: "kernel_feature \<Rightarrow> string" where
  "feature_description KF_BaseScript = ''deterministic Kaspa txscript bytecode emission''"
| "feature_description KF_TransactionIntrospection = ''spend logic can inspect selected transaction inputs or outputs''"
| "feature_description KF_CovenantIds = ''state lineage can be keyed by covenant identifiers''"
| "feature_description KF_SequencingCommitments = ''contract policy can reason about accepted BlockDAG ordering commitments''"
| "feature_description KF_ZkVerification = ''transition policy can require zero-knowledge proof verification''"
| "feature_description KF_FeePolicy = ''package can estimate fees with the pinned Toccata policy''"
| "feature_description KF_WalletPreview = ''wallets receive sign-time transition preview metadata''"
| "feature_description KF_IndexerLineage = ''indexers receive tables for contract lineage and audit trails''"

definition join_or_default :: "string list \<Rightarrow> string \<Rightarrow> string" where
  "join_or_default values fallback = (if values = [] then fallback else join_with '', '' values)"

text \<open>\<open>esc\<close> renders the characters beyond ASCII in the \<open>Debug\<close> text of a string.\<close>

definition binding_text :: "(rchar \<Rightarrow> string) \<Rightarrow> output_binding \<Rightarrow> string" where
  "binding_text esc binding =
     ''output('' @ show_nat (unat (ob_output_index binding)) @ '').'' @ show_output_field (ob_field binding) @ '' '' @
     show_binary_operator (ob_relation binding) @ '' '' @ show_expression esc (ob_expected binding)"

definition transition_wallet_effect :: "(rchar \<Rightarrow> string) \<Rightarrow> transition \<Rightarrow> string" where
  "transition_wallet_effect esc t =
     (let fallback = ''Consumes '' @ join_or_default (t_consumes t) ''no declared input state'' @ '' and creates '' @
            join_or_default (t_creates t) ''no declared successor output'' @ ''.''
      in case t_semantics t of
           None \<Rightarrow> fallback
         | Some semantics \<Rightarrow>
             (let bindings = map (binding_text esc) (tm_output_bindings semantics)
              in if bindings \<noteq> []
                 then ''Reads inputs '' @ debug_u32_list (ts_referenced_inputs (tm_transaction_shape semantics)) @
                      ''; constrains '' @ join_with '', '' bindings @ ''.''
                 else fallback))"

definition transition_capability_of :: "(rchar \<Rightarrow> string) \<Rightarrow> transition \<Rightarrow> transition_capability" where
  "transition_capability_of esc t =
     \<lparr>tcap_transition = t_name t, tcap_kind = t_kind t, tcap_signer_count = length (t_signers t),
      tcap_signers = t_signers t, tcap_proof_verifier = pr_verifier (t_proof t),
      tcap_required_features = foldl (\<lambda>fs r. push_unique fs (fr_feature r)) [] (t_requirements t),
      tcap_wallet_effect = transition_wallet_effect esc t,
      tcap_constraint_kinds =
        (case t_semantics t of None \<Rightarrow> []
         | Some semantics \<Rightarrow> foldl (\<lambda>ks c. push_unique ks (tc_kind c)) [] (tm_constraints semantics)),
      tcap_transaction_shape = map_option tm_transaction_shape (t_semantics t),
      tcap_monetary_policy = map_option tm_monetary_policy (t_semantics t),
      tcap_continuation = map_option tm_continuation (t_semantics t)\<rparr>"

definition capability_features :: "blueprint \<Rightarrow> readiness_report \<Rightarrow> capability_feature list" where
  "capability_features b readiness =
     (let features =
            foldl (\<lambda>fs t. foldl (\<lambda>fs r. push_unique fs (fr_feature r)) fs (t_requirements t)) [] (bp_transitions b)
      in map (\<lambda>feature.
           let related = filter (\<lambda>report. fr_ready_feature report = feature) (rr_features readiness);
               level = (if \<exists>report \<in> set related. fr_level report = RL_Blocked then RL_Blocked
                        else if \<exists>report \<in> set related. fr_level report = RL_Preview then RL_Preview
                        else RL_Verified)
           in \<lparr>cf_feature = feature, cf_level = level, cf_best_evidence = map_option ev_level (best_evidence b feature),
               cf_description = feature_description feature\<rparr>) features)"

definition wallet_requirements :: "blueprint \<Rightarrow> string list" where
  "wallet_requirements b =
     [''render contract spends as state transitions, not ordinary payments'',
      ''show consumed state, created outputs, required signers, and warnings before signing''] @
     (if \<exists>t \<in> set (bp_transitions b). t_signers t \<noteq> []
      then [''collect spend-path signatures named by the transition profile''] else []) @
     (if \<exists>t \<in> set (bp_transitions b). pr_verifier (t_proof t) \<noteq> PV_None
      then [''attach proof payloads and public inputs before broadcast''] else [])"

definition policy_limits :: "blueprint \<Rightarrow> readiness_report \<Rightarrow> string list" where
  "policy_limits b readiness =
     [''package metadata does not replace node, wallet, standardness, or consensus validation'',
      ''contract model is UTXO/state-transition oriented, not an account-runtime VM''] @
     (if bp_network b = N_Unknown then [''preview target is for analysis and integration design only''] else []) @
     (if rr_level readiness = RL_Blocked then [''blocked readiness level prevents production treatment''] else [])"

definition capability_profile_of :: "(rchar \<Rightarrow> string) \<Rightarrow> blueprint \<Rightarrow> capability_profile" where
  "capability_profile_of esc b =
     (let readiness = readiness_report_of b
      in \<lparr>cp_schema_version = KERNEL_PACKAGE_SCHEMA_VERSION, cp_contract = bp_name b, cp_network = bp_network b,
          cp_readiness_level = rr_level readiness, cp_ready = rr_ready readiness,
          cp_execution_model = ''kaspa-utxo-state-machine'',
          cp_scope = [''compile-to-kaspa-txscript'', ''wallet-preview'', ''indexer-lineage'', ''fee-estimate'', ''readiness-report''],
          cp_features = capability_features b readiness,
          cp_transition_profiles = map (transition_capability_of esc) (bp_transitions b),
          cp_wallet_requirements = wallet_requirements b,
          cp_indexer_requirements =
            map (\<lambda>table. ''track '' @ bt (ta_name table) @ '' records'') (ix_tables (indexer_schema_of b)),
          cp_policy_limits = policy_limits b readiness\<rparr>)"

section \<open>Fees\<close>

record fee_policy =
  fp_sompi_per_unit :: u64

definition fee_policy_default :: fee_policy where
  "fee_policy_default = \<lparr>fp_sompi_per_unit = 100\<rparr>"

record fee_estimate =
  fe_policy :: string
  fe_source :: string
  fe_compute_grams :: u64
  fe_transaction_bytes :: u64
  fe_minimum_standard_fee_sompi :: u64
  fe_assumption :: string

definition minimum_standard_fee :: "fee_policy \<Rightarrow> u64 \<Rightarrow> u64 \<Rightarrow> kernel_error + u64" where
  "minimum_standard_fee policy compute_grams transaction_bytes =
     (case checked_mul transaction_bytes 2 of
        None \<Rightarrow> Inl KE_ArithmeticOverflow
      | Some normalized_bytes \<Rightarrow>
          (case checked_mul (max compute_grams normalized_bytes) (fp_sompi_per_unit policy) of
             None \<Rightarrow> Inl KE_ArithmeticOverflow
           | Some fee \<Rightarrow> Inr fee))"

definition fee_estimate_of :: "fee_policy \<Rightarrow> u64 \<Rightarrow> u64 \<Rightarrow> string \<Rightarrow> kernel_error + fee_estimate" where
  "fee_estimate_of policy compute_grams transaction_bytes assumption =
     rbind (minimum_standard_fee policy compute_grams transaction_bytes) (\<lambda>fee.
     Inr \<lparr>fe_policy = ''toccata-rpc-minimum-standard-fee'',
          fe_source = ''https://github.com/kaspanet/rusty-kaspa/blob/v2.0.1/docs/toccata-guide.md'',
          fe_compute_grams = compute_grams, fe_transaction_bytes = transaction_bytes,
          fe_minimum_standard_fee_sompi = fee, fe_assumption = assumption\<rparr>)"

section \<open>Packages\<close>

record kernel_package =
  kp_schema_version :: string
  kp_blueprint :: blueprint
  kp_readiness :: readiness_report
  kp_capabilities :: capability_profile
  kp_wallet_previews :: "wallet_preview list"
  kp_indexer_schema :: indexer_schema
  kp_fee_policy :: fee_policy
  kp_application :: "application_model option"

definition package :: "(rchar \<Rightarrow> string) \<Rightarrow> blueprint \<Rightarrow> kernel_error + kernel_package" where
  "package esc b =
     rbind (try_map (\<lambda>t. preview_transition b (t_name t)) (bp_transitions b)) (\<lambda>wallet_previews.
     Inr \<lparr>kp_schema_version = KERNEL_PACKAGE_SCHEMA_VERSION, kp_blueprint = b,
          kp_readiness = readiness_report_of b, kp_capabilities = capability_profile_of esc b,
          kp_wallet_previews = wallet_previews, kp_indexer_schema = indexer_schema_of b,
          kp_fee_policy = fee_policy_default, kp_application = None\<rparr>)"

record compiled_artifact_summary =
  cs_backend :: string
  cs_target :: string
  cs_compiler_version :: string
  cs_bytecode_bytes :: nat
  cs_finality_depth :: "u64 option"
  cs_kip_requirements :: "u16 list"
  cs_contracts :: "string list"
  cs_spends :: "string list"
  cs_application_schema_version :: string

record compiled_kernel_package =
  ck_schema_version :: string
  ck_package_target :: string
  ck_source_snapshots :: "source_snapshot list"
  ck_artifact :: compiled_artifact_summary
  ck_bytecode_hex :: string
  ck_bytecode_asm :: string
  ck_kernel :: kernel_package
  ck_fee_estimate :: fee_estimate

record compiled_package_input =
  ci_artifact :: compiled_artifact_summary
  ci_bytecode_hex :: string
  ci_bytecode_asm :: string
  ci_application :: application_model
  ci_blueprint :: blueprint
  ci_compute_grams :: u64
  ci_transaction_bytes :: u64
  ci_fee_assumption :: string

definition current_source_snapshots :: "source_snapshot list" where
  "current_source_snapshots =
    [
     source_snapshot_new ''https://github.com/kaspanet/rusty-kaspa'' ''v2.0.1''
       ''cfafeb4c093fa37a303f1b9f19c58f986b870ce3'' SOURCE_SNAPSHOT_AUDIT_DATE,
     source_snapshot_new ''https://github.com/kaspanet/rusty-kaspa'' ''v2.0.0''
       ''90dbf074275d60c1fe74a3491883196f110970c0'' SOURCE_SNAPSHOT_AUDIT_DATE,
     source_snapshot_new ''https://github.com/kaspanet/rusty-kaspa'' ''v1.3.0-toc.5''
       ''04b0d135f8c8023676ea74dcf496c99d5d0bc2a5'' SOURCE_SNAPSHOT_AUDIT_DATE,
     source_snapshot_new ''https://github.com/kaspanet/rusty-kaspa'' ''tn10-toc3''
       ''1015a62359e0d06e0b3b3b7f7d06bc1bd4bf0c1b'' SOURCE_SNAPSHOT_AUDIT_DATE]"

definition package_compiled_contract ::
  "(rchar \<Rightarrow> string) \<Rightarrow> compiled_package_input \<Rightarrow> kernel_error + compiled_kernel_package" where
  "package_compiled_contract esc input =
     rbind (package esc (ci_blueprint input)) (\<lambda>kernel.
     rbind (fee_estimate_of fee_policy_default (ci_compute_grams input) (ci_transaction_bytes input) (ci_fee_assumption input))
       (\<lambda>estimate.
     Inr \<lparr>ck_schema_version = KERNEL_PACKAGE_SCHEMA_VERSION, ck_package_target = cs_target (ci_artifact input),
          ck_source_snapshots = current_source_snapshots, ck_artifact = ci_artifact input,
          ck_bytecode_hex = ci_bytecode_hex input, ck_bytecode_asm = ci_bytecode_asm input,
          ck_kernel = kernel\<lparr>kp_application := Some (ci_application input)\<rparr>, ck_fee_estimate = estimate\<rparr>))"

section \<open>Bundled data\<close>

definition current_toccata_evidence :: "source_evidence list" where
  "current_toccata_evidence =
    [
     source_evidence_new
       ''rusty-kaspa v2.0.1''
       ''https://github.com/kaspanet/rusty-kaspa/releases/tag/v2.0.1''
       N_Mainnet EL_MainnetPreActivation
       [KF_TransactionIntrospection, KF_CovenantIds, KF_SequencingCommitments, KF_ZkVerification, KF_FeePolicy]
       ''mainnet Toccata maintenance release published 2026-06-15; usable as a drop-in upgrade version for v2.0.0 nodes and pre-Toccata 1.x nodes, with seq-commit lane-proof RPC and covenant-binding refinements; activation is still scheduled and not independently verified'',
     source_evidence_new
       ''rusty-kaspa v2.0.0''
       ''https://github.com/kaspanet/rusty-kaspa/releases/tag/v2.0.0''
       N_Mainnet EL_MainnetPreActivation
       [KF_TransactionIntrospection, KF_CovenantIds, KF_SequencingCommitments, KF_ZkVerification, KF_FeePolicy]
       ''mainnet Toccata release published 2026-06-05; activation is scheduled for DAA score 474,165,565 and is not active at this audit date'',
     source_evidence_new
       ''rusty-kaspa v1.3.0-toc.5''
       ''https://github.com/kaspanet/rusty-kaspa/releases/tag/v1.3.0-toc.5''
       N_Mainnet EL_MainnetPreActivation
       [KF_FeePolicy]
       ''mainnet sanity-testing pre-release; explicitly not mainnet activation'',
     source_evidence_new
       ''rusty-kaspa PR #1000''
       ''https://github.com/kaspanet/rusty-kaspa/pull/1000''
       N_Unknown EL_MergedCode
       [KF_TransactionIntrospection, KF_CovenantIds, KF_SequencingCommitments, KF_ZkVerification]
       ''Toccata implementation merged into master'',
     source_evidence_new
       ''rusty-kaspa tn10-toc3''
       ''https://github.com/kaspanet/rusty-kaspa/releases/tag/tn10-toc3''
       N_Tn10 EL_TestnetActivation
       [KF_ZkVerification, KF_SequencingCommitments]
       ''TN10 Toccata ZK hardening activation evidence'',
     source_evidence_new
       ''KIP-17 merged file''
       ''https://github.com/kaspanet/kips/blob/master/kip-0017.md''
       N_Tn10 EL_TestnetActivation
       [KF_TransactionIntrospection]
       ''merged KIP status indicates implemented and activated in TN10'',
     source_evidence_new
       ''KIP-20 merged file''
       ''https://github.com/kaspanet/kips/blob/master/kip-0020.md''
       N_Tn10 EL_TestnetActivation
       [KF_CovenantIds]
       ''merged KIP status indicates implemented and activated in TN10'',
     source_evidence_new
       ''KIP-21 merged file''
       ''https://github.com/kaspanet/kips/blob/master/kip-0021.md''
       N_Tn10 EL_TestnetActivation
       [KF_SequencingCommitments]
       ''merged KIP status indicates implemented and activated in TN10'',
     source_evidence_new
       ''KaspaScript kernel artifacts''
       ''kernel/src/lib.rs''
       N_Unknown EL_BranchCode
       [KF_WalletPreview, KF_IndexerLineage]
       ''local kernel emits wallet preview and covenant lineage schema artifacts'']"

text \<open>The source unwraps the result with \<open>expect\<close>, which would panic on \<open>Inl\<close>; \<open>KS_KernelFacts\<close> shows it is \<open>Inr\<close>.\<close>

definition dagsafe_vault_builder :: blueprint where
  "dagsafe_vault_builder =
     (let fields = [
       state_field_new ''owner'' ST_PublicKey ''key authorized to release funds after the unlock DAA score'',
       state_field_new ''recovery_key'' ST_PublicKey ''emergency key for mediated recovery flow'',
       state_field_new ''unlock_daa'' ST_DaaScore ''minimum DAA score required for normal release'',
       state_field_new ''covenant_id'' ST_CovenantId ''lineage identifier carried by successor outputs'',
       state_field_new ''policy_hash'' ST_Hash ''hash of the app-level vault policy shown to the wallet''];
          transitions = [
       (
          (t_add_wallet_warning ''Deposit creates stateful covenant funds that should be tracked by covenant_id.''
          (t_add_requires (feature_requirement_new KF_IndexerLineage EL_Unknown
             ''local indexer schema is emitted by this kernel package'')
          (t_add_requires (feature_requirement_new KF_CovenantIds EL_TestnetActivation
             ''deposits must preserve covenant lineage on the target network'')
          (t_add_creates ''successor covenant output with same covenant_id''
            (transition_new ''deposit'' TK_Deposit)))))),
       (
          (t_add_wallet_warning ''Wallet must show consumed vault state, unlock_daa, and resulting owner output.''
          (t_add_requires (feature_requirement_new KF_CovenantIds EL_TestnetActivation
             ''release consumes a covenant-bound UTXO'')
          (t_add_requires (feature_requirement_new KF_TransactionIntrospection EL_TestnetActivation
             ''release checks current DAA/order context and successor output shape'')
          (t_add_signer ''owner''
          (t_add_creates ''owner-controlled output''
          (t_add_consumes ''current vault covenant output''
            (transition_new ''release_after_unlock'' TK_Spend)))))))),
       (
          (t_add_wallet_warning ''Recovery changes vault control; require explicit user confirmation.''
          (t_add_requires (feature_requirement_new KF_SequencingCommitments EL_TestnetActivation
             ''recovery policy should be ordered against accepted transaction context'')
          (t_add_requires (feature_requirement_new KF_CovenantIds EL_TestnetActivation
             ''recovery must keep lineage queryable after a mediated state change'')
          (t_add_signer ''recovery_key''
          (t_add_creates ''recovery covenant output''
          (t_add_consumes ''current vault covenant output''
            (transition_new ''emergency_recover'' TK_Recover))))))))]
      in foldl (\<lambda>b t. b_transition t b)
           (foldl (\<lambda>b e. b_evidence e b)
             (foldl (\<lambda>b f. b_state_field f b)
               (b_network N_Tn10 (define_kaspa_contract ''DAGSafeVault'')) fields)
             current_toccata_evidence)
           transitions)"

definition dagsafe_vault_blueprint :: "kernel_error + blueprint" where
  "dagsafe_vault_blueprint = b_build dagsafe_vault_builder"

end
