(* ===== verification/KS_KernelFacts.thy ===== *)
theory KS_KernelFacts
  imports KS_Kernel
begin

text \<open>
  The kernel's promises: what readiness means in terms of the evidence, that packages are total and
  their previews right, what the builder lets through, and the exact fee.
\<close>

section \<open>Evidence\<close>

definition greatest :: "('a \<Rightarrow> 'k::linorder) \<Rightarrow> 'a option \<Rightarrow> 'a list \<Rightarrow> bool" where
  "greatest key best xs \<longleftrightarrow>
     (case best of None \<Rightarrow> xs = [] | Some m \<Rightarrow> m \<in> set xs \<and> (\<forall>x \<in> set xs. key x \<le> key m))"

lemma greatest_loop:
  "greatest key best ys \<Longrightarrow>
   greatest key (foldl (\<lambda>best x. case best of None \<Rightarrow> Some x | Some y \<Rightarrow> if key y \<le> key x then Some x else Some y) best xs)
     (ys @ xs)"
proof (induction xs arbitrary: best ys)
  case (Cons x xs)
  have "greatest key (case best of None \<Rightarrow> Some x | Some y \<Rightarrow> if key y \<le> key x then Some x else Some y) (ys @ [x])"
    using Cons.prems by (cases best) (auto simp: greatest_def intro: order_trans)
  from Cons.IH [OF this] show ?case by (simp only: foldl_Cons append.simps append_assoc)
qed simp

lemma max_by_key_greatest: "greatest key (max_by_key key xs) xs"
  using greatest_loop [of key None "[]" xs] by (simp add: max_by_key_def greatest_def)

lemma best_evidence_None: "best_evidence b f = None \<longleftrightarrow> (\<forall>e \<in> set (bp_evidence b). \<not> covers e f (bp_network b))"
  using max_by_key_greatest [where key = ev_level and xs = "filter (\<lambda>e. covers e f (bp_network b)) (bp_evidence b)"]
  by (auto simp: greatest_def best_evidence_def filter_empty_conv split: option.splits)

lemma requirement_satisfied_iff:
  "requirement_satisfied b r \<longleftrightarrow>
     (\<exists>e \<in> set (bp_evidence b). covers e (fr_feature r) (bp_network b) \<and> fr_minimum_evidence r \<le> ev_level e)"
  using max_by_key_greatest [where key = ev_level and xs = "filter (\<lambda>e. covers e (fr_feature r) (bp_network b)) (bp_evidence b)"]
  by (fastforce simp: greatest_def requirement_satisfied_def best_evidence_def filter_empty_conv split: option.splits intro: order_trans)

section \<open>The report\<close>

definition all_requirements :: "blueprint \<Rightarrow> (transition \<times> feature_requirement) list" where
  "all_requirements b = concat (map (\<lambda>t. map (Pair t) (t_requirements t)) (bp_transitions b))"

lemma all_requirements_set:
  "(t, r) \<in> set (all_requirements b) \<longleftrightarrow> t \<in> set (bp_transitions b) \<and> r \<in> set (t_requirements t)"
  by (auto simp: all_requirements_def)

definition blocker_of :: "blueprint \<Rightarrow> transition \<times> feature_requirement \<Rightarrow> string list" where
  "blocker_of b tr = fst (check_requirement b (fst tr) ([], []) (snd tr))"

definition report_of :: "blueprint \<Rightarrow> transition \<times> feature_requirement \<Rightarrow> feature_readiness" where
  "report_of b tr = hd (snd (check_requirement b (fst tr) ([], []) (snd tr)))"

lemma check_requirement_eq:
  "check_requirement b t acc r = (fst acc @ blocker_of b (t, r), snd acc @ [report_of b (t, r)])"
  by (cases acc) (simp add: check_requirement_def blocker_of_def report_of_def Let_def)

lemma blocker_of_nil [simp]: "blocker_of b tr = [] \<longleftrightarrow> requirement_satisfied b (snd tr)"
  by (simp add: blocker_of_def check_requirement_def Let_def)

lemma report_of_simps [simp]:
  "fr_ready_feature (report_of b tr) = fr_feature (snd tr)"
  "fr_satisfied (report_of b tr) = requirement_satisfied b (snd tr)"
  "fr_level (report_of b tr) =
     (if requirement_satisfied b (snd tr) then RL_Verified
      else if best_evidence b (fr_feature (snd tr)) \<noteq> None then RL_Preview else RL_Blocked)"
  by (simp_all add: report_of_def check_requirement_def Let_def)

lemma check_requirements_eq:
  "foldl (\<lambda>acc t. foldl (check_requirement b t) acc (t_requirements t)) acc ts =
     (fst acc @ concat (map (blocker_of b) (concat (map (\<lambda>t. map (Pair t) (t_requirements t)) ts))),
      snd acc @ map (report_of b) (concat (map (\<lambda>t. map (Pair t) (t_requirements t)) ts)))"
proof (induction ts arbitrary: acc)
  case (Cons t ts)
  have "foldl (check_requirement b t) acc rs =
      (fst acc @ concat (map (blocker_of b) (map (Pair t) rs)), snd acc @ map (report_of b) (map (Pair t) rs))" for rs
    by (induction rs arbitrary: acc) (simp_all add: check_requirement_eq)
  with Cons show ?case by simp
qed simp

lemma readiness_report_fields:
  "rr_ready (readiness_report_of b) \<longleftrightarrow>
     \<not> mainnet_unproven b \<and> (\<forall>t \<in> set (bp_transitions b). \<forall>r \<in> set (t_requirements t). requirement_satisfied b r)"
  "rr_level (readiness_report_of b) =
     (if \<not> rr_ready (readiness_report_of b) then RL_Blocked
      else if bp_network b = N_Unknown then RL_Preview else RL_Verified)"
  "rr_features (readiness_report_of b) = map (report_of b) (all_requirements b)"
  by (auto simp: readiness_report_of_def check_requirements_eq all_requirements_def Let_def)

section \<open>Previews\<close>

lemma find_first: "x \<in> set xs \<Longrightarrow> \<exists>y. find (\<lambda>z. f z = f x) xs = Some y \<and> y \<in> set xs \<and> f y = f x"
  by (induction xs) auto

lemma preview_known:
  assumes "t \<in> set (bp_transitions b)"
  shows "\<exists>t' p. preview_transition b (t_name t) = Inr p \<and> t' \<in> set (bp_transitions b) \<and> t_name t' = t_name t \<and>
     wp_transition p = t_name t \<and> wp_consumes p = t_consumes t' \<and> wp_creates p = t_creates t' \<and> wp_signers p = t_signers t'"
  using find_first [OF assms, of t_name] by (auto simp: preview_transition_def bp_transition_def Let_def)

lemma try_map_total:
  assumes "\<And>x. x \<in> set xs \<Longrightarrow> \<exists>y. f x = Inr y \<and> P x y"
  shows "\<exists>ys. try_map f xs = Inr ys \<and> list_all2 P xs ys"
  using assms
proof (induction xs)
  case (Cons x xs)
  then obtain y ys where "f x = Inr y" "P x y" "try_map f xs = Inr ys" "list_all2 P xs ys" by (meson list.set_intros)
  then show ?case by simp
qed simp

lemma package_total:
  "\<exists>p. package esc b = Inr p \<and>
     list_all2 (\<lambda>t w. wp_transition w = t_name t \<and>
        (\<exists>t' \<in> set (bp_transitions b). t_name t' = t_name t \<and> wp_consumes w = t_consumes t' \<and>
           wp_creates w = t_creates t' \<and> wp_signers w = t_signers t')) (bp_transitions b) (kp_wallet_previews p) \<and>
     kp_blueprint p = b \<and> kp_readiness p = readiness_report_of b"
proof -
  have "\<exists>ws. try_map (\<lambda>t. preview_transition b (t_name t)) (bp_transitions b) = Inr ws \<and>
     list_all2 (\<lambda>t w. wp_transition w = t_name t \<and>
        (\<exists>t' \<in> set (bp_transitions b). t_name t' = t_name t \<and> wp_consumes w = t_consumes t' \<and>
           wp_creates w = t_creates t' \<and> wp_signers w = t_signers t')) (bp_transitions b) ws"
    by (rule try_map_total) (metis preview_known)
  then show ?thesis by (auto simp: package_def)
qed

section \<open>Properties\<close>

text \<open>C31: a blueprint is ready exactly when, on mainnet, some evidence proves activation and every requirement
  of every transition has evidence for its feature and network of at least the required strength; the
  level is then verified, or preview on an unknown network.\<close>

theorem readiness_decided:
  "(rr_ready (readiness_report_of b) \<longleftrightarrow>
     (bp_network b = N_Mainnet \<longrightarrow> (\<exists>e \<in> set (bp_evidence b). ev_level e = EL_MainnetActivation)) \<and>
     (\<forall>t \<in> set (bp_transitions b). \<forall>r \<in> set (t_requirements t). \<exists>e \<in> set (bp_evidence b).
        covers e (fr_feature r) (bp_network b) \<and> fr_minimum_evidence r \<le> ev_level e)) \<and>
   rr_level (readiness_report_of b) =
     (if \<not> rr_ready (readiness_report_of b) then RL_Blocked
      else if bp_network b = N_Unknown then RL_Preview else RL_Verified)"
proof -
  have "proves_mainnet_activation l \<longleftrightarrow> l = EL_MainnetActivation" for l by (cases l) simp_all
  then show ?thesis
    by (auto simp: readiness_report_fields(1) readiness_report_fields(2) mainnet_unproven_def requirement_satisfied_iff
          all_requirements_set)
qed

text \<open>Evidence is monotone: a blueprint that is ready stays ready when it has further evidence, in any order.\<close>

theorem more_evidence_keeps_ready:
  assumes "rr_ready (readiness_report_of b)" and "set (bp_evidence b) \<subseteq> set (bp_evidence b')"
    and "bp_network b' = bp_network b" and "bp_transitions b' = bp_transitions b"
  shows "rr_ready (readiness_report_of b')"
proof -
  have sat: "requirement_satisfied b' r" if "requirement_satisfied b r" for r
    using that assms(2,3) by (fastforce simp: requirement_satisfied_iff)
  have "mainnet_unproven b' \<Longrightarrow> mainnet_unproven b" using assms(2,3) by (auto simp: mainnet_unproven_def)
  with assms(1,4) sat show ?thesis
    by (auto simp: readiness_report_fields(1) all_requirements_def)
qed

text \<open>With the bundled evidence no blueprint is ready for mainnet, and every preview of it carries the
  activation warning.\<close>

theorem bundled_evidence_never_mainnet_ready:
  assumes "bp_network b = N_Mainnet" and "set (bp_evidence b) \<subseteq> set current_toccata_evidence"
  shows "rr_level (readiness_report_of b) = RL_Blocked \<and>
    (case preview_transition b name of
       Inl e \<Rightarrow> e = KE_UnknownTransition name
     | Inr p \<Rightarrow> ''Mainnet activation is not verified for this contract blueprint.'' \<in> set (wp_warnings p))"
proof -
  have "\<forall>e \<in> set current_toccata_evidence. \<not> proves_mainnet_activation (ev_level e)"
    by (simp add: current_toccata_evidence_def source_evidence_new_def)
  with assms have "mainnet_unproven b" by (auto simp: mainnet_unproven_def)
  then show ?thesis
    by (simp add: readiness_report_fields(1,2) preview_transition_def Let_def split: option.split)
qed

text \<open>C36: a package is always built; its previews name the transitions in order, and when the names differ each
  preview shows its own transition's inputs, outputs and signers.\<close>

theorem package_previews_transitions:
  "\<exists>p. package esc b = Inr p \<and> map wp_transition (kp_wallet_previews p) = map t_name (bp_transitions b) \<and>
     (distinct (map t_name (bp_transitions b)) \<longrightarrow>
        map (\<lambda>w. (wp_consumes w, wp_creates w, wp_signers w)) (kp_wallet_previews p) =
        map (\<lambda>t. (t_consumes t, t_creates t, t_signers t)) (bp_transitions b))"
proof -
  obtain p where p: "package esc b = Inr p"
    "list_all2 (\<lambda>t w. wp_transition w = t_name t \<and>
        (\<exists>t' \<in> set (bp_transitions b). t_name t' = t_name t \<and> wp_consumes w = t_consumes t' \<and>
           wp_creates w = t_creates t' \<and> wp_signers w = t_signers t')) (bp_transitions b) (kp_wallet_previews p)"
    using package_total [of esc b] by blast
  have "map wp_transition (kp_wallet_previews p) = map t_name (bp_transitions b)"
    using p(2) by (auto simp: list_all2_conv_all_nth intro: nth_equalityI)
  moreover have "map (\<lambda>w. (wp_consumes w, wp_creates w, wp_signers w)) (kp_wallet_previews p) =
        map (\<lambda>t. (t_consumes t, t_creates t, t_signers t)) (bp_transitions b)"
    if d: "distinct (map t_name (bp_transitions b))"
  proof (rule nth_equalityI)
    show "length (map (\<lambda>w. (wp_consumes w, wp_creates w, wp_signers w)) (kp_wallet_previews p)) =
        length (map (\<lambda>t. (t_consumes t, t_creates t, t_signers t)) (bp_transitions b))"
      using p(2) by (auto simp: list_all2_conv_all_nth)
    fix i
    assume "i < length (map (\<lambda>w. (wp_consumes w, wp_creates w, wp_signers w)) (kp_wallet_previews p))"
    then have i: "i < length (kp_wallet_previews p)" "i < length (bp_transitions b)"
      using p(2) by (auto simp: list_all2_conv_all_nth)
    with p(2) obtain t' where t': "t' \<in> set (bp_transitions b)" "t_name t' = t_name (bp_transitions b ! i)"
      "wp_consumes (kp_wallet_previews p ! i) = t_consumes t'" "wp_creates (kp_wallet_previews p ! i) = t_creates t'"
      "wp_signers (kp_wallet_previews p ! i) = t_signers t'"
      by (auto simp: list_all2_conv_all_nth)
    have "t' = bp_transitions b ! i"
      using d t'(1,2) i(2) by (auto simp: distinct_map dest: inj_onD)
    with t' i show "map (\<lambda>w. (wp_consumes w, wp_creates w, wp_signers w)) (kp_wallet_previews p) ! i =
        map (\<lambda>t. (t_consumes t, t_creates t, t_signers t)) (bp_transitions b) ! i" by simp
  qed
  ultimately show ?thesis using p(1) by blast
qed

text \<open>A blueprint whose second transition repeats the name of the first.\<close>

definition twin_blueprint :: blueprint where
  "twin_blueprint =
     b_transition (t_add_signer ''recovery'' (transition_new ''release'' TK_Spend))
       (b_transition (t_add_signer ''owner'' (transition_new ''release'' TK_Spend)) (define_kaspa_contract ''Vault''))"

theorem package_previews_transitions_witness:
  "\<exists>p. package id (b_transition (t_add_signer ''owner'' (transition_new ''release'' TK_Spend)) (define_kaspa_contract ''Vault'')) = Inr p \<and>
     map wp_signers (kp_wallet_previews p) = [[''owner'']]"
  using package_previews_transitions [of id "b_transition (t_add_signer ''owner'' (transition_new ''release'' TK_Spend)) (define_kaspa_contract ''Vault'')"]
  by (auto simp: b_transition_def define_kaspa_contract_def blueprint_builder_def t_add_signer_def transition_new_def)

text \<open>The builder accepts two transitions of one name, and the package then shows the first one's signers
  for both.\<close>

theorem duplicate_names_show_first_signers:
  "b_build twin_blueprint = Inr twin_blueprint \<and>
   (\<exists>p. package esc twin_blueprint = Inr p \<and> map wp_signers (kp_wallet_previews p) = [[''owner''], [''owner'']] \<and>
     map t_signers (bp_transitions twin_blueprint) = [[''owner''], [''recovery'']])"
proof -
  have "trim ''Vault'' = ''Vault''"
    by (rule trim_no_white_space) (simp add: white_space_def is_continuation_def, blast)
  then show ?thesis
    by (simp add: twin_blueprint_def b_transition_def define_kaspa_contract_def blueprint_builder_def t_add_signer_def
        transition_new_def b_build_def package_def preview_transition_def bp_transition_def Let_def)
qed

section \<open>The builder\<close>

text \<open>What a client can do to a builder it started.\<close>

inductive built :: "string \<Rightarrow> blueprint \<Rightarrow> bool" for name where
  built_start: "built name (define_kaspa_contract name)"
| built_network: "built name b \<Longrightarrow> built name (b_network n b)"
| built_state_field: "built name b \<Longrightarrow> built name (b_state_field f b)"
| built_transition: "built name b \<Longrightarrow> built name (b_transition t b)"
| built_evidence: "built name b \<Longrightarrow> built name (b_evidence e b)"

lemma built_name: "built name b \<Longrightarrow> bp_name b = name"
  by (induction rule: built.induct)
     (simp_all add: define_kaspa_contract_def blueprint_builder_def b_network_def b_state_field_def b_transition_def b_evidence_def)



section \<open>Fees\<close>

text \<open>The minimum fee is the exact product of the rate and the greater of the compute grams and twice the bytes,
  and the overflow error is raised exactly when a factor or the product leaves 64 bits.\<close>

theorem minimum_standard_fee_exact:
  "(minimum_standard_fee policy grams bytes = Inr fee \<longleftrightarrow>
      2 * unat bytes < 2 ^ 64 \<and> max (unat grams) (2 * unat bytes) * unat (fp_sompi_per_unit policy) < 2 ^ 64 \<and>
      unat fee = max (unat grams) (2 * unat bytes) * unat (fp_sompi_per_unit policy)) \<and>
   (minimum_standard_fee policy grams bytes = Inl KE_ArithmeticOverflow \<longleftrightarrow>
      2 ^ 64 \<le> 2 * unat bytes \<or> 2 ^ 64 \<le> max (unat grams) (2 * unat bytes) * unat (fp_sompi_per_unit policy))"
proof -
  have max_unat: "unat (max a c) = max (unat a) (unat c)" for a c :: u64
    by (simp add: max_def word_le_nat_alt)
  show ?thesis
  proof (cases "checked_mul bytes 2")
    case None
    then have "2 ^ 64 \<le> 2 * unat bytes" by (auto simp: checked_mul_def split: if_splits)
    with None show ?thesis by (simp add: minimum_standard_fee_def)
  next
    case (Some n)
    then have n: "unat bytes * 2 < 2 ^ 64" "unat n = unat bytes * 2" by (simp_all add: checked_mul_unat)
    let ?u = "max grams n"
    have u: "unat ?u = max (unat grams) (2 * unat bytes)" by (simp add: max_unat n(2) mult.commute)
    show ?thesis
    proof (cases "checked_mul ?u (fp_sompi_per_unit policy)")
      case None
      then have "2 ^ 64 \<le> max (unat grams) (2 * unat bytes) * unat (fp_sompi_per_unit policy)"
        by (auto simp: checked_mul_def u split: if_splits)
      with Some None show ?thesis by (simp add: minimum_standard_fee_def)
    next
      case (Some f)
      then have "unat ?u * unat (fp_sompi_per_unit policy) < 2 ^ 64" "unat f = unat ?u * unat (fp_sompi_per_unit policy)"
        by (simp_all add: checked_mul_unat)
      with Some \<open>checked_mul bytes 2 = Some n\<close> n show ?thesis
        by (auto simp: minimum_standard_fee_def u word_unat_eq_iff mult.commute)
    qed
  qed
qed

section \<open>Capabilities\<close>

lemma push_unique_fold:
  "distinct acc \<Longrightarrow> distinct (foldl (\<lambda>fs x. push_unique fs (f x)) acc xs) \<and>
     set (foldl (\<lambda>fs x. push_unique fs (f x)) acc xs) = set acc \<union> f ` set xs"
  by (induction xs arbitrary: acc) (auto simp: push_unique_def)

lemma required_features:
  "foldl (\<lambda>fs t. foldl (\<lambda>fs r. push_unique fs (fr_feature r)) fs (t_requirements t)) acc ts =
     foldl (\<lambda>fs tr. push_unique fs (fr_feature (snd tr))) acc (concat (map (\<lambda>t. map (Pair t) (t_requirements t)) ts))"
proof (induction ts arbitrary: acc)
  case (Cons t ts)
  have "foldl (\<lambda>fs r. push_unique fs (fr_feature r)) acc rs =
      foldl (\<lambda>fs tr. push_unique fs (fr_feature (snd tr))) acc (map (Pair t) rs)" for rs :: "feature_requirement list"
    by (induction rs arbitrary: acc) simp_all
  then show ?case by (simp only: foldl.simps list.map concat.simps foldl_append Cons)
qed simp

lemma feature_level:
  "(if \<exists>p \<in> set (filter (\<lambda>p. fr_ready_feature p = f) (map (report_of b) trs)). fr_level p = RL_Blocked then RL_Blocked
    else if \<exists>p \<in> set (filter (\<lambda>p. fr_ready_feature p = f) (map (report_of b) trs)). fr_level p = RL_Preview then RL_Preview
    else RL_Verified) =
   (if \<forall>tr \<in> set trs. fr_feature (snd tr) = f \<longrightarrow> requirement_satisfied b (snd tr) then RL_Verified
    else if best_evidence b f = None then RL_Blocked else RL_Preview)"
proof -
  have "best_evidence b (fr_feature r) = None \<Longrightarrow> \<not> requirement_satisfied b r" for r
    by (simp add: requirement_satisfied_def)
  then show ?thesis by (fastforce split: if_splits)
qed

text \<open>A capability profile lists each required feature once, and rates it verified exactly when every requirement
  on it is met, blocked when one is not and nothing covers the feature, and preview otherwise.\<close>

theorem capability_features_rated:
  "distinct (map cf_feature (capability_features b (readiness_report_of b))) \<and>
   set (map cf_feature (capability_features b (readiness_report_of b))) =
     {fr_feature r |r t. t \<in> set (bp_transitions b) \<and> r \<in> set (t_requirements t)} \<and>
   (\<forall>cf \<in> set (capability_features b (readiness_report_of b)).
      cf_level cf =
        (if \<forall>t \<in> set (bp_transitions b). \<forall>r \<in> set (t_requirements t). fr_feature r = cf_feature cf \<longrightarrow>
              (\<exists>e \<in> set (bp_evidence b). covers e (fr_feature r) (bp_network b) \<and> fr_minimum_evidence r \<le> ev_level e)
         then RL_Verified
         else if \<forall>e \<in> set (bp_evidence b). \<not> covers e (cf_feature cf) (bp_network b) then RL_Blocked
         else RL_Preview))"
proof -
  let ?fs = "foldl (\<lambda>fs tr. push_unique fs (fr_feature (snd tr))) [] (all_requirements b)"
  have caps: "capability_features b (readiness_report_of b) =
      map (\<lambda>f. \<lparr>cf_feature = f,
        cf_level = (if \<forall>tr \<in> set (all_requirements b). fr_feature (snd tr) = f \<longrightarrow> requirement_satisfied b (snd tr) then RL_Verified
                    else if best_evidence b f = None then RL_Blocked else RL_Preview),
        cf_best_evidence = map_option ev_level (best_evidence b f), cf_description = feature_description f\<rparr>) ?fs"
    by (simp only: capability_features_def Let_def readiness_report_fields(3) feature_level required_features
        all_requirements_def)
  have "distinct ?fs" "set ?fs = (\<lambda>tr. fr_feature (snd tr)) ` set (all_requirements b)"
    using push_unique_fold [of "[]" "\<lambda>tr. fr_feature (snd tr)" "all_requirements b"] by simp_all
  moreover have "(\<lambda>tr. fr_feature (snd tr)) ` set (all_requirements b) =
      {fr_feature r |r t. t \<in> set (bp_transitions b) \<and> r \<in> set (t_requirements t)}"
    by (auto simp: all_requirements_def image_iff) blast
  ultimately have fs: "distinct ?fs" "set ?fs = {fr_feature r |r t. t \<in> set (bp_transitions b) \<and> r \<in> set (t_requirements t)}"
    by simp_all
  have met: "(\<forall>tr \<in> set (all_requirements b). fr_feature (snd tr) = f \<longrightarrow> requirement_satisfied b (snd tr)) \<longleftrightarrow>
      (\<forall>t \<in> set (bp_transitions b). \<forall>r \<in> set (t_requirements t). fr_feature r = f \<longrightarrow>
         (\<exists>e \<in> set (bp_evidence b). covers e (fr_feature r) (bp_network b) \<and> fr_minimum_evidence r \<le> ev_level e))" for f
    by (auto simp: all_requirements_def requirement_satisfied_iff)
  show ?thesis
    unfolding caps met best_evidence_None using fs by (simp add: comp_def) blast
qed

section \<open>The bundled vault\<close>

text \<open>The bundled vault builds, is verified on TN10 with the bundled evidence, and is blocked when its network is
  set to mainnet.\<close>

theorem dagsafe_vault_posture:
  "dagsafe_vault_blueprint = Inr dagsafe_vault_builder \<and>
   rr_level (readiness_report_of dagsafe_vault_builder) = RL_Verified \<and>
   rr_level (readiness_report_of (with_network N_Mainnet dagsafe_vault_builder)) = RL_Blocked"
  by code_simp

lemma vault_ready: "rr_ready (readiness_report_of dagsafe_vault_builder)"
  by code_simp

theorem readiness_decided_witness:
  "rr_level (readiness_report_of dagsafe_vault_builder) = RL_Verified \<and>
   rr_level (readiness_report_of (b_network N_Mainnet (define_kaspa_contract ''Vault''))) = RL_Blocked"
proof -
  have "bp_network dagsafe_vault_builder = N_Tn10" by code_simp
  moreover have "bp_network (b_network N_Mainnet (define_kaspa_contract ''Vault'')) = N_Mainnet"
    "bp_evidence (b_network N_Mainnet (define_kaspa_contract ''Vault'')) = []"
    by (simp_all add: b_network_def define_kaspa_contract_def blueprint_builder_def)
  ultimately show ?thesis
    using readiness_decided [of dagsafe_vault_builder] readiness_decided [of "b_network N_Mainnet (define_kaspa_contract ''Vault'')"]
      vault_ready by simp
qed

theorem more_evidence_keeps_ready_witness:
  "rr_ready (readiness_report_of (b_evidence (source_evidence_new [] [] N_Tn10 EL_DocsSignal [] []) dagsafe_vault_builder))"
  by (rule more_evidence_keeps_ready [OF vault_ready]) (auto simp: b_evidence_def)

theorem bundled_evidence_never_mainnet_ready_witness:
  "rr_level (readiness_report_of (with_network N_Mainnet dagsafe_vault_builder)) = RL_Blocked \<and>
    (case preview_transition (with_network N_Mainnet dagsafe_vault_builder) ''deposit'' of
       Inl e \<Rightarrow> e = KE_UnknownTransition ''deposit''
     | Inr p \<Rightarrow> ''Mainnet activation is not verified for this contract blueprint.'' \<in> set (wp_warnings p))"
proof (rule bundled_evidence_never_mainnet_ready)
  have "foldl (\<lambda>b t. b_transition t b) b ts = b\<lparr>bp_transitions := bp_transitions b @ ts\<rparr>"
    "foldl (\<lambda>b e. b_evidence e b) b es = b\<lparr>bp_evidence := bp_evidence b @ es\<rparr>"
    "foldl (\<lambda>b f. b_state_field f b) b fs = b\<lparr>bp_state := bp_state b @ fs\<rparr>" for b :: blueprint and ts es fs
    by (induction ts arbitrary: b, simp_all add: b_transition_def)
       (induction es arbitrary: b, simp_all add: b_evidence_def, induction fs arbitrary: b, simp_all add: b_state_field_def)
  then have "bp_evidence dagsafe_vault_builder = current_toccata_evidence"
    by (simp add: dagsafe_vault_builder_def b_network_def define_kaspa_contract_def blueprint_builder_def del: foldl.simps)
  then show "set (bp_evidence (with_network N_Mainnet dagsafe_vault_builder)) \<subseteq> set current_toccata_evidence"
    by (simp add: with_network_def)
qed (simp add: with_network_def)

theorem capability_features_rated_witness:
  "distinct (map cf_feature (capability_features dagsafe_vault_builder (readiness_report_of dagsafe_vault_builder))) \<and>
   KF_CovenantIds \<in> set (map cf_feature (capability_features dagsafe_vault_builder (readiness_report_of dagsafe_vault_builder)))"
proof -
  have "\<exists>t \<in> set (bp_transitions dagsafe_vault_builder). \<exists>r \<in> set (t_requirements t). fr_feature r = KF_CovenantIds"
    by code_simp
  with capability_features_rated [of dagsafe_vault_builder] show ?thesis by fastforce
qed

end
