(* ===== verification/KS_Protocol.thy ===== *)
theory KS_Protocol
  imports KS_Model KS_Errors
begin

text \<open>
  Protocol manifests (\<open>compiler/protocol/src/lib.rs\<close>): the features a protocol target supports, the
  validation of a program's requirements against them, and the bundled manifests.
\<close>

datatype protocol_network = PN_Tn12 | PN_Mainnet

datatype protocol_feature =
  PF_BaseScript | PF_TransactionIntrospection | PF_CovenantIds | PF_SequencingCommitments | PF_ZkVerification

datatype feature_status = FS_Stable | FS_ActiveTestnet | FS_PendingActivation | FS_Unpinned | FS_Unsupported

record feature_spec =
  fsp_feature :: protocol_feature
  fsp_status :: feature_status
  fsp_source :: string

record protocol_limits =
  pl_max_source_bytes :: nat
  pl_max_contracts :: nat
  pl_max_params_per_contract :: nat
  pl_max_spends_per_contract :: nat
  pl_max_spend_params :: nat
  pl_max_requires_per_spend :: nat
  pl_max_expression_depth :: nat

definition protocol_limits_default :: protocol_limits where
  "protocol_limits_default =
     \<lparr>pl_max_source_bytes = 256 * 1024, pl_max_contracts = 128, pl_max_params_per_contract = 256,
      pl_max_spends_per_contract = 128, pl_max_spend_params = 64, pl_max_requires_per_spend = 256,
      pl_max_expression_depth = 64\<rparr>"

record protocol_manifest =
  pm_name :: string
  pm_network :: protocol_network
  pm_source_commit :: "string option"
  pm_features :: "feature_spec list"
  pm_limits :: protocol_limits
  pm_bytecode_emission_allowed :: bool

datatype protocol_error =
    PE_MissingFeatures "protocol_feature list"
  | PE_UnpinnedFeatures "protocol_feature list"
  | PE_BytecodeEmissionLocked string

text \<open>\<open>matches!(status, Unpinned | Unsupported)\<close>.\<close>

fun locked_status :: "feature_status \<Rightarrow> bool" where
  "locked_status FS_Unpinned = True"
| "locked_status FS_Unsupported = True"
| "locked_status _ = False"

definition pm_supports :: "protocol_manifest \<Rightarrow> protocol_feature \<Rightarrow> bool" where
  "pm_supports m feature \<longleftrightarrow>
     (\<exists>spec \<in> set (pm_features m). fsp_feature spec = feature \<and> \<not> locked_status (fsp_status spec))"

definition pm_feature_status :: "protocol_manifest \<Rightarrow> protocol_feature \<Rightarrow> feature_status option" where
  "pm_feature_status m feature = map_option fsp_status (find (\<lambda>spec. fsp_feature spec = feature) (pm_features m))"

text \<open>One turn of the loop of \<open>validate_requirements\<close>: the missing and the unpinned features so far.\<close>

definition classify_requirement ::
  "protocol_manifest \<Rightarrow> protocol_feature list \<times> protocol_feature list \<Rightarrow> protocol_feature \<Rightarrow>
     protocol_feature list \<times> protocol_feature list" where
  "classify_requirement m acc requirement =
     (let (missing, unpinned) = acc
      in case pm_feature_status m requirement of
           Some status \<Rightarrow> if locked_status status then (missing, unpinned @ [requirement]) else (missing, unpinned)
         | None \<Rightarrow> (missing @ [requirement], unpinned))"

definition validate_requirements :: "protocol_manifest \<Rightarrow> protocol_feature list \<Rightarrow> protocol_error + unit" where
  "validate_requirements m requirements =
     (let (missing, unpinned) = foldl (classify_requirement m) ([], []) requirements
      in if missing \<noteq> [] then Inl (PE_MissingFeatures missing)
         else if unpinned \<noteq> [] then Inl (PE_UnpinnedFeatures unpinned)
         else Inr ())"

definition ensure_bytecode_emission_allowed :: "protocol_manifest \<Rightarrow> protocol_error + unit" where
  "ensure_bytecode_emission_allowed m =
     (if pm_bytecode_emission_allowed m then Inr () else Inl (PE_BytecodeEmissionLocked (pm_name m)))"


fun show_protocol_feature :: "protocol_feature \<Rightarrow> string" where
  "show_protocol_feature PF_BaseScript = ''base-script''"
| "show_protocol_feature PF_TransactionIntrospection = ''transaction-introspection''"
| "show_protocol_feature PF_CovenantIds = ''covenant-ids''"
| "show_protocol_feature PF_SequencingCommitments = ''sequencing-commitments''"
| "show_protocol_feature PF_ZkVerification = ''zk-verification''"

definition format_features :: "protocol_feature list \<Rightarrow> string" where
  "format_features features = join_with '', '' (map show_protocol_feature features)"

fun protocol_error_display :: "protocol_error \<Rightarrow> string" where
  "protocol_error_display (PE_MissingFeatures features) =
     ''protocol target does not support: '' @ format_features features"
| "protocol_error_display (PE_UnpinnedFeatures features) =
     ''protocol target has unpinned feature definitions: '' @ format_features features"
| "protocol_error_display (PE_BytecodeEmissionLocked manifest) =
     ''bytecode emission is locked for protocol manifest '' @ bt manifest @
     '' until consensus opcode definitions are pinned''"

section \<open>The bundled manifests\<close>

definition verified_tn12_manifest :: protocol_manifest where
  "verified_tn12_manifest =
     \<lparr>pm_name = ''verified-tn12'', pm_network = PN_Tn12,
      pm_source_commit = Some ''rusty-kaspa:a07d8b38d45f38a02a1f35f601e874358f6c7846'',
      pm_features =
       [\<lparr>fsp_feature = PF_BaseScript, fsp_status = FS_ActiveTestnet,
         fsp_source = ''kaspanet/rusty-kaspa crypto/txscript/src/opcodes/mod.rs''\<rparr>,
        \<lparr>fsp_feature = PF_TransactionIntrospection, fsp_status = FS_ActiveTestnet,
         fsp_source = ''kaspanet/kips kip-0010.md and rusty-kaspa txscript opcodes''\<rparr>,
        \<lparr>fsp_feature = PF_CovenantIds, fsp_status = FS_Unsupported,
         fsp_source = ''unsupported for verified-tn12; current Toccata sources are not lowered by KaspaScript''\<rparr>,
        \<lparr>fsp_feature = PF_SequencingCommitments, fsp_status = FS_Stable,
         fsp_source = ''kaspanet/kips kip-0015.md block-header commitment, not script opcode''\<rparr>,
        \<lparr>fsp_feature = PF_ZkVerification, fsp_status = FS_Unsupported,
         fsp_source = ''unsupported for verified-tn12; current Toccata ZK precompile stack ABI is not lowered by KaspaScript''\<rparr>],
      pm_limits = protocol_limits_default, pm_bytecode_emission_allowed = True\<rparr>"

definition toccata_tn12_manifest :: protocol_manifest where
  "toccata_tn12_manifest = verified_tn12_manifest"

text \<open>The loop over \<open>&mut manifest.features\<close>, and the update of the first sequencing entry.\<close>

definition unpin_preview_feature :: "feature_spec \<Rightarrow> feature_spec" where
  "unpin_preview_feature spec =
     (if fsp_feature spec = PF_CovenantIds \<or> fsp_feature spec = PF_ZkVerification
      then spec\<lparr>fsp_status := FS_Unpinned,
           fsp_source := ''preview-gated; current upstream Toccata source exists, KaspaScript lowering is not implemented''\<rparr>
      else spec)"

fun update_first :: "('a \<Rightarrow> bool) \<Rightarrow> ('a \<Rightarrow> 'a) \<Rightarrow> 'a list \<Rightarrow> 'a list" where
  "update_first P f [] = []"
| "update_first P f (x # xs) = (if P x then f x # xs else x # update_first P f xs)"

definition toccata_preview_manifest :: protocol_manifest where
  "toccata_preview_manifest =
     (let m = verified_tn12_manifest\<lparr>pm_name := ''toccata-preview'', pm_bytecode_emission_allowed := True\<rparr>;
          m = m\<lparr>pm_features := map unpin_preview_feature (pm_features m)\<rparr>
      in m\<lparr>pm_features :=
           update_first (\<lambda>spec. fsp_feature spec = PF_SequencingCommitments)
             (\<lambda>spec. spec\<lparr>fsp_source :=
                ''kaspanet/kips kip-0021 and rusty-kaspa OpChainblockSeqCommit; contract lowering remains gated''\<rparr>)
             (pm_features m)\<rparr>)"

definition future_mainnet_manifest :: protocol_manifest where
  "future_mainnet_manifest =
     verified_tn12_manifest\<lparr>pm_name := ''future-mainnet'', pm_network := PN_Mainnet, pm_bytecode_emission_allowed := False\<rparr>"

section \<open>Properties\<close>

lemma classify_requirements:
  "foldl (classify_requirement m) (ms, us) rs =
     (ms @ filter (\<lambda>r. pm_feature_status m r = None) rs,
      us @ filter (\<lambda>r. case pm_feature_status m r of Some s \<Rightarrow> locked_status s | None \<Rightarrow> False) rs)"
  by (induction rs arbitrary: ms us) (auto simp: classify_requirement_def split: option.splits)

lemma find_unique:
  assumes "distinct (map f xs)" and "x \<in> set xs"
  shows "find (\<lambda>y. f y = f x) xs = Some x"
  using assms by (induction xs) (auto simp: image_iff)

lemma supports_status:
  assumes "distinct (map fsp_feature (pm_features m))"
  shows "pm_supports m r \<longleftrightarrow> (\<exists>s. pm_feature_status m r = Some s \<and> \<not> locked_status s)"
proof
  assume "pm_supports m r"
  then obtain spec where "spec \<in> set (pm_features m)" "fsp_feature spec = r" "\<not> locked_status (fsp_status spec)"
    by (auto simp: pm_supports_def)
  with find_unique [OF assms this(1)] show "\<exists>s. pm_feature_status m r = Some s \<and> \<not> locked_status s"
    by (auto simp: pm_feature_status_def)
next
  assume "\<exists>s. pm_feature_status m r = Some s \<and> \<not> locked_status s"
  then show "pm_supports m r"
    by (auto simp: pm_feature_status_def pm_supports_def find_Some_iff)
qed



end
