(* ===== verification/KS_Sdk.thy ===== *)
theory KS_Sdk
  imports KS_Codegen KS_Kernel
begin

text \<open>
  The SDK surface (\<open>sdk/src/lib.rs\<close>): spend transactions of the preview builder, the blueprint
  derived from an artifact, and the package built from source text or from an artifact.
\<close>

section \<open>Preview transactions\<close>

datatype spend_arg = SA_Bytes "u8 list" | SA_Integer u64 | SA_Bool bool

record utxo =
  ut_outpoint :: string
  ut_value :: u64
  ut_confirmations :: u64
  ut_script_pubkey :: "u8 list"

record tx_output =
  txo_value :: u64
  txo_script_pubkey :: "u8 list"

record preview_transaction =
  tx_spend_fn :: string
  tx_inputs :: "utxo list"
  tx_outputs :: "tx_output list"
  tx_args :: "spend_arg list"

datatype tx_build_error = TB_InsufficientFinality u64 u64 | TB_EmptySpend

fun tx_build_error_display :: "tx_build_error \<Rightarrow> string" where
  "tx_build_error_display (TB_InsufficientFinality required actual) =
     ''finality depth requires '' @ show_nat (unat required) @ '' confirmations, got '' @ show_nat (unat actual)"
| "tx_build_error_display TB_EmptySpend = ''spend value is zero''"

text \<open>
  \<open>Iterator::sum\<close> on \<open>u64\<close>: an overflow panics (\<open>None\<close>) when the crate is built with overflow
  checks, as in the debug profile, and wraps otherwise, as in the release profile.
\<close>

fun sum_u64 :: "bool \<Rightarrow> u64 \<Rightarrow> u64 list \<Rightarrow> u64 option" where
  "sum_u64 debug acc [] = Some acc"
| "sum_u64 debug acc (x # xs) =
     (if debug then Option.bind (checked_add acc x) (\<lambda>acc. sum_u64 debug acc xs)
      else sum_u64 debug (acc + x) xs)"

text \<open>The loop over the inputs returns the first with too few confirmations.\<close>

definition build_spend_tx ::
  "bool \<Rightarrow> compiled_artifact \<Rightarrow> string \<Rightarrow> spend_arg list \<Rightarrow> utxo list \<Rightarrow>
     (tx_build_error + preview_transaction) option" where
  "build_spend_tx debug artifact spend_fn args utxos =
     (case sum_u64 debug 0 (map ut_value utxos) of
        None \<Rightarrow> None
      | Some total_value \<Rightarrow>
          Some
            (if total_value = 0 then Inl TB_EmptySpend
             else
               rbind
                 (case ca_finality_depth artifact of
                    None \<Rightarrow> Inr ()
                  | Some required \<Rightarrow>
                      (case find (\<lambda>u. ut_confirmations u < required) utxos of
                         None \<Rightarrow> Inr ()
                       | Some u \<Rightarrow> Inl (TB_InsufficientFinality required (ut_confirmations u))))
                 (\<lambda>_. Inr \<lparr>tx_spend_fn = spend_fn, tx_inputs = utxos,
                       tx_outputs = [\<lparr>txo_value = total_value, txo_script_pubkey = ca_bytecode artifact\<rparr>],
                       tx_args = args\<rparr>)))"

section \<open>The blueprint of an artifact\<close>

datatype package_error = PKE_Codegen codegen_error | PKE_Kernel kernel_error

fun package_error_display :: "package_error \<Rightarrow> string" where
  "package_error_display (PKE_Codegen e) = ''code generation error: '' @ codegen_error_display e"
| "package_error_display (PKE_Kernel e) = ''kernel package error: '' @ kernel_error_display e"

record package_options =
  po_target :: target
  po_compute_grams :: u64
  po_tx_bytes :: "u64 option"

definition package_options_new :: "target \<Rightarrow> package_options" where
  "package_options_new t = \<lparr>po_target = t, po_compute_grams = 0, po_tx_bytes = None\<rparr>"

definition package_options_default :: package_options where
  "package_options_default = \<lparr>po_target = VerifiedTn12, po_compute_grams = 0, po_tx_bytes = None\<rparr>"

definition with_compute_grams :: "u64 \<Rightarrow> package_options \<Rightarrow> package_options" where
  "with_compute_grams compute_grams options = options\<lparr>po_compute_grams := compute_grams\<rparr>"

definition with_tx_bytes :: "u64 \<Rightarrow> package_options \<Rightarrow> package_options" where
  "with_tx_bytes tx_bytes options = options\<lparr>po_tx_bytes := Some tx_bytes\<rparr>"

definition compile_application :: "environment \<Rightarrow> string \<Rightarrow> string \<Rightarrow> codegen_error + application_model" where
  "compile_application env src file = rbind (compile_file env src file) (\<lambda>artifact. Inr (ca_application artifact))"

definition artifact_summary :: "compiled_artifact \<Rightarrow> compiled_artifact_summary" where
  "artifact_summary artifact =
     \<lparr>cs_backend = ca_backend artifact, cs_target = ca_target artifact, cs_compiler_version = ca_compiler_version artifact,
      cs_bytecode_bytes = length (ca_bytecode artifact), cs_finality_depth = ca_finality_depth artifact,
      cs_kip_requirements = ca_kip_requirements artifact, cs_contracts = map arc_name (ca_contracts artifact),
      cs_spends = concat (map (\<lambda>contract. map (\<lambda>spend. arc_name contract @ ''.'' @ ars_name spend) (arc_spends contract))
        (ca_contracts artifact)),
      cs_application_schema_version = am_schema_version (ca_application artifact)\<rparr>"

definition network_from_target :: "string \<Rightarrow> network" where
  "network_from_target target =
     (if target = ''verified-tn12'' then N_Tn12
      else if target = ''tn10-toccata'' then N_Tn10
      else if target = ''future-mainnet'' then N_Mainnet
      else N_Unknown)"

fun state_type_from_type_name :: "type_name \<Rightarrow> state_type" where
  "state_type_from_type_name T_PublicKey = ST_PublicKey"
| "state_type_from_type_name T_Signature = ST_Signature"
| "state_type_from_type_name T_Hash = ST_Hash"
| "state_type_from_type_name T_BlockHeight = ST_BlockHeight"
| "state_type_from_type_name T_Amount = ST_Sompi"
| "state_type_from_type_name T_Bool = ST_Bool"
| "state_type_from_type_name T_Bytes = ST_Bytes"
| "state_type_from_type_name T_CovenantID = ST_CovenantId"
| "state_type_from_type_name _ = ST_Bytes"

text \<open>\<open>str::split\<close> on a byte, and \<open>Path::file_stem\<close> on a Unix path.\<close>

fun split_on :: "char \<Rightarrow> string \<Rightarrow> string list" where
  "split_on c [] = [[]]"
| "split_on c (x # xs) =
     (if x = c then [] # split_on c xs
      else case split_on c xs of [] \<Rightarrow> [[x]] | part # parts \<Rightarrow> (x # part) # parts)"

definition file_name :: "string \<Rightarrow> string option" where
  "file_name path =
     (case rev (filter (\<lambda>part. part \<noteq> [] \<and> part \<noteq> ''.'') (split_on CHR ''/'' path)) of
        [] \<Rightarrow> None
      | name # _ \<Rightarrow> if name = ''..'' then None else Some name)"

definition file_stem :: "string \<Rightarrow> string option" where
  "file_stem path =
     map_option (\<lambda>name.
       let before = rev (drop 1 (dropWhile (\<lambda>c. c \<noteq> CHR ''.'') (rev name)))
       in if before = [] then name else before) (file_name path)"

text \<open>\<open>upper\<close> is \<open>char::to_uppercase\<close> on a character beyond ASCII.\<close>

definition to_uppercase :: "(rchar \<Rightarrow> string) \<Rightarrow> rchar \<Rightarrow> string" where
  "to_uppercase upper c =
     (case c of
        [b] \<Rightarrow> (let n = of_char b :: nat in if 97 \<le> n \<and> n \<le> 122 then [char_of (n - 32)] else [b])
      | _ \<Rightarrow> upper c)"

definition contract_name_from_path :: "(rchar \<Rightarrow> string) \<Rightarrow> string \<Rightarrow> string" where
  "contract_name_from_path upper path =
     (case file_stem path of
        None \<Rightarrow> ''Contract''
      | Some stem \<Rightarrow>
          concat (map (\<lambda>part. case chars part of [] \<Rightarrow> [] | first # rest \<Rightarrow> to_uppercase upper first @ concat rest)
            (filter (\<lambda>part. part \<noteq> []) (split_on CHR ''_'' stem))))"

definition local_artifact_evidence :: "string \<Rightarrow> network \<Rightarrow> compiled_artifact \<Rightarrow> source_evidence" where
  "local_artifact_evidence source_path network artifact =
     source_evidence_new ''KaspaScript compiled artifact'' source_path network EL_BranchCode
       ([KF_BaseScript, KF_WalletPreview, KF_IndexerLineage] @
        (if 10 \<in> set (ca_kip_requirements artifact) then [KF_TransactionIntrospection] else []))
       ''local compiler artifact verified before kernel package emission''"

definition state_field_of :: "compiled_artifact \<Rightarrow> artifact_contract \<Rightarrow> artifact_param \<Rightarrow> state_field" where
  "state_field_of artifact contract param =
     state_field_new
       (if length (ca_contracts artifact) = 1 then arp_name param else arc_name contract @ ''.'' @ arp_name param)
       (state_type_from_type_name (arp_ty param))
       (''compiled parameter from contract '' @ arc_name contract)"

text \<open>What the application model adds to a transition.\<close>

definition describe_semantics ::
  "(rchar \<Rightarrow> string) \<Rightarrow> artifact_contract \<Rightarrow> transition_model option \<Rightarrow> transition \<Rightarrow> transition" where
  "describe_semantics esc contract semantics t =
     (case semantics of
        None \<Rightarrow>
          t_add_creates ''application model did not resolve this spend path''
            (t_add_consumes (arc_name contract @ '' compiled locking state'') t)
      | Some semantics \<Rightarrow>
          (let shape = tm_transaction_shape semantics;
               t = (if ts_referenced_inputs shape = []
                    then t_add_consumes (arc_name contract @ '' compiled locking state'') t
                    else foldl (\<lambda>t i. t_add_consumes (''input('' @ show_nat (unat i) @ '') referenced by source'') t) t
                           (ts_referenced_inputs shape));
               t = (if tm_output_bindings semantics = []
                    then t_add_creates ''no output field is constrained by this spend path'' t
                    else foldl (\<lambda>t binding. t_add_creates (binding_text esc binding) t) t (tm_output_bindings semantics));
               t = (if ts_additional_outputs_permitted shape
                    then t_add_wallet_warning
                      ''Source does not constrain the exact output count; review every additional output and recipient.'' t
                    else t)
           in t_set_semantics semantics t))"

definition transition_of ::
  "(rchar \<Rightarrow> string) \<Rightarrow> compiled_artifact \<Rightarrow> artifact_contract \<Rightarrow> artifact_spend \<Rightarrow> transition" where
  "transition_of esc artifact contract spend =
     (let semantics = am_transition (ca_application artifact) (arc_name contract) (ars_name spend);
          t = transition_new (ars_name spend) TK_Spend;
          t = t_add_requires (feature_requirement_new KF_BaseScript EL_BranchCode
                ''compiled artifact emitted verified Kaspa txscript bytecode'') t;
          t = t_add_requires (feature_requirement_new KF_WalletPreview EL_BranchCode
                ''kernel package emits wallet preview metadata'') t;
          t = t_add_requires (feature_requirement_new KF_IndexerLineage EL_BranchCode
                ''kernel package emits indexer schema metadata'') t;
          t = t_add_wallet_warning (''Review '' @ bt (ars_name spend) @ '' as a Kaspa contract spend path before signing.'') t;
          t = describe_semantics esc contract semantics t;
          t = (if 10 \<in> set (ca_kip_requirements artifact)
               then t_add_requires (feature_requirement_new KF_TransactionIntrospection EL_BranchCode
                      ''artifact declares KIP-10 transaction introspection requirements'') t
               else t)
      in foldl (\<lambda>t param. if arp_ty param = T_Signature then t_add_signer (arp_name param) t else t) t (ars_params spend))"

text \<open>One turn of the loop over the contracts.\<close>

definition add_contract :: "(rchar \<Rightarrow> string) \<Rightarrow> compiled_artifact \<Rightarrow> blueprint \<Rightarrow> artifact_contract \<Rightarrow> blueprint" where
  "add_contract esc artifact builder contract =
     foldl (\<lambda>b spend. b_transition (transition_of esc artifact contract spend) b)
       (foldl (\<lambda>b param. b_state_field (state_field_of artifact contract param) b) builder (arc_params contract))
       (arc_spends contract)"

definition kernel_blueprint_from_artifact ::
  "(rchar \<Rightarrow> string) \<Rightarrow> (rchar \<Rightarrow> string) \<Rightarrow> string \<Rightarrow> compiled_artifact \<Rightarrow> kernel_error + blueprint" where
  "kernel_blueprint_from_artifact esc upper source_path artifact =
     (let network = network_from_target (ca_target artifact);
          contract_name =
            (case ca_contracts artifact of
               [contract] \<Rightarrow> arc_name contract
             | _ \<Rightarrow> contract_name_from_path upper source_path);
          builder = b_evidence (local_artifact_evidence source_path network artifact)
                      (b_network network (define_kaspa_contract contract_name));
          builder = foldl (\<lambda>b e. b_evidence e b) builder current_toccata_evidence
      in b_build (foldl (add_contract esc artifact) builder (ca_contracts artifact)))"

section \<open>Packages\<close>

definition build_kernel_package_from_artifact ::
  "(rchar \<Rightarrow> string) \<Rightarrow> (rchar \<Rightarrow> string) \<Rightarrow> string \<Rightarrow> compiled_artifact \<Rightarrow> package_options \<Rightarrow>
     package_error + compiled_kernel_package" where
  "build_kernel_package_from_artifact esc upper file artifact options =
     rbind (map_err PKE_Codegen (verify_artifact artifact)) (\<lambda>_.
     let transaction_bytes =
           (case po_tx_bytes options of
              Some n \<Rightarrow> n
            | None \<Rightarrow> if length (ca_bytecode artifact) < 2 ^ 64 then of_nat (length (ca_bytecode artifact)) else 2 ^ 64 - 1);
         fee_assumption =
           (if po_tx_bytes options \<noteq> None \<or> po_compute_grams options \<noteq> 0
            then ''caller-provided fee estimate inputs''
            else ''lower-bound estimate using compiled bytecode length as transaction_bytes and compute_grams=0'')
     in rbind (map_err PKE_Codegen (bytecode_asm (ca_bytecode artifact))) (\<lambda>asm.
        rbind (map_err PKE_Kernel (kernel_blueprint_from_artifact esc upper file artifact)) (\<lambda>blueprint.
        map_err PKE_Kernel
          (package_compiled_contract esc
             \<lparr>ci_artifact = artifact_summary artifact, ci_bytecode_hex = bytecode_hex (ca_bytecode artifact),
              ci_bytecode_asm = asm, ci_application = ca_application artifact, ci_blueprint = blueprint,
              ci_compute_grams = po_compute_grams options, ci_transaction_bytes = transaction_bytes,
              ci_fee_assumption = fee_assumption\<rparr>))))"

definition build_kernel_package ::
  "environment \<Rightarrow> (rchar \<Rightarrow> string) \<Rightarrow> string \<Rightarrow> string \<Rightarrow> package_options \<Rightarrow>
     package_error + compiled_kernel_package" where
  "build_kernel_package env upper src file options =
     rbind (map_err PKE_Codegen (compile_file_for_target env src file (po_target options))) (\<lambda>artifact.
     build_kernel_package_from_artifact (env_escape env) upper file artifact options)"

end
