(* ===== verification/KS_SdkFacts.thy ===== *)
theory KS_SdkFacts
  imports KS_Sdk KS_KernelFacts
begin

text \<open>
  What the SDK promises: what a preview transaction pays and when it is refused, when a package can be
  built from an artifact, and what the package then says.
\<close>

section \<open>Preview transactions\<close>

abbreviation total_of :: "u64 list \<Rightarrow> nat" where
  "total_of xs \<equiv> sum_list (map unat xs)"

lemma sum_u64_eq:
  "unat acc + total_of xs < 2 ^ 64 \<Longrightarrow> sum_u64 debug acc xs = Some (of_nat (unat acc + total_of xs))"
proof (induction xs arbitrary: acc)
  case (Cons x xs)
  then have fits: "unat acc + unat x < 2 ^ 64" by simp
  then have s: "unat (acc + x) = unat acc + unat x" by (simp add: unat_word_ariths)
  with Cons.prems have "sum_u64 debug (acc + x) xs = Some (of_nat (unat (acc + x) + total_of xs))"
    by (intro Cons.IH) simp
  with fits s show ?case by (cases debug) (simp_all add: checked_add_def algebra_simps)
qed simp

lemma sum_u64_release: "sum_u64 False acc xs = Some (of_nat (unat acc + total_of xs))"
  by (induction xs arbitrary: acc) (simp_all add: algebra_simps)

lemma sum_u64_debug_overflow: "2 ^ 64 \<le> unat acc + total_of xs \<Longrightarrow> sum_u64 True acc xs = None"
proof (induction xs arbitrary: acc)
  case Nil
  then show ?case using unsigned_less [of acc, where ?'a = nat] by simp
next
  case (Cons x xs)
  show ?case
  proof (cases "unat acc + unat x < 2 ^ 64")
    case True
    then have "unat (acc + x) = unat acc + unat x" by (simp add: unat_word_ariths)
    with True Cons show ?thesis by (simp add: checked_add_def)
  qed (simp add: checked_add_def)
qed

lemma sum_u64_cases:
  "sum_u64 debug acc xs =
     (if debug \<and> 2 ^ 64 \<le> unat acc + total_of xs then None else Some (of_nat (unat acc + total_of xs)))"
  using sum_u64_eq [of acc xs debug] sum_u64_release [of acc xs] sum_u64_debug_overflow [of acc xs]
  by (cases debug) auto


text \<open>In a release build the total wraps: two inputs of half the range are refused as an empty spend, and one sompi
  more pays a single sompi.\<close>

definition large_utxo :: "u64 \<Rightarrow> utxo" where
  "large_utxo v = \<lparr>ut_outpoint = ''a:0'', ut_value = v, ut_confirmations = 0, ut_script_pubkey = []\<rparr>"

theorem spend_total_wraps:
  "build_spend_tx False (art\<lparr>ca_finality_depth := None\<rparr>) f [] [large_utxo (2 ^ 63), large_utxo (2 ^ 63)] =
     Some (Inl TB_EmptySpend) \<and>
   (\<exists>tx. build_spend_tx False (art\<lparr>ca_finality_depth := None\<rparr>) f [] [large_utxo (2 ^ 63), large_utxo (2 ^ 63 + 1)] =
       Some (Inr tx) \<and> map txo_value (tx_outputs tx) = [1])"
  by (simp add: build_spend_tx_def large_utxo_def)

section \<open>The blueprint of an artifact\<close>

lemma foldl_transitions:
  "foldl (\<lambda>b t. b_transition (f t) b) b ts = b\<lparr>bp_transitions := bp_transitions b @ map f ts\<rparr>"
  by (induction ts arbitrary: b) (simp_all add: b_transition_def)

lemma foldl_evidence: "foldl (\<lambda>b e. b_evidence e b) b es = b\<lparr>bp_evidence := bp_evidence b @ es\<rparr>"
  by (induction es arbitrary: b) (simp_all add: b_evidence_def)

lemma foldl_state: "foldl (\<lambda>b x. b_state_field (f x) b) b xs = b\<lparr>bp_state := bp_state b @ map f xs\<rparr>"
  by (induction xs arbitrary: b) (simp_all add: b_state_field_def)

lemma add_contracts:
  "foldl (add_contract esc art) b cs =
     b\<lparr>bp_state := bp_state b @ concat (map (\<lambda>c. map (state_field_of art c) (arc_params c)) cs),
       bp_transitions := bp_transitions b @ concat (map (\<lambda>c. map (transition_of esc art c) (arc_spends c)) cs)\<rparr>"
  by (induction cs arbitrary: b) (simp_all add: add_contract_def foldl_transitions foldl_state)

text \<open>What \<open>transition_of\<close> sets, whatever the application model says.\<close>

lemma transition_updates:
  "t_name (t_add_consumes x t) = t_name t" "t_requirements (t_add_consumes x t) = t_requirements t"
  "t_signers (t_add_consumes x t) = t_signers t"
  "t_name (t_add_creates x t) = t_name t" "t_requirements (t_add_creates x t) = t_requirements t"
  "t_signers (t_add_creates x t) = t_signers t"
  "t_name (t_add_wallet_warning x t) = t_name t" "t_requirements (t_add_wallet_warning x t) = t_requirements t"
  "t_signers (t_add_wallet_warning x t) = t_signers t"
  "t_name (t_set_semantics m t) = t_name t" "t_requirements (t_set_semantics m t) = t_requirements t"
  "t_signers (t_set_semantics m t) = t_signers t"
  "t_name (t_add_requires r t) = t_name t" "t_requirements (t_add_requires r t) = t_requirements t @ [r]"
  "t_signers (t_add_requires r t) = t_signers t"
  "t_name (transition_new n k) = n" "t_requirements (transition_new n k) = []" "t_signers (transition_new n k) = []"
  by (simp_all add: t_add_consumes_def t_add_creates_def t_add_signer_def t_add_requires_def t_add_wallet_warning_def
      t_set_semantics_def transition_new_def)

lemma foldl_keeps:
  assumes "\<And>t x. g (f t x) = g t"
  shows "g (foldl f t xs) = g t"
  by (induction xs arbitrary: t) (simp_all add: assms)

lemma describe_semantics_keeps:
  "t_name (describe_semantics esc c s t) = t_name t"
  "t_requirements (describe_semantics esc c s t) = t_requirements t"
  "t_signers (describe_semantics esc c s t) = t_signers t"
  by (cases s, simp_all add: describe_semantics_def transition_updates Let_def foldl_keeps)+

lemma foldl_signers:
  "foldl (\<lambda>t param. if P param then t_add_signer (g param) t else t) t ps =
     t\<lparr>t_signers := t_signers t @ map g (filter P ps)\<rparr>"
  by (induction ps arbitrary: t) (simp_all add: t_add_signer_def)

lemma transition_of_fields:
  "t_name (transition_of esc art c s) = ars_name s"
  "t_signers (transition_of esc art c s) = map arp_name (filter (\<lambda>p. arp_ty p = T_Signature) (ars_params s))"
  "map (\<lambda>r. (fr_feature r, fr_minimum_evidence r)) (t_requirements (transition_of esc art c s)) =
     map (\<lambda>f. (f, EL_BranchCode)) (ev_features (local_artifact_evidence path n art))"
  by (simp_all add: transition_of_def Let_def foldl_signers describe_semantics_keeps transition_updates
      feature_requirement_new_def local_artifact_evidence_def source_evidence_new_def)

text \<open>The name of a package: the contract's, or one made of the file's.\<close>

definition package_name :: "(rchar \<Rightarrow> string) \<Rightarrow> string \<Rightarrow> compiled_artifact \<Rightarrow> string" where
  "package_name upper path art =
     (case ca_contracts art of [contract] \<Rightarrow> arc_name contract | _ \<Rightarrow> contract_name_from_path upper path)"

definition artifact_spends :: "compiled_artifact \<Rightarrow> artifact_spend list" where
  "artifact_spends art = concat (map arc_spends (ca_contracts art))"

lemma blueprint_Inr:
  "kernel_blueprint_from_artifact esc upper path art = Inr b \<longleftrightarrow>
     trim (package_name upper path art) \<noteq> [] \<and> artifact_spends art \<noteq> [] \<and>
     b = \<lparr>bp_name = package_name upper path art, bp_network = network_from_target (ca_target art),
          bp_state = concat (map (\<lambda>c. map (state_field_of art c) (arc_params c)) (ca_contracts art)),
          bp_transitions = concat (map (\<lambda>c. map (transition_of esc art c) (arc_spends c)) (ca_contracts art)),
          bp_evidence = local_artifact_evidence path (network_from_target (ca_target art)) art # current_toccata_evidence\<rparr>"
proof -
  have "concat (map (\<lambda>c. map (transition_of esc art c) (arc_spends c)) cs) = [] \<longleftrightarrow> concat (map arc_spends cs) = []" for cs
    by (induction cs) auto
  moreover have "foldl (\<lambda>b e. b_evidence e b) (b_evidence e (b_network n (define_kaspa_contract name))) es =
      \<lparr>bp_name = name, bp_network = n, bp_state = [], bp_transitions = [], bp_evidence = e # es\<rparr>" for name n e es
    unfolding foldl_evidence
    by (simp add: define_kaspa_contract_def blueprint_builder_def b_network_def b_evidence_def)
  ultimately show ?thesis
    unfolding kernel_blueprint_from_artifact_def Let_def add_contracts package_name_def [symmetric]
    by (auto simp: b_build_def artifact_spends_def)
qed

lemma blueprint_ready:
  assumes "kernel_blueprint_from_artifact esc upper path art = Inr b"
  shows "rr_level (readiness_report_of b) =
     (case bp_network b of N_Mainnet \<Rightarrow> RL_Blocked | N_Unknown \<Rightarrow> RL_Preview | _ \<Rightarrow> RL_Verified)"
proof -
  let ?e = "local_artifact_evidence path (network_from_target (ca_target art)) art"
  have b: "bp_network b = network_from_target (ca_target art)" "bp_evidence b = ?e # current_toccata_evidence"
    "bp_transitions b = concat (map (\<lambda>c. map (transition_of esc art c) (arc_spends c)) (ca_contracts art))"
    using assms by (auto simp: blueprint_Inr)
  have met: "requirement_satisfied b r" if t: "t \<in> set (bp_transitions b)" and r: "r \<in> set (t_requirements t)" for t r
  proof -
    obtain c s where t': "t = transition_of esc art c s" using t by (auto simp: b(3))
    have "(fr_feature r, fr_minimum_evidence r) \<in> set (map (\<lambda>r. (fr_feature r, fr_minimum_evidence r)) (t_requirements t))"
      using r by auto
    then have "fr_feature r \<in> set (ev_features ?e)" "fr_minimum_evidence r = EL_BranchCode"
      unfolding t' transition_of_fields(3) [where path = path and n = "network_from_target (ca_target art)"] by auto
    then show ?thesis
      unfolding requirement_satisfied_iff
      by (intro bexI [of _ ?e]) (simp_all add: b covers_def local_artifact_evidence_def source_evidence_new_def)
  qed
  have "\<not> proves_mainnet_activation (ev_level ?e)" by (simp add: local_artifact_evidence_def source_evidence_new_def)
  moreover have "\<forall>e \<in> set current_toccata_evidence. \<not> proves_mainnet_activation (ev_level e)"
    by (simp add: current_toccata_evidence_def source_evidence_new_def)
  ultimately have "mainnet_unproven b \<longleftrightarrow> bp_network b = N_Mainnet"
    by (auto simp: mainnet_unproven_def b(2))
  with met show ?thesis
    by (auto simp: readiness_report_fields(1,2) split: network.split)
qed

section \<open>Packages\<close>

definition estimate_bytes :: "compiled_artifact \<Rightarrow> package_options \<Rightarrow> u64" where
  "estimate_bytes art options =
     (case po_tx_bytes options of
        Some n \<Rightarrow> n
      | None \<Rightarrow> if length (ca_bytecode art) < 2 ^ 64 then of_nat (length (ca_bytecode art)) else 2 ^ 64 - 1)"

lemma fee_estimate_Inr:
  "fee_estimate_of policy grams bytes note = Inr e \<longleftrightarrow>
     (\<exists>fee. minimum_standard_fee policy grams bytes = Inr fee \<and>
        e = \<lparr>fe_policy = ''toccata-rpc-minimum-standard-fee'',
          fe_source = ''https://github.com/kaspanet/rusty-kaspa/blob/v2.0.1/docs/toccata-guide.md'',
          fe_compute_grams = grams, fe_transaction_bytes = bytes,
          fe_minimum_standard_fee_sompi = fee, fe_assumption = note\<rparr>)"
  by (auto simp: fee_estimate_of_def rbind_Inr_iff)

lemma fee_Inr_iff:
  "(\<exists>fee. minimum_standard_fee policy grams bytes = Inr fee) \<longleftrightarrow>
     2 * unat bytes < 2 ^ 64 \<and> max (unat grams) (2 * unat bytes) * unat (fp_sompi_per_unit policy) < 2 ^ 64"
proof -
  have max_unat: "unat (max a c) = max (unat a) (unat c)" for a c :: u64
    by (simp add: max_def word_le_nat_alt)
  have "unat (bytes * 2) = 2 * unat bytes" if "2 * unat bytes < 2 ^ 64"
    using that by (simp add: unat_word_ariths)
  then show ?thesis
    by (auto simp: minimum_standard_fee_def checked_mul_def max_unat mult.commute split: option.splits if_splits)
qed

lemma package_from_artifact_Inr:
  "build_kernel_package_from_artifact esc upper path art options = Inr pkg \<longleftrightarrow>
     (\<exists>asm b kp fee note. verify_artifact art = Inr () \<and> bytecode_asm (ca_bytecode art) = Inr asm \<and>
        kernel_blueprint_from_artifact esc upper path art = Inr b \<and> package esc b = Inr kp \<and>
        minimum_standard_fee fee_policy_default (po_compute_grams options) (estimate_bytes art options) = Inr fee \<and>
        pkg = \<lparr>ck_schema_version = KERNEL_PACKAGE_SCHEMA_VERSION, ck_package_target = ca_target art,
          ck_source_snapshots = current_source_snapshots, ck_artifact = artifact_summary art,
          ck_bytecode_hex = bytecode_hex (ca_bytecode art), ck_bytecode_asm = asm,
          ck_kernel = kp\<lparr>kp_application := Some (ca_application art)\<rparr>,
          ck_fee_estimate = \<lparr>fe_policy = ''toccata-rpc-minimum-standard-fee'',
            fe_source = ''https://github.com/kaspanet/rusty-kaspa/blob/v2.0.1/docs/toccata-guide.md'',
            fe_compute_grams = po_compute_grams options, fe_transaction_bytes = estimate_bytes art options,
            fe_minimum_standard_fee_sompi = fee, fe_assumption = note\<rparr>\<rparr> \<and>
        note = (if po_tx_bytes options \<noteq> None \<or> po_compute_grams options \<noteq> 0
          then ''caller-provided fee estimate inputs''
          else ''lower-bound estimate using compiled bytecode length as transaction_bytes and compute_grams=0''))"
proof -
  have target: "cs_target (artifact_summary art) = ca_target art" by (simp add: artifact_summary_def)
  show ?thesis
    unfolding build_kernel_package_from_artifact_def estimate_bytes_def [symmetric] Let_def
    by (simp add: package_compiled_contract_def rbind_Inr_iff map_err_Inr_iff fee_estimate_Inr target) blast
qed

lemma verified_asm: "verify_artifact art = Inr () \<Longrightarrow> \<exists>asm. bytecode_asm (ca_bytecode art) = Inr asm"
  by (auto simp: verify_artifact_def bytecode_asm_def rbind_Inr_iff split: if_splits)

lemma package_built_cases:
  "(\<exists>pkg. build_kernel_package_from_artifact esc upper path art options = Inr pkg) \<longleftrightarrow>
     verify_artifact art = Inr () \<and> trim (package_name upper path art) \<noteq> [] \<and> artifact_spends art \<noteq> [] \<and>
     2 * unat (estimate_bytes art options) < 2 ^ 64 \<and>
     max (unat (po_compute_grams options)) (2 * unat (estimate_bytes art options)) * 100 < 2 ^ 64"
proof -
  have rate: "unat (fp_sompi_per_unit fee_policy_default) = 100" by (simp add: fee_policy_default_def)
  have "(\<exists>pkg. build_kernel_package_from_artifact esc upper path art options = Inr pkg) \<longleftrightarrow>
      verify_artifact art = Inr () \<and> (\<exists>b. kernel_blueprint_from_artifact esc upper path art = Inr b) \<and>
      (\<exists>fee. minimum_standard_fee fee_policy_default (po_compute_grams options) (estimate_bytes art options) = Inr fee)"
    unfolding package_from_artifact_Inr using verified_asm [of art] package_total by blast
  then show ?thesis
    unfolding fee_Inr_iff rate by (simp add: blueprint_Inr)
qed

text \<open>C33: a package is built from an artifact exactly when the artifact verifies, its name is not blank, some contract has
  a spend, and the fee fits 64 bits.\<close>

theorem package_built_iff:
  "(\<exists>pkg. build_kernel_package_from_artifact esc upper path art options = Inr pkg) \<longleftrightarrow>
     verify_artifact art = Inr () \<and> trim (package_name upper path art) \<noteq> [] \<and> artifact_spends art \<noteq> [] \<and>
     2 * unat (estimate_bytes art options) < 2 ^ 64 \<and>
     max (unat (po_compute_grams options)) (2 * unat (estimate_bytes art options)) * 100 < 2 ^ 64"
  by (rule package_built_cases)

lemma package_contents:
  assumes "package esc b = Inr kp"
  shows "kp_blueprint kp = b" "kp_readiness kp = readiness_report_of b"
    "map wp_transition (kp_wallet_previews kp) = map t_name (bp_transitions b)"
proof -
  obtain p where p: "package esc b = Inr p" "list_all2 (\<lambda>t w. wp_transition w = t_name t \<and>
        (\<exists>t' \<in> set (bp_transitions b). t_name t' = t_name t \<and> wp_consumes w = t_consumes t' \<and>
           wp_creates w = t_creates t' \<and> wp_signers w = t_signers t')) (bp_transitions b) (kp_wallet_previews p)"
    "kp_blueprint p = b" "kp_readiness p = readiness_report_of b"
    using package_total [of esc b] by blast
  from assms p(1) have kp: "kp = p" by simp
  from p(2) have "map wp_transition (kp_wallet_previews p) = map t_name (bp_transitions b)"
    by (rule list_all2_induct) simp_all
  with p(3,4) show "kp_blueprint kp = b" "kp_readiness kp = readiness_report_of b"
    "map wp_transition (kp_wallet_previews kp) = map t_name (bp_transitions b)" by (simp_all add: kp)
qed

text \<open>C34: a built package rates the contract verified on a testnet target, preview on an unknown target and blocked on
  mainnet; its transitions are the artifact's spends in order, each signed by exactly its signature
  parameters, and it carries the artifact's code and application model.\<close>

theorem built_package_contents:
  assumes "build_kernel_package_from_artifact esc upper path art options = Inr pkg"
  shows "rr_level (kp_readiness (ck_kernel pkg)) =
       (case network_from_target (ca_target art) of N_Mainnet \<Rightarrow> RL_Blocked | N_Unknown \<Rightarrow> RL_Preview | _ \<Rightarrow> RL_Verified) \<and>
     map (\<lambda>t. (t_name t, t_signers t)) (bp_transitions (kp_blueprint (ck_kernel pkg))) =
       map (\<lambda>s. (ars_name s, map arp_name (filter (\<lambda>p. arp_ty p = T_Signature) (ars_params s)))) (artifact_spends art) \<and>
     map wp_transition (kp_wallet_previews (ck_kernel pkg)) = map ars_name (artifact_spends art) \<and>
     ck_bytecode_hex pkg = bytecode_hex (ca_bytecode art) \<and> kp_application (ck_kernel pkg) = Some (ca_application art)"
proof -
  from assms obtain b kp where b: "kernel_blueprint_from_artifact esc upper path art = Inr b" and kp: "package esc b = Inr kp"
    and pkg: "ck_kernel pkg = kp\<lparr>kp_application := Some (ca_application art)\<rparr>"
      "ck_bytecode_hex pkg = bytecode_hex (ca_bytecode art)"
    by (auto simp: package_from_artifact_Inr)
  note kp = package_contents [OF kp]
  have "map (\<lambda>t. (t_name t, t_signers t)) (concat (map (\<lambda>c. map (transition_of esc art c) (arc_spends c)) cs)) =
      map (\<lambda>s. (ars_name s, map arp_name (filter (\<lambda>p. arp_ty p = T_Signature) (ars_params s)))) (concat (map arc_spends cs))"
    for cs
    by (induction cs) (simp_all add: transition_of_fields comp_def)
  then have sig: "map (\<lambda>t. (t_name t, t_signers t)) (bp_transitions b) =
      map (\<lambda>s. (ars_name s, map arp_name (filter (\<lambda>p. arp_ty p = T_Signature) (ars_params s)))) (artifact_spends art)"
    using b by (auto simp: blueprint_Inr artifact_spends_def)
  from arg_cong [OF this, of "map fst"] have "map t_name (bp_transitions b) = map ars_name (artifact_spends art)"
    by (simp add: comp_def)
  moreover have "bp_network b = network_from_target (ca_target art)" using b by (auto simp: blueprint_Inr)
  ultimately show ?thesis using sig kp blueprint_ready [OF b] by (simp add: pkg)
qed

text \<open>An artifact of one spend for the witness.\<close>

definition sample_artifact :: compiled_artifact where
  "sample_artifact =
     \<lparr>ca_bytecode = [0x69], ca_source_hash = [], ca_compiler_version = ''0.1.0'', ca_backend = ''kaspa-txscript'',
      ca_target = ''verified-tn12'', ca_finality_depth = Some 10, ca_kip_requirements = [10], ca_warnings = [],
      ca_application = application_model_empty,
      ca_contracts = [\<lparr>arc_name = ''Vault'', arc_params = [], arc_finality_depth = Some 10,
        arc_spends = [\<lparr>ars_name = ''claim'', ars_params = [\<lparr>arp_name = ''sig'', arp_ty = T_Signature\<rparr>],
          ars_instructions = [mk_instr (mk_span 0 1) I_Verify]\<rparr>]\<rparr>]\<rparr>"

lemma sample_verifies: "verify_artifact sample_artifact = Inr ()"
  by code_simp

theorem built_package_contents_witness:
  "\<exists>pkg. build_kernel_package_from_artifact id id ''vault.ks'' sample_artifact package_options_default = Inr pkg \<and>
     rr_level (kp_readiness (ck_kernel pkg)) = RL_Verified \<and>
     map (\<lambda>t. (t_name t, t_signers t)) (bp_transitions (kp_blueprint (ck_kernel pkg))) = [(''claim'', [''sig''])]"
proof -
  have "trim ''Vault'' = ''Vault''"
    by (rule trim_no_white_space) (simp add: white_space_def is_continuation_def, blast)
  then have "trim (package_name id ''vault.ks'' sample_artifact) \<noteq> []" by (simp add: package_name_def sample_artifact_def)
  moreover have "estimate_bytes sample_artifact package_options_default = 1"
    by (simp add: estimate_bytes_def package_options_default_def sample_artifact_def)
  moreover have "artifact_spends sample_artifact \<noteq> []" by (simp add: artifact_spends_def sample_artifact_def)
  ultimately obtain pkg where
    pkg: "build_kernel_package_from_artifact id id ''vault.ks'' sample_artifact package_options_default = Inr pkg"
    using package_built_cases [of id id "''vault.ks''" sample_artifact package_options_default] sample_verifies
    by (auto simp: package_options_default_def)
  with built_package_contents [OF pkg] show ?thesis
    by (simp add: artifact_spends_def sample_artifact_def network_from_target_def)
qed

end
