(* ===== verification/KS_Toccata.thy ===== *)
theory KS_Toccata
  imports KS_Errors
begin

text \<open>
  The Toccata compatibility facade (\<open>sdk/src/toccata.rs\<close>): the fixture types, their validation with
  its order of checks, the published sample fixture, and what a fixture that validates guarantees.
\<close>

section \<open>Fixture types\<close>

definition TOCCATA_COMPATIBILITY_FIXTURE_SCHEMA_VERSION :: string where
  "TOCCATA_COMPATIBILITY_FIXTURE_SCHEMA_VERSION = ''kaspascript.sdk.toccata.compatibility-fixtures.v0''"

definition TOCCATA_TRANSACTION_FACADE_SCHEMA_VERSION :: string where
  "TOCCATA_TRANSACTION_FACADE_SCHEMA_VERSION = ''kaspascript.sdk.toccata.transaction-facade.v0''"

definition RUSTY_KASPA_TOCCATA_COMPAT_TAG :: string where
  "RUSTY_KASPA_TOCCATA_COMPAT_TAG = ''v2.0.1''"

definition RUSTY_KASPA_TOCCATA_COMPAT_COMMIT :: string where
  "RUSTY_KASPA_TOCCATA_COMPAT_COMMIT = ''cfafeb4c093fa37a303f1b9f19c58f986b870ce3''"

record upstream_release_pin =
  ur_repo :: string
  ur_tag :: string
  ur_commit :: string
  ur_published_at :: string
  ur_role :: string

record toccata_input =
  ti_previous_outpoint :: string
  ti_sequence :: u64
  ti_compute_commit :: string
  ti_role :: string

record covenant_binding =
  cb_covenant_id :: string
  cb_payload_hash :: string
  cb_state_index :: u32
  cb_source_field :: string

record toccata_output =
  to_value :: u64
  to_script_public_key_hex :: string
  to_covenant :: "covenant_binding option"

record user_lane_target =
  lt_lane_id :: u64
  lt_source :: string

datatype proof_requirement_kind = PK_SeqCommitLaneProof | PK_CovenantBinding

record lane_proof_requirement =
  lp_kind :: proof_requirement_kind
  lp_source :: string
  lp_reason :: string

record toccata_transaction =
  tt_schema_version :: string
  tt_rusty_kaspa_tag :: string
  tt_transaction_version :: u16
  tt_storage_mass :: u64
  tt_builder_status :: string
  tt_inputs :: "toccata_input list"
  tt_outputs :: "toccata_output list"
  tt_lane_target :: "user_lane_target option"
  tt_proof_requirements :: "lane_proof_requirement list"

datatype rpc_surface = RS_GrpcAndWrpc

record lane_proof_request =
  lq_daa_score :: u64
  lq_lane_id :: u64
  lq_block_hash :: string
  lq_accepted_id_merkle_root :: string

record lane_proof_response =
  lr_lane_root :: string
  lr_proof_hash :: string
  lr_item_count :: u64
  lr_inactive_lane_shortcut :: bool

record lane_proof_fixture =
  lf_rpc_surface :: rpc_surface
  lf_source :: string
  lf_request :: lane_proof_request
  lf_response :: lane_proof_response

record fixture_readiness =
  fx_status :: string
  fx_blockers :: "string list"

record toccata_fixtures =
  tf_schema_version :: string
  tf_source_release :: upstream_release_pin
  tf_transaction_facade :: toccata_transaction
  tf_seq_commit_lane_proof :: lane_proof_fixture
  tf_readiness :: fixture_readiness

section \<open>Validation\<close>

datatype facade_error =
    FE_SchemaVersionMismatch (fe_expected: string) (fe_actual: string)
  | FE_ReleaseTagMismatch (fe_expected: string) (fe_actual: string)
  | FE_UnsupportedTransactionVersion u16
  | FE_MissingStorageMass
  | FE_MissingInputComputeCommit
  | FE_MissingCovenantBinding
  | FE_MissingLaneTarget
  | FE_LaneMismatch u64 u64
  | FE_MissingSeqCommitProofRequirement

fun facade_error_display :: "facade_error \<Rightarrow> string" where
  "facade_error_display (FE_SchemaVersionMismatch expected actual) =
     ''schema version '' @ [CHR 0x60] @ actual @ [CHR 0x60] @ '' does not match expected '' @ [CHR 0x60] @ expected @ [CHR 0x60]"
| "facade_error_display (FE_ReleaseTagMismatch expected actual) =
     ''release tag '' @ [CHR 0x60] @ actual @ [CHR 0x60] @ '' does not match expected '' @ [CHR 0x60] @ expected @ [CHR 0x60]"
| "facade_error_display (FE_UnsupportedTransactionVersion v) =
     ''Toccata transaction facade must use version 1, got '' @ show_nat (unat v)"
| "facade_error_display FE_MissingStorageMass = ''Toccata transaction facade must carry storage_mass''"
| "facade_error_display FE_MissingInputComputeCommit = ''Toccata transaction facade input is missing compute_commit''"
| "facade_error_display FE_MissingCovenantBinding =
     ''Toccata transaction facade must include at least one covenant binding''"
| "facade_error_display FE_MissingLaneTarget = ''Toccata transaction facade must include a user lane target''"
| "facade_error_display (FE_LaneMismatch transaction_lane proof_lane) =
     ''transaction lane '' @ show_nat (unat transaction_lane) @ '' does not match proof lane '' @ show_nat (unat proof_lane)"
| "facade_error_display FE_MissingSeqCommitProofRequirement = ''fixture must require a seq-commit lane proof''"

definition validate_facade :: "toccata_transaction \<Rightarrow> facade_error + unit" where
  "validate_facade t =
     (if tt_schema_version t \<noteq> TOCCATA_TRANSACTION_FACADE_SCHEMA_VERSION
      then Inl (FE_SchemaVersionMismatch TOCCATA_TRANSACTION_FACADE_SCHEMA_VERSION (tt_schema_version t))
      else if tt_rusty_kaspa_tag t \<noteq> RUSTY_KASPA_TOCCATA_COMPAT_TAG
      then Inl (FE_ReleaseTagMismatch RUSTY_KASPA_TOCCATA_COMPAT_TAG (tt_rusty_kaspa_tag t))
      else if tt_transaction_version t \<noteq> 1 then Inl (FE_UnsupportedTransactionVersion (tt_transaction_version t))
      else if tt_storage_mass t = 0 then Inl FE_MissingStorageMass
      else if \<exists>input \<in> set (tt_inputs t). ti_compute_commit input = [] then Inl FE_MissingInputComputeCommit
      else if \<not> (\<exists>out \<in> set (tt_outputs t). to_covenant out \<noteq> None) then Inl FE_MissingCovenantBinding
      else Inr ())"

definition validate_fixtures :: "toccata_fixtures \<Rightarrow> facade_error + unit" where
  "validate_fixtures f =
     (if tf_schema_version f \<noteq> TOCCATA_COMPATIBILITY_FIXTURE_SCHEMA_VERSION
      then Inl (FE_SchemaVersionMismatch TOCCATA_COMPATIBILITY_FIXTURE_SCHEMA_VERSION (tf_schema_version f))
      else if ur_tag (tf_source_release f) \<noteq> RUSTY_KASPA_TOCCATA_COMPAT_TAG
      then Inl (FE_ReleaseTagMismatch RUSTY_KASPA_TOCCATA_COMPAT_TAG (ur_tag (tf_source_release f)))
      else
        rbind (validate_facade (tf_transaction_facade f)) (\<lambda>_.
        rbind (ok_or (tt_lane_target (tf_transaction_facade f)) FE_MissingLaneTarget) (\<lambda>lane_target.
        if lt_lane_id lane_target \<noteq> lq_lane_id (lf_request (tf_seq_commit_lane_proof f))
        then Inl (FE_LaneMismatch (lt_lane_id lane_target) (lq_lane_id (lf_request (tf_seq_commit_lane_proof f))))
        else if \<not> (\<exists>r \<in> set (tt_proof_requirements (tf_transaction_facade f)). lp_kind r = PK_SeqCommitLaneProof)
        then Inl FE_MissingSeqCommitProofRequirement
        else Inr ())))"

section \<open>The published sample\<close>

definition sample_toccata_transaction_facade :: toccata_transaction where
  "sample_toccata_transaction_facade =
     \<lparr>tt_schema_version = TOCCATA_TRANSACTION_FACADE_SCHEMA_VERSION,
      tt_rusty_kaspa_tag = RUSTY_KASPA_TOCCATA_COMPAT_TAG, tt_transaction_version = 1, tt_storage_mass = 640,
      tt_builder_status = ''fixture-only-not-a-rusty-kaspa-transaction'',
      tt_inputs = [\<lparr>
        ti_previous_outpoint = ''9f0d6e2a9b9f5c3d8e7a6b5c4d3e2f109876543210abcdef0011223344556677:0'', ti_sequence = 0,
        ti_compute_commit = ''3b1f0f0a8c6d4e2c1a09f8e7d6c5b4a39281716151413121100ffeeddccbbaa9'', ti_role = ''state-input''\<rparr>],
      tt_outputs = [\<lparr>to_value = 100000000,
        to_script_public_key_hex = ''20d0f1c2b3a4958675647382910ffeeddccbbaa99887766554433221100aabbccac'',
        to_covenant = Some \<lparr>
          cb_covenant_id = ''4f8b2c6d0a1e3f5799aabbccddeeff00112233445566778899aabbccddeeff00'',
          cb_payload_hash = ''68a1b2c3d4e5f60718293a4b5c6d7e8f90112233445566778899aabbccddeeff'',
          cb_state_index = 0, cb_source_field = ''TransactionOutput.covenant''\<rparr>\<rparr>],
      tt_lane_target = Some \<lparr>lt_lane_id = 7, lt_source = ''v2.0.1 user-lane transaction generation fixture''\<rparr>,
      tt_proof_requirements = [
        \<lparr>lp_kind = PK_SeqCommitLaneProof, lp_source = ''get_seq_commit_lane_proof'',
         lp_reason = ''sequencing-aware transitions need lane proof payloads before production lowering''\<rparr>,
        \<lparr>lp_kind = PK_CovenantBinding, lp_source = ''TransactionOutput.covenant'',
         lp_reason = ''state continuation must preserve covenant lineage''\<rparr>]\<rparr>"

definition sample_seq_commit_lane_proof_fixture :: lane_proof_fixture where
  "sample_seq_commit_lane_proof_fixture =
     \<lparr>lf_rpc_surface = RS_GrpcAndWrpc, lf_source = ''rusty-kaspa v2.0.1 get_seq_commit_lane_proof RPC'',
      lf_request = \<lparr>lq_daa_score = 474165565, lq_lane_id = 7,
        lq_block_hash = ''0000000f6a2b3c4d5e6f708192a3b4c5d6e7f8091a2b3c4d5e6f708192a3b4c5'',
        lq_accepted_id_merkle_root = ''56e7d6c5b4a39281716151413121100ffeeddccbbaa99887766554433221100aa''\<rparr>,
      lf_response = \<lparr>
        lr_lane_root = ''a0b1c2d3e4f5061728394a5b6c7d8e9f00112233445566778899aabbccddeeff'',
        lr_proof_hash = ''bbccddee00112233445566778899aabbccddeeff00112233445566778899aa'',
        lr_item_count = 2, lr_inactive_lane_shortcut = False\<rparr>\<rparr>"

definition sample_toccata_compatibility_fixtures :: toccata_fixtures where
  "sample_toccata_compatibility_fixtures =
     \<lparr>tf_schema_version = TOCCATA_COMPATIBILITY_FIXTURE_SCHEMA_VERSION,
      tf_source_release = \<lparr>ur_repo = ''https://github.com/kaspanet/rusty-kaspa'', ur_tag = RUSTY_KASPA_TOCCATA_COMPAT_TAG,
        ur_commit = RUSTY_KASPA_TOCCATA_COMPAT_COMMIT, ur_published_at = ''2026-06-15T19:14:22Z'',
        ur_role = ''current Toccata compatibility target for KaspaScript SDK facade fixtures''\<rparr>,
      tf_transaction_facade = sample_toccata_transaction_facade,
      tf_seq_commit_lane_proof = sample_seq_commit_lane_proof_fixture,
      tf_readiness = \<lparr>fx_status = ''fixture-only'',
        fx_blockers = [''not wired to rusty-kaspa transaction builders'', ''not broadcastable'',
          ''mainnet activation has not been independently verified'']\<rparr>\<rparr>"

section \<open>What validation guarantees\<close>

lemma validate_facade_ok:
  "validate_facade t = Inr () \<longleftrightarrow>
     tt_schema_version t = TOCCATA_TRANSACTION_FACADE_SCHEMA_VERSION \<and>
     tt_rusty_kaspa_tag t = RUSTY_KASPA_TOCCATA_COMPAT_TAG \<and> tt_transaction_version t = 1 \<and> tt_storage_mass t \<noteq> 0 \<and>
     (\<forall>input \<in> set (tt_inputs t). ti_compute_commit input \<noteq> []) \<and>
     (\<exists>out \<in> set (tt_outputs t). to_covenant out \<noteq> None)"
  by (auto simp: validate_facade_def)

text \<open>The published sample validates, and it stops validating when its lane and the proof's are set apart.\<close>

lemma sample_fixture_validates: "validate_fixtures sample_toccata_compatibility_fixtures = Inr ()"
  by (simp add: validate_fixtures_def validate_facade_def sample_toccata_compatibility_fixtures_def
      sample_toccata_transaction_facade_def sample_seq_commit_lane_proof_fixture_def)

text \<open>A fixture validates exactly when it and its facade carry the pinned versions, its transaction is of
  version 1 with a storage mass, every input commits to its compute and some output is bound to a covenant,
  and the lane of the transaction is the lane a required proof is requested for.\<close>

theorem validate_fixtures_decides:
  "validate_fixtures f = Inr () \<longleftrightarrow>
     tf_schema_version f = TOCCATA_COMPATIBILITY_FIXTURE_SCHEMA_VERSION \<and>
     {ur_tag (tf_source_release f), tt_rusty_kaspa_tag (tf_transaction_facade f)} = {RUSTY_KASPA_TOCCATA_COMPAT_TAG} \<and>
     validate_facade (tf_transaction_facade f) = Inr () \<and>
     map_option lt_lane_id (tt_lane_target (tf_transaction_facade f)) =
       Some (lq_lane_id (lf_request (tf_seq_commit_lane_proof f))) \<and>
     (\<exists>r \<in> set (tt_proof_requirements (tf_transaction_facade f)). lp_kind r = PK_SeqCommitLaneProof)"
proof (cases "tt_lane_target (tf_transaction_facade f)")
  case None
  then show ?thesis by (simp add: validate_fixtures_def rbind_Inr_iff)
next
  case (Some lane)
  then show ?thesis
    by (auto simp: validate_fixtures_def rbind_Inr_iff validate_facade_ok split: if_splits)
qed

end
