(* ===== verification/KS_TestnetBase.thy ===== *)
theory KS_TestnetBase
  imports KS_Disasm KS_Sdk
begin

text \<open>
  The testnet integration, first part (\<open>sdk/src/testnet.rs\<close>): targets, errors, the environment variables
  and configuration, hexadecimal keys and the test wallet. Environment variables, keys and addresses come
  from outside the repository: \<open>vars\<close> is the environment, a \<open>keyring\<close> the operations on keys
  and addresses of the crates \<open>secp256k1\<close> and \<open>kaspa_addresses\<close>.
\<close>

section \<open>Errors and targets\<close>

text \<open>\<open>TE_Panic\<close> is not an error of the source: it is the panic of an overflow in a build with overflow checks.\<close>

datatype testnet_error =
    TE_MissingEnv string
  | TE_InvalidEnv (te_var: string) (te_message: string)
  | TE_InvalidTarget string
  | TE_MainnetRejected
  | TE_NetworkMismatch (te_expected: string) (te_actual: string)
  | TE_BroadcastDisabled
  | TE_UtxoIndexDisabled
  | TE_InsufficientFunds (te_needed: u64) (te_available: u64)
  | TE_Rpc string
  | TE_Compile string
  | TE_Artifact string
  | TE_Param string
  | TE_Tx string
  | TE_Script string
  | TE_Json string
  | TE_Io string
  | TE_Unsupported string
  | TE_InvalidData string
  | TE_Panic

fun testnet_error_display :: "testnet_error \<Rightarrow> string" where
  "testnet_error_display (TE_MissingEnv var) = ''missing environment variable '' @ bt var"
| "testnet_error_display (TE_InvalidEnv var message) = ''invalid environment variable '' @ bt var @ '': '' @ message"
| "testnet_error_display (TE_InvalidTarget label) = ''invalid testnet target '' @ bt label"
| "testnet_error_display TE_MainnetRejected =
     ''refusing mainnet transaction construction without an explicit unsafe path''"
| "testnet_error_display (TE_NetworkMismatch expected actual) =
     ''network mismatch: expected '' @ bt expected @ '', got '' @ bt actual"
| "testnet_error_display TE_BroadcastDisabled = ''broadcast disabled; pass --broadcast for live submission''"
| "testnet_error_display TE_UtxoIndexDisabled = ''connected node does not expose the UTXO index''"
| "testnet_error_display (TE_InsufficientFunds needed available) =
     ''insufficient funds: need at least '' @ show_nat (unat needed) @ '' sompi, available '' @
     show_nat (unat available) @ '' sompi''"
| "testnet_error_display (TE_Rpc message) = ''Kaspa RPC error: '' @ message"
| "testnet_error_display (TE_Compile message) = ''compile error: '' @ message"
| "testnet_error_display (TE_Artifact message) = ''artifact error: '' @ message"
| "testnet_error_display (TE_Param message) = ''parameter error: '' @ message"
| "testnet_error_display (TE_Tx message) = ''transaction error: '' @ message"
| "testnet_error_display (TE_Script message) = ''script validation error: '' @ message"
| "testnet_error_display (TE_Json message) = ''JSON error: '' @ message"
| "testnet_error_display (TE_Io message) = ''IO error: '' @ message"
| "testnet_error_display (TE_Unsupported message) = ''unsupported operation: '' @ message"
| "testnet_error_display (TE_InvalidData message) = ''invalid data: '' @ message"
| "testnet_error_display TE_Panic = ''attempt to add with overflow''"

text \<open>\<open>str::to_ascii_lowercase\<close>.\<close>

definition to_ascii_lowercase :: "string \<Rightarrow> string" where
  "to_ascii_lowercase s = map (\<lambda>b. let n = of_char b :: nat in if 65 \<le> n \<and> n \<le> 90 then char_of (n + 32) else b) s"

datatype testnet_target = TT_Tn10 | TT_Tn11 | TT_Tn12

definition testnet_target_parse :: "string \<Rightarrow> testnet_error + testnet_target" where
  "testnet_target_parse value =
     (let label = to_ascii_lowercase (trim value)
      in if label = ''tn10'' \<or> label = ''testnet-10'' then Inr TT_Tn10
         else if label = ''tn11'' \<or> label = ''testnet-11'' then Inr TT_Tn11
         else if label = ''tn12'' \<or> label = ''testnet-12'' then Inr TT_Tn12
         else if label = ''mainnet'' \<or> label = ''kaspa'' then Inl TE_MainnetRejected
         else Inl (TE_InvalidTarget label))"

fun suffix :: "testnet_target \<Rightarrow> u32" where
  "suffix TT_Tn10 = 10"
| "suffix TT_Tn11 = 11"
| "suffix TT_Tn12 = 12"

fun target_warnings :: "testnet_target \<Rightarrow> string list" where
  "target_warnings TT_Tn10 = []"
| "target_warnings _ =
     [''rusty-kaspa NetworkId accepts arbitrary testnet suffixes, but consensus Params::from(NetworkId) in consensus/core/src/config/params.rs is suffix-specific only for testnet-10; this builder uses generic NetworkType::Testnet params for fee/mass and records this as target-gated'']"

fun show_target :: "testnet_target \<Rightarrow> string" where
  "show_target TT_Tn10 = ''tn10''"
| "show_target TT_Tn11 = ''tn11''"
| "show_target TT_Tn12 = ''tn12''"

section \<open>Environment variables\<close>

definition KASPA_TARGET_ENV :: string where "KASPA_TARGET_ENV = ''KASPA_TARGET''"
definition KASPA_RPC_URL_ENV :: string where "KASPA_RPC_URL_ENV = ''KASPA_RPC_URL''"
definition KASPA_TESTNET_PRIVATE_KEY_ENV :: string where "KASPA_TESTNET_PRIVATE_KEY_ENV = ''KASPA_TESTNET_PRIVATE_KEY''"
definition KASPA_TESTNET_ADDRESS_ENV :: string where "KASPA_TESTNET_ADDRESS_ENV = ''KASPA_TESTNET_ADDRESS''"
definition TN12_RPC_URL_ENV :: string where "TN12_RPC_URL_ENV = ''KASPA_TN12_RPC_URL''"
definition TN12_PRIVATE_KEY_ENV :: string where "TN12_PRIVATE_KEY_ENV = ''KASPA_TN12_PRIVATE_KEY''"
definition TN12_NETWORK_ID :: string where "TN12_NETWORK_ID = ''testnet-12''"
definition DEFAULT_POLL_ATTEMPTS :: u64 where "DEFAULT_POLL_ATTEMPTS = 120"
definition DEFAULT_POLL_INTERVAL_MS :: u64 where "DEFAULT_POLL_INTERVAL_MS = 1000"
definition SOMPI_PER_KASPA :: u64 where "SOMPI_PER_KASPA = 100000000"

text \<open>\<open>str::parse\<close> at \<open>u64\<close> and \<open>usize\<close> (64 bits) with the texts of \<open>ParseIntError\<close>: the digits are read from
  the left, and the first that is not one, or takes the value out of range, decides.\<close>

definition parse_digit :: "nat \<Rightarrow> char \<Rightarrow> string + nat" where
  "parse_digit acc b =
     (if \<not> is_ascii_digit b then Inl ''invalid digit found in string''
      else if 10 * acc + digit_value b < 2 ^ 64 then Inr (10 * acc + digit_value b)
      else Inl ''number too large to fit in target type'')"

definition str_parse_u64 :: "string \<Rightarrow> string + u64" where
  "str_parse_u64 s =
     (case s of
        [] \<Rightarrow> Inl ''cannot parse integer from empty string''
      | c # cs \<Rightarrow>
          (if (c = CHR ''+'' \<or> c = CHR ''-'') \<and> cs = [] then Inl ''invalid digit found in string''
           else rbind (try_fold parse_digit 0 (if c = CHR ''+'' then cs else s)) (\<lambda>n. Inr (of_nat n))))"

definition blank :: "string \<Rightarrow> bool" where
  "blank s \<longleftrightarrow> trim s = []"

type_synonym vars = "string \<Rightarrow> string option"

definition read_required_env :: "vars \<Rightarrow> string \<Rightarrow> testnet_error + string" where
  "read_required_env vars name =
     (case vars name of
        Some value \<Rightarrow> if \<not> blank value then Inr value else Inl (TE_MissingEnv name)
      | None \<Rightarrow> Inl (TE_MissingEnv name))"

definition read_required_env_with_fallback :: "vars \<Rightarrow> string \<Rightarrow> string \<Rightarrow> testnet_error + string" where
  "read_required_env_with_fallback vars primary fallback =
     (case vars primary of
        Some value \<Rightarrow>
          if \<not> blank value then Inr value
          else map_err (\<lambda>_. TE_MissingEnv primary) (read_required_env vars fallback)
      | None \<Rightarrow> map_err (\<lambda>_. TE_MissingEnv primary) (read_required_env vars fallback))"

definition read_optional_u64 :: "vars \<Rightarrow> string \<Rightarrow> testnet_error + u64 option" where
  "read_optional_u64 vars name =
     (case vars name of
        Some value \<Rightarrow>
          if \<not> blank value then rbind (map_err (TE_InvalidEnv name) (str_parse_u64 value)) (\<lambda>n. Inr (Some n)) else Inr None
      | None \<Rightarrow> Inr None)"

definition read_optional_usize :: "vars \<Rightarrow> string \<Rightarrow> testnet_error + u64 option" where
  "read_optional_usize vars name =
     (case vars name of
        Some value \<Rightarrow>
          if \<not> blank value then rbind (map_err (TE_InvalidEnv name) (str_parse_u64 value)) (\<lambda>n. Inr (Some n)) else Inr None
      | None \<Rightarrow> Inr None)"

definition read_optional_bool :: "vars \<Rightarrow> string \<Rightarrow> testnet_error + bool option" where
  "read_optional_bool vars name =
     (case vars name of
        Some value \<Rightarrow>
          if \<not> blank value then
            (let label = to_ascii_lowercase value
             in if label \<in> {''1'', ''true'', ''yes''} then Inr (Some True)
                else if label \<in> {''0'', ''false'', ''no''} then Inr (Some False)
                else Inl (TE_InvalidEnv name ''expected true/false''))
          else Inr None
      | None \<Rightarrow> Inr None)"

section \<open>Configuration\<close>

record testnet_config =
  tc_target :: testnet_target
  tc_rpc_url :: string
  tc_poll_attempts :: u64
  tc_poll_interval_ms :: u64
  tc_broadcast :: bool

definition testnet_config_from_env :: "vars \<Rightarrow> testnet_error + testnet_config" where
  "testnet_config_from_env vars =
     rbind (case vars KASPA_TARGET_ENV of None \<Rightarrow> Inr TT_Tn12 | Some value \<Rightarrow> testnet_target_parse value) (\<lambda>t.
     rbind (read_required_env_with_fallback vars KASPA_RPC_URL_ENV TN12_RPC_URL_ENV) (\<lambda>rpc_url.
     rbind (read_optional_usize vars ''KASPA_TESTNET_POLL_ATTEMPTS'') (\<lambda>poll_attempts.
     rbind (read_optional_u64 vars ''KASPA_TESTNET_POLL_INTERVAL_MS'') (\<lambda>poll_interval_ms.
     rbind (read_optional_bool vars ''KASPA_BROADCAST'') (\<lambda>broadcast.
     Inr \<lparr>tc_target = t, tc_rpc_url = rpc_url,
          tc_poll_attempts = (case poll_attempts of None \<Rightarrow> DEFAULT_POLL_ATTEMPTS | Some n \<Rightarrow> n),
          tc_poll_interval_ms = (case poll_interval_ms of None \<Rightarrow> DEFAULT_POLL_INTERVAL_MS | Some n \<Rightarrow> n),
          tc_broadcast = (case broadcast of None \<Rightarrow> False | Some b \<Rightarrow> b)\<rparr>)))))"

definition testnet_config_new :: "testnet_target \<Rightarrow> string \<Rightarrow> testnet_config" where
  "testnet_config_new t rpc_url =
     \<lparr>tc_target = t, tc_rpc_url = rpc_url, tc_poll_attempts = DEFAULT_POLL_ATTEMPTS,
      tc_poll_interval_ms = DEFAULT_POLL_INTERVAL_MS, tc_broadcast = False\<rparr>"

definition with_broadcast :: "bool \<Rightarrow> testnet_config \<Rightarrow> testnet_config" where
  "with_broadcast broadcast config = config\<lparr>tc_broadcast := broadcast\<rparr>"

section \<open>Hexadecimal text\<close>

definition hex_nibble :: "char \<Rightarrow> u8 option" where
  "hex_nibble b =
     (let n = of_char b :: nat
      in if 48 \<le> n \<and> n \<le> 57 then Some (of_nat (n - 48))
         else if 97 \<le> n \<and> n \<le> 102 then Some (of_nat (n - 97 + 10))
         else if 65 \<le> n \<and> n \<le> 70 then Some (of_nat (n - 65 + 10))
         else None)"

text \<open>\<open>byte as char\<close> is the character with that code point, here in UTF-8.\<close>

definition byte_as_char :: "char \<Rightarrow> rchar" where
  "byte_as_char b =
     (let n = of_char b :: nat in if n < 128 then [b] else [char_of (192 + n div 64), char_of (128 + n mod 64)])"

definition invalid_hex_digit :: "string \<Rightarrow> nat \<Rightarrow> string" where
  "invalid_hex_digit value index =
     ''invalid hex digit '' @ bt (byte_as_char (value ! index)) @ '' at byte '' @ show_nat index"

definition decode_byte :: "string \<Rightarrow> u8 list \<Rightarrow> nat \<Rightarrow> string + u8 list" where
  "decode_byte value bytes index =
     rbind (ok_or (hex_nibble (value ! index)) (invalid_hex_digit value index)) (\<lambda>high.
     rbind (ok_or (hex_nibble (value ! (index + 1))) (invalid_hex_digit value (index + 1))) (\<lambda>low.
     Inr (bytes @ [or (push_bit 4 high) low])))"

definition strip_0x :: "string \<Rightarrow> string" where
  "strip_0x value = (if take 2 value = ''0x'' then drop 2 value else value)"

definition decode_hex :: "string \<Rightarrow> string + u8 list" where
  "decode_hex value =
     (let value = strip_0x value
      in if length value mod 2 \<noteq> 0 then Inl ''hex string must contain an even number of digits''
         else try_fold (decode_byte value) [] (map (\<lambda>k. 2 * k) [0..<length value div 2]))"

definition decode_hex_32 :: "string \<Rightarrow> string + u8 list" where
  "decode_hex_32 value =
     rbind (decode_hex (trim value)) (\<lambda>bytes.
     if length bytes \<noteq> 32 then Inl (''expected 32 bytes, got '' @ show_nat (length bytes)) else Inr bytes)"

definition HEX :: string where "HEX = ''0123456789abcdef''"

definition hex_encode :: "u8 list \<Rightarrow> string" where
  "hex_encode bytes = concat (map (\<lambda>byte. [HEX ! unat (drop_bit 4 byte), HEX ! unat (and byte 0x0f)]) bytes)"

section \<open>The wallet\<close>

record ('key, 'addr) keyring =
  kr_from_slice :: "u8 list \<Rightarrow> string + 'key"
  kr_secret_bytes :: "'key \<Rightarrow> u8 list"
  kr_public_key :: "'key \<Rightarrow> u8 list"
  kr_sign_schnorr :: "'key \<Rightarrow> u8 list \<Rightarrow> u8 list"
  kr_address :: "u8 list \<Rightarrow> 'addr"
  kr_parse_address :: "string \<Rightarrow> string + 'addr"
  kr_is_testnet :: "'addr \<Rightarrow> bool"
  kr_show_address :: "'addr \<Rightarrow> string"
  kr_debug_address :: "'addr \<Rightarrow> string"
  kr_sha256 :: "u8 list \<Rightarrow> u8 list"

record ('key, 'addr) test_wallet =
  tw_secret_key :: 'key
  tw_address :: 'addr
  tw_public_key :: "u8 list"

definition wallet_debug :: "('key, 'addr) keyring \<Rightarrow> ('key, 'addr) test_wallet \<Rightarrow> string" where
  "wallet_debug kr wallet =
     ''TestWallet { address: '' @ kr_debug_address kr (tw_address wallet) @
     '', public_key: '' @ [CHR 0x22] @ hex_encode (tw_public_key wallet) @ [CHR 0x22] @
     '', private_key: '' @ [CHR 0x22] @ ''<redacted>'' @ [CHR 0x22] @ '' }''"

definition wallet_from_secret_key :: "('key, 'addr) keyring \<Rightarrow> 'key \<Rightarrow> testnet_error + ('key, 'addr) test_wallet" where
  "wallet_from_secret_key kr secret_key =
     (let public_key = kr_public_key kr secret_key
      in Inr \<lparr>tw_secret_key = secret_key, tw_address = kr_address kr public_key, tw_public_key = public_key\<rparr>)"

definition wallet_from_private_key_hex :: "('key, 'addr) keyring \<Rightarrow> string \<Rightarrow> testnet_error + ('key, 'addr) test_wallet" where
  "wallet_from_private_key_hex kr private_key_hex =
     rbind (map_err (TE_InvalidEnv KASPA_TESTNET_PRIVATE_KEY_ENV) (decode_hex_32 private_key_hex)) (\<lambda>secret_bytes.
     rbind (map_err (TE_InvalidEnv KASPA_TESTNET_PRIVATE_KEY_ENV) (kr_from_slice kr secret_bytes)) (\<lambda>secret_key.
     wallet_from_secret_key kr secret_key))"

definition read_optional_address :: "('key, 'addr) keyring \<Rightarrow> vars \<Rightarrow> string \<Rightarrow> testnet_error + 'addr option" where
  "read_optional_address kr vars name =
     (case vars name of
        Some value \<Rightarrow>
          if \<not> blank value then
            rbind (map_err (TE_InvalidEnv name) (kr_parse_address kr (trim value))) (\<lambda>address.
            if \<not> kr_is_testnet kr address then Inl (TE_InvalidEnv name ''address must use the kaspatest prefix'')
            else Inr (Some address))
          else Inr None
      | None \<Rightarrow> Inr None)"

definition wallet_from_env :: "('key, 'addr) keyring \<Rightarrow> vars \<Rightarrow> testnet_error + ('key, 'addr) test_wallet" where
  "wallet_from_env kr vars =
     rbind (read_required_env_with_fallback vars KASPA_TESTNET_PRIVATE_KEY_ENV TN12_PRIVATE_KEY_ENV) (\<lambda>key.
     rbind (wallet_from_private_key_hex kr key) (\<lambda>wallet.
     rbind (read_optional_address kr vars KASPA_TESTNET_ADDRESS_ENV) (\<lambda>expected.
     case expected of
       None \<Rightarrow> Inr wallet
     | Some expected \<Rightarrow>
         if expected \<noteq> tw_address wallet
         then Inl (TE_InvalidEnv KASPA_TESTNET_ADDRESS_ENV ''address does not match private key'')
         else Inr wallet)))"

definition private_key_fingerprint :: "('key, 'addr) keyring \<Rightarrow> ('key, 'addr) test_wallet \<Rightarrow> string" where
  "private_key_fingerprint kr wallet =
     hex_encode (take 8 (kr_sha256 kr (kr_secret_bytes kr (tw_secret_key wallet))))"

definition sign_spend_digest :: "('key, 'addr) keyring \<Rightarrow> ('key, 'addr) test_wallet \<Rightarrow> u8 list \<Rightarrow> u8 list" where
  "sign_spend_digest kr wallet digest = kr_sign_schnorr kr (tw_secret_key wallet) digest"

definition sha256_hex :: "('key, 'addr) keyring \<Rightarrow> u8 list \<Rightarrow> string" where
  "sha256_hex kr bytes = hex_encode (kr_sha256 kr bytes)"

end
