(* ===== verification/KS_TestnetRpc.thy ===== *)
theory KS_TestnetRpc
  imports KS_TestnetBase
begin

text \<open>
  The testnet integration, second part (\<open>sdk/src/testnet.rs\<close>): the RPC adapter. The node is not code of the
  repository: a \<open>node\<close> gives its calls as functions of a world \<open>'w\<close> that each call may change, and every
  operation of the adapter threads that world. Polling is bounded by the configured attempts.
\<close>

section \<open>Effects\<close>

type_synonym ('w, 'a) io = "'w \<Rightarrow> (testnet_error + 'a) \<times> 'w"

definition io_return :: "'a \<Rightarrow> ('w, 'a) io" where
  "io_return x w = (Inr x, w)"

definition io_lift :: "testnet_error + 'a \<Rightarrow> ('w, 'a) io" where
  "io_lift r w = (r, w)"

definition io_bind :: "('w, 'a) io \<Rightarrow> ('a \<Rightarrow> ('w, 'b) io) \<Rightarrow> ('w, 'b) io" where
  "io_bind m f w = (case m w of (Inl e, w) \<Rightarrow> (Inl e, w) | (Inr x, w) \<Rightarrow> f x w)"

text \<open>A call of the node, with its error as the text of an RPC error.\<close>

definition rpc :: "('w \<Rightarrow> (string + 'a) \<times> 'w) \<Rightarrow> ('w, 'a) io" where
  "rpc call w = (case call w of (r, w) \<Rightarrow> (map_err TE_Rpc r, w))"

definition saturating_add :: "u64 \<Rightarrow> u64 \<Rightarrow> u64" where
  "saturating_add a b = (if unat a + unat b < 2 ^ 64 then a + b else 2 ^ 64 - 1)"

definition saturating_sub :: "u64 \<Rightarrow> u64 \<Rightarrow> u64" where
  "saturating_sub a b = (if b \<le> a then a - b else 0)"

section \<open>What a node answers\<close>

record server_info =
  si_network_id :: string
  si_server_version :: string
  si_rpc_api_version :: u16
  si_rpc_api_revision :: u16
  si_is_synced :: bool
  si_has_utxo_index :: bool

record dag_info =
  di_virtual_daa_score :: u64
  di_block_count :: u64
  di_header_count :: u64

record 'id outpoint =
  op_transaction_id :: 'id
  op_index :: u32

record script_public_key =
  spk_version :: u16
  spk_script :: "u8 list"

record utxo_entry =
  ue_amount :: u64
  ue_script_public_key :: script_public_key
  ue_block_daa_score :: u64
  ue_is_coinbase :: bool

record 'id rpc_utxo =
  ru_outpoint :: "'id outpoint"
  ru_utxo_entry :: utxo_entry

text \<open>A fee rate is an \<open>f64\<close>, kept as its bits.\<close>

record rpc_fee_estimate =
  rf_priority_bucket :: u64
  rf_normal_buckets :: "u64 list"
  rf_low_buckets :: "u64 list"

record mempool_entry =
  me_fee :: u64
  me_is_orphan :: bool

record ('w, 'id, 'addr, 'rpc) node =
  nd_new_client :: "string \<Rightarrow> u32 \<Rightarrow> string + unit"
  nd_network_name :: "u32 \<Rightarrow> string"
  nd_show_id :: "'id \<Rightarrow> string"
  nd_connect :: "'w \<Rightarrow> (string + unit) \<times> 'w"
  nd_disconnect :: "'w \<Rightarrow> (string + unit) \<times> 'w"
  nd_get_server_info :: "'w \<Rightarrow> (string + server_info) \<times> 'w"
  nd_get_block_dag_info :: "'w \<Rightarrow> (string + dag_info) \<times> 'w"
  nd_get_utxos_by_addresses :: "'addr list \<Rightarrow> 'w \<Rightarrow> (string + 'id rpc_utxo list) \<times> 'w"
  nd_get_balance_by_address :: "'addr \<Rightarrow> 'w \<Rightarrow> (string + u64) \<times> 'w"
  nd_get_fee_estimate :: "'w \<Rightarrow> (string + rpc_fee_estimate) \<times> 'w"
  nd_submit_transaction :: "'rpc \<Rightarrow> bool \<Rightarrow> 'w \<Rightarrow> (string + 'id) \<times> 'w"
  nd_get_mempool_entry :: "'id \<Rightarrow> bool \<Rightarrow> bool \<Rightarrow> 'w \<Rightarrow> (string + mempool_entry) \<times> 'w"
  nd_sleep :: "u64 \<Rightarrow> 'w \<Rightarrow> 'w"
  nd_unix_time :: "'w \<Rightarrow> (string + u64) \<times> 'w"

section \<open>The adapter\<close>

record network_info =
  ni_network :: string
  ni_node_version :: string
  ni_rpc_api_version :: u16
  ni_rpc_api_revision :: u16
  ni_is_synced :: bool
  ni_has_utxo_index :: bool
  ni_virtual_daa_score :: u64
  ni_block_count :: u64
  ni_header_count :: u64

record testnet_utxo =
  tu_outpoint :: string
  tu_amount :: u64
  tu_block_daa_score :: u64
  tu_confirmations :: u64
  tu_is_coinbase :: bool
  tu_script_public_key_hex :: string

record observed_output =
  oo_transaction_id :: string
  oo_output_index :: u32
  oo_amount :: u64
  oo_block_daa_score :: u64
  oo_observed_depth :: u64

record fee_estimate_snapshot =
  fs_priority_feerate :: u64
  fs_normal_feerates :: "u64 list"
  fs_low_feerates :: "u64 list"

definition fee_estimate_snapshot_from :: "rpc_fee_estimate \<Rightarrow> fee_estimate_snapshot" where
  "fee_estimate_snapshot_from v =
     \<lparr>fs_priority_feerate = rf_priority_bucket v, fs_normal_feerates = map (\<lambda>bucket. bucket) (rf_normal_buckets v),
      fs_low_feerates = map (\<lambda>bucket. bucket) (rf_low_buckets v)\<rparr>"

datatype transaction_status = TS_Mempool (ts_fee: u64) (ts_is_orphan: bool) | TS_Unknown (ts_message: string)

definition transaction_status_from :: "mempool_entry \<Rightarrow> transaction_status" where
  "transaction_status_from entry = TS_Mempool (me_fee entry) (me_is_orphan entry)"

definition network_name :: "('w, 'id, 'addr, 'rpc) node \<Rightarrow> testnet_target \<Rightarrow> string" where
  "network_name nd t = nd_network_name nd (suffix t)"

definition get_network_info :: "('w, 'id, 'addr, 'rpc) node \<Rightarrow> ('w, network_info) io" where
  "get_network_info nd =
     io_bind (rpc (nd_get_server_info nd)) (\<lambda>server.
     io_bind (rpc (nd_get_block_dag_info nd)) (\<lambda>dag.
     io_return \<lparr>ni_network = si_network_id server, ni_node_version = si_server_version server,
       ni_rpc_api_version = si_rpc_api_version server, ni_rpc_api_revision = si_rpc_api_revision server,
       ni_is_synced = si_is_synced server, ni_has_utxo_index = si_has_utxo_index server,
       ni_virtual_daa_score = di_virtual_daa_score dag, ni_block_count = di_block_count dag,
       ni_header_count = di_header_count dag\<rparr>))"

definition assert_network :: "('w, 'id, 'addr, 'rpc) node \<Rightarrow> string \<Rightarrow> ('w, network_info) io" where
  "assert_network nd expected =
     io_bind (get_network_info nd) (\<lambda>info.
     io_lift (if ni_network info = expected then Inr info else Inl (TE_NetworkMismatch expected (ni_network info))))"

definition assert_target :: "('w, 'id, 'addr, 'rpc) node \<Rightarrow> testnet_target \<Rightarrow> ('w, network_info) io" where
  "assert_target nd t = assert_network nd (network_name nd t)"

definition assert_tn12 :: "('w, 'id, 'addr, 'rpc) node \<Rightarrow> ('w, network_info) io" where
  "assert_tn12 nd = assert_network nd TN12_NETWORK_ID"

definition client_new :: "('w, 'id, 'addr, 'rpc) node \<Rightarrow> testnet_config \<Rightarrow> testnet_error + testnet_target" where
  "client_new nd config =
     rbind (map_err TE_Rpc (nd_new_client nd (tc_rpc_url config) (suffix (tc_target config)))) (\<lambda>_. Inr (tc_target config))"

definition client_connect :: "('w, 'id, 'addr, 'rpc) node \<Rightarrow> testnet_config \<Rightarrow> ('w, testnet_target) io" where
  "client_connect nd config =
     io_bind (io_lift (client_new nd config)) (\<lambda>t.
     io_bind (rpc (nd_connect nd)) (\<lambda>_.
     io_bind (assert_target nd t) (\<lambda>_.
     io_return t)))"

definition client_disconnect :: "('w, 'id, 'addr, 'rpc) node \<Rightarrow> ('w, unit) io" where
  "client_disconnect nd = rpc (nd_disconnect nd)"

definition assert_indexed :: "('w, 'id, 'addr, 'rpc) node \<Rightarrow> testnet_target \<Rightarrow> ('w, network_info) io" where
  "assert_indexed nd t =
     io_bind (assert_target nd t) (\<lambda>info. io_lift (if ni_has_utxo_index info then Inr info else Inl TE_UtxoIndexDisabled))"

definition fetch_rpc_utxos ::
  "('w, 'id, 'addr, 'rpc) node \<Rightarrow> testnet_target \<Rightarrow> 'addr \<Rightarrow> ('w, 'id rpc_utxo list) io" where
  "fetch_rpc_utxos nd t address =
     io_bind (assert_indexed nd t) (\<lambda>_. rpc (nd_get_utxos_by_addresses nd [address]))"

definition daa_depth :: "u64 \<Rightarrow> u64 \<Rightarrow> u64" where
  "daa_depth virtual_daa_score block_daa_score = saturating_add (saturating_sub virtual_daa_score block_daa_score) 1"

definition normalize_utxo :: "('w, 'id, 'addr, 'rpc) node \<Rightarrow> 'id rpc_utxo \<Rightarrow> u64 \<Rightarrow> testnet_utxo" where
  "normalize_utxo nd entry virtual_daa_score =
     \<lparr>tu_outpoint = nd_show_id nd (op_transaction_id (ru_outpoint entry)) @ '':'' @ show_nat (unat (op_index (ru_outpoint entry))),
      tu_amount = ue_amount (ru_utxo_entry entry), tu_block_daa_score = ue_block_daa_score (ru_utxo_entry entry),
      tu_confirmations = daa_depth virtual_daa_score (ue_block_daa_score (ru_utxo_entry entry)),
      tu_is_coinbase = ue_is_coinbase (ru_utxo_entry entry),
      tu_script_public_key_hex = hex_encode (spk_script (ue_script_public_key (ru_utxo_entry entry)))\<rparr>"

definition fetch_utxos ::
  "('w, 'id, 'addr, 'rpc) node \<Rightarrow> testnet_target \<Rightarrow> 'addr \<Rightarrow> ('w, testnet_utxo list) io" where
  "fetch_utxos nd t address =
     io_bind (assert_indexed nd t) (\<lambda>info.
     io_bind (fetch_rpc_utxos nd t address) (\<lambda>entries.
     io_return (map (\<lambda>entry. normalize_utxo nd entry (ni_virtual_daa_score info)) entries)))"

definition balance :: "('w, 'id, 'addr, 'rpc) node \<Rightarrow> testnet_target \<Rightarrow> 'addr \<Rightarrow> ('w, u64) io" where
  "balance nd t address =
     io_bind (assert_indexed nd t) (\<lambda>_. rpc (nd_get_balance_by_address nd address))"

definition list_balance ::
  "('w, 'id, 'addr, 'rpc) node \<Rightarrow> testnet_target \<Rightarrow> ('key, 'addr) test_wallet \<Rightarrow> ('w, u64) io" where
  "list_balance nd t wallet = balance nd t (tw_address wallet)"

definition estimate_fees_if_supported :: "('w, 'id, 'addr, 'rpc) node \<Rightarrow> ('w, fee_estimate_snapshot option) io" where
  "estimate_fees_if_supported nd w =
     (case nd_get_fee_estimate nd w of
        (Inr estimate, w) \<Rightarrow> (Inr (Some (fee_estimate_snapshot_from estimate)), w)
      | (Inl message, w) \<Rightarrow>
          (let lower = to_ascii_lowercase message
           in if find_sub ''not found'' lower \<noteq> None \<or> find_sub ''not supported'' lower \<noteq> None \<or>
                 find_sub ''unimplemented'' lower \<noteq> None
              then (Inr None, w) else (Inl (TE_Rpc message), w)))"

definition submit_transaction ::
  "('w, 'id, 'addr, 'rpc) node \<Rightarrow> testnet_target \<Rightarrow> 'rpc \<Rightarrow> bool \<Rightarrow> testnet_config \<Rightarrow> ('w, 'id) io" where
  "submit_transaction nd t tx allow_orphan config =
     io_bind (assert_target nd t) (\<lambda>_.
     if \<not> tc_broadcast config then io_lift (Inl TE_BroadcastDisabled)
     else rpc (nd_submit_transaction nd tx allow_orphan))"

definition poll_transaction_status ::
  "('w, 'id, 'addr, 'rpc) node \<Rightarrow> testnet_target \<Rightarrow> 'id \<Rightarrow> ('w, transaction_status) io" where
  "poll_transaction_status nd t txid =
     io_bind (assert_target nd t) (\<lambda>_ w.
     case nd_get_mempool_entry nd txid True False w of
       (Inr entry, w) \<Rightarrow> (Inr (transaction_status_from entry), w)
     | (Inl message, w) \<Rightarrow> (Inr (TS_Unknown message), w))"

section \<open>Polling\<close>

text \<open>A \<open>for\<close> loop of bounded attempts that returns from the first turn with a result and sleeps after any other.\<close>

fun poll :: "nat \<Rightarrow> ('w, 'a option) io \<Rightarrow> ('w \<Rightarrow> 'w) \<Rightarrow> ('w, 'a option) io" where
  "poll 0 step sleep w = (Inr None, w)"
| "poll (Suc n) step sleep w =
     (case step w of
        (Inl e, w) \<Rightarrow> (Inl e, w)
      | (Inr (Some x), w) \<Rightarrow> (Inr (Some x), w)
      | (Inr None, w) \<Rightarrow> poll n step sleep (sleep w))"

definition mempool_turn ::
  "('w, 'id, 'addr, 'rpc) node \<Rightarrow> testnet_target \<Rightarrow> 'id \<Rightarrow> ('w, transaction_status option) io" where
  "mempool_turn nd t txid =
     io_bind (poll_transaction_status nd t txid) (\<lambda>status.
     io_return (case status of TS_Mempool _ _ \<Rightarrow> Some status | TS_Unknown _ \<Rightarrow> None))"

definition wait_for_mempool ::
  "('w, 'id, 'addr, 'rpc) node \<Rightarrow> testnet_target \<Rightarrow> 'id \<Rightarrow> testnet_config \<Rightarrow> ('w, transaction_status) io" where
  "wait_for_mempool nd t txid config =
     io_bind (poll (unat (tc_poll_attempts config)) (mempool_turn nd t txid) (nd_sleep nd (tc_poll_interval_ms config)))
       (\<lambda>found. io_return
          (case found of
             Some status \<Rightarrow> status
           | None \<Rightarrow> TS_Unknown ''transaction was not observed in mempool before timeout''))"

text \<open>The first listed output with the transaction id and index whose depth is enough.\<close>

definition matches_output ::
  "('w, 'id, 'addr, 'rpc) node \<Rightarrow> 'id \<Rightarrow> u32 \<Rightarrow> u64 option \<Rightarrow> u64 \<Rightarrow> 'id rpc_utxo \<Rightarrow> bool" where
  "matches_output nd txid output_index finality_depth virtual_daa_score entry \<longleftrightarrow>
     nd_show_id nd (op_transaction_id (ru_outpoint entry)) = nd_show_id nd txid \<and>
     op_index (ru_outpoint entry) = output_index \<and>
     (case finality_depth of
        None \<Rightarrow> True
      | Some required \<Rightarrow> required \<le> daa_depth virtual_daa_score (ue_block_daa_score (ru_utxo_entry entry)))"

definition indexed_output_turn ::
  "('w, 'id, 'addr, 'rpc) node \<Rightarrow> testnet_target \<Rightarrow> 'addr \<Rightarrow> 'id \<Rightarrow> u32 \<Rightarrow> u64 option \<Rightarrow> ('w, observed_output option) io" where
  "indexed_output_turn nd t address txid output_index finality_depth =
     io_bind (get_network_info nd) (\<lambda>info.
     io_bind (fetch_rpc_utxos nd t address) (\<lambda>entries.
     io_return
       (map_option (\<lambda>entry.
          \<lparr>oo_transaction_id = nd_show_id nd txid, oo_output_index = output_index,
           oo_amount = ue_amount (ru_utxo_entry entry), oo_block_daa_score = ue_block_daa_score (ru_utxo_entry entry),
           oo_observed_depth = daa_depth (ni_virtual_daa_score info) (ue_block_daa_score (ru_utxo_entry entry))\<rparr>)
         (find (matches_output nd txid output_index finality_depth (ni_virtual_daa_score info)) entries))))"

definition debug_u64_option :: "u64 option \<Rightarrow> string" where
  "debug_u64_option d = (case d of None \<Rightarrow> ''None'' | Some n \<Rightarrow> ''Some('' @ show_nat (unat n) @ '')'')"

definition wait_for_indexed_output ::
  "('w, 'id, 'addr, 'rpc) node \<Rightarrow> testnet_target \<Rightarrow> 'addr \<Rightarrow> 'id \<Rightarrow> u32 \<Rightarrow> u64 option \<Rightarrow> testnet_config \<Rightarrow>
     ('w, observed_output) io" where
  "wait_for_indexed_output nd t address txid output_index finality_depth config =
     io_bind
       (poll (unat (tc_poll_attempts config)) (indexed_output_turn nd t address txid output_index finality_depth)
         (nd_sleep nd (tc_poll_interval_ms config)))
       (\<lambda>found. io_lift
          (case found of
             Some out \<Rightarrow> Inr out
           | None \<Rightarrow> Inl (TE_Tx (''output '' @ nd_show_id nd txid @ '':'' @ show_nat (unat output_index) @
               '' was not observed with finality depth '' @ debug_u64_option finality_depth @ '' before timeout''))))"

end
