(* ===== verification/KS_TestnetTx.thy ===== *)
theory KS_TestnetTx
  imports KS_TestnetRpc
begin

text \<open>
  The testnet integration, third part (\<open>sdk/src/testnet.rs\<close>): contract instantiation, funding selection, and the
  lock and spend transactions with their fee loops, signatures and local script validation. Transactions,
  scripts, masses, the signing hash and the script engine are Rusty Kaspa's: a \<open>chain\<close> holds those
  operations, and the model builds, updates and passes the values the way the source does.
\<close>

section \<open>Transactions\<close>

record 'id tx_input =
  in_previous_outpoint :: "'id outpoint"
  in_signature_script :: "u8 list"
  in_sequence :: u64
  in_sig_op_count :: u8

record kaspa_output =
  out_value :: u64
  out_script_public_key :: script_public_key

record 'id kaspa_tx =
  kt_version :: u16
  kt_inputs :: "'id tx_input list"
  kt_outputs :: "kaspa_output list"
  kt_lock_time :: u64
  kt_subnetwork_id :: "u8 list"
  kt_gas :: u64
  kt_payload :: "u8 list"
  kt_mass :: u64

record ('id, 'addr) client_utxo =
  cu_address :: "'addr option"
  cu_outpoint :: "'id outpoint"
  cu_amount :: u64
  cu_script_public_key :: script_public_key
  cu_block_daa_score :: u64
  cu_is_coinbase :: bool

datatype param_value =
    PV_PublicKey "u8 list"
  | PV_Hash "u8 list"
  | PV_Integer u64
  | PV_Bool bool
  | PV_Bytes "u8 list"

type_synonym params = "string \<rightharpoonup> param_value"

text \<open>The mass calculator of a network suffix is given by its five operations.\<close>

record ('key, 'id, 'addr, 'rpc) chain =
  ch_keyring :: "('key, 'addr) keyring"
  ch_tx_version :: u16
  ch_native_subnetwork :: "u8 list"
  ch_max_sequence :: u64
  ch_max_standard_mass :: u64
  ch_tx_id :: "'id kaspa_tx \<Rightarrow> 'id"
  ch_show_id :: "'id \<Rightarrow> string"
  ch_rpc_transaction :: "'id kaspa_tx \<Rightarrow> 'rpc"
  ch_pay_to_address :: "'addr \<Rightarrow> script_public_key"
  ch_pay_to_script_hash :: "u8 list \<Rightarrow> script_public_key"
  ch_extract_address :: "script_public_key \<Rightarrow> string + 'addr"
  ch_add_data :: "u8 list \<Rightarrow> u8 list \<Rightarrow> string + u8 list"
  ch_sig_op_count :: "u8 list \<Rightarrow> script_public_key \<Rightarrow> u64"
  ch_sign_input :: "'id kaspa_tx \<Rightarrow> utxo_entry list \<Rightarrow> nat \<Rightarrow> u8 list \<Rightarrow> u8 list"
  ch_execute :: "'id kaspa_tx \<Rightarrow> utxo_entry list \<Rightarrow> nat \<Rightarrow> string + unit"
  ch_compute_mass :: "u32 \<Rightarrow> 'id kaspa_tx \<Rightarrow> u64"
  ch_storage_mass :: "u32 \<Rightarrow> ('id, 'addr) client_utxo list \<Rightarrow> kaspa_output list \<Rightarrow> u64 option"
  ch_combine_mass :: "u32 \<Rightarrow> u64 \<Rightarrow> u64 \<Rightarrow> u64"
  ch_is_dust :: "u32 \<Rightarrow> u64 \<Rightarrow> bool"
  ch_minimum_fee :: "u32 \<Rightarrow> u64 \<Rightarrow> u64"
  ch_params_json :: "params \<Rightarrow> string + u8 list"
  ch_artifact_json :: "compiled_artifact \<Rightarrow> string + u8 list"
  ch_overflow_checks :: bool

definition transaction_new ::
  "('key, 'id, 'addr, 'rpc) chain \<Rightarrow> 'id tx_input list \<Rightarrow> kaspa_output list \<Rightarrow> u64 \<Rightarrow> 'id kaspa_tx" where
  "transaction_new ch inputs outputs lock_time =
     \<lparr>kt_version = ch_tx_version ch, kt_inputs = inputs, kt_outputs = outputs, kt_lock_time = lock_time,
      kt_subnetwork_id = ch_native_subnetwork ch, kt_gas = 0, kt_payload = [], kt_mass = 0\<rparr>"

definition set_mass :: "u64 \<Rightarrow> 'id kaspa_tx \<Rightarrow> 'id kaspa_tx" where
  "set_mass mass tx = tx\<lparr>kt_mass := mass\<rparr>"

section \<open>Parameters of a contract\<close>

definition find_contract :: "compiled_artifact \<Rightarrow> string \<Rightarrow> testnet_error + artifact_contract" where
  "find_contract artifact name =
     (case find (\<lambda>c. arc_name c = name \<or> to_ascii_lowercase (arc_name c) = to_ascii_lowercase name) (ca_contracts artifact) of
        Some c \<Rightarrow> Inr c
      | None \<Rightarrow>
          (case ca_contracts artifact of
             c # _ \<Rightarrow> Inr c
           | [] \<Rightarrow> Inl (TE_Artifact ''artifact contains no contract ABI'')))"

definition find_spend :: "artifact_contract \<Rightarrow> string \<Rightarrow> testnet_error + artifact_spend" where
  "find_spend contract name =
     ok_or (find (\<lambda>s. ars_name s = name) (arc_spends contract))
       (TE_Artifact (''contract '' @ bt (arc_name contract) @ '' has no spend path '' @ bt name))"

definition default_spend_name :: "compiled_artifact \<Rightarrow> string \<Rightarrow> testnet_error + string" where
  "default_spend_name artifact cname =
     rbind (find_contract artifact cname) (\<lambda>contract.
     if arc_name contract = ''AtomicSwap'' then Inr ''refund_path''
     else case arc_spends contract of
            s # _ \<Rightarrow> Inr (ars_name s)
          | [] \<Rightarrow> Inl (TE_Artifact ''contract has no spend paths''))"

definition default_param ::
  "('key, 'addr) test_wallet \<Rightarrow> params \<Rightarrow> artifact_param \<Rightarrow> testnet_error + params" where
  "default_param wallet params param =
     rbind
       (case arp_ty param of
          T_PublicKey \<Rightarrow> Inr (PV_PublicKey (tw_public_key wallet))
        | T_Hash \<Rightarrow> Inr (PV_Hash (replicate 32 0))
        | T_BlockHeight \<Rightarrow> Inr (PV_Integer 0)
        | T_Amount \<Rightarrow> Inr (PV_Integer 0)
        | T_Bool \<Rightarrow> Inr (PV_Bool True)
        | T_Bytes \<Rightarrow> Inr (PV_Bytes [])
        | other \<Rightarrow> Inl (TE_Unsupported (''default binding for contract parameter '' @ bt (arp_name param) @ '' of type '' @
            type_debug other @ '' is not supported'')))
       (\<lambda>value. Inr (params(arp_name param \<mapsto> value)))"

definition default_contract_params ::
  "compiled_artifact \<Rightarrow> string \<Rightarrow> ('key, 'addr) test_wallet \<Rightarrow> testnet_error + params" where
  "default_contract_params artifact cname wallet =
     rbind (find_contract artifact cname) (\<lambda>contract.
     try_fold (default_param wallet) Map.empty (arc_params contract))"

text \<open>The \<open>Debug\<close> text of a value: bytes as a list of numbers.\<close>

definition debug_bytes :: "u8 list \<Rightarrow> string" where
  "debug_bytes bs = ''['' @ join_with '', '' (map (\<lambda>b. show_nat (unat b)) bs) @ '']''"

fun debug_param_value :: "param_value \<Rightarrow> string" where
  "debug_param_value (PV_PublicKey bs) = ''PublicKey('' @ debug_bytes bs @ '')''"
| "debug_param_value (PV_Hash bs) = ''Hash('' @ debug_bytes bs @ '')''"
| "debug_param_value (PV_Integer n) = ''Integer('' @ show_nat (unat n) @ '')''"
| "debug_param_value (PV_Bool b) = ''Bool('' @ show_bool b @ '')''"
| "debug_param_value (PV_Bytes bs) = ''Bytes('' @ debug_bytes bs @ '')''"

definition valid_param :: "type_name \<Rightarrow> param_value \<Rightarrow> bool" where
  "valid_param ty value =
     (case value of
        PV_PublicKey bs \<Rightarrow> ty = T_PublicKey \<and> length bs = 32
      | PV_Hash bs \<Rightarrow> ty = T_Hash \<and> length bs = 32
      | PV_Integer _ \<Rightarrow> ty = T_BlockHeight \<or> ty = T_Amount
      | PV_Bool _ \<Rightarrow> ty = T_Bool
      | PV_Bytes _ \<Rightarrow> ty = T_Bytes)"

definition validate_param_type :: "string \<Rightarrow> type_name \<Rightarrow> param_value \<Rightarrow> testnet_error + unit" where
  "validate_param_type name ty value =
     (if valid_param ty value then Inr ()
      else Inl (TE_Param (''parameter '' @ bt name @ '' expects '' @ type_debug ty @ '', got '' @ debug_param_value value)))"

definition validate_param_binding :: "params \<Rightarrow> unit \<Rightarrow> artifact_param \<Rightarrow> testnet_error + unit" where
  "validate_param_binding bindings u param =
     rbind (ok_or (bindings (arp_name param)) (TE_Param (''missing parameter '' @ bt (arp_name param)))) (\<lambda>value.
     validate_param_type (arp_name param) (arp_ty param) value)"

definition validate_param_bindings :: "artifact_param list \<Rightarrow> params \<Rightarrow> testnet_error + unit" where
  "validate_param_bindings ps bindings = try_fold (validate_param_binding bindings) () ps"

section \<open>Instantiation\<close>

definition script_public_key_bytes :: "script_public_key \<Rightarrow> u8 list" where
  "script_public_key_bytes spk =
     [ucast (drop_bit 8 (spk_version spk)), ucast (spk_version spk)] @ spk_script spk"

definition value_to_ir ::
  "('key, 'id, 'addr, 'rpc) chain \<Rightarrow> param_value \<Rightarrow> type_name \<Rightarrow> bool \<Rightarrow> testnet_error + ir_value" where
  "value_to_ir ch value ty as_script_public_key =
     (case (value, ty) of
        (PV_PublicKey bs, T_PublicKey) \<Rightarrow>
          if as_script_public_key
          then Inr (V_Bytes (script_public_key_bytes (ch_pay_to_address ch (kr_address (ch_keyring ch) bs))))
          else Inr (V_Bytes bs)
      | (PV_Hash bs, T_Hash) \<Rightarrow> Inr (V_Bytes bs)
      | (PV_Integer n, T_BlockHeight) \<Rightarrow> Inr (V_Integer n)
      | (PV_Integer n, T_Amount) \<Rightarrow> Inr (V_Integer n)
      | (PV_Bool b, T_Bool) \<Rightarrow> Inr (V_Bool b)
      | (PV_Bytes bs, T_Bytes) \<Rightarrow> Inr (V_Bytes bs)
      | _ \<Rightarrow> Inl (TE_Param (''cannot convert '' @ debug_param_value value @ '' to IR value for '' @ type_debug ty)))"

definition previous_instruction_is_script_read :: "instruction list \<Rightarrow> nat \<Rightarrow> bool" where
  "previous_instruction_is_script_read is index \<longleftrightarrow>
     index > 0 \<and> (case instr_kind (is ! (index - 1)) of I_OutputScript _ \<Rightarrow> True | I_InputScript _ \<Rightarrow> True | _ \<Rightarrow> False)"

fun lock_time_requirement :: "instruction list \<Rightarrow> bool \<times> u64" where
  "lock_time_requirement [] = (False, 0)"
| "lock_time_requirement (i # is) =
     (case instr_kind i of
        I_CheckLockHeight v \<Rightarrow> (True, v)
      | I_CheckLockTime v \<Rightarrow> (True, v)
      | I_CheckLockHeightFromStack \<Rightarrow> (True, 0)
      | I_CheckLockTimeFromStack \<Rightarrow> (True, 0)
      | _ \<Rightarrow> lock_time_requirement is)"

text \<open>A \<open>BTreeMap\<close> collected from name and type pairs: the last type of a name counts.\<close>

definition param_types :: "artifact_param list \<Rightarrow> string \<rightharpoonup> type_name" where
  "param_types ps = map_of (rev (map (\<lambda>p. (arp_name p, arp_ty p)) ps))"

text \<open>One turn of the loop over the instructions of a spend.\<close>

definition bind_instruction ::
  "('key, 'id, 'addr, 'rpc) chain \<Rightarrow> artifact_contract \<Rightarrow> artifact_spend \<Rightarrow> string \<Rightarrow> params \<Rightarrow>
     instruction list \<Rightarrow> nat \<times> instruction \<Rightarrow> testnet_error + instruction list" where
  "bind_instruction ch contract spend sname bindings transformed indexed =
     (let (index, i) = indexed in
      case instr_kind i of
        I_Push (V_Symbol name) \<Rightarrow>
          if param_types (ars_params spend) name \<noteq> None then Inr transformed
          else
            rbind (ok_or (param_types (arc_params contract) name)
                     (TE_Param (''unbound symbol '' @ bt name @ '' in spend '' @ bt sname))) (\<lambda>ty.
            rbind (ok_or (bindings name) (TE_Param (''missing contract parameter '' @ bt name))) (\<lambda>value.
            rbind (value_to_ir ch value ty
                     (previous_instruction_is_script_read (ars_instructions spend) index \<and> ty = T_PublicKey)) (\<lambda>v.
            Inr (transformed @ [mk_instr (instr_span i) (I_Push v)]))))
      | _ \<Rightarrow> Inr (transformed @ [i]))"

record 'addr contract_instantiation =
  ct_contract_name :: string
  ct_spend_name :: string
  ct_redeem_script :: "u8 list"
  ct_script_public_key :: script_public_key
  ct_locking_address :: 'addr
  ct_instantiated_params_hash :: string
  ct_locking_script_hash :: string
  ct_spend_args :: "artifact_param list"
  ct_lock_time :: u64
  ct_uses_lock_time :: bool
  ct_warnings :: "string list"

definition hash_params :: "('key, 'id, 'addr, 'rpc) chain \<Rightarrow> params \<Rightarrow> testnet_error + string" where
  "hash_params ch params =
     rbind (map_err TE_Json (ch_params_json ch params)) (\<lambda>bytes. Inr (sha256_hex (ch_keyring ch) bytes))"

definition instantiate_contract ::
  "('key, 'id, 'addr, 'rpc) chain \<Rightarrow> compiled_artifact \<Rightarrow> string \<Rightarrow> string \<Rightarrow> params \<Rightarrow> testnet_target \<Rightarrow>
     testnet_error + 'addr contract_instantiation" where
  "instantiate_contract ch artifact cname sname bindings t =
     rbind (find_contract artifact cname) (\<lambda>contract.
     if length (arc_spends contract) \<noteq> 1
     then Inl (TE_Unsupported ''legacy single-spend instantiation cannot preserve multiple paths in one locking script; use a reviewed native dispatcher'')
     else
       rbind (find_spend contract sname) (\<lambda>spend.
       rbind (validate_param_bindings (arc_params contract) bindings) (\<lambda>_.
       rbind (try_fold (bind_instruction ch contract spend sname bindings) []
                (enumerate 0 (ars_instructions spend))) (\<lambda>transformed.
       rbind (map_err (TE_Compile \<circ> codegen_error_display) (compile_spend_script transformed)) (\<lambda>redeem_script.
       let script_public_key = ch_pay_to_script_hash ch redeem_script in
       rbind (map_err TE_Tx (ch_extract_address ch script_public_key)) (\<lambda>locking_address.
       rbind (hash_params ch bindings) (\<lambda>instantiated_params_hash.
       let (uses_lock_time, lock_time) = lock_time_requirement transformed in
       Inr \<lparr>ct_contract_name = arc_name contract, ct_spend_name = ars_name spend, ct_redeem_script = redeem_script,
            ct_script_public_key = script_public_key, ct_locking_address = locking_address,
            ct_instantiated_params_hash = instantiated_params_hash,
            ct_locking_script_hash = sha256_hex (ch_keyring ch) (spk_script script_public_key),
            ct_spend_args = ars_params spend, ct_lock_time = lock_time, ct_uses_lock_time = uses_lock_time,
            ct_warnings = target_warnings t @
              [''script construction uses Rusty Kaspa pay_to_script_hash_script and ScriptBuilder; spend args are supplied through P2SH signature_script'']\<rparr>)))))))"

end
