(* ===== verification/KS_TestnetBuild.thy ===== *)
theory KS_TestnetBuild
  imports KS_TestnetTx
begin

text \<open>
  The testnet integration, fourth part (\<open>sdk/src/testnet.rs\<close>): funding selection, the fee loops of the lock and the
  spend transaction, signatures, local script validation, the dry run of a whole contract, the harness that
  broadcasts it, and the proof record it leaves.
\<close>

section \<open>Funding\<close>

record ('id, 'addr) funding_utxo =
  fu_outpoint :: "'id outpoint"
  fu_entry :: utxo_entry
  fu_client_ref :: "('id, 'addr) client_utxo"

definition funding_from_rpc :: "'id rpc_utxo \<Rightarrow> 'addr \<Rightarrow> ('id, 'addr) funding_utxo" where
  "funding_from_rpc entry address =
     (let e = ru_utxo_entry entry in
      \<lparr>fu_outpoint = ru_outpoint entry,
       fu_entry = \<lparr>ue_amount = ue_amount e, ue_script_public_key = ue_script_public_key e,
         ue_block_daa_score = ue_block_daa_score e, ue_is_coinbase = ue_is_coinbase e\<rparr>,
       fu_client_ref = \<lparr>cu_address = Some address, cu_outpoint = ru_outpoint entry, cu_amount = ue_amount e,
         cu_script_public_key = ue_script_public_key e, cu_block_daa_score = ue_block_daa_score e,
         cu_is_coinbase = ue_is_coinbase e\<rparr>\<rparr>)"

definition funding_from_transaction_output ::
  "('key, 'id, 'addr, 'rpc) chain \<Rightarrow> 'id kaspa_tx \<Rightarrow> nat \<Rightarrow> 'addr \<Rightarrow> testnet_error + ('id, 'addr) funding_utxo" where
  "funding_from_transaction_output ch tx index address =
     (if index < length (kt_outputs tx) then
        (let out = kt_outputs tx ! index in
         if index < 2 ^ 32 then
           (let outpoint = \<lparr>op_transaction_id = ch_tx_id ch tx, op_index = of_nat index\<rparr> in
            Inr \<lparr>fu_outpoint = outpoint,
                 fu_entry = \<lparr>ue_amount = out_value out, ue_script_public_key = out_script_public_key out,
                   ue_block_daa_score = 0, ue_is_coinbase = False\<rparr>,
                 fu_client_ref = \<lparr>cu_address = Some address, cu_outpoint = outpoint, cu_amount = out_value out,
                   cu_script_public_key = out_script_public_key out, cu_block_daa_score = 0, cu_is_coinbase = False\<rparr>\<rparr>)
         else Inl (TE_Tx ''out of range integral type conversion attempted''))
      else Inl (TE_Tx (''missing transaction output '' @ show_nat index)))"

definition lock_change_funding ::
  "('key, 'id, 'addr, 'rpc) chain \<Rightarrow> 'id kaspa_tx \<Rightarrow> 'addr \<Rightarrow> testnet_error + ('id, 'addr) funding_utxo option" where
  "lock_change_funding ch tx address =
     (if length (kt_outputs tx) \<le> 1 then Inr None
      else rbind (funding_from_transaction_output ch tx 1 address) (\<lambda>u. Inr (Some u)))"

text \<open>The largest outputs first (a stable sort), until their total reaches the minimum.\<close>

fun select_loop ::
  "u64 \<Rightarrow> u64 \<Rightarrow> ('id, 'addr) funding_utxo list \<Rightarrow> ('id, 'addr) funding_utxo list \<Rightarrow>
     testnet_error + ('id, 'addr) funding_utxo list" where
  "select_loop minimum tot selected [] = Inl (TE_InsufficientFunds minimum tot)"
| "select_loop minimum tot selected (u # us) =
     (let tot = saturating_add tot (ue_amount (fu_entry u));
          selected = selected @ [u]
      in if minimum \<le> tot then Inr selected else select_loop minimum tot selected us)"

definition select_funding ::
  "('id, 'addr) funding_utxo list \<Rightarrow> u64 \<Rightarrow> testnet_error + ('id, 'addr) funding_utxo list" where
  "select_funding funding minimum =
     select_loop minimum 0 [] (sort_key (\<lambda>u. - int (unat (ue_amount (fu_entry u)))) funding)"

section \<open>Signature scripts\<close>

definition dummy_p2pk_signature_script :: "u8 list" where
  "dummy_p2pk_signature_script = 65 # replicate 65 0"

definition dummy_spend_arg_payloads :: "artifact_param list \<Rightarrow> testnet_error + u8 list list" where
  "dummy_spend_arg_payloads ps =
     try_map (\<lambda>param.
       if arp_ty param = T_Signature then Inr (replicate 65 0)
       else Inl (TE_Unsupported (''live spend arg '' @ bt (arp_name param) @ '' of type '' @ type_debug (arp_ty param) @
              '' is not yet supported''))) ps"

definition parse_single_signature_payload :: "u8 list \<Rightarrow> testnet_error + u8 list" where
  "parse_single_signature_payload signature_script =
     (if length signature_script \<noteq> 66 \<or> hd signature_script \<noteq> 65
      then Inl (TE_Tx ''Rusty Kaspa sign_input returned an unexpected signature script shape'')
      else Inr (tl signature_script))"

definition build_contract_signature_script ::
  "('key, 'id, 'addr, 'rpc) chain \<Rightarrow> u8 list \<Rightarrow> u8 list list \<Rightarrow> testnet_error + u8 list" where
  "build_contract_signature_script ch redeem_script payloads =
     rbind (try_fold (\<lambda>script payload. map_err TE_Tx (ch_add_data ch script payload)) [] payloads) (\<lambda>script.
     map_err TE_Tx (ch_add_data ch script redeem_script))"

definition p2sh_sig_op_count ::
  "('key, 'id, 'addr, 'rpc) chain \<Rightarrow> u8 list \<Rightarrow> script_public_key \<Rightarrow> testnet_error + u8" where
  "p2sh_sig_op_count ch signature_script script_public_key =
     (let sig_ops = ch_sig_op_count ch signature_script script_public_key in
      if unat sig_ops < 256 then Inr (ucast sig_ops) else Inl (TE_Tx ''out of range integral type conversion attempted''))"

definition sign_p2pk_inputs ::
  "('key, 'id, 'addr, 'rpc) chain \<Rightarrow> ('key, 'addr) test_wallet \<Rightarrow> utxo_entry list \<Rightarrow> nat \<Rightarrow> 'id kaspa_tx \<Rightarrow> 'id kaspa_tx" where
  "sign_p2pk_inputs ch wallet entries start_index tx =
     foldl (\<lambda>tx' index. tx'\<lparr>kt_inputs := (kt_inputs tx')[index := (kt_inputs tx' ! index)
         \<lparr>in_signature_script := ch_sign_input ch tx entries index (kr_secret_bytes (ch_keyring ch) (tw_secret_key wallet))\<rparr>]\<rparr>)
       tx [start_index..<length (kt_inputs tx)]"

definition set_contract_script :: "u8 list \<Rightarrow> u8 \<Rightarrow> 'id kaspa_tx \<Rightarrow> 'id kaspa_tx" where
  "set_contract_script script sig_ops tx =
     tx\<lparr>kt_inputs := (kt_inputs tx)[0 := (kt_inputs tx ! 0)\<lparr>in_signature_script := script, in_sig_op_count := sig_ops\<rparr>]\<rparr>"

definition sign_contract_input ::
  "('key, 'id, 'addr, 'rpc) chain \<Rightarrow> ('key, 'addr) test_wallet \<Rightarrow> 'addr contract_instantiation \<Rightarrow> utxo_entry list \<Rightarrow>
     'id kaspa_tx \<Rightarrow> testnet_error + 'id kaspa_tx" where
  "sign_contract_input ch wallet inst entries tx =
     (let signature_script = ch_sign_input ch tx entries 0 (kr_secret_bytes (ch_keyring ch) (tw_secret_key wallet)) in
      rbind (parse_single_signature_payload signature_script) (\<lambda>signature_payload.
      rbind (try_map (\<lambda>param.
          if arp_ty param = T_Signature then Inr signature_payload
          else Inl (TE_Unsupported (''live spend arg '' @ bt (arp_name param) @ '' of type '' @ type_debug (arp_ty param) @
                 '' is not yet supported by the P2SH builder''))) (ct_spend_args inst)) (\<lambda>payloads.
      rbind (build_contract_signature_script ch (ct_redeem_script inst) payloads) (\<lambda>script.
      rbind (p2sh_sig_op_count ch script (ue_script_public_key (entries ! 0))) (\<lambda>sig_ops.
      Inr (set_contract_script script sig_ops tx))))))"

text \<open>Each input's script is run by the engine on the output it spends.\<close>

definition validate_scripts ::
  "('key, 'id, 'addr, 'rpc) chain \<Rightarrow> utxo_entry list \<Rightarrow> 'id kaspa_tx \<Rightarrow> testnet_error + unit" where
  "validate_scripts ch entries tx =
     try_fold (\<lambda>_ index.
       if index < length entries then map_err TE_Script (ch_execute ch tx entries index)
       else Inl (TE_Script (''missing UTXO entry for input '' @ show_nat index)))
       () [0..<length (kt_inputs tx)]"

section \<open>Fees\<close>

fun mass_suffix :: "testnet_target \<Rightarrow> u32" where
  "mass_suffix TT_Tn10 = 10"
| "mass_suffix TT_Tn11 = 11"
| "mass_suffix TT_Tn12 = 11"

definition calculate_mass ::
  "('key, 'id, 'addr, 'rpc) chain \<Rightarrow> u32 \<Rightarrow> ('id, 'addr) client_utxo list \<Rightarrow> 'id kaspa_tx \<Rightarrow> testnet_error + u64" where
  "calculate_mass ch calc refs tx =
     (let compute_mass = ch_compute_mass ch calc tx in
      rbind (ok_or (ch_storage_mass ch calc refs (kt_outputs tx)) (TE_Tx ''storage mass calculation failed'')) (\<lambda>storage_mass.
      Inr (ch_combine_mass ch calc compute_mass storage_mass)))"

definition sum_amounts :: "('key, 'id, 'addr, 'rpc) chain \<Rightarrow> u64 list \<Rightarrow> testnet_error + u64" where
  "sum_amounts ch amounts = ok_or (sum_u64 (ch_overflow_checks ch) 0 amounts) TE_Panic"

text \<open>The outputs of a turn: change below the dust limit is left to the fee.\<close>

definition outputs_with_change ::
  "('key, 'id, 'addr, 'rpc) chain \<Rightarrow> u32 \<Rightarrow> 'addr \<Rightarrow> kaspa_output list \<Rightarrow> u64 \<Rightarrow> kaspa_output list" where
  "outputs_with_change ch calc address destinations change =
     (if change > 0 \<and> \<not> ch_is_dust ch calc change
      then destinations @ [\<lparr>out_value = change, out_script_public_key = ch_pay_to_address ch address\<rparr>]
      else destinations)"

text \<open>
  A bounded loop towards a fee that fits the transaction it pays for: a turn builds the transaction with the change of
  the turn before, and gives it with its mass, its fee and the next change; the loop ends when fee and change
  stay, or after its last turn.
\<close>

fun fee_loop ::
  "nat \<Rightarrow> (u64 \<Rightarrow> testnet_error + ('tx \<times> u64 \<times> u64) \<times> u64) \<Rightarrow> u64 \<Rightarrow> u64 \<Rightarrow> ('tx \<times> u64 \<times> u64) option \<Rightarrow>
     testnet_error + ('tx \<times> u64 \<times> u64) option" where
  "fee_loop 0 turn fee change final_tx = Inr final_tx"
| "fee_loop (Suc n) turn fee change final_tx =
     rbind (turn change) (\<lambda>((tx, mass, next_fee), next_change).
     if next_fee = fee \<and> next_change = change then Inr (Some (tx, mass, next_fee))
     else fee_loop n turn next_fee next_change (Some (tx, mass, next_fee)))"

record 'rpc transaction_preview =
  pv_txid :: string
  pv_mass :: u64
  pv_fee :: u64
  pv_script_hex :: string
  pv_rpc_transaction :: 'rpc

record ('id, 'rpc) built_transaction =
  bx_tx :: "'id kaspa_tx"
  bx_inputs :: "'id tx_input list"
  bx_preview :: "'rpc transaction_preview"

text \<open>The change left when the needed amount is paid out of the total.\<close>

definition next_change_of :: "u64 \<Rightarrow> u64 \<Rightarrow> testnet_error + u64" where
  "next_change_of available needed = ok_or (checked_sub available needed) (TE_InsufficientFunds needed available)"

definition mass_error :: "('key, 'id, 'addr, 'rpc) chain \<Rightarrow> string \<Rightarrow> u64 \<Rightarrow> testnet_error" where
  "mass_error ch label mass =
     TE_Tx (label @ '' transaction mass '' @ show_nat (unat mass) @ '' exceeds standard limit '' @
       show_nat (unat (ch_max_standard_mass ch)))"

definition funding_turn ::
  "('key, 'id, 'addr, 'rpc) chain \<Rightarrow> u32 \<Rightarrow> 'addr \<Rightarrow> 'id tx_input list \<Rightarrow> ('id, 'addr) client_utxo list \<Rightarrow> kaspa_output list \<Rightarrow>
     u64 \<Rightarrow> string \<Rightarrow> u64 \<Rightarrow> u64 \<Rightarrow> u64 \<Rightarrow> testnet_error + ('id kaspa_tx \<times> u64 \<times> u64) \<times> u64" where
  "funding_turn ch calc address inputs refs destinations lock_time label total_input destination_total change =
     (let tx = transaction_new ch inputs (outputs_with_change ch calc address destinations change) lock_time in
      rbind (calculate_mass ch calc refs tx) (\<lambda>mass.
      if mass > ch_max_standard_mass ch then Inl (mass_error ch label mass)
      else
        (let next_fee = ch_minimum_fee ch calc mass;
             needed = saturating_add destination_total next_fee
         in rbind (next_change_of total_input needed) (\<lambda>next_change. Inr ((tx, mass, next_fee), next_change)))))"

definition build_signed_funding_transaction ::
  "('key, 'id, 'addr, 'rpc) chain \<Rightarrow> ('key, 'addr) test_wallet \<Rightarrow> testnet_target \<Rightarrow> ('id, 'addr) funding_utxo list \<Rightarrow>
     kaspa_output list \<Rightarrow> u64 \<Rightarrow> string \<Rightarrow> testnet_error + ('id, 'rpc) built_transaction" where
  "build_signed_funding_transaction ch wallet t selected destinations lock_time label =
     (let inputs = map (\<lambda>u. \<lparr>in_previous_outpoint = fu_outpoint u, in_signature_script = dummy_p2pk_signature_script,
            in_sequence = ch_max_sequence ch, in_sig_op_count = 1\<rparr>) selected;
          entries = map fu_entry selected;
          refs = map fu_client_ref selected
      in
      rbind (sum_amounts ch (map (\<lambda>u. ue_amount (fu_entry u)) selected)) (\<lambda>total_input.
      rbind (sum_amounts ch (map out_value destinations)) (\<lambda>destination_total.
      rbind (fee_loop 10
               (funding_turn ch (mass_suffix t) (tw_address wallet) inputs refs destinations lock_time label total_input
                  destination_total) 0 0 None) (\<lambda>final_tx.
      rbind (ok_or final_tx (TE_Tx ''failed to build transaction'')) (\<lambda>(tx, mass, fee).
      let inputs = kt_inputs tx;
          tx = set_mass mass (sign_p2pk_inputs ch wallet entries 0 tx)
      in
      rbind (validate_scripts ch entries tx) (\<lambda>_.
      Inr \<lparr>bx_tx = tx, bx_inputs = inputs,
           bx_preview = \<lparr>pv_txid = ch_show_id ch (ch_tx_id ch tx), pv_mass = mass, pv_fee = fee,
             pv_script_hex = (case kt_outputs tx of [] \<Rightarrow> [] | out # _ \<Rightarrow> hex_encode (spk_script (out_script_public_key out))),
             pv_rpc_transaction = ch_rpc_transaction ch tx\<rparr>\<rparr>))))))"

definition build_lock_transaction ::
  "('key, 'id, 'addr, 'rpc) chain \<Rightarrow> ('key, 'addr) test_wallet \<Rightarrow> testnet_target \<Rightarrow> u64 \<Rightarrow> 'addr contract_instantiation \<Rightarrow>
     ('id, 'addr) funding_utxo list \<Rightarrow> testnet_error + ('id, 'rpc) built_transaction" where
  "build_lock_transaction ch wallet t amount inst funding =
     (if amount = 0 then Inl (TE_Tx ''lock amount must be greater than zero'')
      else
        rbind (select_funding funding (saturating_add amount 10000)) (\<lambda>selected.
        build_signed_funding_transaction ch wallet t selected
          [\<lparr>out_value = amount, out_script_public_key = ct_script_public_key inst\<rparr>] 0 ''lock''))"

end
