(* ===== verification/KS_Testnet.thy ===== *)
theory KS_Testnet
  imports KS_TestnetBuild
begin

text \<open>
  The testnet integration, last part (\<open>sdk/src/testnet.rs\<close>): the spend transaction, the dry run of a whole contract,
  the proof record, and the harness that may broadcast the run through the RPC adapter.
\<close>

section \<open>The spend transaction\<close>

record 'id locked_output =
  lo_outpoint :: "'id outpoint"
  lo_amount :: u64
  lo_script_public_key :: script_public_key
  lo_block_daa_score :: u64

definition client_ref_for_locked :: "'id locked_output \<Rightarrow> ('id, 'addr) client_utxo" where
  "client_ref_for_locked locked =
     \<lparr>cu_address = None, cu_outpoint = lo_outpoint locked, cu_amount = lo_amount locked,
      cu_script_public_key = lo_script_public_key locked, cu_block_daa_score = lo_block_daa_score locked,
      cu_is_coinbase = False\<rparr>"

definition spend_turn ::
  "('key, 'id, 'addr, 'rpc) chain \<Rightarrow> u32 \<Rightarrow> 'addr \<Rightarrow> 'addr contract_instantiation \<Rightarrow> 'id locked_output \<Rightarrow>
     'id tx_input list \<Rightarrow> ('id, 'addr) client_utxo list \<Rightarrow> kaspa_output \<Rightarrow> u64 \<Rightarrow> u64 \<Rightarrow>
     testnet_error + ('id kaspa_tx \<times> u64 \<times> u64) \<times> u64" where
  "spend_turn ch calc address inst locked inputs refs output_zero funding_total change =
     (let tx = transaction_new ch inputs (outputs_with_change ch calc address [output_zero] change) (ct_lock_time inst) in
      rbind (dummy_spend_arg_payloads (ct_spend_args inst)) (\<lambda>payloads.
      rbind (build_contract_signature_script ch (ct_redeem_script inst) payloads) (\<lambda>dummy_contract_script.
      rbind (p2sh_sig_op_count ch dummy_contract_script (lo_script_public_key locked)) (\<lambda>sig_ops.
      let tx = set_contract_script dummy_contract_script sig_ops tx in
      rbind (calculate_mass ch calc refs tx) (\<lambda>mass.
      if mass > ch_max_standard_mass ch then Inl (mass_error ch ''spend'' mass)
      else
        (let next_fee = ch_minimum_fee ch calc mass in
         rbind (next_change_of funding_total next_fee) (\<lambda>next_change.
         Inr ((set_mass mass tx, mass, next_fee), next_change))))))))"

definition build_spend_transaction ::
  "('key, 'id, 'addr, 'rpc) chain \<Rightarrow> ('key, 'addr) test_wallet \<Rightarrow> testnet_target \<Rightarrow> 'addr contract_instantiation \<Rightarrow>
     'id locked_output \<Rightarrow> ('id, 'addr) funding_utxo list \<Rightarrow> testnet_error + ('id, 'rpc) built_transaction" where
  "build_spend_transaction ch wallet t inst locked funding =
     rbind (select_funding funding 10000) (\<lambda>fee_funding.
     let contract_sequence = (if ct_uses_lock_time inst then 0 else ch_max_sequence ch);
         inputs =
           \<lparr>in_previous_outpoint = lo_outpoint locked, in_signature_script = [], in_sequence = contract_sequence,
            in_sig_op_count = 0\<rparr> #
           map (\<lambda>u. \<lparr>in_previous_outpoint = fu_outpoint u, in_signature_script = dummy_p2pk_signature_script,
                     in_sequence = ch_max_sequence ch, in_sig_op_count = 1\<rparr>) fee_funding;
         entries =
           \<lparr>ue_amount = lo_amount locked, ue_script_public_key = lo_script_public_key locked,
            ue_block_daa_score = lo_block_daa_score locked, ue_is_coinbase = False\<rparr> # map fu_entry fee_funding;
         refs = client_ref_for_locked locked # map fu_client_ref fee_funding;
         output_zero = \<lparr>out_value = lo_amount locked, out_script_public_key = ch_pay_to_address ch (tw_address wallet)\<rparr>
     in
     rbind (sum_amounts ch (map (\<lambda>u. ue_amount (fu_entry u)) fee_funding)) (\<lambda>funding_total.
     rbind (fee_loop 10
              (spend_turn ch (mass_suffix t) (tw_address wallet) inst locked inputs refs output_zero funding_total)
              0 0 None) (\<lambda>final_tx.
     rbind (ok_or final_tx (TE_Tx ''failed to build spend transaction'')) (\<lambda>(tx, mass, fee).
     rbind (sign_contract_input ch wallet inst entries (sign_p2pk_inputs ch wallet entries 1 tx)) (\<lambda>tx.
     rbind (validate_scripts ch entries tx) (\<lambda>_.
     Inr \<lparr>bx_tx = tx, bx_inputs = kt_inputs tx,
          bx_preview = \<lparr>pv_txid = ch_show_id ch (ch_tx_id ch tx), pv_mass = mass, pv_fee = fee,
            pv_script_hex = hex_encode (ct_redeem_script inst), pv_rpc_transaction = ch_rpc_transaction ch tx\<rparr>\<rparr>))))))"

section \<open>The run of a contract\<close>

record deployment_plan =
  dp_contract_name :: string
  dp_file :: string
  dp_source_hash :: string
  dp_artifact_hash :: string
  dp_script_hash :: string
  dp_script_hex :: string
  dp_artifact :: compiled_artifact

definition plan_from_source ::
  "environment \<Rightarrow> ('key, 'id, 'addr, 'rpc) chain \<Rightarrow> string \<Rightarrow> string \<Rightarrow> string \<Rightarrow> testnet_error + deployment_plan" where
  "plan_from_source env ch cname source_file source =
     rbind (map_err (TE_Compile \<circ> codegen_error_display) (compile_file env source source_file)) (\<lambda>artifact.
     rbind (map_err (TE_Compile \<circ> codegen_error_display) (verify_artifact artifact)) (\<lambda>_.
     rbind (map_err TE_Json (ch_artifact_json ch artifact)) (\<lambda>artifact_bytes.
     Inr \<lparr>dp_contract_name = cname, dp_file = source_file, dp_source_hash = hex_encode (ca_source_hash artifact),
          dp_artifact_hash = sha256_hex (ch_keyring ch) artifact_bytes,
          dp_script_hash = sha256_hex (ch_keyring ch) (ca_bytecode artifact),
          dp_script_hex = bytecode_hex (ca_bytecode artifact), dp_artifact = artifact\<rparr>)))"

record ('addr, 'rpc) run_result =
  rn_plan :: deployment_plan
  rn_instantiation :: "'addr contract_instantiation"
  rn_lock :: "'rpc transaction_preview"
  rn_spend :: "'rpc transaction_preview"

text \<open>What is left to pay the fee of the spend: the outputs the lock does not spend, and its change.\<close>

definition fee_funding_of ::
  "('key, 'id, 'addr, 'rpc) chain \<Rightarrow> 'addr \<Rightarrow> ('id, 'rpc) built_transaction \<Rightarrow> ('id, 'addr) funding_utxo list \<Rightarrow>
     testnet_error + ('id, 'addr) funding_utxo list" where
  "fee_funding_of ch address lock funding =
     (let spent_outpoints = set (map in_previous_outpoint (bx_inputs lock));
          fee_funding = filter (\<lambda>u. fu_outpoint u \<notin> spent_outpoints) funding
      in rbind (lock_change_funding ch (bx_tx lock) address) (\<lambda>change_utxo.
         Inr (case change_utxo of None \<Rightarrow> fee_funding | Some u \<Rightarrow> fee_funding @ [u])))"

definition build_contract_run ::
  "environment \<Rightarrow> ('key, 'id, 'addr, 'rpc) chain \<Rightarrow> string \<Rightarrow> string \<Rightarrow> string \<Rightarrow> ('key, 'addr) test_wallet \<Rightarrow> testnet_target \<Rightarrow>
     u64 \<Rightarrow> 'id rpc_utxo list \<Rightarrow> testnet_error + ('addr, 'rpc) run_result" where
  "build_contract_run env ch cname source_file source wallet t amount_sompi rpc_utxos =
     rbind (plan_from_source env ch cname source_file source) (\<lambda>plan.
     rbind (default_spend_name (dp_artifact plan) cname) (\<lambda>sname.
     rbind (default_contract_params (dp_artifact plan) cname wallet) (\<lambda>bindings.
     rbind (instantiate_contract ch (dp_artifact plan) cname sname bindings t) (\<lambda>inst.
     let funding = map (\<lambda>u. funding_from_rpc u (tw_address wallet))
                     (filter (\<lambda>u. \<not> ue_is_coinbase (ru_utxo_entry u)) rpc_utxos)
     in
     rbind (build_lock_transaction ch wallet t amount_sompi inst funding) (\<lambda>lock.
     let lock_output =
           \<lparr>lo_outpoint = \<lparr>op_transaction_id = ch_tx_id ch (bx_tx lock), op_index = 0\<rparr>, lo_amount = amount_sompi,
            lo_script_public_key = ct_script_public_key inst, lo_block_daa_score = 0\<rparr>
     in
     rbind (fee_funding_of ch (tw_address wallet) lock funding) (\<lambda>fee_funding.
     rbind (build_spend_transaction ch wallet t inst lock_output fee_funding) (\<lambda>spend.
     Inr \<lparr>rn_plan = plan, rn_instantiation = inst, rn_lock = bx_preview lock, rn_spend = bx_preview spend\<rparr>)))))))"

section \<open>Proof records\<close>

datatype proof_result = PR_Pass | PR_Fail | PR_Gated

record testnet_proof =
  tp_target :: string
  tp_node_version :: string
  tp_compiler_version :: string
  tp_contract_name :: string
  tp_source_hash :: string
  tp_artifact_hash :: string
  tp_instantiated_params_hash :: string
  tp_locking_script_hash :: string
  tp_script_hex :: string
  tp_lock_txid :: "string option"
  tp_spend_txid :: "string option"
  tp_lock_daa_score :: "u64 option"
  tp_spend_daa_score :: "u64 option"
  tp_network :: string
  tp_fee :: u64
  tp_mass :: u64
  tp_valid_spend_result :: string
  tp_invalid_spend_rejection_result :: string
  tp_timestamp :: u64
  tp_result :: proof_result
  tp_warnings :: "string list"
  tp_error :: "string option"

definition unix_timestamp :: "('w, 'id, 'addr, 'rpc) node \<Rightarrow> ('w, u64) io" where
  "unix_timestamp nd w = (case nd_unix_time nd w of (r, w) \<Rightarrow> (map_err TE_InvalidData r, w))"

definition proof_from_run ::
  "('w, 'id, 'addr, 'rpc) node \<Rightarrow> ('addr, 'rpc) run_result \<Rightarrow> network_info \<Rightarrow> string option \<Rightarrow> string option \<Rightarrow>
     proof_result \<Rightarrow> string option \<Rightarrow> ('w, testnet_proof) io" where
  "proof_from_run nd run info lock_txid spend_txid result failure =
     (let artifact = dp_artifact (rn_plan run);
          warnings = ct_warnings (rn_instantiation run) @
            map (\<lambda>w. gw_id w @ '' from '' @ cit_path (gw_citation w) @ '': '' @ gw_message w) (ca_warnings artifact)
      in
      io_bind (unix_timestamp nd) (\<lambda>timestamp.
      io_return
       \<lparr>tp_target = ni_network info, tp_node_version = ni_node_version info,
        tp_compiler_version = ca_compiler_version artifact, tp_contract_name = dp_contract_name (rn_plan run),
        tp_source_hash = dp_source_hash (rn_plan run), tp_artifact_hash = dp_artifact_hash (rn_plan run),
        tp_instantiated_params_hash = ct_instantiated_params_hash (rn_instantiation run),
        tp_locking_script_hash = ct_locking_script_hash (rn_instantiation run),
        tp_script_hex = hex_encode (ct_redeem_script (rn_instantiation run)), tp_lock_txid = lock_txid,
        tp_spend_txid = spend_txid, tp_lock_daa_score = None, tp_spend_daa_score = None,
        tp_network = ni_network info, tp_fee = saturating_add (pv_fee (rn_lock run)) (pv_fee (rn_spend run)),
        tp_mass = saturating_add (pv_mass (rn_lock run)) (pv_mass (rn_spend run)),
        tp_valid_spend_result = ''constructed_and_script_validated'',
        tp_invalid_spend_rejection_result =
          ''invalid signature rejected by local Rusty Kaspa script engine before broadcast'',
        tp_timestamp = timestamp, tp_result = result, tp_warnings = warnings, tp_error = failure\<rparr>))"

section \<open>The harness\<close>

text \<open>\<open>Result::ok\<close> on an effect.\<close>

definition io_ok :: "('w, 'a) io \<Rightarrow> ('w, 'a option) io" where
  "io_ok m w = (case m w of (Inl _, w) \<Rightarrow> (Inr None, w) | (Inr x, w) \<Rightarrow> (Inr (Some x), w))"

record outcome =
  oc_lock_txid :: "string option"
  oc_spend_txid :: "string option"
  oc_lock_daa_score :: "u64 option"
  oc_spend_daa_score :: "u64 option"
  oc_result :: proof_result
  oc_error :: "string option"

text \<open>The broadcast: lock, wait, and only then spend; the block of the spend is optional.\<close>

definition broadcast_run ::
  "('w, 'id, 'addr, 'rpc) node \<Rightarrow> testnet_target \<Rightarrow> ('key, 'addr) test_wallet \<Rightarrow> testnet_config \<Rightarrow> ('addr, 'rpc) run_result \<Rightarrow>
     ('w, outcome) io" where
  "broadcast_run nd t wallet config run =
     io_bind (submit_transaction nd t (pv_rpc_transaction (rn_lock run)) False config) (\<lambda>lock_id.
     io_bind (wait_for_mempool nd t lock_id config) (\<lambda>_.
     io_bind (wait_for_indexed_output nd t (ct_locking_address (rn_instantiation run)) lock_id 0
                (ca_finality_depth (dp_artifact (rn_plan run))) config) (\<lambda>lock_output.
     io_bind (submit_transaction nd t (pv_rpc_transaction (rn_spend run)) False config) (\<lambda>spend_id.
     io_bind (wait_for_mempool nd t spend_id config) (\<lambda>_.
     io_bind (io_ok (wait_for_indexed_output nd t (tw_address wallet) spend_id 0 None config)) (\<lambda>spend_output.
     io_return \<lparr>oc_lock_txid = Some (nd_show_id nd lock_id), oc_spend_txid = Some (nd_show_id nd spend_id),
       oc_lock_daa_score = Some (oo_block_daa_score lock_output),
       oc_spend_daa_score = map_option oo_block_daa_score spend_output, oc_result = PR_Pass, oc_error = None\<rparr>))))))"

definition dry_run_outcome :: outcome where
  "dry_run_outcome =
     \<lparr>oc_lock_txid = None, oc_spend_txid = None, oc_lock_daa_score = None, oc_spend_daa_score = None,
      oc_result = PR_Gated,
      oc_error = Some ''dry-run only; pass --broadcast to submit typed Rusty Kaspa transactions''\<rparr>"

definition deploy_and_execute ::
  "environment \<Rightarrow> ('key, 'id, 'addr, 'rpc) chain \<Rightarrow> ('w, 'id, 'addr, 'rpc) node \<Rightarrow> testnet_target \<Rightarrow>
     ('key, 'addr) test_wallet \<Rightarrow> string \<Rightarrow> string \<Rightarrow> string \<Rightarrow> u64 \<Rightarrow> testnet_config \<Rightarrow> ('w, testnet_proof) io" where
  "deploy_and_execute env ch nd t wallet cname source_file source amount_sompi config =
     io_bind (assert_target nd t) (\<lambda>info.
     io_bind (fetch_rpc_utxos nd t (tw_address wallet)) (\<lambda>utxos.
     io_bind (io_lift (build_contract_run env ch cname source_file source wallet (tc_target config) amount_sompi utxos)) (\<lambda>run.
     io_bind (if tc_broadcast config then broadcast_run nd t wallet config run else io_return dry_run_outcome) (\<lambda>oc.
     io_bind (proof_from_run nd run info (oc_lock_txid oc) (oc_spend_txid oc) (oc_result oc) (oc_error oc)) (\<lambda>tproof.
     io_return (tproof\<lparr>tp_lock_daa_score := oc_lock_daa_score oc, tp_spend_daa_score := oc_spend_daa_score oc\<rparr>))))))"

definition gated_proof ::
  "environment \<Rightarrow> ('key, 'id, 'addr, 'rpc) chain \<Rightarrow> ('w, 'id, 'addr, 'rpc) node \<Rightarrow> testnet_target \<Rightarrow>
     ('key, 'addr) test_wallet \<Rightarrow> string \<Rightarrow> string \<Rightarrow> string \<Rightarrow> ('w, testnet_proof) io" where
  "gated_proof env ch nd t wallet cname source_file source =
     io_bind (assert_target nd t) (\<lambda>info.
     io_bind (fetch_rpc_utxos nd t (tw_address wallet)) (\<lambda>utxos.
     io_bind (io_lift (build_contract_run env ch cname source_file source wallet t (SOMPI_PER_KASPA div 100) utxos)) (\<lambda>run.
     proof_from_run nd run info None None PR_Gated (Some ''dry-run proof; no broadcast''))))"

section \<open>Random wallets and \<open>Debug\<close> texts\<close>

text \<open>\<open>draw\<close> is the random generator of the \<open>secp256k1\<close> crate.\<close>

definition generate_ephemeral ::
  "('key, 'addr) keyring \<Rightarrow> ('w \<Rightarrow> 'key \<times> 'w) \<Rightarrow> ('w, ('key, 'addr) test_wallet) io" where
  "generate_ephemeral kr draw w = (case draw w of (secret_key, w) \<Rightarrow> (wallet_from_secret_key kr secret_key, w))"

definition wallet_secret_bytes :: "('key, 'addr) keyring \<Rightarrow> ('key, 'addr) test_wallet \<Rightarrow> u8 list" where
  "wallet_secret_bytes kr wallet = kr_secret_bytes kr (tw_secret_key wallet)"

definition wallet_address_string :: "('key, 'addr) keyring \<Rightarrow> ('key, 'addr) test_wallet \<Rightarrow> string" where
  "wallet_address_string kr wallet = kr_show_address kr (tw_address wallet)"

fun testnet_target_debug :: "testnet_target \<Rightarrow> string" where
  "testnet_target_debug TT_Tn10 = ''Tn10''"
| "testnet_target_debug TT_Tn11 = ''Tn11''"
| "testnet_target_debug TT_Tn12 = ''Tn12''"

text \<open>The \<open>Debug\<close> text of a \<open>Duration\<close> of whole milliseconds.\<close>

definition debug_millis :: "nat \<Rightarrow> string" where
  "debug_millis ms =
     (if ms = 0 then ''0ns''
      else if ms < 1000 then show_nat ms @ ''ms''
      else if ms mod 1000 = 0 then show_nat (ms div 1000) @ ''s''
      else
        (let digits = show_nat (1000 + ms mod 1000)
         in show_nat (ms div 1000) @ ''.'' @ rev (dropWhile (\<lambda>c. c = CHR ''0'') (rev (drop 1 digits))) @ ''s''))"

definition testnet_config_debug :: "(rchar \<Rightarrow> string) \<Rightarrow> testnet_config \<Rightarrow> string" where
  "testnet_config_debug esc config =
     ''TestnetConfig { target: '' @ testnet_target_debug (tc_target config) @ '', rpc_url: '' @ debug_string esc (tc_rpc_url config) @
     '', poll_attempts: '' @ show_nat (unat (tc_poll_attempts config)) @ '', poll_interval: '' @
     debug_millis (unat (tc_poll_interval_ms config)) @ '', broadcast: '' @ show_bool (tc_broadcast config) @ '' }''"

definition client_debug :: "testnet_target \<Rightarrow> string" where
  "client_debug t = ''TestnetRpcClient { target: '' @ testnet_target_debug t @ '', .. }''"

end
