(* ===== verification/KS_TestnetFacts.thy ===== *)
theory KS_TestnetFacts
  imports KS_TestnetBuild KS_SdkFacts
begin

text \<open>
  What the wallet and the transaction builders of the testnet integration guarantee: keys in hexadecimal, the
  configuration, the choice of funding, what a lock transaction pays, and what instantiation puts in a script.
\<close>

section \<open>Numbers and hexadecimal text\<close>

lemma foldl_digits_ge: "acc \<le> foldl (\<lambda>acc b. 10 * acc + digit_value b) acc ds"
proof (induction ds arbitrary: acc)
  case (Cons d ds)
  have "acc \<le> 10 * acc + digit_value d" by simp
  also have "\<dots> \<le> foldl (\<lambda>acc b. 10 * acc + digit_value b) (10 * acc + digit_value d) ds" by (rule Cons)
  finally show ?case by simp
qed simp

lemma parse_digit_Inr:
  "parse_digit acc b = Inr n \<longleftrightarrow> is_ascii_digit b \<and> n = 10 * acc + digit_value b \<and> n < 2 ^ 64"
  by (auto simp: parse_digit_def)

lemma parse_digits:
  "try_fold parse_digit acc ds = Inr n \<longleftrightarrow>
     list_all is_ascii_digit ds \<and> n = foldl (\<lambda>acc b. 10 * acc + digit_value b) acc ds \<and> (ds = [] \<or> n < 2 ^ 64)"
proof (induction ds arbitrary: acc)
  case (Cons d ds)
  show ?case
    using foldl_digits_ge [of "10 * acc + digit_value d" ds]
    by (cases "ds = []") (auto simp: parse_digit_Inr rbind_Inr_iff Cons.IH)
qed auto

text \<open>The digit loop and the closed form of \<open>KS_Prelude\<close> accept the same texts with the same values.\<close>

lemma str_parse_u64_agrees: "str_parse_u64 s = Inr v \<longleftrightarrow> parse_u64_str s = Some v"
proof (cases s)
  case (Cons c cs)
  have minus: "\<not> is_ascii_digit CHR ''-''" by code_simp
  show ?thesis
    using minus unfolding Cons str_parse_u64_def parse_u64_str_def Let_def
    by (cases "c = CHR ''+''"; cases "cs = []"; cases "c = CHR ''-''")
       (auto simp: rbind_Inr_iff parse_digits digits_value_def simp del: try_fold.simps)
qed (simp add: str_parse_u64_def parse_u64_str_def)

lemma hex_encode_simps [simp]:
  "hex_encode [] = []"
  "hex_encode (b # bs) = HEX ! unat (drop_bit 4 b) # HEX ! unat (and b 0x0f) # hex_encode bs"
  by (simp_all add: hex_encode_def)

lemma length_hex_encode: "length (hex_encode bs) = 2 * length bs"
  by (induction bs) simp_all

lemma hex_encode_append: "hex_encode (xs @ ys) = hex_encode xs @ hex_encode ys"
  by (simp add: hex_encode_def)

lemma hex_nibble_digit: "n < 16 \<Longrightarrow> hex_nibble (HEX ! n) = Some (of_nat n)"
proof -
  assume "n < 16"
  then have "n \<in> set [0..<16]" by simp
  moreover have "\<forall>n \<in> set [0..<16]. hex_nibble (HEX ! n) = Some (of_nat n)" by code_simp
  ultimately show ?thesis by blast
qed

lemma nibbles: "unat (drop_bit 4 b) < 16" "unat (and b 0x0f) < 16" "or (push_bit 4 (drop_bit 4 b)) (and b 0x0f) = b" for b :: u8
proof -
  show "unat (drop_bit 4 b) < 16" "unat (and b 0x0f) < 16" using byte_nibbles [of b] by simp_all
  have mask: "and b 0x0f = take_bit 4 b" by (simp add: take_bit_eq_mask mask_eq_exp_minus_1)
  show "or (push_bit 4 (drop_bit 4 b)) (and b 0x0f) = b"
    unfolding mask by (rule bit_eqI) (auto simp: bit_simps)
qed

lemma decode_hex_bytes:
  assumes "value = hex_encode done @ hex_encode bs"
  shows "try_fold (decode_byte value) done (map (\<lambda>k. 2 * k) [length done..<length done + length bs]) = Inr (done @ bs)"
  using assms
proof (induction bs arbitrary: "done")
  case (Cons b bs)
  let ?i = "2 * length done"
  have "value ! ?i = HEX ! unat (drop_bit 4 b)" "value ! (?i + 1) = HEX ! unat (and b 0x0f)"
    by (simp_all add: Cons.prems nth_append length_hex_encode)
  then have "decode_byte value done ?i = Inr (done @ [b])"
    using nibbles [of b] by (simp add: decode_byte_def hex_nibble_digit)
  moreover have "[length done..<length done + length (b # bs)] = length done # [length (done @ [b])..<length (done @ [b]) + length bs]"
    by (simp add: upt_conv_Cons del: upt_Suc)
  moreover have "value = hex_encode (done @ [b]) @ hex_encode bs" by (simp add: Cons.prems hex_encode_append)
  note Cons.IH [OF this]
  ultimately show ?case by simp
qed simp

lemma hex_digit_not_x: "hex_encode bs ! 1 \<noteq> CHR ''x'' \<or> length bs = 0"
proof (cases bs)
  case (Cons b bs)
  have "\<forall>n \<in> set [0..<16]. HEX ! n \<noteq> CHR ''x''" by code_simp
  with nibbles(2) [of b] show ?thesis by (simp add: Cons)
qed simp

lemma strip_hex: "strip_0x (hex_encode bs) = hex_encode bs" "strip_0x (''0x'' @ hex_encode bs) = hex_encode bs"
proof -
  show "strip_0x (hex_encode bs) = hex_encode bs"
    using hex_digit_not_x [of bs] by (cases bs) (auto simp: strip_0x_def numeral_2_eq_2)
qed (simp add: strip_0x_def)

lemma decode_hex_encode: "decode_hex (hex_encode bs) = Inr bs" "decode_hex (''0x'' @ hex_encode bs) = Inr bs"
  using decode_hex_bytes [of "hex_encode bs" "[]" bs]
  by (simp_all add: decode_hex_def strip_hex [simplified] length_hex_encode Let_def)

text \<open>The hexadecimal text written for some bytes reads back to them, with or without the \<open>0x\<close> prefix.\<close>

theorem decode_hex_roundtrip:
  "decode_hex (hex_encode bs) = Inr bs \<and> decode_hex (''0x'' @ hex_encode bs) = Inr bs"
  using decode_hex_encode by blast

section \<open>Configuration\<close>

lemma read_optional_bool_True:
  "read_optional_bool vars name = Inr (Some True) \<longleftrightarrow>
     (\<exists>v. vars name = Some v \<and> \<not> blank v \<and> to_ascii_lowercase v \<in> {''1'', ''true'', ''yes''})"
  by (auto simp: read_optional_bool_def Let_def split: option.splits)


section \<open>Funding\<close>

abbreviation amount_of :: "('id, 'addr) funding_utxo \<Rightarrow> nat" where
  "amount_of u \<equiv> unat (ue_amount (fu_entry u))"

lemma saturating_add_unat: "unat (saturating_add a b) = min (unat a + unat b) (2 ^ 64 - 1)"
proof (cases "unat a + unat b < 2 ^ 64")
  case True
  then show ?thesis by (simp add: saturating_add_def unat_word_ariths)
next
  case False
  have "unat (2 ^ 64 - 1 :: u64) = 2 ^ 64 - 1" by simp
  with False show ?thesis by (simp add: saturating_add_def)
qed

lemma le_saturating: "m \<le> saturating_add a b \<longleftrightarrow> unat m \<le> unat a + unat b"
  using unsigned_less [of m, where ?'a = nat] by (auto simp: word_le_nat_alt saturating_add_unat)

text \<open>The running total, saturated, and the shortest prefix that reaches the minimum.\<close>

lemma select_loop_outcome:
  assumes "unat tot = min (sum_list (map amount_of selected)) (2 ^ 64 - 1)"
  shows "case select_loop minimum tot selected us of
      Inr chosen \<Rightarrow> \<exists>taken u rest. us = taken @ u # rest \<and> chosen = selected @ taken @ [u] \<and>
        unat minimum \<le> sum_list (map amount_of chosen) \<and>
        (taken = [] \<or> sum_list (map amount_of (selected @ taken)) < unat minimum)
    | Inl e \<Rightarrow> (us = [] \<or> sum_list (map amount_of (selected @ us)) < unat minimum) \<and>
        e = TE_InsufficientFunds minimum (of_nat (min (sum_list (map amount_of (selected @ us))) (2 ^ 64 - 1)))"
  using assms
proof (induction us arbitrary: tot selected)
  case Nil
  have "tot = of_nat (unat tot)" by simp
  then have "tot = of_nat (min (sum_list (map amount_of selected)) (2 ^ 64 - 1))" by (simp only: Nil)
  then show ?case by simp
next
  case (Cons u us)
  let ?sum = "sum_list (map amount_of selected)"
  have tot: "unat (saturating_add tot (ue_amount (fu_entry u))) = min (sum_list (map amount_of (selected @ [u]))) (2 ^ 64 - 1)"
    by (simp add: saturating_add_unat Cons.prems min_def)
  have m: "unat minimum < 2 ^ 64" using unsigned_less [of minimum, where ?'a = nat] by simp
  have reached: "minimum \<le> saturating_add tot (ue_amount (fu_entry u)) \<longleftrightarrow> unat minimum \<le> ?sum + amount_of u"
    using m by (auto simp: le_saturating Cons.prems)
  show ?case
  proof (cases "unat minimum \<le> ?sum + amount_of u")
    case True
    then show ?thesis by (simp add: reached)
  next
    case False
    have "select_loop minimum tot selected (u # us) =
        select_loop minimum (saturating_add tot (ue_amount (fu_entry u))) (selected @ [u]) us"
      using False by (simp add: reached Let_def)
    with Cons.IH [OF tot] False show ?thesis
      by (auto simp: algebra_simps split: sum.splits)
  qed
qed

lemma sum_list_permuted: "mset xs = mset ys \<Longrightarrow> sum_list (map f xs) = (sum_list (map f ys) :: nat)"
proof -
  assume "mset xs = mset ys"
  then have "mset (map f xs) = mset (map f ys)" by simp
  then show ?thesis by (simp only: sum_mset_sum_list [symmetric])
qed

text \<open>C19: funding is chosen among the available outputs, largest first: the chosen outputs and the rest are the funding in
  descending order, the chosen ones reach the minimum, and without the last of them they would not; the choice
  fails exactly when everything together is too little, and reports the (saturated) total.\<close>

theorem select_funding_decides:
  "case select_funding funding minimum of
      Inr chosen \<Rightarrow> (\<exists>rest. mset (chosen @ rest) = mset funding \<and> sorted (rev (map amount_of (chosen @ rest)))) \<and>
        unat minimum \<le> sum_list (map amount_of chosen) \<and>
        (length chosen = 1 \<or> sum_list (map amount_of (butlast chosen)) < unat minimum)
    | Inl e \<Rightarrow> (funding = [] \<or> sum_list (map amount_of funding) < unat minimum) \<and>
        e = TE_InsufficientFunds minimum (of_nat (min (sum_list (map amount_of funding)) (2 ^ 64 - 1)))"
proof -
  let ?us = "sort_key (\<lambda>u. - int (amount_of u)) funding"
  have ms: "mset ?us = mset funding" by simp
  note sum = sum_list_permuted [OF ms, of amount_of]
  have nil: "?us = [] \<longleftrightarrow> funding = []" 
    by (simp only: length_0_conv [symmetric] length_sort)
  have "sorted (map (\<lambda>u. - int (amount_of u)) ?us)" by (rule sorted_sort_key)
  then have desc: "sorted (rev (map amount_of ?us))"
    by (simp add: sorted_wrt_rev sorted_wrt_map word_le_def [symmetric] word_le_nat_alt [symmetric])
  have "unat (0 :: u64) = min (sum_list (map amount_of (take 0 funding))) (2 ^ 64 - 1)" by simp
  note loop = select_loop_outcome [OF this, where minimum = minimum and us = ?us]
  show ?thesis
  proof (cases "select_funding funding minimum")
    case (Inl e)
    with loop sum nil show ?thesis by (simp add: select_funding_def)
  next
    case (Inr chosen)
    with loop obtain taken u rest where us: "?us = taken @ u # rest" "chosen = taken @ [u]"
      and enough: "unat minimum \<le> sum_list (map amount_of chosen)"
      and least: "taken = [] \<or> sum_list (map amount_of taken) < unat minimum"
      by (auto simp: select_funding_def)
    have app: "chosen @ rest = ?us" by (simp only: us append_assoc append.simps)
    have "\<exists>rest. mset (chosen @ rest) = mset funding \<and> sorted (rev (map amount_of (chosen @ rest)))"
      by (rule exI [of _ rest]) (simp only: app ms desc simp_thms)
    with Inr enough least show ?thesis by (auto simp: us(2))
  qed
qed

section \<open>Fees\<close>

fun fee_converges :: "nat \<Rightarrow> (u64 \<Rightarrow> testnet_error + ('tx \<times> u64 \<times> u64) \<times> u64) \<Rightarrow> u64 \<Rightarrow> u64 \<Rightarrow> bool" where
  "fee_converges 0 turn fee change = False"
| "fee_converges (Suc n) turn fee change =
     (case turn change of
        Inl _ \<Rightarrow> False
      | Inr ((_, _, next_fee), next_change) \<Rightarrow>
          next_fee = fee \<and> next_change = change \<or> fee_converges n turn next_fee next_change)"

text \<open>The transaction of the loop comes from a turn on a change that an earlier turn computed; when the loop settles, that
  turn computes the same change again.\<close>

lemma fee_loop_result:
  assumes "fee_loop n turn fee change final_tx = Inr (Some (tx, mass, fee'))" and "0 < n" and "P change"
    and step: "\<And>c r c'. turn c = Inr (r, c') \<Longrightarrow> P c'"
  shows "\<exists>c c'. P c \<and> turn c = Inr ((tx, mass, fee'), c') \<and> (fee_converges n turn fee change \<longrightarrow> c' = c)"
  using assms(1-3)
proof (induction n arbitrary: fee change final_tx)
  case (Suc n)
  from Suc.prems(1) obtain tx1 m1 f1 c1 where turn: "turn change = Inr ((tx1, m1, f1), c1)"
    by (cases "turn change") auto
  have P: "P c1" by (rule step [OF turn])
  show ?case
  proof (cases "f1 = fee \<and> c1 = change")
    case True
    with Suc.prems turn show ?thesis by auto
  next
    case False
    with Suc.prems(1) turn have rest: "fee_loop n turn f1 c1 (Some (tx1, m1, f1)) = Inr (Some (tx, mass, fee'))" by simp
    show ?thesis
    proof (cases n)
      case 0
      with rest turn False Suc.prems show ?thesis by auto
    next
      case (Suc k)
      with Suc.IH [OF rest _ P] turn False show ?thesis by auto
    qed
  qed
qed simp

lemma next_change_Inr:
  "next_change_of available needed = Inr c \<longleftrightarrow> unat needed \<le> unat available \<and> unat c = unat available - unat needed"
  by (simp add: next_change_of_def ok_or_Inr_iff checked_sub_unat)

lemma funding_turn_Inr:
  "funding_turn ch calc address inputs refs destinations lock_time label tin tdest change = Inr ((tx, mass, fee), c') \<longleftrightarrow>
     tx = transaction_new ch inputs (outputs_with_change ch calc address destinations change) lock_time \<and>
     calculate_mass ch calc refs tx = Inr mass \<and> mass \<le> ch_max_standard_mass ch \<and> fee = ch_minimum_fee ch calc mass \<and>
     unat (saturating_add tdest fee) \<le> unat tin \<and> unat c' = unat tin - unat (saturating_add tdest fee)"
  by (cases "calculate_mass ch calc refs (transaction_new ch inputs (outputs_with_change ch calc address destinations change) lock_time)")
     (auto simp: funding_turn_def Let_def rbind_Inr_iff next_change_Inr)

section \<open>Signatures and validation\<close>

lemma try_fold_unit: "try_fold (\<lambda>_ x. f x) () xs = Inr () \<longleftrightarrow> (\<forall>x \<in> set xs. f x = Inr ())"
  by (induction xs) (auto simp: rbind_Inr_iff)

lemma validate_scripts_Inr:
  "validate_scripts ch entries tx = Inr () \<longleftrightarrow>
     (\<forall>i < length (kt_inputs tx). i < length entries \<and> ch_execute ch tx entries i = Inr ())"
  unfolding validate_scripts_def try_fold_unit by (auto simp: map_err_Inr_iff split: if_splits)

lemma sign_loop:
  fixes tx :: "'id kaspa_tx"
  shows "(\<forall>i \<in> set is. i < length (kt_inputs tx')) \<Longrightarrow>
    kt_outputs (foldl (\<lambda>tx' i. tx'\<lparr>kt_inputs := (kt_inputs tx')[i := (kt_inputs tx' ! i)\<lparr>in_signature_script := f i\<rparr>]\<rparr>) tx' is) =
      kt_outputs tx' \<and>
    map in_previous_outpoint (kt_inputs (foldl (\<lambda>tx' i. tx'\<lparr>kt_inputs := (kt_inputs tx')[i := (kt_inputs tx' ! i)\<lparr>in_signature_script := f i\<rparr>]\<rparr>) tx' is)) =
      map in_previous_outpoint (kt_inputs tx')"
proof (induction "is" arbitrary: tx')
  case (Cons i "is")
  have "map in_previous_outpoint ((kt_inputs tx')[i := (kt_inputs tx' ! i)\<lparr>in_signature_script := f i\<rparr>]) =
      map in_previous_outpoint (kt_inputs tx')"
    using Cons.prems by (simp add: map_update list_update_same_conv)
  with Cons show ?case by simp
qed simp

lemma sign_p2pk_keeps:
  "kt_outputs (sign_p2pk_inputs ch wallet entries start tx) = kt_outputs tx"
  "map in_previous_outpoint (kt_inputs (sign_p2pk_inputs ch wallet entries start tx)) = map in_previous_outpoint (kt_inputs tx)"
  unfolding sign_p2pk_inputs_def by (subst sign_loop; simp)+

lemma set_mass_keeps [simp]: "kt_outputs (set_mass m tx) = kt_outputs tx" "kt_inputs (set_mass m tx) = kt_inputs tx"
  by (simp_all add: set_mass_def)

lemma transaction_new_fields [simp]:
  "kt_inputs (transaction_new ch inputs outputs lock_time) = inputs"
  "kt_outputs (transaction_new ch inputs outputs lock_time) = outputs"
  by (simp_all add: transaction_new_def)

section \<open>The lock transaction\<close>

text \<open>The turn of a lock transaction on the chosen funding.\<close>

definition lock_turn ::
  "('key, 'id, 'addr, 'rpc) chain \<Rightarrow> ('key, 'addr) test_wallet \<Rightarrow> testnet_target \<Rightarrow> u64 \<Rightarrow> 'addr contract_instantiation \<Rightarrow>
     ('id, 'addr) funding_utxo list \<Rightarrow> u64 \<Rightarrow> u64 \<Rightarrow> testnet_error + ('id kaspa_tx \<times> u64 \<times> u64) \<times> u64" where
  "lock_turn ch wallet t amount inst selected tin =
     funding_turn ch (mass_suffix t) (tw_address wallet)
       (map (\<lambda>u. \<lparr>in_previous_outpoint = fu_outpoint u, in_signature_script = dummy_p2pk_signature_script,
          in_sequence = ch_max_sequence ch, in_sig_op_count = 1\<rparr>) selected)
       (map fu_client_ref selected) [\<lparr>out_value = amount, out_script_public_key = ct_script_public_key inst\<rparr>] 0 ''lock'' tin amount"

lemma sum_amounts_bound:
  "sum_amounts ch xs = Inr v \<Longrightarrow> unat v = sum_list (map unat xs) mod 2 ^ 64"
  by (auto simp: sum_amounts_def ok_or_Inr_iff sum_u64_cases unat_of_nat split: if_splits)

lemma lock_transaction_built:
  assumes "build_lock_transaction ch wallet t amount inst funding = Inr b"
  shows "\<exists>selected tin tx mass fee. select_funding funding (saturating_add amount 10000) = Inr selected \<and>
     sum_amounts ch (map (\<lambda>u. ue_amount (fu_entry u)) selected) = Inr tin \<and>
     fee_loop 10 (lock_turn ch wallet t amount inst selected tin) 0 0 None = Inr (Some (tx, mass, fee)) \<and>
     bx_tx b = set_mass mass (sign_p2pk_inputs ch wallet (map fu_entry selected) 0 tx) \<and>
     pv_mass (bx_preview b) = mass \<and> pv_fee (bx_preview b) = fee \<and>
     validate_scripts ch (map fu_entry selected) (bx_tx b) = Inr ()"
proof -
  have one: "sum_amounts ch [amount] = Inr amount"
    using unat_bound [of amount] by (cases "ch_overflow_checks ch") (simp_all add: sum_amounts_def checked_add_def)
  show ?thesis
    using assms one
    by (auto simp: build_lock_transaction_def build_signed_funding_transaction_def lock_turn_def [abs_def] rbind_Inr_iff
        ok_or_Inr_iff Let_def split: if_splits prod.splits)
qed

abbreviation outputs_total :: "kaspa_output list \<Rightarrow> nat" where
  "outputs_total outs \<equiv> sum_list (map (\<lambda>out. unat (out_value out)) outs)"

lemma outputs_with_change_total:
  "outputs_total (outputs_with_change ch calc address outs change) =
     outputs_total outs + (if change > 0 \<and> \<not> ch_is_dust ch calc change then unat change else 0)"
  by (simp add: outputs_with_change_def)

text \<open>Where the transaction of a built lock comes from: one turn, on a change that fits what is left of the inputs.\<close>

lemma lock_turn_built:
  assumes "build_lock_transaction ch wallet t amount inst funding = Inr b"
  obtains selected tin tx change change' where
    "select_funding funding (saturating_add amount 10000) = Inr selected"
    "unat tin = sum_list (map amount_of selected) mod 2 ^ 64"
    "lock_turn ch wallet t amount inst selected tin change = Inr ((tx, pv_mass (bx_preview b), pv_fee (bx_preview b)), change')"
    "change = 0 \<or> unat amount + unat change \<le> unat tin"
    "fee_converges 10 (lock_turn ch wallet t amount inst selected tin) 0 0 \<longrightarrow> change' = change"
    "kt_outputs (bx_tx b) = outputs_with_change ch (mass_suffix t) (tw_address wallet)
       [\<lparr>out_value = amount, out_script_public_key = ct_script_public_key inst\<rparr>] change"
    "map in_previous_outpoint (kt_inputs (bx_tx b)) = map fu_outpoint selected"
    "validate_scripts ch (map fu_entry selected) (bx_tx b) = Inr ()"
proof -
  obtain selected tin tx mass fee where sel: "select_funding funding (saturating_add amount 10000) = Inr selected"
    and tin: "sum_amounts ch (map (\<lambda>u. ue_amount (fu_entry u)) selected) = Inr tin"
    and loop: "fee_loop 10 (lock_turn ch wallet t amount inst selected tin) 0 0 None = Inr (Some (tx, mass, fee))"
    and b: "bx_tx b = set_mass mass (sign_p2pk_inputs ch wallet (map fu_entry selected) 0 tx)"
      "pv_mass (bx_preview b) = mass" "pv_fee (bx_preview b) = fee"
      "validate_scripts ch (map fu_entry selected) (bx_tx b) = Inr ()"
    using lock_transaction_built [OF assms] by blast
  let ?P = "\<lambda>c. c = 0 \<or> unat amount + unat c \<le> unat tin"
  have step: "?P c'" if "lock_turn ch wallet t amount inst selected tin c = Inr (r, c')" for c r c'
    using that unat_bound [of amount]
    by (cases r) (auto simp: lock_turn_def funding_turn_Inr saturating_add_unat)
  have "\<exists>c c'. ?P c \<and> lock_turn ch wallet t amount inst selected tin c = Inr ((tx, mass, fee), c') \<and>
      (fee_converges 10 (lock_turn ch wallet t amount inst selected tin) 0 0 \<longrightarrow> c' = c)"
    by (rule fee_loop_result [where P = ?P, OF loop]) (simp, simp, rule step)
  then obtain c c' where P: "?P c" and turn: "lock_turn ch wallet t amount inst selected tin c = Inr ((tx, mass, fee), c')"
    and conv: "fee_converges 10 (lock_turn ch wallet t amount inst selected tin) 0 0 \<longrightarrow> c' = c" by blast
  have tx: "kt_outputs tx = outputs_with_change ch (mass_suffix t) (tw_address wallet)
       [\<lparr>out_value = amount, out_script_public_key = ct_script_public_key inst\<rparr>] c"
    "map in_previous_outpoint (kt_inputs tx) = map fu_outpoint selected"
    using turn by (auto simp: lock_turn_def funding_turn_Inr)
  have "unat tin = sum_list (map amount_of selected) mod 2 ^ 64"
    using sum_amounts_bound [OF tin] by (simp add: comp_def)
  with sel turn P conv tx b show thesis by (intro that) (simp_all add: sign_p2pk_keeps)
qed

text \<open>C16: a lock transaction that is built spends exactly the chosen funding, pays the requested amount to the contract's
  script and at most one more output, of change that is not dust, to the wallet; its outputs never exceed its
  inputs, its mass is within the standard limit, the fee it reports is the minimum fee of that mass, and every
  input's script has passed the script engine.\<close>

theorem lock_transaction_sound:
  assumes "build_lock_transaction ch wallet t amount inst funding = Inr b"
  shows "\<exists>selected. select_funding funding (saturating_add amount 10000) = Inr selected \<and>
     map in_previous_outpoint (kt_inputs (bx_tx b)) = map fu_outpoint selected \<and>
     (\<exists>change. kt_outputs (bx_tx b) =
        \<lparr>out_value = amount, out_script_public_key = ct_script_public_key inst\<rparr> #
        (if change > 0 \<and> \<not> ch_is_dust ch (mass_suffix t) change
         then [\<lparr>out_value = change, out_script_public_key = ch_pay_to_address ch (tw_address wallet)\<rparr>] else [])) \<and>
     outputs_total (kt_outputs (bx_tx b)) \<le> sum_list (map amount_of selected) \<and>
     pv_mass (bx_preview b) \<le> ch_max_standard_mass ch \<and>
     pv_fee (bx_preview b) = ch_minimum_fee ch (mass_suffix t) (pv_mass (bx_preview b)) \<and>
     (\<forall>i < length (kt_inputs (bx_tx b)). ch_execute ch (bx_tx b) (map fu_entry selected) i = Inr ())"
proof -
  obtain selected tin tx change change' where sel: "select_funding funding (saturating_add amount 10000) = Inr selected"
    and tin: "unat tin = sum_list (map amount_of selected) mod 2 ^ 64"
    and turn: "lock_turn ch wallet t amount inst selected tin change = Inr ((tx, pv_mass (bx_preview b), pv_fee (bx_preview b)), change')"
    and room: "change = 0 \<or> unat amount + unat change \<le> unat tin"
    and outs: "kt_outputs (bx_tx b) = outputs_with_change ch (mass_suffix t) (tw_address wallet)
       [\<lparr>out_value = amount, out_script_public_key = ct_script_public_key inst\<rparr>] change"
    and ins: "map in_previous_outpoint (kt_inputs (bx_tx b)) = map fu_outpoint selected"
    and valid: "validate_scripts ch (map fu_entry selected) (bx_tx b) = Inr ()"
    using lock_turn_built [OF assms] by metis
  have "unat tin \<le> sum_list (map amount_of selected)" by (simp add: tin)
  moreover have "unat amount \<le> unat tin"
    using turn unat_bound [of amount] by (auto simp: lock_turn_def funding_turn_Inr saturating_add_unat)
  ultimately have "outputs_total (kt_outputs (bx_tx b)) \<le> sum_list (map amount_of selected)"
    using room by (auto simp: outs outputs_with_change_total)
  moreover have "\<exists>c. kt_outputs (bx_tx b) =
        \<lparr>out_value = amount, out_script_public_key = ct_script_public_key inst\<rparr> #
        (if c > 0 \<and> \<not> ch_is_dust ch (mass_suffix t) c
         then [\<lparr>out_value = c, out_script_public_key = ch_pay_to_address ch (tw_address wallet)\<rparr>] else [])"
    by (rule exI [of _ change]) (simp add: outs outputs_with_change_def)
  moreover have "pv_mass (bx_preview b) \<le> ch_max_standard_mass ch"
    "pv_fee (bx_preview b) = ch_minimum_fee ch (mass_suffix t) (pv_mass (bx_preview b))"
    using turn by (auto simp: lock_turn_def funding_turn_Inr)
  ultimately show ?thesis using sel ins valid by (auto simp: validate_scripts_Inr)
qed

text \<open>C20: when the fee loop settles within its ten turns, the lock transaction pays at least the fee it reports, and exactly
  that fee when it has a change output.\<close>

theorem lock_fee_exact:
  assumes "build_lock_transaction ch wallet t amount inst funding = Inr b"
    and "select_funding funding (saturating_add amount 10000) = Inr selected"
    and "sum_list (map amount_of selected) < 2 ^ 64 - 1"
    and "fee_converges 10 (lock_turn ch wallet t amount inst selected (of_nat (sum_list (map amount_of selected)))) 0 0"
  shows "outputs_total (kt_outputs (bx_tx b)) + unat (pv_fee (bx_preview b)) \<le> sum_list (map amount_of selected) \<and>
     (length (kt_outputs (bx_tx b)) = 2 \<longrightarrow>
        outputs_total (kt_outputs (bx_tx b)) + unat (pv_fee (bx_preview b)) = sum_list (map amount_of selected))"
proof -
  let ?sum = "sum_list (map amount_of selected)"
  obtain tin tx change change' where tin: "unat tin = ?sum mod 2 ^ 64"
    and turn: "lock_turn ch wallet t amount inst selected tin change = Inr ((tx, pv_mass (bx_preview b), pv_fee (bx_preview b)), change')"
    and conv: "fee_converges 10 (lock_turn ch wallet t amount inst selected tin) 0 0 \<longrightarrow> change' = change"
    and outs: "kt_outputs (bx_tx b) = outputs_with_change ch (mass_suffix t) (tw_address wallet)
       [\<lparr>out_value = amount, out_script_public_key = ct_script_public_key inst\<rparr>] change"
    using lock_turn_built [OF assms(1)] assms(2) by (metis sum.inject(2))
  have sum: "unat tin = ?sum" using assms(3) tin by simp
  have "tin = of_nat (unat tin)" by simp
  then have "tin = of_nat ?sum" by (simp only: sum)
  with conv assms(4) have "change' = change" by simp
  with turn sum have "unat (saturating_add amount (pv_fee (bx_preview b))) \<le> ?sum"
    "unat change = ?sum - unat (saturating_add amount (pv_fee (bx_preview b)))"
    by (auto simp: lock_turn_def funding_turn_Inr sum)
  with assms(3) have paid: "unat amount + unat (pv_fee (bx_preview b)) \<le> ?sum"
    "unat change = ?sum - (unat amount + unat (pv_fee (bx_preview b)))"
    by (auto simp: saturating_add_unat)
  then show ?thesis
    unfolding outs outputs_with_change_total by (auto simp: outputs_with_change_def)
qed

section \<open>Instantiation\<close>

text \<open>What the loop puts in the script for an instruction: nothing for an argument of the spend, the bound value for a
  parameter of the contract, the instruction itself otherwise.\<close>

definition bound_instruction ::
  "('key, 'id, 'addr, 'rpc) chain \<Rightarrow> artifact_contract \<Rightarrow> artifact_spend \<Rightarrow> params \<Rightarrow> nat \<times> instruction \<Rightarrow> instruction list" where
  "bound_instruction ch contract spend bindings indexed =
     (case instr_kind (snd indexed) of
        I_Push (V_Symbol name) \<Rightarrow>
          if name \<in> set (map arp_name (ars_params spend)) then []
          else
            (let ty = the (param_types (arc_params contract) name);
                 read = previous_instruction_is_script_read (ars_instructions spend) (fst indexed) \<and> ty = T_PublicKey
             in [mk_instr (instr_span (snd indexed)) (I_Push (projr (value_to_ir ch (the (bindings name)) ty read)))])
      | _ \<Rightarrow> [snd indexed])"

definition bound_code ::
  "('key, 'id, 'addr, 'rpc) chain \<Rightarrow> artifact_contract \<Rightarrow> artifact_spend \<Rightarrow> params \<Rightarrow> instruction list" where
  "bound_code ch contract spend bindings =
     concat (map (bound_instruction ch contract spend bindings) (enumerate 0 (ars_instructions spend)))"

definition symbolic :: "instruction \<Rightarrow> bool" where
  "symbolic i \<longleftrightarrow> (case instr_kind i of I_Push (V_Symbol _) \<Rightarrow> True | _ \<Rightarrow> False)"

lemma param_types_None: "param_types ps name = None \<longleftrightarrow> name \<notin> set (map arp_name ps)"
  by (simp add: param_types_def map_of_eq_None_iff image_image)

lemma value_to_ir_not_symbol: "value_to_ir ch p ty b = Inr v \<Longrightarrow> v \<noteq> V_Symbol name"
  by (cases p; cases ty) (auto simp: value_to_ir_def split: if_splits)

lemma bind_instruction_bound:
  assumes "bind_instruction ch contract spend sname bindings out x = Inr out'"
  shows "out' = out @ bound_instruction ch contract spend bindings x \<and>
     list_all (\<lambda>i. \<not> symbolic i) (bound_instruction ch contract spend bindings x)"
proof (cases "\<exists>name. instr_kind (snd x) = I_Push (V_Symbol name)")
  case True
  then obtain name where name: "instr_kind (snd x) = I_Push (V_Symbol name)" by blast
  show ?thesis
  proof (cases "name \<in> set (map arp_name (ars_params spend))")
    case True
    with assms name show ?thesis
      by (cases x) (auto simp: bind_instruction_def bound_instruction_def param_types_None)
  next
    case False
    then have none: "param_types (ars_params spend) name = None" by (simp add: param_types_None)
    from assms name obtain ty val v where v: "param_types (arc_params contract) name = Some ty" "bindings name = Some val"
      "value_to_ir ch val ty
         (previous_instruction_is_script_read (ars_instructions spend) (fst x) \<and> ty = T_PublicKey) = Inr v"
      "out' = out @ [mk_instr (instr_span (snd x)) (I_Push v)]"
      by (cases x) (auto simp: bind_instruction_def none rbind_Inr_iff ok_or_Inr_iff)
    have "v \<noteq> V_Symbol n" for n using v(3) by (rule value_to_ir_not_symbol)
    then have "\<not> symbolic (mk_instr (instr_span (snd x)) (I_Push v))" by (simp add: symbolic_def split: ir_value.split)
    with v False show ?thesis by (simp add: bound_instruction_def name Let_def)
  qed
next
  case False
  with assms show ?thesis
    by (cases x) (auto simp: bind_instruction_def bound_instruction_def symbolic_def split: instruction_kind.splits ir_value.splits)
qed

lemma bind_instructions_bound:
  "try_fold (bind_instruction ch contract spend sname bindings) out xs = Inr code \<Longrightarrow>
     code = out @ concat (map (bound_instruction ch contract spend bindings) xs) \<and>
     list_all (\<lambda>i. \<not> symbolic i) (concat (map (bound_instruction ch contract spend bindings) xs))"
proof (induction xs arbitrary: out)
  case (Cons x xs)
  then obtain out1 where one: "bind_instruction ch contract spend sname bindings out x = Inr out1"
    and rest: "try_fold (bind_instruction ch contract spend sname bindings) out1 xs = Inr code"
    by (auto simp: rbind_Inr_iff)
  from bind_instruction_bound [OF one] Cons.IH [OF rest] show ?case by simp
qed simp

lemma validate_param_bindings_Inr:
  "validate_param_bindings ps bindings = Inr () \<longleftrightarrow>
     (\<forall>p \<in> set ps. \<exists>v. bindings (arp_name p) = Some v \<and> valid_param (arp_ty p) v)"
proof -
  have "validate_param_binding bindings = (\<lambda>_ p. validate_param_binding bindings () p)" by (intro ext) simp
  then have "validate_param_bindings ps bindings = Inr () \<longleftrightarrow> (\<forall>p \<in> set ps. validate_param_binding bindings () p = Inr ())"
    unfolding validate_param_bindings_def by (metis try_fold_unit)
  then show ?thesis
    by (auto simp: validate_param_binding_def validate_param_type_def rbind_Inr_iff ok_or_Inr_iff split: if_splits)
qed

text \<open>C17: an instantiated script belongs to a contract with a single spend path, whose parameters are all bound to values of
  their types; it is the encoding of the spend's code with the arguments left to the signature script and every
  parameter replaced by its bytes, no symbol is left in it, and the lock time is read from that code.\<close>

theorem instantiated_script:
  assumes "instantiate_contract ch art cname sname bindings t = Inr inst"
  shows "\<exists>contract spend. find_contract art cname = Inr contract \<and> arc_spends contract = [spend] \<and> ars_name spend = sname \<and>
     (\<forall>p \<in> set (arc_params contract). \<exists>v. bindings (arp_name p) = Some v \<and> valid_param (arp_ty p) v) \<and>
     compile_spend_script (bound_code ch contract spend bindings) = Inr (ct_redeem_script inst) \<and>
     filter symbolic (bound_code ch contract spend bindings) = [] \<and>
     ct_script_public_key inst = ch_pay_to_script_hash ch (ct_redeem_script inst) \<and>
     (ct_uses_lock_time inst, ct_lock_time inst) = lock_time_requirement (bound_code ch contract spend bindings)"
proof -
  from assms obtain contract spend code where c: "find_contract art cname = Inr contract" "length (arc_spends contract) = 1"
    and s: "find_spend contract sname = Inr spend"
    and ps: "validate_param_bindings (arc_params contract) bindings = Inr ()"
    and code: "try_fold (bind_instruction ch contract spend sname bindings) [] (enumerate 0 (ars_instructions spend)) = Inr code"
    and redeem: "compile_spend_script code = Inr (ct_redeem_script inst)"
    and rest: "ct_script_public_key inst = ch_pay_to_script_hash ch (ct_redeem_script inst)"
      "(ct_uses_lock_time inst, ct_lock_time inst) = lock_time_requirement code"
    by (auto simp: instantiate_contract_def rbind_Inr_iff map_err_Inr_iff Let_def case_prod_beta split: if_splits)
  have "spend \<in> set (arc_spends contract) \<and> ars_name spend = sname"
    using s by (auto simp: find_spend_def ok_or_Inr_iff find_Some_iff)
  with c(2) have spend: "arc_spends contract = [spend]" "ars_name spend = sname"
    by (auto simp: length_Suc_conv)
  have "code = bound_code ch contract spend bindings" "list_all (\<lambda>i. \<not> symbolic i) (bound_code ch contract spend bindings)"
    using bind_instructions_bound [OF code] by (simp_all add: bound_code_def)
  with c(1) spend ps redeem rest show ?thesis
    by (simp add: validate_param_bindings_Inr list_all_iff filter_empty_conv)
qed

section \<open>A chain for the witnesses\<close>

text \<open>Masses that grow by 500 with each output, a fee equal to the mass, and dust below 600.\<close>

definition flat_keyring :: "(u8 list, u8 list) keyring" where
  "flat_keyring =
     \<lparr>kr_from_slice = Inr, kr_secret_bytes = id, kr_public_key = id, kr_sign_schnorr = (\<lambda>key digest. digest @ digest),
      kr_address = id, kr_parse_address = (\<lambda>s. Inr (as_bytes s)), kr_is_testnet = (\<lambda>_. True),
      kr_show_address = hex_encode, kr_debug_address = hex_encode, kr_sha256 = take 32\<rparr>"

definition flat_chain :: "(u8 list, nat, u8 list, nat) chain" where
  "flat_chain =
     \<lparr>ch_keyring = flat_keyring, ch_tx_version = 0, ch_native_subnetwork = [], ch_max_sequence = 2 ^ 64 - 1,
      ch_max_standard_mass = 100000, ch_tx_id = (\<lambda>tx. length (kt_outputs tx)), ch_show_id = show_nat,
      ch_rpc_transaction = (\<lambda>tx. length (kt_outputs tx)),
      ch_pay_to_address = (\<lambda>a. \<lparr>spk_version = 0, spk_script = 32 # a @ [0xac]\<rparr>),
      ch_pay_to_script_hash = (\<lambda>s. \<lparr>spk_version = 0, spk_script = 0xaa # s\<rparr>),
      ch_extract_address = (\<lambda>spk. Inr (spk_script spk)), ch_add_data = (\<lambda>s d. Inr (s @ of_nat (length d) # d)),
      ch_sig_op_count = (\<lambda>_ _. 1), ch_sign_input = (\<lambda>_ _ _ key. 65 # replicate 65 1),
      ch_execute = (\<lambda>_ _ _. Inr ()), ch_compute_mass = (\<lambda>_ tx. 9500 + 500 * of_nat (length (kt_outputs tx))),
      ch_storage_mass = (\<lambda>_ _ _. Some 0), ch_combine_mass = (\<lambda>_ a b. max a b), ch_is_dust = (\<lambda>_ c. c < 600),
      ch_minimum_fee = (\<lambda>_ mass. mass), ch_params_json = (\<lambda>_. Inr []), ch_artifact_json = (\<lambda>_. Inr []),
      ch_overflow_checks = True\<rparr>"

definition flat_wallet :: "(u8 list, u8 list) test_wallet" where
  "flat_wallet = \<lparr>tw_secret_key = [1], tw_address = [2], tw_public_key = replicate 32 2\<rparr>"

definition flat_instantiation :: "u8 list contract_instantiation" where
  "flat_instantiation =
     \<lparr>ct_contract_name = ''Vault'', ct_spend_name = ''claim'', ct_redeem_script = [0x69],
      ct_script_public_key = \<lparr>spk_version = 0, spk_script = [0xaa, 0x69]\<rparr>, ct_locking_address = [0xaa, 0x69],
      ct_instantiated_params_hash = [], ct_locking_script_hash = [], ct_spend_args = [], ct_lock_time = 0,
      ct_uses_lock_time = False, ct_warnings = []\<rparr>"

definition flat_funding :: "u64 \<Rightarrow> (nat, u8 list) funding_utxo" where
  "flat_funding amount =
     funding_from_rpc \<lparr>ru_outpoint = \<lparr>op_transaction_id = 7, op_index = 0\<rparr>,
       ru_utxo_entry = \<lparr>ue_amount = amount, ue_script_public_key = \<lparr>spk_version = 0, spk_script = []\<rparr>,
         ue_block_daa_score = 1, ue_is_coinbase = False\<rparr>\<rparr> [2]"

definition flat_lock :: "u64 \<Rightarrow> testnet_error + (nat, nat) built_transaction" where
  "flat_lock amount = build_lock_transaction flat_chain flat_wallet TT_Tn10 100000 flat_instantiation [flat_funding amount]"

lemma flat_simps [simp]:
  "ch_add_data flat_chain = (\<lambda>s d. Inr (s @ of_nat (length d) # d))" "ch_execute flat_chain = (\<lambda>_ _ _. Inr ())"
  "ch_max_standard_mass flat_chain = 100000" "ch_is_dust flat_chain = (\<lambda>_ c. c < 600)"
  "ch_minimum_fee flat_chain = (\<lambda>_ mass. mass)" "ch_overflow_checks flat_chain = True"
  by (simp_all add: flat_chain_def)

lemma flat_mass [simp]: "calculate_mass flat_chain calc refs tx = Inr (9500 + 500 * of_nat (length (kt_outputs tx)))"
  by (simp add: calculate_mass_def flat_chain_def)

lemma flat_select [simp]:
  "minimum \<le> amount \<Longrightarrow> select_funding [flat_funding amount] minimum = Inr [flat_funding amount]"
  by (simp add: select_funding_def flat_funding_def funding_from_rpc_def saturating_add_def unat_bound [where 'a = 64, simplified] Let_def)

lemma flat_amount [simp]: "ue_amount (fu_entry (flat_funding amount)) = amount"
  by (simp add: flat_funding_def funding_from_rpc_def Let_def)

lemma flat_sum [simp]: "sum_amounts flat_chain [amount] = Inr amount"
  using unat_bound [of amount] by (simp add: sum_amounts_def checked_add_def)

text \<open>The turns of the loop on a single funding output.\<close>

lemma flat_turn:
  "\<exists>tx. lock_turn flat_chain flat_wallet TT_Tn10 100000 inst [flat_funding f] f c =
     (let fee = (if c > 0 \<and> \<not> c < 600 then 10500 else 10000) in
      rbind (next_change_of f (100000 + fee)) (\<lambda>c'. Inr ((tx, fee, fee), c'))) \<and>
     outputs_total (kt_outputs tx) = 100000 + (if c > 0 \<and> \<not> c < 600 then unat c else 0) \<and>
     length (kt_outputs tx) = (if c > 0 \<and> \<not> c < 600 then 2 else 1) \<and>
     map in_previous_outpoint (kt_inputs tx) = [fu_outpoint (flat_funding f)]"
  by (rule exI [of _ "fst (fst (projr (lock_turn flat_chain flat_wallet TT_Tn10 100000 inst [flat_funding f] (2 ^ 64 - 1) c)))"])
     (simp add: lock_turn_def funding_turn_def outputs_with_change_def saturating_add_def next_change_of_def checked_sub_def)

lemma ten_turns: "(10 :: nat) = Suc (Suc (Suc (Suc (Suc (Suc (Suc (Suc (Suc (Suc 0)))))))))"
  by simp

abbreviation flat_lock_turn :: "u8 list contract_instantiation \<Rightarrow> u64 \<Rightarrow> u64 \<Rightarrow> testnet_error + (nat kaspa_tx \<times> u64 \<times> u64) \<times> u64" where
  "flat_lock_turn inst f \<equiv> lock_turn flat_chain flat_wallet TT_Tn10 100000 inst [flat_funding f] f"

text \<open>With 110900 sompi of funding the turns alternate between two fees, with 200000 they settle.\<close>

lemma flat_loops:
  "\<exists>tx. fee_loop 10 (flat_lock_turn inst 110900) 0 0 None = Inr (Some (tx, 10500, 10500)) \<and>
     outputs_total (kt_outputs tx) = 100900 \<and> length (kt_inputs tx) = 1"
  "\<exists>tx. fee_loop 10 (flat_lock_turn inst 200000) 0 0 None = Inr (Some (tx, 10500, 10500)) \<and> length (kt_inputs tx) = 1"
  "fee_converges 10 (flat_lock_turn inst 200000) 0 0"
proof -
  note eval = next_change_of_def checked_sub_def Let_def
  obtain a where a: "flat_lock_turn inst 110900 0 = Inr ((a, 10000, 10000), 900)"
    using flat_turn [of inst 110900 0] by (auto simp: eval)
  obtain b where b: "flat_lock_turn inst 110900 900 = Inr ((b, 10500, 10500), 400)" "outputs_total (kt_outputs b) = 100900"
    "map in_previous_outpoint (kt_inputs b) = [fu_outpoint (flat_funding 110900)]"
    using flat_turn [of inst 110900 900] by (auto simp: eval)
  obtain c where c: "flat_lock_turn inst 110900 400 = Inr ((c, 10000, 10000), 900)"
    using flat_turn [of inst 110900 400] by (auto simp: eval)
  have "length (kt_inputs b) = 1" using arg_cong [OF b(3), of length] by simp
  with a b c show "\<exists>tx. fee_loop 10 (flat_lock_turn inst 110900) 0 0 None = Inr (Some (tx, 10500, 10500)) \<and>
     outputs_total (kt_outputs tx) = 100900 \<and> length (kt_inputs tx) = 1"
    by (simp add: ten_turns)
  obtain d where d: "flat_lock_turn inst 200000 0 = Inr ((d, 10000, 10000), 90000)"
    using flat_turn [of inst 200000 0] by (auto simp: eval)
  obtain e where e: "flat_lock_turn inst 200000 90000 = Inr ((e, 10500, 10500), 89500)"
    using flat_turn [of inst 200000 90000] by (auto simp: eval)
  obtain f where f: "flat_lock_turn inst 200000 89500 = Inr ((f, 10500, 10500), 89500)"
    "map in_previous_outpoint (kt_inputs f) = [fu_outpoint (flat_funding 200000)]"
    using flat_turn [of inst 200000 89500] by (auto simp: eval)
  have "length (kt_inputs f) = 1" using arg_cong [OF f(2), of length] by simp
  with d e f show "\<exists>tx. fee_loop 10 (flat_lock_turn inst 200000) 0 0 None = Inr (Some (tx, 10500, 10500)) \<and> length (kt_inputs tx) = 1"
    by (simp add: ten_turns)
  from d e f show "fee_converges 10 (flat_lock_turn inst 200000) 0 0" by (simp add: ten_turns)
qed

lemma lock_transaction_builds:
  assumes "amount \<noteq> 0" and "select_funding funding (saturating_add amount 10000) = Inr selected"
    and "sum_amounts ch (map (\<lambda>u. ue_amount (fu_entry u)) selected) = Inr tin" and "sum_amounts ch [amount] = Inr amount"
    and "fee_loop 10 (lock_turn ch wallet t amount inst selected tin) 0 0 None = Inr (Some (tx, mass, fee))"
    and "validate_scripts ch (map fu_entry selected) (set_mass mass (sign_p2pk_inputs ch wallet (map fu_entry selected) 0 tx)) = Inr ()"
  shows "\<exists>b. build_lock_transaction ch wallet t amount inst funding = Inr b \<and> kt_outputs (bx_tx b) = kt_outputs tx \<and>
     pv_fee (bx_preview b) = fee"
  using assms
  by (auto simp: build_lock_transaction_def build_signed_funding_transaction_def lock_turn_def [abs_def] Let_def sign_p2pk_keeps)

lemma flat_lock_built:
  assumes "fee_loop 10 (flat_lock_turn inst f) 0 0 None = Inr (Some (tx, mass, fee))" and "length (kt_inputs tx) = 1" and "110000 \<le> f"
  shows "\<exists>b. build_lock_transaction flat_chain flat_wallet TT_Tn10 100000 inst [flat_funding f] = Inr b \<and> kt_outputs (bx_tx b) = kt_outputs tx \<and> pv_fee (bx_preview b) = fee"
proof (rule lock_transaction_builds [OF _ _ _ _ assms(1)])
  have "length (kt_inputs (sign_p2pk_inputs flat_chain flat_wallet es 0 tx)) = 1" for es
    using arg_cong [OF sign_p2pk_keeps(2) [of flat_chain flat_wallet es 0 tx], of length] assms(2) by simp
  then show "validate_scripts flat_chain (map fu_entry [flat_funding f])
      (set_mass mass (sign_p2pk_inputs flat_chain flat_wallet (map fu_entry [flat_funding f]) 0 tx)) = Inr ()"
    by (simp add: validate_scripts_Inr)
qed (use assms(3) in \<open>simp_all add: saturating_add_def\<close>)

text \<open>When the fee loop does not settle, its last transaction may pay less than the fee it reports: here the change of the
  first fee is paid out with the second fee shown.\<close>

theorem lock_may_underpay:
  "\<exists>b. flat_lock 110900 = Inr b \<and> pv_fee (bx_preview b) = 10500 \<and> 110900 - outputs_total (kt_outputs (bx_tx b)) = 10000"
proof -
  obtain tx where "fee_loop 10 (flat_lock_turn flat_instantiation 110900) 0 0 None = Inr (Some (tx, 10500, 10500))"
    "outputs_total (kt_outputs tx) = 100900" "length (kt_inputs tx) = 1"
    using flat_loops(1) by blast
  with flat_lock_built [OF this(1,3)] show ?thesis by (auto simp: flat_lock_def)
qed

theorem lock_transaction_sound_witness:
  "\<exists>b. flat_lock 200000 = Inr b \<and> outputs_total (kt_outputs (bx_tx b)) \<le> 200000 \<and>
     pv_fee (bx_preview b) = pv_mass (bx_preview b)"
proof -
  obtain tx where "fee_loop 10 (flat_lock_turn flat_instantiation 200000) 0 0 None = Inr (Some (tx, 10500, 10500))" "length (kt_inputs tx) = 1"
    using flat_loops(2) by blast
  then obtain b where b: "flat_lock 200000 = Inr b" unfolding flat_lock_def using flat_lock_built by force
  from lock_transaction_sound [OF b [unfolded flat_lock_def]] show ?thesis
    by (auto simp: b saturating_add_def)
qed

theorem lock_fee_exact_witness:
  "\<exists>b. flat_lock 200000 = Inr b \<and> outputs_total (kt_outputs (bx_tx b)) + unat (pv_fee (bx_preview b)) \<le> 200000"
proof -
  obtain tx where "fee_loop 10 (flat_lock_turn flat_instantiation 200000) 0 0 None = Inr (Some (tx, 10500, 10500))" "length (kt_inputs tx) = 1"
    using flat_loops(2) by blast
  then obtain b where b: "flat_lock 200000 = Inr b" unfolding flat_lock_def using flat_lock_built by force
  have "outputs_total (kt_outputs (bx_tx b)) + unat (pv_fee (bx_preview b)) \<le> sum_list (map amount_of [flat_funding 200000])"
    by (rule lock_fee_exact [OF b [unfolded flat_lock_def], THEN conjunct1])
       (use flat_loops(3) in \<open>simp_all add: saturating_add_def\<close>)
  with b show ?thesis by auto
qed

text \<open>A contract with one owner and one signed spend.\<close>

definition owned_contract :: artifact_contract where
  "owned_contract =
     \<lparr>arc_name = ''Owned'', arc_params = [\<lparr>arp_name = ''owner'', arp_ty = T_PublicKey\<rparr>], arc_finality_depth = None,
      arc_spends = [\<lparr>ars_name = ''claim'', ars_params = [\<lparr>arp_name = ''sig'', arp_ty = T_Signature\<rparr>],
        ars_instructions = [mk_instr (mk_span 0 1) (I_Push (V_Symbol ''sig'')),
          mk_instr (mk_span 0 1) (I_Push (V_Symbol ''owner'')), mk_instr (mk_span 0 1) (I_CheckSig 0)]\<rparr>]\<rparr>"

definition owned_artifact :: compiled_artifact where
  "owned_artifact = sample_artifact\<lparr>ca_contracts := [owned_contract]\<rparr>"

lemma owned_instantiates:
  "\<exists>inst. instantiate_contract flat_chain owned_artifact ''owned'' ''claim'' [''owner'' \<mapsto> PV_PublicKey (replicate 32 2)] TT_Tn12 =
     Inr inst"
proof -
  have code: "try_fold (bind_instruction flat_chain owned_contract (hd (arc_spends owned_contract)) ''claim''
        [''owner'' \<mapsto> PV_PublicKey (replicate 32 2)]) [] (enumerate 0 (ars_instructions (hd (arc_spends owned_contract)))) =
      Inr [mk_instr (mk_span 0 1) (I_Push (V_Bytes (replicate 32 2))), mk_instr (mk_span 0 1) (I_CheckSig 0)]"
    by (simp add: owned_contract_def bind_instruction_def param_types_def value_to_ir_def previous_instruction_is_script_read_def
        numeral_2_eq_2)
  let ?code = "[mk_instr (mk_span 0 1) (I_Push (V_Bytes (replicate 32 2))), mk_instr (mk_span 0 1) (I_CheckSig 0)]"
  have "\<exists>out. compile_instruction_sequence ?code = Inr out"
    unfolding compile_instruction_sequence_def encode_instruction_sequence_into_def
    using encoder.emit_all_success_iff [of ?code "[]"] by (simp add: encode_instruction_success)
  then have "\<exists>out. compile_spend_script ?code = Inr out"
    by (auto simp: compile_spend_script_def)
  then obtain out where "compile_spend_script
      [mk_instr (mk_span 0 1) (I_Push (V_Bytes (replicate 32 2))), mk_instr (mk_span 0 1) (I_CheckSig 0)] = Inr out" by blast
  moreover have "find_contract owned_artifact ''owned'' = Inr owned_contract"
    by (simp add: find_contract_def owned_artifact_def owned_contract_def to_ascii_lowercase_def)
  moreover have "length (arc_spends owned_contract) = 1"
    "find_spend owned_contract ''claim'' = Inr (hd (arc_spends owned_contract))"
    by (simp_all add: owned_contract_def find_spend_def)
  moreover have "validate_param_bindings (arc_params owned_contract) [''owner'' \<mapsto> PV_PublicKey (replicate 32 2)] = Inr ()"
    by (simp add: validate_param_bindings_Inr owned_contract_def valid_param_def)
  moreover have "ch_extract_address flat_chain spk = Inr (spk_script spk)" "hash_params flat_chain ps = Inr []" for spk ps
    by (simp_all add: flat_chain_def hash_params_def sha256_hex_def flat_keyring_def)
  ultimately show ?thesis
    using code by (simp add: instantiate_contract_def Let_def case_prod_beta)
qed

theorem instantiated_script_witness:
  "\<exists>inst. instantiate_contract flat_chain owned_artifact ''owned'' ''claim'' [''owner'' \<mapsto> PV_PublicKey (replicate 32 2)] TT_Tn12 =
       Inr inst \<and> ct_script_public_key inst = ch_pay_to_script_hash flat_chain (ct_redeem_script inst)"
proof -
  obtain inst where inst: "instantiate_contract flat_chain owned_artifact ''owned'' ''claim''
      [''owner'' \<mapsto> PV_PublicKey (replicate 32 2)] TT_Tn12 = Inr inst" using owned_instantiates by blast
  with instantiated_script [OF inst] show ?thesis by blast
qed

lemma blank_ascii: "blank ''ws://node'' = False"
  by code_simp


end
