(* ===== verification/KS_HarnessFacts.thy ===== *)
theory KS_HarnessFacts
  imports KS_Testnet KS_TestnetFacts
begin

text \<open>
  What the RPC adapter and the harness guarantee: bounded polling finds what the node shows in time, a dry run
  never reaches the node's submission call, and a broadcast submits the lock and then the spend of one run, each
  of them accepted by the local script engine.
\<close>

section \<open>Polling\<close>

text \<open>The world at the start of a turn.\<close>

primrec world_at :: "('w, 'a option) io \<Rightarrow> ('w \<Rightarrow> 'w) \<Rightarrow> 'w \<Rightarrow> nat \<Rightarrow> 'w" where
  "world_at step sleep w 0 = w"
| "world_at step sleep w (Suc k) = sleep (snd (step (world_at step sleep w k)))"

lemma world_at_shift: "world_at step sleep w (Suc k) = world_at step sleep (sleep (snd (step w))) k"
  by (induction k) simp_all

locale polling =
  fixes step :: "('w, 'a option) io" and sleep :: "'w \<Rightarrow> 'w"
begin

abbreviation turn :: "'w \<Rightarrow> nat \<Rightarrow> testnet_error + 'a option" where
  "turn w k \<equiv> fst (step (world_at step sleep w k))"

lemma poll_step:
  "fst (poll (Suc n) step sleep w) =
     (case turn w 0 of Inl e \<Rightarrow> Inl e | Inr (Some x) \<Rightarrow> Inr (Some x) | Inr None \<Rightarrow> fst (poll n step sleep (world_at step sleep w 1)))"
  by (cases "step w") (auto split: sum.split option.split)

text \<open>A result comes from the first turn that has one, after turns without.\<close>

lemma poll_first:
  assumes "r \<noteq> Inr None"
  shows "fst (poll n step sleep w) = r \<longleftrightarrow> (\<exists>k < n. turn w k = r \<and> (\<forall>j < k. turn w j = Inr None))"
proof (induction n arbitrary: w)
  case 0
  with assms show ?case by auto
next
  case (Suc n)
  show ?case
  proof (cases "turn w 0 = Inr None")
    case True
    have "fst (poll (Suc n) step sleep w) = r \<longleftrightarrow> (\<exists>k < n. turn w (Suc k) = r \<and> (\<forall>j < k. turn w (Suc j) = Inr None))"
      unfolding poll_step using True Suc.IH by (simp add: world_at_shift del: world_at.simps(2))
    also have "\<dots> \<longleftrightarrow> (\<exists>k < Suc n. turn w k = r \<and> (\<forall>j < k. turn w j = Inr None))"
    proof
      assume "\<exists>k < n. turn w (Suc k) = r \<and> (\<forall>j < k. turn w (Suc j) = Inr None)"
      then obtain k where "k < n" "turn w (Suc k) = r" "\<forall>j < k. turn w (Suc j) = Inr None" by blast
      with True have "Suc k < Suc n \<and> turn w (Suc k) = r \<and> (\<forall>j < Suc k. turn w j = Inr None)"
        by (auto simp: less_Suc_eq_0_disj)
      then show "\<exists>k < Suc n. turn w k = r \<and> (\<forall>j < k. turn w j = Inr None)" by blast
    next
      assume "\<exists>k < Suc n. turn w k = r \<and> (\<forall>j < k. turn w j = Inr None)"
      then obtain k where k: "k < Suc n" "turn w k = r" "\<forall>j < k. turn w j = Inr None" by blast
      with True assms obtain i where "k = Suc i" by (cases k) auto
      with k have "i < n \<and> turn w (Suc i) = r \<and> (\<forall>j < i. turn w (Suc j) = Inr None)" by auto
      then show "\<exists>k < n. turn w (Suc k) = r \<and> (\<forall>j < k. turn w (Suc j) = Inr None)" by blast
    qed
    finally show ?thesis .
  next
    case False
    then have "fst (poll (Suc n) step sleep w) = turn w 0"
      unfolding poll_step by (auto split: sum.split option.split)
    moreover have "(\<exists>k < Suc n. turn w k = r \<and> (\<forall>j < k. turn w j = Inr None)) \<longleftrightarrow> turn w 0 = r"
      using False by (metis gr0I not_less_zero zero_less_Suc)
    ultimately show ?thesis by simp
  qed
qed

end

interpretation mempool: polling "mempool_turn nd t txid" "nd_sleep nd ms" for nd t txid ms .

interpretation indexed: polling "indexed_output_turn nd t address txid output_index depth" "nd_sleep nd ms"
  for nd t address txid output_index depth ms .

lemma io_bind_fst:
  "fst (io_bind m f w) = Inr y \<longleftrightarrow> (\<exists>x w1. m w = (Inr x, w1) \<and> fst (f x w1) = Inr y)"
  by (auto simp: io_bind_def split: prod.splits sum.splits)

lemma io_bind_Inr:
  "io_bind m f w = (Inr y, w') \<longleftrightarrow> (\<exists>x w1. m w = (Inr x, w1) \<and> f x w1 = (Inr y, w'))"
  by (auto simp: io_bind_def split: prod.splits sum.splits)

text \<open>A node that, asked once, is on the target's network and lists a deep enough output.\<close>

definition lists_output ::
  "('w, 'id, 'addr, 'rpc) node \<Rightarrow> testnet_target \<Rightarrow> 'addr \<Rightarrow> 'id \<Rightarrow> u32 \<Rightarrow> u64 option \<Rightarrow> 'w \<Rightarrow> observed_output \<Rightarrow> bool" where
  "lists_output nd t address txid output_index depth w out \<longleftrightarrow>
     (\<exists>info w1 entries w2 entry. get_network_info nd w = (Inr info, w1) \<and> fetch_rpc_utxos nd t address w1 = (Inr entries, w2) \<and>
        find (matches_output nd txid output_index depth (ni_virtual_daa_score info)) entries = Some entry \<and>
        out = \<lparr>oo_transaction_id = nd_show_id nd txid, oo_output_index = output_index,
          oo_amount = ue_amount (ru_utxo_entry entry), oo_block_daa_score = ue_block_daa_score (ru_utxo_entry entry),
          oo_observed_depth = daa_depth (ni_virtual_daa_score info) (ue_block_daa_score (ru_utxo_entry entry))\<rparr>)"

lemma indexed_output_turn_Some:
  "fst (indexed_output_turn nd t address txid output_index depth w) = Inr (Some out) \<longleftrightarrow>
     lists_output nd t address txid output_index depth w out"
  unfolding indexed_output_turn_def lists_output_def io_bind_fst io_return_def fst_conv sum.inject map_option_eq_Some
  by (intro iffI; elim exE conjE; intro exI conjI; (assumption | rule refl | rule sym, assumption))

lemma wait_for_indexed_output_Inr:
  "fst (wait_for_indexed_output nd t address txid output_index depth config w) = Inr out \<longleftrightarrow>
     fst (poll (unat (tc_poll_attempts config)) (indexed_output_turn nd t address txid output_index depth)
        (nd_sleep nd (tc_poll_interval_ms config)) w) = Inr (Some out)"
  by (auto simp: wait_for_indexed_output_def io_bind_def io_lift_def split: prod.splits sum.splits option.splits)


text \<open>A node whose score rises by one each time its caller sleeps, with one output created at score 5.\<close>

definition clock_node :: "(nat, nat, u8 list, nat) node" where
  "clock_node =
     \<lparr>nd_new_client = (\<lambda>_ _. Inr ()), nd_network_name = (\<lambda>_. ''testnet-10''), nd_show_id = show_nat,
      nd_connect = (\<lambda>w. (Inr (), w)), nd_disconnect = (\<lambda>w. (Inr (), w)),
      nd_get_server_info = (\<lambda>w. (Inr \<lparr>si_network_id = ''testnet-10'', si_server_version = ''1'', si_rpc_api_version = 1,
        si_rpc_api_revision = 0, si_is_synced = True, si_has_utxo_index = True\<rparr>, w)),
      nd_get_block_dag_info = (\<lambda>w. (Inr \<lparr>di_virtual_daa_score = of_nat w, di_block_count = 0, di_header_count = 0\<rparr>, w)),
      nd_get_utxos_by_addresses = (\<lambda>_ w. (Inr [\<lparr>ru_outpoint = \<lparr>op_transaction_id = 9, op_index = 0\<rparr>,
        ru_utxo_entry = \<lparr>ue_amount = 100000, ue_script_public_key = \<lparr>spk_version = 0, spk_script = []\<rparr>,
          ue_block_daa_score = 5, ue_is_coinbase = False\<rparr>\<rparr>], w)),
      nd_get_balance_by_address = (\<lambda>_ w. (Inr 100000, w)), nd_get_fee_estimate = (\<lambda>w. (Inl ''unsupported'', w)),
      nd_submit_transaction = (\<lambda>tx _ w. (Inr 9, w)), nd_get_mempool_entry = (\<lambda>_ _ _ w. (Inl ''unknown'', w)),
      nd_sleep = (\<lambda>_ w. w + 1), nd_unix_time = (\<lambda>w. (Inr 0, w))\<rparr>"

definition clock_config :: testnet_config where
  "clock_config = \<lparr>tc_target = TT_Tn10, tc_rpc_url = ''ws://node'', tc_poll_attempts = 3, tc_poll_interval_ms = 1,
     tc_broadcast = True\<rparr>"

definition clock_turn :: "(nat, observed_output option) io" where
  "clock_turn = indexed_output_turn clock_node TT_Tn10 [] 9 0 (Some 3)"

lemma clock_turns:
  "clock_turn 5 = (Inr None, 5)" "clock_turn 6 = (Inr None, 6)"
  "fst (clock_turn 7) = Inr (Some \<lparr>oo_transaction_id = ''9'', oo_output_index = 0, oo_amount = 100000,
     oo_block_daa_score = 5, oo_observed_depth = 3\<rparr>)"
proof -
  have eval: "\<not> (3 :: u64) \<le> 1" "show_nat 9 = ''9''" by code_simp+
  show "clock_turn 5 = (Inr None, 5)" "clock_turn 6 = (Inr None, 6)"
    "fst (clock_turn 7) = Inr (Some \<lparr>oo_transaction_id = ''9'', oo_output_index = 0, oo_amount = 100000,
     oo_block_daa_score = 5, oo_observed_depth = 3\<rparr>)"
    by (simp_all add: eval clock_turn_def indexed_output_turn_def get_network_info_def fetch_rpc_utxos_def assert_indexed_def
        assert_target_def assert_network_def network_name_def clock_node_def io_bind_def rpc_def io_return_def io_lift_def
        matches_output_def daa_depth_def saturating_add_def saturating_sub_def)
qed


section \<open>What is submitted\<close>

text \<open>A node with a log of the transactions it is asked to accept.\<close>

definition keep :: "('w \<Rightarrow> 'r \<times> 'w) \<Rightarrow> 'w \<times> 'l \<Rightarrow> 'r \<times> 'w \<times> 'l" where
  "keep call wl = (case call (fst wl) of (r, w) \<Rightarrow> (r, w, snd wl))"

definition logged :: "('w, 'id, 'addr, 'rpc) node \<Rightarrow> ('w \<times> 'rpc list, 'id, 'addr, 'rpc) node" where
  "logged nd =
     \<lparr>nd_new_client = nd_new_client nd, nd_network_name = nd_network_name nd, nd_show_id = nd_show_id nd,
      nd_connect = keep (nd_connect nd), nd_disconnect = keep (nd_disconnect nd),
      nd_get_server_info = keep (nd_get_server_info nd), nd_get_block_dag_info = keep (nd_get_block_dag_info nd),
      nd_get_utxos_by_addresses = (\<lambda>as. keep (nd_get_utxos_by_addresses nd as)),
      nd_get_balance_by_address = (\<lambda>a. keep (nd_get_balance_by_address nd a)),
      nd_get_fee_estimate = keep (nd_get_fee_estimate nd),
      nd_submit_transaction = (\<lambda>tx orphan wl.
        case nd_submit_transaction nd tx orphan (fst wl) of (r, w) \<Rightarrow> (r, w, snd wl @ [tx])),
      nd_get_mempool_entry = (\<lambda>i a b. keep (nd_get_mempool_entry nd i a b)),
      nd_sleep = (\<lambda>ms wl. (nd_sleep nd ms (fst wl), snd wl)),
      nd_unix_time = keep (nd_unix_time nd)\<rparr>"

text \<open>An effect that appends \<open>ok\<close> to the log when it succeeds, and one of \<open>err\<close> when it fails.\<close>

definition logs :: "('w \<times> 'l list, 'a) io \<Rightarrow> 'l list \<Rightarrow> 'l list set \<Rightarrow> bool" where
  "logs m ok err \<longleftrightarrow>
     (\<forall>w. case m w of (Inr _, w') \<Rightarrow> snd w' = snd w @ ok | (Inl _, w') \<Rightarrow> \<exists>l \<in> err. snd w' = snd w @ l)"

lemma logs_bind:
  assumes m: "logs m ok err" and f: "\<And>x. logs (f x) ok' err'"
  shows "logs (io_bind m f) (ok @ ok') (err \<union> (@) ok ` err')"
  unfolding logs_def
proof
  fix w
  define r w1 where "r = fst (m w)" and "w1 = snd (m w)"
  then have r: "m w = (r, w1)" by simp
  show "case io_bind m f w of (Inr _, w') \<Rightarrow> snd w' = snd w @ ok @ ok'
    | (Inl _, w') \<Rightarrow> \<exists>l \<in> err \<union> (@) ok ` err'. snd w' = snd w @ l"
  proof (cases r)
    case (Inl e)
    with m [unfolded logs_def, rule_format, of w] r show ?thesis by (auto simp: io_bind_def)
  next
    case (Inr x)
    with m [unfolded logs_def, rule_format, of w] r have "snd w1 = snd w @ ok" by simp
    with f [of x, unfolded logs_def, rule_format, of w1] r Inr show ?thesis
      by (auto simp: io_bind_def split: prod.splits sum.splits)
  qed
qed

lemma logs_weaken: "logs m ok err \<Longrightarrow> ok = ok' \<Longrightarrow> err \<subseteq> err' \<Longrightarrow> logs m ok' err'"
  unfolding logs_def by (fastforce split: prod.splits sum.splits)

text \<open>Effects that leave the log alone.\<close>

abbreviation quiet :: "('w \<times> 'l list, 'a) io \<Rightarrow> bool" where
  "quiet m \<equiv> logs m [] {[]}"

named_theorems quiet_intros \<open>effects that leave the log alone\<close>

lemma quiet_bind [quiet_intros]: "quiet m \<Longrightarrow> (\<And>x. quiet (f x)) \<Longrightarrow> quiet (io_bind m f)"
  using logs_bind [of m "[]" "{[]}" f "[]" "{[]}"] by simp

lemma quiet_basics [quiet_intros]:
  "quiet (io_return x)" "quiet (io_lift r)" "quiet (rpc (keep call))"
  by (auto simp: logs_def io_return_def io_lift_def rpc_def keep_def split: prod.splits sum.splits)

lemma quiet_ok [quiet_intros]: "quiet m \<Longrightarrow> quiet (io_ok m)"
  by (fastforce simp: logs_def io_ok_def split: prod.splits sum.splits)

lemma quiet_poll [quiet_intros]:
  assumes "quiet step" and "\<And>w. snd (sleep w) = snd w"
  shows "quiet (poll n step sleep)"
proof (induction n)
  case 0
  show ?case by (simp add: logs_def)
next
  case (Suc n)
  show ?case
    unfolding logs_def
  proof
    fix w
    define r w1 where "r = fst (step w)" and "w1 = snd (step w)"
    then have r: "step w = (r, w1)" by simp
    from assms(1) [unfolded logs_def, rule_format, of w] r have "snd w1 = snd w" by (cases r) auto
    with Suc [unfolded logs_def, rule_format, of "sleep w1"] assms(2) r
    show "case poll (Suc n) step sleep w of (Inr _, w') \<Rightarrow> snd w' = snd w @ []
      | (Inl _, w') \<Rightarrow> \<exists>l \<in> {[]}. snd w' = snd w @ l"
      by (cases r) (auto split: option.split sum.splits)
  qed
qed

lemma logged_calls [simp]:
  "nd_get_server_info (logged nd) = keep (nd_get_server_info nd)"
  "nd_get_block_dag_info (logged nd) = keep (nd_get_block_dag_info nd)"
  "nd_get_utxos_by_addresses (logged nd) as = keep (nd_get_utxos_by_addresses nd as)"
  "nd_get_mempool_entry (logged nd) i a b = keep (nd_get_mempool_entry nd i a b)"
  "nd_unix_time (logged nd) = keep (nd_unix_time nd)" "snd (nd_sleep (logged nd) ms wl) = snd wl"
  "nd_network_name (logged nd) = nd_network_name nd" "nd_show_id (logged nd) = nd_show_id nd"
  by (simp_all add: logged_def)

lemma quiet_adapter [quiet_intros]:
  "quiet (assert_target (logged nd) t)" "quiet (get_network_info (logged nd))" "quiet (fetch_rpc_utxos (logged nd) t address)"
  by (simp_all add: assert_target_def assert_network_def get_network_info_def fetch_rpc_utxos_def assert_indexed_def quiet_intros)

lemma quiet_status [quiet_intros]: "quiet (poll_transaction_status (logged nd) t txid)"
  unfolding poll_transaction_status_def
  by (intro quiet_intros) (simp add: logs_def keep_def split: prod.splits sum.splits)

lemma quiet_waits [quiet_intros]:
  "quiet (wait_for_mempool (logged nd) t txid config)"
  "quiet (wait_for_indexed_output (logged nd) t address txid i depth config)"
  by (simp_all add: wait_for_mempool_def mempool_turn_def wait_for_indexed_output_def indexed_output_turn_def quiet_intros)

lemma quiet_proof [quiet_intros]: "quiet (proof_from_run (logged nd) run info a b c d)"
proof -
  have "quiet (unix_timestamp (logged nd))"
    by (auto simp: logs_def unix_timestamp_def keep_def split: prod.splits sum.splits)
  then show ?thesis unfolding proof_from_run_def Let_def by (intro quiet_intros)
qed

lemma submit_logs:
  fixes nd :: "('w, 'id, 'addr, 'rpc) node"
  shows "logs (submit_transaction (logged nd) t tx orphan config) [tx] (if tc_broadcast config then {[], [tx]} else {[]})"
proof -
  have "logs (rpc (nd_submit_transaction (logged nd) tx orphan)) [tx] {[tx]}"
    by (auto simp: logs_def rpc_def logged_def split: prod.splits sum.splits)
  moreover have "logs (io_lift (Inl TE_BroadcastDisabled) :: ('w \<times> 'rpc list, 'id) io) [tx] {[]}"
    by (simp add: logs_def io_lift_def)
  ultimately have "logs (if \<not> tc_broadcast config then io_lift (Inl TE_BroadcastDisabled)
      else rpc (nd_submit_transaction (logged nd) tx orphan)) [tx] (if tc_broadcast config then {[tx]} else {[]})" by simp
  from logs_bind [OF quiet_adapter(1) this] show ?thesis
    unfolding submit_transaction_def by (rule logs_weaken) auto
qed

text \<open>Quiet effects around others.\<close>

lemma logs_after: "quiet m \<Longrightarrow> (\<And>x. logs (f x) ok err) \<Longrightarrow> logs (io_bind m f) ok ({[]} \<union> err)"
  using logs_bind [of m "[]" "{[]}" f ok err] by simp

lemma broadcast_logs:
  "logs (broadcast_run (logged nd) t wallet config run) [pv_rpc_transaction (rn_lock run), pv_rpc_transaction (rn_spend run)]
     {[], [pv_rpc_transaction (rn_lock run)], [pv_rpc_transaction (rn_lock run), pv_rpc_transaction (rn_spend run)]}"
proof -
  let ?ltx = "pv_rpc_transaction (rn_lock run)" and ?stx = "pv_rpc_transaction (rn_spend run)"
  let ?finish = "\<lambda>lock_id lock_output spend_id.
    io_bind (wait_for_mempool (logged nd) t spend_id config) (\<lambda>_.
    io_bind (io_ok (wait_for_indexed_output (logged nd) t (tw_address wallet) spend_id 0 None config)) (\<lambda>spend_output.
    io_return \<lparr>oc_lock_txid = Some (nd_show_id (logged nd) lock_id), oc_spend_txid = Some (nd_show_id (logged nd) spend_id),
       oc_lock_daa_score = Some (oo_block_daa_score lock_output),
       oc_spend_daa_score = map_option oo_block_daa_score spend_output, oc_result = PR_Pass, oc_error = None\<rparr>))"
  let ?spend = "\<lambda>lock_id lock_output.
    io_bind (submit_transaction (logged nd) t ?stx False config) (?finish lock_id lock_output)"
  have finish: "quiet (?finish i out j)" for i and out :: observed_output and j by (intro quiet_intros)
  have spend: "logs (?spend i out) [?stx] {[], [?stx]}" for i and out :: observed_output
    using logs_bind [OF submit_logs finish [of _ i out]] by (rule logs_weaken) auto
  have "logs (io_bind (wait_for_mempool (logged nd) t i config) (\<lambda>_.
      io_bind (wait_for_indexed_output (logged nd) t (ct_locking_address (rn_instantiation run)) i 0
        (ca_finality_depth (dp_artifact (rn_plan run))) config) (?spend i))) [?stx] ({[]} \<union> ({[]} \<union> {[], [?stx]}))" for i
    by (intro logs_after quiet_waits spend)
  from logs_bind [OF submit_logs this] show ?thesis
    unfolding broadcast_run_def by (rule logs_weaken) auto
qed

end
