(* ===== verification/KS_RunFacts.thy ===== *)
theory KS_RunFacts
  imports KS_HarnessFacts KS_Pipeline
begin

text \<open>
  The run of a contract as a whole: the spend transaction, its link to the lock, and what the harness does with both on
  a node.
\<close>

section \<open>The spend transaction\<close>

lemma select_funding_subset:
  assumes "select_funding funding minimum = Inr chosen"
  shows "set chosen \<subseteq> set funding"
proof -
  have "case select_funding funding minimum of
      Inr chosen \<Rightarrow> \<exists>taken u rest. sort_key (\<lambda>u. - int (unat (ue_amount (fu_entry u)))) funding = taken @ u # rest \<and> chosen = taken @ [u]
    | Inl e \<Rightarrow> True"
    using select_loop_outcome [where tot = 0 and selected = "[]" and minimum = minimum
        and us = "sort_key (\<lambda>u. - int (amount_of u)) funding"]
    by (auto simp: select_funding_def split: sum.splits)
  with assms obtain taken u rest where us: "sort_key (\<lambda>u. - int (amount_of u)) funding = taken @ u # rest"
    and chosen: "chosen = taken @ [u]" by auto
  have "set chosen \<subseteq> set (sort_key (\<lambda>u. - int (amount_of u)) funding)" unfolding us chosen by auto
  then show ?thesis by simp
qed

text \<open>Updates of the script of an input keep everything else of the transaction.\<close>

definition same_but_scripts :: "'id kaspa_tx \<Rightarrow> 'id kaspa_tx \<Rightarrow> bool" where
  "same_but_scripts tx tx' \<longleftrightarrow>
     kt_outputs tx' = kt_outputs tx \<and> kt_lock_time tx' = kt_lock_time tx \<and>
     map in_previous_outpoint (kt_inputs tx') = map in_previous_outpoint (kt_inputs tx) \<and>
     map in_sequence (kt_inputs tx') = map in_sequence (kt_inputs tx)"

lemma same_but_scripts_refl: "same_but_scripts tx tx"
  by (simp add: same_but_scripts_def)

lemma same_but_scripts_trans: "same_but_scripts a b \<Longrightarrow> same_but_scripts b c \<Longrightarrow> same_but_scripts a c"
  by (simp add: same_but_scripts_def)

lemma same_set_mass: "same_but_scripts tx (set_mass m tx)"
  by (simp add: same_but_scripts_def set_mass_def)

lemma same_set_contract_script: "kt_inputs tx \<noteq> [] \<Longrightarrow> same_but_scripts tx (set_contract_script script n tx)"
  by (cases "kt_inputs tx") (simp_all add: same_but_scripts_def set_contract_script_def)

lemma same_input_script:
  "i < length (kt_inputs tx) \<Longrightarrow>
     same_but_scripts tx (tx\<lparr>kt_inputs := (kt_inputs tx)[i := (kt_inputs tx ! i)\<lparr>in_signature_script := s\<rparr>]\<rparr>)"
  by (simp add: same_but_scripts_def map_update list_update_same_conv)

lemma same_sign_loop:
  "\<forall>i \<in> set is. i < length (kt_inputs tx) \<Longrightarrow>
     same_but_scripts tx (foldl (\<lambda>tx' i. tx'\<lparr>kt_inputs := (kt_inputs tx')[i := (kt_inputs tx' ! i)\<lparr>in_signature_script := f i\<rparr>]\<rparr>) tx is)"
proof (induction "is" arbitrary: tx)
  case (Cons i "is")
  then have "same_but_scripts tx (tx\<lparr>kt_inputs := (kt_inputs tx)[i := (kt_inputs tx ! i)\<lparr>in_signature_script := f i\<rparr>]\<rparr>)"
    by (intro same_input_script) simp
  from same_but_scripts_trans [OF this Cons.IH] Cons.prems show ?case by simp
qed (simp add: same_but_scripts_refl)

lemma same_sign: "same_but_scripts tx (sign_p2pk_inputs ch wallet entries start tx)"
  unfolding sign_p2pk_inputs_def by (rule same_sign_loop) simp

lemma spend_turn_Inr:
  assumes "spend_turn ch calc address inst locked inputs refs output_zero funding_total change = Inr ((tx, mass, fee), c')"
    and "inputs \<noteq> []"
  shows "same_but_scripts (transaction_new ch inputs (outputs_with_change ch calc address [output_zero] change) (ct_lock_time inst)) tx \<and>
     mass \<le> ch_max_standard_mass ch \<and> fee = ch_minimum_fee ch calc mass \<and>
     unat fee \<le> unat funding_total \<and> unat c' = unat funding_total - unat fee"
proof -
  let ?tx = "transaction_new ch inputs (outputs_with_change ch calc address [output_zero] change) (ct_lock_time inst)"
  obtain script n where "tx = set_mass mass (set_contract_script script n ?tx)" "mass \<le> ch_max_standard_mass ch"
    "fee = ch_minimum_fee ch calc mass" "next_change_of funding_total fee = Inr c'"
    using assms(1) by (auto simp: spend_turn_def Let_def rbind_Inr_iff split: if_splits)
  moreover have "same_but_scripts ?tx (set_mass mass (set_contract_script script n ?tx))"
    by (rule same_but_scripts_trans [OF same_set_contract_script same_set_mass]) (simp add: assms(2))
  ultimately show ?thesis by (simp add: next_change_Inr)
qed

lemma spend_built:
  fixes ch :: "('key, 'id, 'addr, 'rpc) chain"
  assumes "build_spend_transaction ch wallet t inst locked funding = Inr b"
  shows "\<exists>fee_funding. select_funding funding 10000 = Inr fee_funding \<and>
     map in_previous_outpoint (kt_inputs (bx_tx b)) = lo_outpoint locked # map fu_outpoint fee_funding \<and>
     map in_sequence (kt_inputs (bx_tx b)) =
       (if ct_uses_lock_time inst then 0 else ch_max_sequence ch) # replicate (length fee_funding) (ch_max_sequence ch) \<and>
     kt_lock_time (bx_tx b) = ct_lock_time inst \<and>
     (\<exists>change. kt_outputs (bx_tx b) =
        \<lparr>out_value = lo_amount locked, out_script_public_key = ch_pay_to_address ch (tw_address wallet)\<rparr> #
        (if change > 0 \<and> \<not> ch_is_dust ch (mass_suffix t) change
         then [\<lparr>out_value = change, out_script_public_key = ch_pay_to_address ch (tw_address wallet)\<rparr>] else [])) \<and>
     outputs_total (kt_outputs (bx_tx b)) \<le> unat (lo_amount locked) + sum_list (map amount_of fee_funding) \<and>
     pv_mass (bx_preview b) \<le> ch_max_standard_mass ch \<and>
     pv_fee (bx_preview b) = ch_minimum_fee ch (mass_suffix t) (pv_mass (bx_preview b)) \<and>
     pv_rpc_transaction (bx_preview b) = ch_rpc_transaction ch (bx_tx b) \<and>
     (\<forall>i < length (kt_inputs (bx_tx b)). ch_execute ch (bx_tx b)
        (\<lparr>ue_amount = lo_amount locked, ue_script_public_key = lo_script_public_key locked,
          ue_block_daa_score = lo_block_daa_score locked, ue_is_coinbase = False\<rparr> # map fu_entry fee_funding) i = Inr ())"
proof -
  define inputs where "inputs = (\<lambda>fee_funding :: ('id, 'addr) funding_utxo list.
    \<lparr>in_previous_outpoint = lo_outpoint locked, in_signature_script = [],
      in_sequence = (if ct_uses_lock_time inst then 0 else ch_max_sequence ch), in_sig_op_count = 0\<rparr> #
    map (\<lambda>u. \<lparr>in_previous_outpoint = fu_outpoint u, in_signature_script = dummy_p2pk_signature_script,
                     in_sequence = ch_max_sequence ch, in_sig_op_count = 1\<rparr>) fee_funding)"
  define entries where "entries = (\<lambda>fee_funding :: ('id, 'addr) funding_utxo list.
    \<lparr>ue_amount = lo_amount locked, ue_script_public_key = lo_script_public_key locked,
      ue_block_daa_score = lo_block_daa_score locked, ue_is_coinbase = False\<rparr> # map fu_entry fee_funding)"
  define turn where "turn = (\<lambda>(fee_funding :: ('id, 'addr) funding_utxo list) tin.
    spend_turn ch (mass_suffix t) (tw_address wallet) inst locked (inputs fee_funding)
      (client_ref_for_locked locked # map fu_client_ref fee_funding)
      \<lparr>out_value = lo_amount locked, out_script_public_key = ch_pay_to_address ch (tw_address wallet)\<rparr> tin)"
  have "\<exists>fee_funding tin tx mass fee tx'. select_funding funding 10000 = Inr fee_funding \<and>
      sum_amounts ch (map (\<lambda>u. ue_amount (fu_entry u)) fee_funding) = Inr tin \<and>
      fee_loop 10 (turn fee_funding tin) 0 0 None = Inr (Some (tx, mass, fee)) \<and>
      sign_contract_input ch wallet inst (entries fee_funding) (sign_p2pk_inputs ch wallet (entries fee_funding) 1 tx) = Inr tx' \<and>
      bx_tx b = tx' \<and> validate_scripts ch (entries fee_funding) tx' = Inr () \<and> pv_mass (bx_preview b) = mass \<and>
      pv_fee (bx_preview b) = fee \<and> pv_rpc_transaction (bx_preview b) = ch_rpc_transaction ch tx'"
    using assms
    by (auto simp: build_spend_transaction_def inputs_def entries_def turn_def rbind_Inr_iff ok_or_Inr_iff Let_def
        split: prod.splits)
  then obtain fee_funding tin tx tx' where sel: "select_funding funding 10000 = Inr fee_funding"
    and tin: "sum_amounts ch (map (\<lambda>u. ue_amount (fu_entry u)) fee_funding) = Inr tin"
    and loop: "fee_loop 10 (turn fee_funding tin) 0 0 None = Inr (Some (tx, pv_mass (bx_preview b), pv_fee (bx_preview b)))"
    and signed: "sign_contract_input ch wallet inst (entries fee_funding) (sign_p2pk_inputs ch wallet (entries fee_funding) 1 tx) = Inr tx'"
    and b: "bx_tx b = tx'" "validate_scripts ch (entries fee_funding) tx' = Inr ()"
      "pv_rpc_transaction (bx_preview b) = ch_rpc_transaction ch tx'" by blast
  have ne: "inputs fee_funding \<noteq> []" by (simp add: inputs_def)
  let ?P = "\<lambda>c. unat c \<le> unat tin"
  have step: "?P c'" if "turn fee_funding tin c = Inr (r, c')" for c r c'
    using that unfolding turn_def by (cases r) (auto dest: spend_turn_Inr [OF _ ne])
  have "\<exists>c c'. ?P c \<and> turn fee_funding tin c = Inr ((tx, pv_mass (bx_preview b), pv_fee (bx_preview b)), c') \<and>
      (fee_converges 10 (turn fee_funding tin) 0 0 \<longrightarrow> c' = c)"
    by (rule fee_loop_result [where P = ?P, OF loop]) (simp, simp, rule step)
  then obtain c c' where P: "?P c"
    and turn: "turn fee_funding tin c = Inr ((tx, pv_mass (bx_preview b), pv_fee (bx_preview b)), c')" by blast
  let ?tx0 = "transaction_new ch (inputs fee_funding)
    (outputs_with_change ch (mass_suffix t) (tw_address wallet)
      [\<lparr>out_value = lo_amount locked, out_script_public_key = ch_pay_to_address ch (tw_address wallet)\<rparr>] c) (ct_lock_time inst)"
  have fee: "same_but_scripts ?tx0 tx" "pv_mass (bx_preview b) \<le> ch_max_standard_mass ch"
    "pv_fee (bx_preview b) = ch_minimum_fee ch (mass_suffix t) (pv_mass (bx_preview b))"
    using spend_turn_Inr [OF turn [unfolded turn_def] ne] by blast+
  let ?s = "sign_p2pk_inputs ch wallet (entries fee_funding) 1 tx"
  have s: "same_but_scripts ?tx0 ?s" by (rule same_but_scripts_trans [OF fee(1) same_sign])
  then have "map in_previous_outpoint (kt_inputs ?s) \<noteq> []"
    by (simp add: same_but_scripts_def inputs_def)
  then have "kt_inputs ?s \<noteq> []" by blast
  moreover obtain script n where "tx' = set_contract_script script n ?s"
    using signed by (auto simp: sign_contract_input_def Let_def rbind_Inr_iff)
  ultimately have "same_but_scripts ?tx0 tx'"
    using same_but_scripts_trans [OF s same_set_contract_script] by blast
  then have tx: "kt_outputs tx' = outputs_with_change ch (mass_suffix t) (tw_address wallet)
      [\<lparr>out_value = lo_amount locked, out_script_public_key = ch_pay_to_address ch (tw_address wallet)\<rparr>] c"
    "kt_lock_time tx' = ct_lock_time inst"
    "map in_previous_outpoint (kt_inputs tx') = lo_outpoint locked # map fu_outpoint fee_funding"
    "map in_sequence (kt_inputs tx') =
       (if ct_uses_lock_time inst then 0 else ch_max_sequence ch) # replicate (length fee_funding) (ch_max_sequence ch)"
    by (simp_all add: same_but_scripts_def inputs_def transaction_new_def comp_def map_replicate_const)
  have "unat tin \<le> sum_list (map amount_of fee_funding)"
    using sum_amounts_bound [OF tin] by (simp add: comp_def)
  with P have total: "outputs_total (kt_outputs tx') \<le> unat (lo_amount locked) + sum_list (map amount_of fee_funding)"
    by (auto simp: tx(1) outputs_with_change_total)
  have "\<exists>change. kt_outputs tx' =
        \<lparr>out_value = lo_amount locked, out_script_public_key = ch_pay_to_address ch (tw_address wallet)\<rparr> #
        (if change > 0 \<and> \<not> ch_is_dust ch (mass_suffix t) change
         then [\<lparr>out_value = change, out_script_public_key = ch_pay_to_address ch (tw_address wallet)\<rparr>] else [])"
    by (rule exI [of _ c]) (simp add: tx(1) outputs_with_change_def)
  moreover have "\<forall>i < length (kt_inputs tx'). ch_execute ch tx' (entries fee_funding) i = Inr ()"
    using b(2) by (simp add: validate_scripts_Inr)
  ultimately show ?thesis
    using sel tx(2-4) total fee(2,3) b(3) unfolding entries_def b(1) by - (intro exI [of _ fee_funding] conjI; assumption)
qed

text \<open>C18: a spend transaction that is built spends the locked output first, with a sequence that leaves the lock time in force
  when the contract needs one, and then fee funding chosen from what is left; it pays the whole locked amount back to the wallet
  and at most one more output of change; the wallet's change never exceeds the fee funding, the fee it reports is
  the minimum fee of its mass, and every input's script has passed the script engine.\<close>

theorem spend_transaction_sound:
  fixes ch :: "('key, 'id, 'addr, 'rpc) chain"
  assumes "build_spend_transaction ch wallet t inst locked funding = Inr b"
  shows "\<exists>fee_funding. select_funding funding 10000 = Inr fee_funding \<and>
     map in_previous_outpoint (kt_inputs (bx_tx b)) = lo_outpoint locked # map fu_outpoint fee_funding \<and>
     map in_sequence (kt_inputs (bx_tx b)) =
       (if ct_uses_lock_time inst then 0 else ch_max_sequence ch) # replicate (length fee_funding) (ch_max_sequence ch) \<and>
     kt_lock_time (bx_tx b) = ct_lock_time inst \<and>
     (\<exists>change. kt_outputs (bx_tx b) =
        \<lparr>out_value = lo_amount locked, out_script_public_key = ch_pay_to_address ch (tw_address wallet)\<rparr> #
        (if change > 0 \<and> \<not> ch_is_dust ch (mass_suffix t) change
         then [\<lparr>out_value = change, out_script_public_key = ch_pay_to_address ch (tw_address wallet)\<rparr>] else [])) \<and>
     outputs_total (kt_outputs (bx_tx b)) \<le> unat (lo_amount locked) + sum_list (map amount_of fee_funding) \<and>
     pv_mass (bx_preview b) \<le> ch_max_standard_mass ch \<and>
     pv_fee (bx_preview b) = ch_minimum_fee ch (mass_suffix t) (pv_mass (bx_preview b)) \<and>
     pv_rpc_transaction (bx_preview b) = ch_rpc_transaction ch (bx_tx b) \<and>
     (\<forall>i < length (kt_inputs (bx_tx b)). ch_execute ch (bx_tx b)
        (\<lparr>ue_amount = lo_amount locked, ue_script_public_key = lo_script_public_key locked,
          ue_block_daa_score = lo_block_daa_score locked, ue_is_coinbase = False\<rparr> # map fu_entry fee_funding) i = Inr ())"
  using assms by (rule spend_built)

section \<open>The run\<close>

lemma lock_preview:
  assumes "build_lock_transaction ch wallet t amount inst funding = Inr b"
  shows "pv_rpc_transaction (bx_preview b) = ch_rpc_transaction ch (bx_tx b) \<and>
     map in_previous_outpoint (bx_inputs b) = map in_previous_outpoint (kt_inputs (bx_tx b)) \<and>
     (\<exists>selected. map in_previous_outpoint (kt_inputs (bx_tx b)) = map fu_outpoint selected \<and> set selected \<subseteq> set funding \<and>
        (\<forall>i < length (kt_inputs (bx_tx b)). ch_execute ch (bx_tx b) (map fu_entry selected) i = Inr ())) \<and>
     (\<exists>outs. kt_outputs (bx_tx b) = \<lparr>out_value = amount, out_script_public_key = ct_script_public_key inst\<rparr> # outs)"
proof -
  obtain selected tx change change' where sel: "select_funding funding (saturating_add amount 10000) = Inr selected"
    and outs: "kt_outputs (bx_tx b) = outputs_with_change ch (mass_suffix t) (tw_address wallet)
       [\<lparr>out_value = amount, out_script_public_key = ct_script_public_key inst\<rparr>] change"
    and ins: "map in_previous_outpoint (kt_inputs (bx_tx b)) = map fu_outpoint selected"
    and valid: "validate_scripts ch (map fu_entry selected) (bx_tx b) = Inr ()"
    by (rule lock_turn_built [OF assms])
  have "pv_rpc_transaction (bx_preview b) = ch_rpc_transaction ch (bx_tx b) \<and>
      map in_previous_outpoint (bx_inputs b) = map in_previous_outpoint (kt_inputs (bx_tx b))"
    using assms
    by (auto simp: build_lock_transaction_def build_signed_funding_transaction_def rbind_Inr_iff ok_or_Inr_iff Let_def
        sign_p2pk_keeps split: if_splits prod.splits)
  moreover have "\<exists>outs. kt_outputs (bx_tx b) = \<lparr>out_value = amount, out_script_public_key = ct_script_public_key inst\<rparr> # outs"
    by (simp add: outs outputs_with_change_def)
  ultimately show ?thesis
    using ins select_funding_subset [OF sel] valid by (auto simp: validate_scripts_Inr)
qed

text \<open>A transaction whose every input the script engine accepts on the given outputs.\<close>

definition accepted :: "('key, 'id, 'addr, 'rpc) chain \<Rightarrow> 'id kaspa_tx \<Rightarrow> utxo_entry list \<Rightarrow> bool" where
  "accepted ch tx entries \<longleftrightarrow> (\<forall>i < length (kt_inputs tx). ch_execute ch tx entries i = Inr ())"

text \<open>
  The two transactions of a run: the lock pays the amount to the contract's script with outputs of the wallet that no coinbase
  created; the spend takes that output back to the wallet, and pays its fee from outputs the lock leaves alone or
  from the lock's change.
\<close>

definition run_pair ::
  "('key, 'id, 'addr, 'rpc) chain \<Rightarrow> ('key, 'addr) test_wallet \<Rightarrow> u64 \<Rightarrow> 'id rpc_utxo list \<Rightarrow> 'addr contract_instantiation \<Rightarrow>
     'id kaspa_tx \<Rightarrow> 'id kaspa_tx \<Rightarrow> bool" where
  "run_pair ch wallet amount utxos inst lock spend \<longleftrightarrow>
     set (map in_previous_outpoint (kt_inputs lock)) \<subseteq> {ru_outpoint u |u. u \<in> set utxos \<and> \<not> ue_is_coinbase (ru_utxo_entry u)} \<and>
     (\<exists>entries. accepted ch lock entries) \<and>
     (\<exists>outs. kt_outputs lock = \<lparr>out_value = amount, out_script_public_key = ct_script_public_key inst\<rparr> # outs) \<and>
     (\<exists>fees. map in_previous_outpoint (kt_inputs spend) =
          \<lparr>op_transaction_id = ch_tx_id ch lock, op_index = 0\<rparr> # fees \<and>
        set fees \<subseteq> ({ru_outpoint u |u. u \<in> set utxos} - set (map in_previous_outpoint (kt_inputs lock))) \<union>
          {\<lparr>op_transaction_id = ch_tx_id ch lock, op_index = 1\<rparr>}) \<and>
     (\<exists>entries. accepted ch spend (\<lparr>ue_amount = amount, ue_script_public_key = ct_script_public_key inst,
        ue_block_daa_score = 0, ue_is_coinbase = False\<rparr> # entries)) \<and>
     (\<exists>outs. kt_outputs spend = \<lparr>out_value = amount, out_script_public_key = ch_pay_to_address ch (tw_address wallet)\<rparr> # outs) \<and>
     kt_lock_time spend = ct_lock_time inst"

lemma fee_funding_outpoints:
  assumes "fee_funding_of ch address lock funding = Inr fees" and "u \<in> set fees"
  shows "u \<in> set funding \<and> fu_outpoint u \<notin> set (map in_previous_outpoint (bx_inputs lock)) \<or>
     fu_outpoint u = \<lparr>op_transaction_id = ch_tx_id ch (bx_tx lock), op_index = 1\<rparr>"
  using assms
  by (auto simp: fee_funding_of_def lock_change_funding_def funding_from_transaction_output_def rbind_Inr_iff Let_def
      split: if_splits option.splits)

lemma contract_run_pair:
  assumes "build_contract_run env ch cname source_file source wallet t amount utxos = Inr run"
  shows "\<exists>lock spend. pv_rpc_transaction (rn_lock run) = ch_rpc_transaction ch lock \<and>
     pv_rpc_transaction (rn_spend run) = ch_rpc_transaction ch spend \<and>
     run_pair ch wallet amount utxos (rn_instantiation run) lock spend"
proof -
  define funding where "funding = map (\<lambda>u. funding_from_rpc u (tw_address wallet))
    (filter (\<lambda>u. \<not> ue_is_coinbase (ru_utxo_entry u)) utxos)"
  obtain inst lb fees sb where lock: "build_lock_transaction ch wallet t amount inst funding = Inr lb"
    and fees: "fee_funding_of ch (tw_address wallet) lb funding = Inr fees"
    and spend: "build_spend_transaction ch wallet t inst
      \<lparr>lo_outpoint = \<lparr>op_transaction_id = ch_tx_id ch (bx_tx lb), op_index = 0\<rparr>, lo_amount = amount,
       lo_script_public_key = ct_script_public_key inst, lo_block_daa_score = 0\<rparr> fees = Inr sb"
    and run: "rn_instantiation run = inst" "rn_lock run = bx_preview lb" "rn_spend run = bx_preview sb"
    using assms by (auto simp: build_contract_run_def funding_def rbind_Inr_iff Let_def)
  from lock_preview [OF lock] obtain outs selected
    where l: "pv_rpc_transaction (bx_preview lb) = ch_rpc_transaction ch (bx_tx lb)"
      "map in_previous_outpoint (bx_inputs lb) = map in_previous_outpoint (kt_inputs (bx_tx lb))"
      "map in_previous_outpoint (kt_inputs (bx_tx lb)) = map fu_outpoint selected" "set selected \<subseteq> set funding"
      "accepted ch (bx_tx lb) (map fu_entry selected)"
      "kt_outputs (bx_tx lb) = \<lparr>out_value = amount, out_script_public_key = ct_script_public_key inst\<rparr> # outs"
    unfolding accepted_def by blast
  from spend_built [OF spend] obtain fee_funding outs'
    where s: "select_funding fees 10000 = Inr fee_funding"
      "map in_previous_outpoint (kt_inputs (bx_tx sb)) =
        \<lparr>op_transaction_id = ch_tx_id ch (bx_tx lb), op_index = 0\<rparr> # map fu_outpoint fee_funding"
      "kt_lock_time (bx_tx sb) = ct_lock_time inst"
      "kt_outputs (bx_tx sb) = \<lparr>out_value = amount, out_script_public_key = ch_pay_to_address ch (tw_address wallet)\<rparr> # outs'"
      "pv_rpc_transaction (bx_preview sb) = ch_rpc_transaction ch (bx_tx sb)"
      "accepted ch (bx_tx sb) (\<lparr>ue_amount = amount, ue_script_public_key = ct_script_public_key inst,
        ue_block_daa_score = 0, ue_is_coinbase = False\<rparr> # map fu_entry fee_funding)"
    unfolding accepted_def by auto
  have fetched: "fu_outpoint u \<in> {ru_outpoint u |u. u \<in> set utxos \<and> \<not> ue_is_coinbase (ru_utxo_entry u)}"
    if "u \<in> set funding" for u
    using that by (auto simp: funding_def funding_from_rpc_def Let_def)
  have "set (map in_previous_outpoint (kt_inputs (bx_tx lb))) \<subseteq>
      {ru_outpoint u |u. u \<in> set utxos \<and> \<not> ue_is_coinbase (ru_utxo_entry u)}"
    unfolding l(3) using l(4) fetched by auto
  moreover have "set (map fu_outpoint fee_funding) \<subseteq>
      ({ru_outpoint u |u. u \<in> set utxos} - set (map in_previous_outpoint (kt_inputs (bx_tx lb)))) \<union>
        {\<lparr>op_transaction_id = ch_tx_id ch (bx_tx lb), op_index = 1\<rparr>}"
  proof
    fix p
    assume "p \<in> set (map fu_outpoint fee_funding)"
    with select_funding_subset [OF s(1)] obtain u where u: "u \<in> set fees" "p = fu_outpoint u" by auto
    from fee_funding_outpoints [OF fees u(1)] show "p \<in> ({ru_outpoint u |u. u \<in> set utxos} -
        set (map in_previous_outpoint (kt_inputs (bx_tx lb)))) \<union> {\<lparr>op_transaction_id = ch_tx_id ch (bx_tx lb), op_index = 1\<rparr>}"
      unfolding l(2) u(2) using fetched by blast
  qed
  ultimately have "run_pair ch wallet amount utxos inst (bx_tx lb) (bx_tx sb)"
    unfolding run_pair_def using l(5,6) s(2-4,6) by - (intro conjI exI; assumption)
  with l(1) s(5) show ?thesis unfolding run by blast
qed

text \<open>C15: the two transactions of a contract's run fit together: the lock is accepted input by input by the script engine,
  spends only outputs the node listed for the wallet that are not coinbase, and pays the amount to the
  contract; the spend is accepted too, takes exactly that output with the contract's lock time and pays the amount
  back to the wallet, and its fee comes from outputs the lock leaves alone or from the lock's change.\<close>

theorem contract_run_sound:
  assumes "build_contract_run env ch cname source_file source wallet t amount utxos = Inr run"
  shows "\<exists>lock spend. pv_rpc_transaction (rn_lock run) = ch_rpc_transaction ch lock \<and>
     pv_rpc_transaction (rn_spend run) = ch_rpc_transaction ch spend \<and>
     run_pair ch wallet amount utxos (rn_instantiation run) lock spend"
  using assms by (rule contract_run_pair)

section \<open>A run\<close>

lemma flat_lock_outputs:
  "\<exists>b. build_lock_transaction flat_chain flat_wallet TT_Tn10 100000 inst [flat_funding 200000] = Inr b \<and>
     kt_outputs (bx_tx b) = [\<lparr>out_value = 100000, out_script_public_key = ct_script_public_key inst\<rparr>,
       \<lparr>out_value = 89500, out_script_public_key = ch_pay_to_address flat_chain (tw_address flat_wallet)\<rparr>] \<and>
     map in_previous_outpoint (bx_inputs b) = [fu_outpoint (flat_funding 200000)]"
proof -
  obtain tx where "fee_loop 10 (flat_lock_turn inst 200000) 0 0 None = Inr (Some (tx, 10500, 10500))" "length (kt_inputs tx) = 1"
    using flat_loops(2) by blast
  then obtain b where b: "build_lock_transaction flat_chain flat_wallet TT_Tn10 100000 inst [flat_funding 200000] = Inr b"
    using flat_lock_built by force
  have sel: "select_funding [flat_funding 200000] (saturating_add 100000 10000) = Inr [flat_funding 200000]"
    by (simp add: saturating_add_def)
  obtain selected tin tx change change' where s: "select_funding [flat_funding 200000] (saturating_add 100000 10000) = Inr selected"
    and tin: "unat tin = sum_list (map amount_of selected) mod 2 ^ 64"
    and turn: "lock_turn flat_chain flat_wallet TT_Tn10 100000 inst selected tin change =
      Inr ((tx, pv_mass (bx_preview b), pv_fee (bx_preview b)), change')"
    and conv: "fee_converges 10 (lock_turn flat_chain flat_wallet TT_Tn10 100000 inst selected tin) 0 0 \<longrightarrow> change' = change"
    and outs: "kt_outputs (bx_tx b) = outputs_with_change flat_chain (mass_suffix TT_Tn10) (tw_address flat_wallet)
       [\<lparr>out_value = 100000, out_script_public_key = ct_script_public_key inst\<rparr>] change"
    and ins: "map in_previous_outpoint (kt_inputs (bx_tx b)) = map fu_outpoint selected"
    by (rule lock_turn_built [OF b])
  have selected: "selected = [flat_funding 200000]" using s sel by simp
  note tin = tin [unfolded selected] and turn = turn [unfolded selected] and conv = conv [unfolded selected]
    and ins = ins [unfolded selected]
  have "unat tin = unat (200000 :: u64)" using tin by simp
  then have tin: "tin = 200000" by (simp only: word_unat_eq_iff)
  have settled: "change' = change" using conv flat_loops(3) by (simp add: tin)
  obtain tx' where "flat_lock_turn inst 200000 change =
     (let fee = (if change > 0 \<and> \<not> change < 600 then 10500 else 10000) in
      rbind (next_change_of 200000 (100000 + fee)) (\<lambda>c'. Inr ((tx', fee, fee), c')))"
    using flat_turn [of inst 200000 change] by blast
  with turn have "change = (if change > 0 \<and> \<not> change < 600 then 89500 else 90000)"
    unfolding tin settled by (auto simp: next_change_of_def checked_sub_def split: if_splits)
  then have "change = 89500" by (auto split: if_splits)
  then have "kt_outputs (bx_tx b) = [\<lparr>out_value = 100000, out_script_public_key = ct_script_public_key inst\<rparr>,
       \<lparr>out_value = 89500, out_script_public_key = ch_pay_to_address flat_chain (tw_address flat_wallet)\<rparr>]"
    by (simp add: outs outputs_with_change_def)
  with b ins lock_preview [OF b] show ?thesis by auto
qed

text \<open>The turns of a spend whose fee is paid from one output.\<close>

lemma spend_transaction_builds:
  assumes "select_funding funding 10000 = Inr fees"
    and "sum_amounts ch (map (\<lambda>u. ue_amount (fu_entry u)) fees) = Inr tin"
    and "fee_loop 10 (spend_turn ch (mass_suffix t) (tw_address wallet) inst locked
     (\<lparr>in_previous_outpoint = lo_outpoint locked, in_signature_script = [],
        in_sequence = if ct_uses_lock_time inst then 0 else ch_max_sequence ch, in_sig_op_count = 0\<rparr> #
      map (\<lambda>u. \<lparr>in_previous_outpoint = fu_outpoint u, in_signature_script = dummy_p2pk_signature_script,
                     in_sequence = ch_max_sequence ch, in_sig_op_count = 1\<rparr>) fees)
     (client_ref_for_locked locked # map fu_client_ref fees)
     \<lparr>out_value = lo_amount locked, out_script_public_key = ch_pay_to_address ch (tw_address wallet)\<rparr> tin) 0 0 None =
       Inr (Some (tx, mass, fee))"
    and "\<exists>tx'. sign_contract_input ch wallet inst (\<lparr>ue_amount = lo_amount locked,
       ue_script_public_key = lo_script_public_key locked, ue_block_daa_score = lo_block_daa_score locked,
       ue_is_coinbase = False\<rparr> # map fu_entry fees) (sign_p2pk_inputs ch wallet (\<lparr>ue_amount = lo_amount locked,
       ue_script_public_key = lo_script_public_key locked, ue_block_daa_score = lo_block_daa_score locked,
       ue_is_coinbase = False\<rparr> # map fu_entry fees) 1 tx) = Inr tx' \<and>
       validate_scripts ch (\<lparr>ue_amount = lo_amount locked, ue_script_public_key = lo_script_public_key locked,
         ue_block_daa_score = lo_block_daa_score locked, ue_is_coinbase = False\<rparr> # map fu_entry fees) tx' = Inr ()"
  shows "\<exists>b. build_spend_transaction ch wallet t inst locked funding = Inr b"
  using assms by (auto simp: build_spend_transaction_def Let_def)

lemma flat_spend_built:
  assumes args: "ct_spend_args inst = []" and amount: "ue_amount (fu_entry u) = 89500"
  shows "\<exists>b. build_spend_transaction flat_chain flat_wallet t inst locked [u] = Inr b"
proof -
  have sel: "select_funding [u] 10000 = Inr [u]"
    by (simp add: select_funding_def amount saturating_add_def Let_def)
  have ops: "p2sh_sig_op_count flat_chain s k = Inr 1" for s k
    by (simp add: p2sh_sig_op_count_def flat_chain_def)
  let ?turn = "spend_turn flat_chain (mass_suffix t) (tw_address flat_wallet) inst locked
     (\<lparr>in_previous_outpoint = lo_outpoint locked, in_signature_script = [],
        in_sequence = if ct_uses_lock_time inst then 0 else ch_max_sequence flat_chain, in_sig_op_count = 0\<rparr> #
      map (\<lambda>u. \<lparr>in_previous_outpoint = fu_outpoint u, in_signature_script = dummy_p2pk_signature_script,
                     in_sequence = ch_max_sequence flat_chain, in_sig_op_count = 1\<rparr>) [u])
     (client_ref_for_locked locked # map fu_client_ref [u])
     \<lparr>out_value = lo_amount locked, out_script_public_key = ch_pay_to_address flat_chain (tw_address flat_wallet)\<rparr> 89500"
  have turn: "\<exists>tx. ?turn c = (let fee = (if c > 0 \<and> \<not> c < 600 then 10500 else 10000) in
      rbind (next_change_of 89500 fee) (\<lambda>c'. Inr ((tx, fee, fee), c'))) \<and> length (kt_inputs tx) = 2" for c
    by (rule exI [of _ "fst (fst (projr (?turn c)))"])
      (simp add: spend_turn_def args dummy_spend_arg_payloads_def build_contract_signature_script_def ops outputs_with_change_def
        set_contract_script_def set_mass_def next_change_of_def checked_sub_def)
  note eval = next_change_of_def checked_sub_def Let_def
  obtain d where d: "?turn 0 = Inr ((d, 10000, 10000), 79500)" using turn [of 0] by (auto simp: eval)
  obtain e where e: "?turn 79500 = Inr ((e, 10500, 10500), 79000)" using turn [of 79500] by (auto simp: eval)
  obtain f where f: "?turn 79000 = Inr ((f, 10500, 10500), 79000)" "length (kt_inputs f) = 2"
    using turn [of 79000] by (auto simp: eval)
  have loop: "fee_loop 10 ?turn 0 0 None = Inr (Some (f, 10500, 10500))" using d e f by (simp add: ten_turns)
  let ?entries = "\<lparr>ue_amount = lo_amount locked, ue_script_public_key = lo_script_public_key locked,
         ue_block_daa_score = lo_block_daa_score locked, ue_is_coinbase = False\<rparr> # map fu_entry [u]"
  let ?s = "sign_p2pk_inputs flat_chain flat_wallet ?entries 1 f"
  have two: "length (kt_inputs ?s) = 2"
    using arg_cong [OF sign_p2pk_keeps(2) [of flat_chain flat_wallet ?entries 1 f], of length] f(2) by simp
  have "ch_sign_input flat_chain tx es i key = 65 # replicate 65 1" for tx es i key by (simp add: flat_chain_def)
  then have "\<exists>script. sign_contract_input flat_chain flat_wallet inst ?entries ?s = Inr (set_contract_script script 1 ?s)"
    by (simp add: sign_contract_input_def parse_single_signature_payload_def args build_contract_signature_script_def ops, blast)
  then obtain script where "sign_contract_input flat_chain flat_wallet inst ?entries ?s = Inr (set_contract_script script 1 ?s)"
    by blast
  moreover have "validate_scripts flat_chain ?entries (set_contract_script script 1 ?s) = Inr ()"
    using two by (simp add: validate_scripts_Inr set_contract_script_def)
  moreover have "sum_amounts flat_chain (map (\<lambda>u. ue_amount (fu_entry u)) [u]) = Inr 89500" by (simp add: amount)
  ultimately show ?thesis
    by (intro spend_transaction_builds [OF sel _ loop]) blast+
qed

lemma tiny_instantiates:
  "case rbind (plan_from_source (environment_of tiny_scanner) flat_chain ''C'' ''t.ks'' tiny_source) (\<lambda>plan.
      rbind (default_spend_name (dp_artifact plan) ''C'') (\<lambda>sname.
      rbind (default_contract_params (dp_artifact plan) ''C'' flat_wallet) (\<lambda>bindings.
      instantiate_contract flat_chain (dp_artifact plan) ''C'' sname bindings TT_Tn10))) of
    Inr inst \<Rightarrow> ct_spend_args inst = [] | Inl e \<Rightarrow> False"
  by code_simp

definition flat_utxo :: "nat rpc_utxo" where
  "flat_utxo = \<lparr>ru_outpoint = \<lparr>op_transaction_id = 7, op_index = 0\<rparr>,
       ru_utxo_entry = \<lparr>ue_amount = 200000, ue_script_public_key = \<lparr>spk_version = 0, spk_script = []\<rparr>,
         ue_block_daa_score = 1, ue_is_coinbase = False\<rparr>\<rparr>"

lemma tiny_runs:
  "\<exists>run. build_contract_run (environment_of tiny_scanner) flat_chain ''C'' ''t.ks'' tiny_source flat_wallet TT_Tn10 100000
     [flat_utxo] = Inr run"
proof -
  obtain plan sname bindings inst where
    start: "plan_from_source (environment_of tiny_scanner) flat_chain ''C'' ''t.ks'' tiny_source = Inr plan"
      "default_spend_name (dp_artifact plan) ''C'' = Inr sname"
      "default_contract_params (dp_artifact plan) ''C'' flat_wallet = Inr bindings"
      "instantiate_contract flat_chain (dp_artifact plan) ''C'' sname bindings TT_Tn10 = Inr inst"
    and args: "ct_spend_args inst = []"
    using tiny_instantiates by (auto simp: rbind_Inr_iff split: sum.splits)
  have funding: "\<not> ue_is_coinbase (ru_utxo_entry flat_utxo)" "funding_from_rpc flat_utxo (tw_address flat_wallet) = flat_funding 200000"
    by (simp_all add: flat_utxo_def flat_funding_def flat_wallet_def)
  obtain lock where lock: "build_lock_transaction flat_chain flat_wallet TT_Tn10 100000 inst [flat_funding 200000] = Inr lock"
    "kt_outputs (bx_tx lock) = [\<lparr>out_value = 100000, out_script_public_key = ct_script_public_key inst\<rparr>,
       \<lparr>out_value = 89500, out_script_public_key = ch_pay_to_address flat_chain (tw_address flat_wallet)\<rparr>]"
    "map in_previous_outpoint (bx_inputs lock) = [fu_outpoint (flat_funding 200000)]"
    using flat_lock_outputs [of inst] by (elim exE conjE) (rule that)
  have spent: "set (map in_previous_outpoint (bx_inputs lock)) = {fu_outpoint (flat_funding 200000)}"
    unfolding lock(3) by simp
  have "2 \<le> length (kt_outputs (bx_tx lock))" "out_value (kt_outputs (bx_tx lock) ! 1) = 89500" unfolding lock(2) by simp_all
  then have "\<exists>u. lock_change_funding flat_chain (bx_tx lock) (tw_address flat_wallet) = Inr (Some u) \<and> ue_amount (fu_entry u) = 89500"
    by (simp add: lock_change_funding_def funding_from_transaction_output_def Let_def)
  then obtain u where change: "lock_change_funding flat_chain (bx_tx lock) (tw_address flat_wallet) = Inr (Some u)"
    and u: "ue_amount (fu_entry u) = 89500" by blast
  have fees: "fee_funding_of flat_chain (tw_address flat_wallet) lock [flat_funding 200000] = Inr [u]"
    unfolding fee_funding_of_def spent change by simp
  obtain spend where "build_spend_transaction flat_chain flat_wallet TT_Tn10 inst
      \<lparr>lo_outpoint = \<lparr>op_transaction_id = ch_tx_id flat_chain (bx_tx lock), op_index = 0\<rparr>, lo_amount = 100000,
       lo_script_public_key = ct_script_public_key inst, lo_block_daa_score = 0\<rparr> [u] = Inr spend"
    using flat_spend_built [OF args u] by blast
  with start lock(1) fees show ?thesis
    by (simp add: build_contract_run_def funding Let_def)
qed

theorem contract_run_sound_witness:
  "\<exists>run lock spend. build_contract_run (environment_of tiny_scanner) flat_chain ''C'' ''t.ks'' tiny_source flat_wallet TT_Tn10
       100000 [flat_utxo] = Inr run \<and>
     pv_rpc_transaction (rn_lock run) = ch_rpc_transaction flat_chain lock \<and>
     pv_rpc_transaction (rn_spend run) = ch_rpc_transaction flat_chain spend \<and>
     run_pair flat_chain flat_wallet 100000 [flat_utxo] (rn_instantiation run) lock spend"
  using tiny_runs contract_run_sound by blast

theorem spend_transaction_sound_witness:
  "\<exists>b. build_spend_transaction flat_chain flat_wallet TT_Tn10 flat_instantiation
     \<lparr>lo_outpoint = \<lparr>op_transaction_id = 2, op_index = 0\<rparr>, lo_amount = 100000,
       lo_script_public_key = ct_script_public_key flat_instantiation, lo_block_daa_score = 0\<rparr>
     [flat_funding 89500] = Inr b \<and> kt_lock_time (bx_tx b) = 0"
proof -
  obtain b where b: "build_spend_transaction flat_chain flat_wallet TT_Tn10 flat_instantiation
     \<lparr>lo_outpoint = \<lparr>op_transaction_id = 2, op_index = 0\<rparr>, lo_amount = 100000,
       lo_script_public_key = ct_script_public_key flat_instantiation, lo_block_daa_score = 0\<rparr>
     [flat_funding 89500] = Inr b"
    using flat_spend_built [of flat_instantiation "flat_funding 89500" TT_Tn10] by (auto simp: flat_instantiation_def)
  from spend_transaction_sound [OF b] b show ?thesis by (auto simp: flat_instantiation_def)
qed

section \<open>What the harness submits\<close>

lemma quiet_step:
  assumes "quiet m" and "io_bind m f wl = (r, wl')"
  shows "(\<exists>e. r = Inl e) \<and> snd wl' = snd wl \<or> (\<exists>x wl1. m wl = (Inr x, wl1) \<and> snd wl1 = snd wl \<and> f x wl1 = (r, wl'))"
  using assms(1) [unfolded logs_def, rule_format, of wl] assms(2) by (auto simp: io_bind_def split: prod.splits sum.splits)

lemma broadcast_result:
  "broadcast_run nd t wallet config run w = (Inr oc, w') \<Longrightarrow> oc_result oc = PR_Pass"
  by (auto simp: broadcast_run_def io_bind_Inr io_return_def)

lemma proof_result: "proof_from_run nd run info a b c d w = (Inr p, w') \<Longrightarrow> tp_result p = c"
  by (auto simp: proof_from_run_def Let_def io_bind_Inr io_return_def)

text \<open>The end of the harness, once the run is built: what is logged, and what the proof says.\<close>

lemma harness_end:
  assumes "io_bind (if tc_broadcast config then broadcast_run (logged nd) t wallet config run else io_return dry_run_outcome) (\<lambda>oc.
     io_bind (proof_from_run (logged nd) run info (oc_lock_txid oc) (oc_spend_txid oc) (oc_result oc) (oc_error oc)) (\<lambda>tproof.
     io_return (tproof\<lparr>tp_lock_daa_score := oc_lock_daa_score oc, tp_spend_daa_score := oc_spend_daa_score oc\<rparr>))) wl =
       (r, wl')"
    and "snd wl = []"
  shows "(snd wl' = [] \<or> tc_broadcast config \<and> (snd wl' = [pv_rpc_transaction (rn_lock run)] \<or>
       snd wl' = [pv_rpc_transaction (rn_lock run), pv_rpc_transaction (rn_spend run)])) \<and>
     (case r of Inl e \<Rightarrow> True
      | Inr p \<Rightarrow> if tc_broadcast config then tp_result p = PR_Pass \<and> length (snd wl') = 2 else tp_result p = PR_Gated \<and> snd wl' = [])"
proof -
  let ?m = "if tc_broadcast config then broadcast_run (logged nd) t wallet config run else io_return dry_run_outcome"
  let ?ok = "if tc_broadcast config then [pv_rpc_transaction (rn_lock run), pv_rpc_transaction (rn_spend run)] else []"
  let ?err = "if tc_broadcast config then {[], [pv_rpc_transaction (rn_lock run)],
    [pv_rpc_transaction (rn_lock run), pv_rpc_transaction (rn_spend run)]} else {[]}"
  let ?f = "\<lambda>oc. io_bind (proof_from_run (logged nd) run info (oc_lock_txid oc) (oc_spend_txid oc) (oc_result oc) (oc_error oc)) (\<lambda>tproof.
     io_return (tproof\<lparr>tp_lock_daa_score := oc_lock_daa_score oc, tp_spend_daa_score := oc_spend_daa_score oc\<rparr>))"
  have m: "logs ?m ?ok ?err"
    by (simp add: broadcast_logs quiet_basics(1))
  have f: "quiet (?f oc)" for oc by (intro quiet_intros)
  from logs_bind [OF m f] have "logs (io_bind ?m ?f) (?ok @ []) (?err \<union> (@) ?ok ` {[]})" .
  from this [unfolded logs_def, rule_format, of wl] assms
  have log: "case r of Inr _ \<Rightarrow> snd wl' = ?ok | Inl _ \<Rightarrow> snd wl' \<in> ?err \<union> {?ok}"
    by (auto split: sum.splits)
  have result: "tp_result p = (if tc_broadcast config then PR_Pass else PR_Gated)" if "r = Inr p" for p
  proof -
    from assms(1) that obtain oc w1 p' w2 where oc: "?m wl = (Inr oc, w1)"
      and p: "proof_from_run (logged nd) run info (oc_lock_txid oc) (oc_spend_txid oc) (oc_result oc) (oc_error oc) w1 = (Inr p', w2)"
        "p = p'\<lparr>tp_lock_daa_score := oc_lock_daa_score oc, tp_spend_daa_score := oc_spend_daa_score oc\<rparr>"
      by (auto simp: io_bind_Inr io_return_def)
    from oc have "oc_result oc = (if tc_broadcast config then PR_Pass else PR_Gated)"
      by (auto simp: io_return_def dry_run_outcome_def dest: broadcast_result split: if_splits)
    with proof_result [OF p(1)] p(2) show ?thesis by simp
  qed
  show ?thesis using log result by (auto split: sum.splits if_splits)
qed

lemma harness_log:
  "case deploy_and_execute env ch (logged nd) t wallet cname source_file source amount config (w, []) of
     (r, w', log) \<Rightarrow>
       (log = [] \<or> tc_broadcast config \<and>
         (\<exists>utxos run lock spend.
            build_contract_run env ch cname source_file source wallet (tc_target config) amount utxos = Inr run \<and>
            run_pair ch wallet amount utxos (rn_instantiation run) lock spend \<and>
            (log = [ch_rpc_transaction ch lock] \<or> log = [ch_rpc_transaction ch lock, ch_rpc_transaction ch spend]))) \<and>
       (case r of
          Inl e \<Rightarrow> True
        | Inr p \<Rightarrow>
            if tc_broadcast config then tp_result p = PR_Pass \<and> length log = 2 else tp_result p = PR_Gated \<and> log = [])"
proof -
  obtain r wl where run: "deploy_and_execute env ch (logged nd) t wallet cname source_file source amount config (w, []) = (r, wl)"
    by (rule surj_pair [THEN exE]) (erule exE)
  show ?thesis
    using quiet_step [OF quiet_adapter(1) run [unfolded deploy_and_execute_def]]
  proof (elim disjE exE conjE)
    fix info wl1
    assume 1: "snd wl1 = snd (w, [])"
      and "io_bind (fetch_rpc_utxos (logged nd) t (tw_address wallet)) (\<lambda>utxos.
        io_bind (io_lift (build_contract_run env ch cname source_file source wallet (tc_target config) amount utxos)) (\<lambda>run.
        io_bind (if tc_broadcast config then broadcast_run (logged nd) t wallet config run else io_return dry_run_outcome) (\<lambda>oc.
        io_bind (proof_from_run (logged nd) run info (oc_lock_txid oc) (oc_spend_txid oc) (oc_result oc) (oc_error oc)) (\<lambda>tproof.
        io_return (tproof\<lparr>tp_lock_daa_score := oc_lock_daa_score oc, tp_spend_daa_score := oc_spend_daa_score oc\<rparr>))))) wl1 =
          (r, wl)"
    from quiet_step [OF quiet_adapter(3) this(2)] show ?thesis
    proof (elim disjE exE conjE)
      fix utxos wl2
      assume 2: "snd wl2 = snd wl1"
        and "io_bind (io_lift (build_contract_run env ch cname source_file source wallet (tc_target config) amount utxos)) (\<lambda>run.
        io_bind (if tc_broadcast config then broadcast_run (logged nd) t wallet config run else io_return dry_run_outcome) (\<lambda>oc.
        io_bind (proof_from_run (logged nd) run info (oc_lock_txid oc) (oc_spend_txid oc) (oc_result oc) (oc_error oc)) (\<lambda>tproof.
        io_return (tproof\<lparr>tp_lock_daa_score := oc_lock_daa_score oc, tp_spend_daa_score := oc_spend_daa_score oc\<rparr>)))) wl2 =
          (r, wl)"
      note last = this(2)
      show ?thesis
      proof (cases "build_contract_run env ch cname source_file source wallet (tc_target config) amount utxos")
        case (Inl e)
        with last 1 2 run show ?thesis by (auto simp: io_bind_def io_lift_def)
      next
        case (Inr built)
        with last have "io_bind (if tc_broadcast config then broadcast_run (logged nd) t wallet config built else io_return dry_run_outcome) (\<lambda>oc.
            io_bind (proof_from_run (logged nd) built info (oc_lock_txid oc) (oc_spend_txid oc) (oc_result oc) (oc_error oc)) (\<lambda>tproof.
            io_return (tproof\<lparr>tp_lock_daa_score := oc_lock_daa_score oc, tp_spend_daa_score := oc_spend_daa_score oc\<rparr>))) wl2 = (r, wl)"
          by (simp add: io_bind_def [of "io_lift r" for r] io_lift_def)
        note ended = harness_end [OF this]
        from contract_run_pair [OF Inr] obtain lock spend where
          pair: "pv_rpc_transaction (rn_lock built) = ch_rpc_transaction ch lock"
            "pv_rpc_transaction (rn_spend built) = ch_rpc_transaction ch spend"
            "run_pair ch wallet amount utxos (rn_instantiation built) lock spend" by blast
        obtain w' log where wl: "wl = (w', log)" by (cases wl)
        have "snd wl2 = []" using 1 2 by simp
        note ended = ended [OF this, unfolded wl snd_conv pair(1,2)]
        have "log = [] \<or> tc_broadcast config \<and>
          (\<exists>utxos run lock spend.
            build_contract_run env ch cname source_file source wallet (tc_target config) amount utxos = Inr run \<and>
            run_pair ch wallet amount utxos (rn_instantiation run) lock spend \<and>
            (log = [ch_rpc_transaction ch lock] \<or> log = [ch_rpc_transaction ch lock, ch_rpc_transaction ch spend]))"
          using ended [THEN conjunct1] Inr pair(3) by blast
        with ended [THEN conjunct2] show ?thesis unfolding run wl prod.case by (intro conjI)
      qed
    qed (use 1 run in \<open>auto split: prod.split\<close>)
  qed (use run in \<open>auto split: prod.split\<close>)
qed

text \<open>C11: the harness submits nothing unless broadcasting is allowed, and then at most the two transactions of one run it built
  from its arguments, the lock first; both passed the local script engine and the spend takes the lock's output. It returns
  a passing proof only after submitting both, and a gated one only after submitting none.\<close>

theorem harness_submits:
  "case deploy_and_execute env ch (logged nd) t wallet cname source_file source amount config (w, []) of
     (r, w', log) \<Rightarrow>
       (log = [] \<or> tc_broadcast config \<and>
         (\<exists>utxos run lock spend.
            build_contract_run env ch cname source_file source wallet (tc_target config) amount utxos = Inr run \<and>
            run_pair ch wallet amount utxos (rn_instantiation run) lock spend \<and>
            (log = [ch_rpc_transaction ch lock] \<or> log = [ch_rpc_transaction ch lock, ch_rpc_transaction ch spend]))) \<and>
       (case r of
          Inl e \<Rightarrow> True
        | Inr p \<Rightarrow>
            if tc_broadcast config then tp_result p = PR_Pass \<and> length log = 2 else tp_result p = PR_Gated \<and> log = [])"
  by (rule harness_log)

end
