(* ===== verification/KS_Native.thy ===== *)
theory KS_Native
  imports KS_TestnetRpc
begin

text \<open>
  The native compatibility crate, first part (\<open>compatibility/toccata-v2/src/lib.rs\<close>): plans of TN10 transactions, what they
  are checked for, and the validation of scripts. The types of \<open>kaspa_consensus_core\<close> are records of the fields the code
  uses; what that crate and the script engine compute is a \<open>native_lib\<close>.
\<close>

section \<open>Transactions\<close>

definition NATIVE_TN10_NETWORK :: string where
  "NATIVE_TN10_NETWORK = ''kaspa-testnet-10''"

definition UPSTREAM_COMMIT :: string where
  "UPSTREAM_COMMIT = ''01b532e8b553523216471682649693af92f0fd16''"

record 'id native_entry =
  nv_amount :: u64
  nv_script_public_key :: script_public_key
  nv_block_daa_score :: u64
  nv_is_coinbase :: bool
  nv_covenant_id :: "'id option"

record 'cov native_output =
  no_value :: u64
  no_script_public_key :: script_public_key
  no_covenant :: "'cov option"

definition native_output_new :: "u64 \<Rightarrow> script_public_key \<Rightarrow> 'cov native_output" where
  "native_output_new amount spk = \<lparr>no_value = amount, no_script_public_key = spk, no_covenant = None\<rparr>"

record 'id native_input =
  nn_previous_outpoint :: "'id outpoint"
  nn_signature_script :: "u8 list"
  nn_sequence :: u64
  nn_compute_budget :: u16

record ('id, 'cov) native_tx =
  nt_version :: u16
  nt_inputs :: "'id native_input list"
  nt_outputs :: "'cov native_output list"
  nt_lock_time :: u64
  nt_subnetwork_id :: "u8 list"
  nt_gas :: u64
  nt_payload :: "u8 list"
  nt_storage_mass :: u64

text \<open>The id of a transaction is a function of it, so \<open>finalize\<close>, which stores it, is the identity here.\<close>

record ('id, 'cov, 'grp, 'rpc) native_lib =
  nl_native_subnetwork :: "u8 list"
  nl_populate_genesis :: "('id, 'cov) native_tx \<Rightarrow> 'grp list \<Rightarrow> string + ('id, 'cov) native_tx"
  nl_covenants :: "('id, 'cov) native_tx \<Rightarrow> 'id native_entry list \<Rightarrow> string + unit"
  nl_execute :: "('id, 'cov) native_tx \<Rightarrow> 'id native_entry list \<Rightarrow> nat \<Rightarrow> string + unit"
  nl_rpc_transaction :: "('id, 'cov) native_tx \<Rightarrow> 'rpc"

section \<open>Plans\<close>

record 'id input_plan =
  ip_outpoint :: "'id outpoint"
  ip_utxo :: "'id native_entry"
  ip_compute_budget :: u16
  ip_sequence :: u64
  ip_witness :: "u8 list"

record ('id, 'cov, 'grp) tn10_plan =
  pl_network :: string
  pl_inputs :: "'id input_plan list"
  pl_outputs :: "'cov native_output list"
  pl_genesis_groups :: "'grp list"
  pl_lock_time :: u64
  pl_storage_mass :: u64
  pl_expected_fee :: u64

datatype plan_error =
    NP_WrongNetwork
  | NP_Empty
  | NP_DuplicateInput
  | NP_Overflow
  | NP_InputMetadataMismatch
  | NP_FeeMismatch
  | NP_Covenant string
  | NP_Script nat string

fun plan_error_display :: "plan_error \<Rightarrow> string" where
  "plan_error_display NP_WrongNetwork = ''only verified kaspa-testnet-10 plans are accepted''"
| "plan_error_display NP_Empty = ''inputs and outputs must be non-empty''"
| "plan_error_display NP_DuplicateInput = ''duplicate input outpoint''"
| "plan_error_display NP_Overflow = ''value sum overflow''"
| "plan_error_display NP_InputMetadataMismatch = ''input metadata count does not match transaction inputs''"
| "plan_error_display NP_FeeMismatch = ''outputs exceed inputs or do not match the explicit fee''"
| "plan_error_display (NP_Covenant e) = ''native covenant validation failed: '' @ e"
| "plan_error_display (NP_Script index reason) =
     ''native script validation failed for input '' @ show_nat index @ '': '' @ reason"

record ('id, 'cov) native_transaction =
  nx_transaction :: "('id, 'cov) native_tx"
  nx_entries :: "'id native_entry list"
  nx_fee :: u64

text \<open>\<open>any\<close> over the insertions into a hash set: whether an element was there already.\<close>

fun repeats :: "'a set \<Rightarrow> 'a list \<Rightarrow> bool" where
  "repeats seen [] \<longleftrightarrow> False"
| "repeats seen (x # xs) \<longleftrightarrow> x \<in> seen \<or> repeats (insert x seen) xs"

definition checked_total :: "u64 list \<Rightarrow> plan_error + u64" where
  "checked_total amounts = try_fold (\<lambda>sum amount. ok_or (checked_add sum amount) NP_Overflow) 0 amounts"

text \<open>The transaction of a plan, before its covenants are populated.\<close>

definition plan_transaction ::
  "('id, 'cov, 'grp, 'rpc) native_lib \<Rightarrow> ('id, 'cov, 'grp) tn10_plan \<Rightarrow> ('id, 'cov) native_tx" where
  "plan_transaction lib plan =
     \<lparr>nt_version = 1,
      nt_inputs = map (\<lambda>input. \<lparr>nn_previous_outpoint = ip_outpoint input, nn_signature_script = ip_witness input,
        nn_sequence = ip_sequence input, nn_compute_budget = ip_compute_budget input\<rparr>) (pl_inputs plan),
      nt_outputs = pl_outputs plan, nt_lock_time = pl_lock_time plan, nt_subnetwork_id = nl_native_subnetwork lib,
      nt_gas = 0, nt_payload = [], nt_storage_mass = pl_storage_mass plan\<rparr>"

definition plan_build ::
  "('id, 'cov, 'grp, 'rpc) native_lib \<Rightarrow> ('id, 'cov, 'grp) tn10_plan \<Rightarrow> plan_error + ('id, 'cov) native_transaction" where
  "plan_build lib plan =
     (if pl_network plan \<noteq> NATIVE_TN10_NETWORK then Inl NP_WrongNetwork
      else if pl_inputs plan = [] \<or> pl_outputs plan = [] then Inl NP_Empty
      else if repeats {} (map ip_outpoint (pl_inputs plan)) then Inl NP_DuplicateInput
      else
        rbind (checked_total (map (\<lambda>input. nv_amount (ip_utxo input)) (pl_inputs plan))) (\<lambda>total_in.
        rbind (checked_total (map no_value (pl_outputs plan))) (\<lambda>total_out.
        rbind (ok_or (checked_sub total_in total_out) NP_FeeMismatch) (\<lambda>fee.
        if fee \<noteq> pl_expected_fee plan then Inl NP_FeeMismatch
        else
          (let entries = map ip_utxo (pl_inputs plan) in
           rbind (map_err NP_Covenant (nl_populate_genesis lib (plan_transaction lib plan) (pl_genesis_groups plan)))
             (\<lambda>transaction.
           rbind (map_err NP_Covenant (nl_covenants lib transaction entries)) (\<lambda>_.
           Inr \<lparr>nx_transaction = transaction, nx_entries = entries, nx_fee = fee\<rparr>)))))))"

section \<open>Validation\<close>

definition native_validate_scripts ::
  "('id, 'cov, 'grp, 'rpc) native_lib \<Rightarrow> ('id, 'cov) native_transaction \<Rightarrow> plan_error + unit" where
  "native_validate_scripts lib native =
     (if length (nx_entries native) \<noteq> length (nt_inputs (nx_transaction native)) then Inl NP_InputMetadataMismatch
      else
        rbind (map_err NP_Covenant (nl_covenants lib (nx_transaction native) (nx_entries native))) (\<lambda>_.
        try_fold (\<lambda>_ index. map_err (NP_Script index) (nl_execute lib (nx_transaction native) (nx_entries native) index))
          () [0..<length (nt_inputs (nx_transaction native))]))"

definition rpc_transaction :: "('id, 'cov, 'grp, 'rpc) native_lib \<Rightarrow> ('id, 'cov) native_transaction \<Rightarrow> 'rpc" where
  "rpc_transaction lib native = nl_rpc_transaction lib (nx_transaction native)"

section \<open>What is planned is what is built\<close>

lemma repeats_distinct: "repeats seen xs \<longleftrightarrow> \<not> distinct xs \<or> set xs \<inter> seen \<noteq> {}"
  by (induction xs arbitrary: seen) auto

lemma checked_total_decides:
  "checked_total amounts =
     (if sum_list (map unat amounts) < 2 ^ 64 then Inr (of_nat (sum_list (map unat amounts))) else Inl NP_Overflow)"
proof -
  have "try_fold (\<lambda>sum amount. ok_or (checked_add sum amount) NP_Overflow) acc amounts =
      (if unat acc + sum_list (map unat amounts) < 2 ^ 64 then Inr (acc + of_nat (sum_list (map unat amounts))) else Inl NP_Overflow)"
    for acc
  proof (induction amounts arbitrary: acc)
    case Nil
    then show ?case using unsigned_less [of acc, where ?'a = nat] by simp
  next
    case (Cons a amounts)
    show ?case
    proof (cases "unat acc + unat a < 2 ^ 64")
      case True
      then have "unat (acc + a) = unat acc + unat a" by (subst unat_add_lem [symmetric]) (simp_all)
      with True Cons.IH [of "acc + a"] show ?thesis by (simp add: checked_add_def algebra_simps)
    qed (simp add: checked_add_def)
  qed
  from this [of 0] show ?thesis by (simp add: checked_total_def)
qed

text \<open>C25: a plan is built exactly when it names TN10, has inputs and outputs, spends no outpoint twice, both totals fit 64
  bits, what the inputs exceed the outputs by is the announced fee, and the library accepts the covenants; the
  transaction is the plan's as the library populates it.\<close>

theorem plan_build_decides:
  "plan_build lib plan = Inr native \<longleftrightarrow>
     pl_network plan = ''kaspa-testnet-10'' \<and> pl_inputs plan \<noteq> [] \<and> pl_outputs plan \<noteq> [] \<and>
     distinct (map ip_outpoint (pl_inputs plan)) \<and>
     sum_list (map (\<lambda>input. unat (nv_amount (ip_utxo input))) (pl_inputs plan)) < 2 ^ 64 \<and>
     sum_list (map (\<lambda>input. unat (nv_amount (ip_utxo input))) (pl_inputs plan)) =
       sum_list (map (\<lambda>out. unat (no_value out)) (pl_outputs plan)) + unat (pl_expected_fee plan) \<and>
     nl_populate_genesis lib (plan_transaction lib plan) (pl_genesis_groups plan) = Inr (nx_transaction native) \<and>
     nl_covenants lib (nx_transaction native) (nx_entries native) = Inr () \<and>
     nx_entries native = map ip_utxo (pl_inputs plan) \<and> nx_fee native = pl_expected_fee plan"
proof -
  let ?in = "sum_list (map (\<lambda>input. unat (nv_amount (ip_utxo input))) (pl_inputs plan))"
  let ?out = "sum_list (map (\<lambda>out. unat (no_value out)) (pl_outputs plan))"
  have fee: "checked_sub (of_nat ?in) (of_nat ?out) = Some (pl_expected_fee plan) \<longleftrightarrow> ?in = ?out + unat (pl_expected_fee plan)"
    if "?in < 2 ^ 64" "?out < 2 ^ 64"
  proof -
    have "unat (of_nat ?in :: u64) = ?in" "unat (of_nat ?out :: u64) = ?out"
      using that by (simp_all add: unat_of_nat)
    then show ?thesis using checked_sub_unat [of "of_nat ?in" "of_nat ?out" "pl_expected_fee plan"] by auto
  qed
  have bound: "?in = ?out + unat (pl_expected_fee plan) \<Longrightarrow> ?in < 2 ^ 64 \<Longrightarrow> ?out < 2 ^ 64" by simp
  show ?thesis
  proof (cases "?in < 2 ^ 64 \<and> ?out < 2 ^ 64")
    case True
    note fee = fee [OF conjunct1 [OF True] conjunct2 [OF True]]
    show ?thesis
      using True fee
      by (cases native)
         (auto simp: plan_build_def repeats_distinct checked_total_decides rbind_Inr_iff map_err_Inr_iff ok_or_Inr_iff Let_def
           NATIVE_TN10_NETWORK_def comp_def split: if_splits)
  next
    case False
    then show ?thesis
      using bound by (auto simp: plan_build_def checked_total_decides comp_def rbind_Inr_iff split: if_splits)
  qed
qed

end
