(* ===== verification/KS_Escrow.thy ===== *)
theory KS_Escrow
  imports KS_Native KS_Codegen
begin

text \<open>
  The native compatibility crate, second part (\<open>compatibility/toccata-v2/src/escrow.rs\<close>): the escrow between a buyer and a
  seller, compiled from the contract the repository ships, its unsigned spends with their previews, and
  what is observed of a node. Keys, addresses, the script builder and the masses come from third-party crates
  and are the fields of an \<open>escrow_lib\<close>.
\<close>

section \<open>The contract\<close>

definition escrow_lines :: "string list" where
  "escrow_lines =
     [''contract BuyerSellerEscrow {'',
      ''  params {'',
      ''    buyer: PublicKey,'',
      ''    seller: PublicKey,'',
      ''    refund_daa_score: BlockHeight,'',
      ''    max_fee: Amount,'',
      ''  }'',
      [],
      ''  spend release(buyer_sig: Signature, seller_sig: Signature) {'',
      ''    require multisig(2, [buyer, seller], [buyer_sig, seller_sig]);'',
      ''    require input_count == 1;'',
      ''    require output_count == 1;'',
      ''    require input(0).value > max_fee;'',
      ''    require output(0).value >= input(0).value - max_fee;'',
      ''    require output(0).script == seller;'',
      ''  }'',
      [],
      ''  spend refund(buyer_sig: Signature) {'',
      ''    require buyer_sig.verify(buyer);'',
      ''    require block.height >= refund_daa_score;'',
      ''    require input_count == 1;'',
      ''    require output_count == 1;'',
      ''    require input(0).value > max_fee;'',
      ''    require output(0).value >= input(0).value - max_fee;'',
      ''    require output(0).script == buyer;'',
      ''  }'',
      ''}'']"

definition ESCROW_SOURCE :: string where
  "ESCROW_SOURCE = concat (map (\<lambda>line. line @ [CHR 0x0A]) escrow_lines)"

section \<open>Terms and errors\<close>

record escrow_terms =
  et_buyer_public_key :: string
  et_seller_public_key :: string
  et_refund_daa_score :: u64
  et_max_fee_sompi :: u64

datatype escrow_path = EP_Release | EP_Refund

datatype escrow_error =
    EE_InvalidKeys
  | EE_InvalidDeadline
  | EE_InvalidFee
  | EE_WrongUtxo
  | EE_Script string
  | EE_InvalidSignatures
  | EE_WrongNode
  | EE_Rpc string
  | EE_MissingUtxo
  | EE_RefundNotDue
  | EE_Mass
  | EE_Plan plan_error

fun escrow_error_display :: "escrow_error \<Rightarrow> string" where
  "escrow_error_display EE_InvalidKeys = ''buyer and seller must be different valid x-only Schnorr public keys''"
| "escrow_error_display EE_InvalidDeadline = ''refund deadline must be a nonzero DAA score below the timestamp threshold''"
| "escrow_error_display EE_InvalidFee = ''fee must be nonzero, within the agreed cap, and below the locked amount''"
| "escrow_error_display EE_WrongUtxo = ''UTXO must match this escrow'' @ [CHR 0x27] @ ''s P2SH script and have no covenant or coinbase flag''"
| "escrow_error_display (EE_Script e) = ''script construction failed: '' @ e"
| "escrow_error_display EE_InvalidSignatures = ''exactly the required number of 65-byte SIGHASH_ALL signatures is required''"
| "escrow_error_display EE_WrongNode = ''only a synced, indexed TN10 node is accepted''"
| "escrow_error_display (EE_Rpc e) = ''node RPC failed: '' @ e"
| "escrow_error_display EE_MissingUtxo = ''selected escrow outpoint is missing or spent in this node snapshot''"
| "escrow_error_display EE_RefundNotDue = ''refund deadline has not passed at the observed virtual DAA score''"
| "escrow_error_display EE_Mass = ''native mass calculation failed''"
| "escrow_error_display (EE_Plan e) = plan_error_display e"

text \<open>
  What the third-party crates give: \<open>hex\<close>, \<open>secp256k1\<close>, addresses and standard scripts, the script builder with its
  opcodes, and the mass calculator of TN10 (\<open>el_estimated_mass\<close> is the larger of the normalised mass of the
  sized transaction and the storage mass scaled in floating point).
\<close>

record ('id, 'addr, 'cov, 'grp, 'rpc) escrow_lib =
  el_native :: "('id, 'cov, 'grp, 'rpc) native_lib"
  el_hex_decode :: "string \<Rightarrow> u8 list option"
  el_hex_encode :: "u8 list \<Rightarrow> string"
  el_valid_key :: "u8 list \<Rightarrow> bool"
  el_address_of_key :: "u8 list \<Rightarrow> 'addr"
  el_show_address :: "'addr \<Rightarrow> string"
  el_show_id :: "'id \<Rightarrow> string"
  el_pay_to_address :: "'addr \<Rightarrow> script_public_key"
  el_pay_to_script_hash :: "u8 list \<Rightarrow> script_public_key"
  el_extract_address :: "script_public_key \<Rightarrow> string + 'addr"
  el_add_op :: "u8 \<Rightarrow> u8 list \<Rightarrow> string + u8 list"
  el_add_ops :: "u8 list \<Rightarrow> u8 list \<Rightarrow> string + u8 list"
  el_add_data :: "u8 list \<Rightarrow> u8 list \<Rightarrow> string + u8 list"
  el_add_i64 :: "int \<Rightarrow> u8 list \<Rightarrow> string + u8 list"
  el_OpIf :: u8
  el_OpElse :: u8
  el_OpEndIf :: u8
  el_sig_hash_all :: u8
  el_lock_time_threshold :: u64
  el_contextual_storage_mass :: "('id, 'cov) native_tx \<Rightarrow> 'id native_entry list \<Rightarrow> u64 option"
  el_estimated_mass :: "('id, 'cov) native_tx \<Rightarrow> u64 \<Rightarrow> u64"

record 'addr escrow =
  es_terms :: escrow_terms
  es_buyer :: "u8 list"
  es_seller :: "u8 list"
  es_redeem_script :: "u8 list"
  es_script_public_key :: script_public_key
  es_address :: 'addr
  es_source_hash :: string

section \<open>Construction\<close>

definition parse_key :: "('id, 'addr, 'cov, 'grp, 'rpc) escrow_lib \<Rightarrow> string \<Rightarrow> escrow_error + u8 list" where
  "parse_key lib text =
     (case el_hex_decode lib text of
        None \<Rightarrow> Inl EE_InvalidKeys
      | Some bytes \<Rightarrow>
          if length bytes \<noteq> 32 then Inl EE_InvalidKeys
          else if \<not> el_valid_key lib bytes then Inl EE_InvalidKeys
          else Inr bytes)"

definition be_bytes_u16 :: "u16 \<Rightarrow> u8 list" where
  "be_bytes_u16 v = [ucast (drop_bit 8 v), ucast v]"

text \<open>The value bound to a symbol of the source; \<open>None\<close> for a signature, which the spender supplies.\<close>

definition escrow_value ::
  "('id, 'addr, 'cov, 'grp, 'rpc) escrow_lib \<Rightarrow> 'addr escrow \<Rightarrow> instruction list \<Rightarrow> nat \<Rightarrow> string \<Rightarrow>
     escrow_error + ir_value option" where
  "escrow_value lib escrow instructions index name =
     (if name = ''buyer_sig'' \<or> name = ''seller_sig'' then Inr None
      else if name = ''max_fee'' then Inr (Some (V_Integer (et_max_fee_sompi (es_terms escrow))))
      else if name = ''refund_daa_score'' then Inr (Some (V_Integer (et_refund_daa_score (es_terms escrow))))
      else if name = ''buyer'' \<or> name = ''seller'' then
        (let key = (if name = ''buyer'' then es_buyer escrow else es_seller escrow);
             as_spk = (index > 0 \<and>
               (case instr_kind (instructions ! (index - 1)) of I_OutputScript _ \<Rightarrow> True | _ \<Rightarrow> False));
             bytes =
               (if as_spk then
                  (let spk = el_pay_to_address lib (el_address_of_key lib key)
                   in be_bytes_u16 (spk_version spk) @ spk_script spk)
                else key)
         in Inr (Some (V_Bytes bytes)))
      else Inl (EE_Script ''unexpected escrow source parameter''))"

definition escrow_bind_turn ::
  "('id, 'addr, 'cov, 'grp, 'rpc) escrow_lib \<Rightarrow> 'addr escrow \<Rightarrow> instruction list \<Rightarrow> instruction list \<Rightarrow>
     nat \<times> instruction \<Rightarrow> escrow_error + instruction list" where
  "escrow_bind_turn lib escrow instructions result indexed =
     (let (index, i) = indexed in
      case instr_kind i of
        I_Push (V_Symbol name) \<Rightarrow>
          rbind (escrow_value lib escrow instructions index name) (\<lambda>value.
          case value of
            None \<Rightarrow> Inr result
          | Some v \<Rightarrow> Inr (result @ [mk_instr (instr_span i) (I_Push v)]))
      | _ \<Rightarrow> Inr (result @ [i]))"

definition escrow_bind ::
  "('id, 'addr, 'cov, 'grp, 'rpc) escrow_lib \<Rightarrow> 'addr escrow \<Rightarrow> instruction list \<Rightarrow> escrow_error + instruction list" where
  "escrow_bind lib escrow instructions =
     try_fold (escrow_bind_turn lib escrow instructions) [] (enumerate 0 instructions)"

text \<open>One turn of the loop over the two spends.\<close>

definition escrow_branch ::
  "('id, 'addr, 'cov, 'grp, 'rpc) escrow_lib \<Rightarrow> 'addr escrow \<Rightarrow> artifact_contract \<Rightarrow> string \<Rightarrow> escrow_error + u8 list" where
  "escrow_branch lib escrow contract name =
     rbind (ok_or (find (\<lambda>spend. ars_name spend = name) (arc_spends contract)) (EE_Script ''escrow source is missing a spend''))
       (\<lambda>spend.
     rbind (escrow_bind lib escrow (ars_instructions spend)) (\<lambda>instructions.
     map_err (EE_Script \<circ> codegen_error_display) (compile_spend_script instructions)))"

definition branch_script ::
  "('id, 'addr, 'cov, 'grp, 'rpc) escrow_lib \<Rightarrow> u8 list \<Rightarrow> u8 list \<Rightarrow> string + u8 list" where
  "branch_script lib release refund =
     rbind (el_add_op lib (el_OpIf lib) []) (\<lambda>b.
     rbind (el_add_ops lib release b) (\<lambda>b.
     rbind (el_add_op lib (el_OpElse lib) b) (\<lambda>b.
     rbind (el_add_ops lib refund b) (el_add_op lib (el_OpEndIf lib)))))"

text \<open>\<open>contracts[0]\<close> of an artifact without a contract panics; that is the error value here.\<close>

definition escrow_new ::
  "('id, 'addr, 'cov, 'grp, 'rpc) escrow_lib \<Rightarrow> environment \<Rightarrow> escrow_terms \<Rightarrow> (escrow_error + 'addr escrow) option" where
  "escrow_new lib env terms =
     (let prepared =
        rbind (parse_key lib (et_buyer_public_key terms)) (\<lambda>buyer.
        rbind (parse_key lib (et_seller_public_key terms)) (\<lambda>seller.
        if buyer = seller then Inl EE_InvalidKeys
        else if et_refund_daa_score terms = 0 \<or> et_refund_daa_score terms \<ge> el_lock_time_threshold lib
        then Inl EE_InvalidDeadline
        else if et_max_fee_sompi terms = 0 \<or> et_max_fee_sompi terms > 2 ^ 63 - 1 then Inl EE_InvalidFee
        else
          rbind (map_err (EE_Script \<circ> codegen_error_display)
                  (compile_file_for_target env ESCROW_SOURCE ''contracts/buyer_seller_escrow.ks'' Tn10Toccata)) (\<lambda>artifact.
          Inr (\<lparr>es_terms = terms, es_buyer = buyer, es_seller = seller, es_redeem_script = [],
                es_script_public_key = \<lparr>spk_version = 0, spk_script = []\<rparr>,
                es_address = el_address_of_key lib buyer,
                es_source_hash = el_hex_encode lib (ca_source_hash artifact)\<rparr>, artifact))))
      in
      case prepared of
        Inl e \<Rightarrow> Some (Inl e)
      | Inr (escrow, artifact) \<Rightarrow>
          (case ca_contracts artifact of
             [] \<Rightarrow> None
           | contract # _ \<Rightarrow>
               Some
                 (rbind (escrow_branch lib escrow contract ''release'') (\<lambda>release.
                  rbind (escrow_branch lib escrow contract ''refund'') (\<lambda>refund.
                  rbind (map_err EE_Script (branch_script lib release refund)) (\<lambda>redeem_script.
                  let spk = el_pay_to_script_hash lib redeem_script in
                  rbind (map_err EE_Script (el_extract_address lib spk)) (\<lambda>address.
                  Inr (escrow\<lparr>es_redeem_script := redeem_script, es_script_public_key := spk, es_address := address\<rparr>))))))))"

section \<open>Unsigned spends\<close>

fun signer_count :: "escrow_path \<Rightarrow> nat" where
  "signer_count EP_Release = 2"
| "signer_count EP_Refund = 1"

definition payout :: "('id, 'addr, 'cov, 'grp, 'rpc) escrow_lib \<Rightarrow> 'addr escrow \<Rightarrow> escrow_path \<Rightarrow> 'addr" where
  "payout lib escrow path =
     el_address_of_key lib (case path of EP_Release \<Rightarrow> es_seller escrow | EP_Refund \<Rightarrow> es_buyer escrow)"

definition escrow_signature_script ::
  "('id, 'addr, 'cov, 'grp, 'rpc) escrow_lib \<Rightarrow> 'addr escrow \<Rightarrow> escrow_path \<Rightarrow> u8 list list \<Rightarrow> escrow_error + u8 list" where
  "escrow_signature_script lib escrow path signatures =
     (if length signatures \<noteq> signer_count path \<or>
         (\<exists>sig \<in> set signatures. length sig \<noteq> 65 \<or> sig ! 64 \<noteq> el_sig_hash_all lib)
      then Inl EE_InvalidSignatures
      else
        rbind (try_fold (\<lambda>builder sig. map_err EE_Script (el_add_data lib sig builder)) [] signatures) (\<lambda>builder.
        map_err EE_Script
          (rbind (el_add_i64 lib (if path = EP_Release then 1 else 0) builder) (el_add_data lib (es_redeem_script escrow)))))"

record signing_preview =
  sp_network :: string
  sp_transaction_version :: u16
  sp_path :: escrow_path
  sp_input_outpoint :: string
  sp_input_sompi :: u64
  sp_recipient :: string
  sp_recipient_sompi :: u64
  sp_change_sompi :: u64
  sp_fee_sompi :: u64
  sp_max_fee_sompi :: u64
  sp_refund_daa_score :: u64
  sp_transaction_lock_time :: u64
  sp_input_sequence :: u64
  sp_compute_budget :: u16
  sp_required_signers :: "string list"
  sp_source_hash :: string
  sp_redeem_script_hex :: string
  sp_storage_mass :: u64
  sp_estimated_signed_mass :: u64
  sp_broadcast :: bool
  sp_fee_policy_verified :: bool
  sp_node_acceptance_verified :: bool

definition set_storage_mass :: "u64 \<Rightarrow> ('id, 'cov) native_tx \<Rightarrow> ('id, 'cov) native_tx" where
  "set_storage_mass mass tx = tx\<lparr>nt_storage_mass := mass\<rparr>"

definition set_first_script :: "u8 list \<Rightarrow> ('id, 'cov) native_tx \<Rightarrow> ('id, 'cov) native_tx" where
  "set_first_script script tx =
     tx\<lparr>nt_inputs := (nt_inputs tx)[0 := (nt_inputs tx ! 0)\<lparr>nn_signature_script := script\<rparr>]\<rparr>"

text \<open>The plan of a spend: one input, one output, no change.\<close>

definition escrow_plan ::
  "('id, 'addr, 'cov, 'grp, 'rpc) escrow_lib \<Rightarrow> 'addr escrow \<Rightarrow> string \<Rightarrow> 'id outpoint \<Rightarrow> 'id native_entry \<Rightarrow> escrow_path \<Rightarrow>
     u64 \<Rightarrow> u16 \<Rightarrow> ('id, 'cov, 'grp) tn10_plan" where
  "escrow_plan lib escrow network outpoint utxo path fee_sompi compute_budget =
     \<lparr>pl_network = network,
      pl_inputs = [\<lparr>ip_outpoint = outpoint, ip_utxo = utxo, ip_compute_budget = compute_budget,
        ip_sequence = (if path = EP_Refund then 0 else 2 ^ 64 - 1), ip_witness = []\<rparr>],
      pl_outputs = [native_output_new (nv_amount utxo - fee_sompi) (el_pay_to_address lib (payout lib escrow path))],
      pl_genesis_groups = [],
      pl_lock_time = (if path = EP_Refund then et_refund_daa_score (es_terms escrow) else 0),
      pl_storage_mass = 0, pl_expected_fee = fee_sompi\<rparr>"

definition signing_preview_of ::
  "('id, 'addr, 'cov, 'grp, 'rpc) escrow_lib \<Rightarrow> 'addr escrow \<Rightarrow> 'id outpoint \<Rightarrow> 'id native_entry \<Rightarrow> escrow_path \<Rightarrow> u64 \<Rightarrow> u16 \<Rightarrow>
     ('id, 'cov) native_tx \<Rightarrow> u64 \<Rightarrow> u64 \<Rightarrow> signing_preview" where
  "signing_preview_of lib escrow outpoint utxo path fee_sompi compute_budget tx storage estimated =
     \<lparr>sp_network = NATIVE_TN10_NETWORK, sp_transaction_version = nt_version tx, sp_path = path,
      sp_input_outpoint = el_show_id lib (op_transaction_id outpoint) @ '':'' @ show_nat (unat (op_index outpoint)),
      sp_input_sompi = nv_amount utxo, sp_recipient = el_show_address lib (payout lib escrow path),
      sp_recipient_sompi = nv_amount utxo - fee_sompi, sp_change_sompi = 0, sp_fee_sompi = fee_sompi,
      sp_max_fee_sompi = et_max_fee_sompi (es_terms escrow), sp_refund_daa_score = et_refund_daa_score (es_terms escrow),
      sp_transaction_lock_time = (if path = EP_Refund then et_refund_daa_score (es_terms escrow) else 0),
      sp_input_sequence = nn_sequence (nt_inputs tx ! 0), sp_compute_budget = compute_budget,
      sp_required_signers = el_hex_encode lib (es_buyer escrow) #
        (if path = EP_Release then [el_hex_encode lib (es_seller escrow)] else []),
      sp_source_hash = es_source_hash escrow, sp_redeem_script_hex = el_hex_encode lib (es_redeem_script escrow),
      sp_storage_mass = storage, sp_estimated_signed_mass = estimated, sp_broadcast = False,
      sp_fee_policy_verified = False, sp_node_acceptance_verified = False\<rparr>"

definition escrow_unsigned_spend ::
  "('id, 'addr, 'cov, 'grp, 'rpc) escrow_lib \<Rightarrow> 'addr escrow \<Rightarrow> string \<Rightarrow> 'id outpoint \<Rightarrow> 'id native_entry \<Rightarrow> escrow_path \<Rightarrow>
     u64 \<Rightarrow> u16 \<Rightarrow> escrow_error + ('id, 'cov) native_transaction \<times> signing_preview" where
  "escrow_unsigned_spend lib escrow network outpoint utxo path fee_sompi compute_budget =
     (if network \<noteq> NATIVE_TN10_NETWORK then Inl (EE_Plan NP_WrongNetwork)
      else if nv_script_public_key utxo \<noteq> es_script_public_key escrow \<or> nv_covenant_id utxo \<noteq> None \<or> nv_is_coinbase utxo \<or>
              nv_amount utxo > 2 ^ 63 - 1
      then Inl EE_WrongUtxo
      else if fee_sompi = 0 \<or> fee_sompi > et_max_fee_sompi (es_terms escrow) \<or> nv_amount utxo \<le> et_max_fee_sompi (es_terms escrow)
      then Inl EE_InvalidFee
      else if compute_budget = 0 then Inl EE_Mass
      else
        rbind (map_err EE_Plan
                (plan_build (el_native lib) (escrow_plan lib escrow network outpoint utxo path fee_sompi compute_budget)))
          (\<lambda>native.
        rbind (ok_or (el_contextual_storage_mass lib (nx_transaction native) (nx_entries native)) EE_Mass) (\<lambda>storage.
        let tx = set_storage_mass storage (nx_transaction native);
            placeholder = (replicate 65 0)[64 := el_sig_hash_all lib]
        in
        rbind (escrow_signature_script lib escrow path (replicate (signer_count path) placeholder)) (\<lambda>script.
        let sized = set_first_script script tx in
        Inr (native\<lparr>nx_transaction := tx\<rparr>,
             signing_preview_of lib escrow outpoint utxo path fee_sompi compute_budget tx storage
               (el_estimated_mass lib sized storage))))))"

section \<open>Observations of a node\<close>

record network_id =
  nid_network_type :: string
  nid_suffix :: "u32 option"

record native_server_info =
  ns_network_id :: network_id
  ns_is_synced :: bool
  ns_has_utxo_index :: bool
  ns_virtual_daa_score :: u64

record 'id listed_utxo =
  lu_outpoint :: "'id outpoint"
  lu_entry :: "'id native_entry"

text \<open>The three calls of the RPC client, on a world \<open>'w\<close>.\<close>

record ('w, 'id, 'addr, 'fee) rpc_api =
  ra_get_server_info :: "'w \<Rightarrow> (string + native_server_info) \<times> 'w"
  ra_get_utxos_by_addresses :: "'addr list \<Rightarrow> 'w \<Rightarrow> (string + 'id listed_utxo list) \<times> 'w"
  ra_get_fee_estimate :: "'w \<Rightarrow> (string + 'fee) \<times> 'w"

record ('id, 'fee) escrow_observation =
  eo_server_info :: native_server_info
  eo_utxos :: "'id listed_utxo list"
  eo_fee_estimate :: 'fee

definition validate_node :: "native_server_info \<Rightarrow> escrow_error + unit" where
  "validate_node info =
     (if ns_network_id info \<noteq> \<lparr>nid_network_type = ''testnet'', nid_suffix = Some 10\<rparr> \<or> \<not> ns_is_synced info \<or>
         \<not> ns_has_utxo_index info
      then Inl EE_WrongNode
      else Inr ())"

text \<open>Identity is checked again after the reads.\<close>

definition observe ::
  "('w, 'id, 'addr, 'fee) rpc_api \<Rightarrow> 'addr escrow \<Rightarrow> 'w \<Rightarrow> (escrow_error + ('id, 'fee) escrow_observation) \<times> 'w" where
  "observe api escrow w =
     (case ra_get_server_info api w of
        (Inl e, w) \<Rightarrow> (Inl (EE_Rpc e), w)
      | (Inr info, w) \<Rightarrow>
          (case validate_node info of
             Inl e \<Rightarrow> (Inl e, w)
           | Inr _ \<Rightarrow>
               (case ra_get_utxos_by_addresses api [es_address escrow] w of
                  (Inl e, w) \<Rightarrow> (Inl (EE_Rpc e), w)
                | (Inr utxos, w) \<Rightarrow>
                    (case ra_get_fee_estimate api w of
                       (Inl e, w) \<Rightarrow> (Inl (EE_Rpc e), w)
                     | (Inr fee_estimate, w) \<Rightarrow>
                         (case ra_get_server_info api w of
                            (Inl e, w) \<Rightarrow> (Inl (EE_Rpc e), w)
                          | (Inr after, w) \<Rightarrow>
                              (case validate_node after of
                                 Inl e \<Rightarrow> (Inl e, w)
                               | Inr _ \<Rightarrow>
                                   (Inr \<lparr>eo_server_info = after, eo_utxos = utxos, eo_fee_estimate = fee_estimate\<rparr>, w)))))))"

definition observed_unsigned_spend ::
  "('id, 'addr, 'cov, 'grp, 'rpc) escrow_lib \<Rightarrow> ('id, 'fee) escrow_observation \<Rightarrow> 'addr escrow \<Rightarrow> 'id outpoint \<Rightarrow> escrow_path \<Rightarrow>
     u64 \<Rightarrow> u16 \<Rightarrow> escrow_error + ('id, 'cov) native_transaction \<times> signing_preview" where
  "observed_unsigned_spend lib obs escrow outpoint path fee_sompi compute_budget =
     rbind (validate_node (eo_server_info obs)) (\<lambda>_.
     if path = EP_Refund \<and> ns_virtual_daa_score (eo_server_info obs) \<le> et_refund_daa_score (es_terms escrow)
     then Inl EE_RefundNotDue
     else
       (case filter (\<lambda>entry. lu_outpoint entry = outpoint) (eo_utxos obs) of
          [] \<Rightarrow> Inl EE_MissingUtxo
        | [entry] \<Rightarrow>
            escrow_unsigned_spend lib escrow NATIVE_TN10_NETWORK outpoint (lu_entry entry) path fee_sompi compute_budget
        | _ \<Rightarrow> Inl EE_WrongUtxo))"

end
