(* ===== verification/KS_EscrowFacts.thy ===== *)
theory KS_EscrowFacts
  imports KS_Escrow KS_TestnetFacts
begin

text \<open>
  What the escrow guarantees: its script holds both paths with every parameter bound, an unsigned spend pays the whole
  output less an agreed fee to the party of its path and its preview says so, and a spend from an observation is
  offered only on a checked node, for a listed output, and for a refund only after the deadline.
\<close>

section \<open>The script\<close>

text \<open>What stands in the script for an instruction of the source.\<close>

definition escrow_bound ::
  "('id, 'addr, 'cov, 'grp, 'rpc) escrow_lib \<Rightarrow> 'addr escrow \<Rightarrow> instruction list \<Rightarrow> nat \<times> instruction \<Rightarrow> instruction list" where
  "escrow_bound lib escrow code indexed =
     (case instr_kind (snd indexed) of
        I_Push (V_Symbol name) \<Rightarrow>
          (case projr (escrow_value lib escrow code (fst indexed) name) of
             None \<Rightarrow> []
           | Some v \<Rightarrow> [mk_instr (instr_span (snd indexed)) (I_Push v)])
      | _ \<Rightarrow> [snd indexed])"

definition escrow_symbols :: "string set" where
  "escrow_symbols = {''buyer_sig'', ''seller_sig'', ''max_fee'', ''refund_daa_score'', ''buyer'', ''seller''}"

lemma escrow_value_Inr:
  "(\<exists>v. escrow_value lib escrow code i name = Inr v) \<longleftrightarrow> name \<in> escrow_symbols"
  by (auto simp: escrow_value_def escrow_symbols_def Let_def)

lemma escrow_value_concrete: "escrow_value lib escrow code i name = Inr (Some v) \<Longrightarrow> \<forall>s. v \<noteq> V_Symbol s"
  by (auto simp: escrow_value_def Let_def split: if_splits)

lemma escrow_turn_Inr:
  "escrow_bind_turn lib escrow code acc indexed = Inr acc' \<longleftrightarrow>
     (\<forall>name. instr_kind (snd indexed) = I_Push (V_Symbol name) \<longrightarrow> name \<in> escrow_symbols) \<and>
     acc' = acc @ escrow_bound lib escrow code indexed"
proof -
  obtain index i where [simp]: "indexed = (index, i)" by (cases indexed)
  show ?thesis
  proof (cases "\<exists>name. instr_kind i = I_Push (V_Symbol name)")
    case True
    then obtain name where [simp]: "instr_kind i = I_Push (V_Symbol name)" by blast
    show ?thesis
      using escrow_value_Inr [of lib escrow code index name]
      by (cases "escrow_value lib escrow code index name")
         (auto simp: escrow_bind_turn_def escrow_bound_def split: option.splits)
  next
    case False
    then show ?thesis
      by (auto simp: escrow_bind_turn_def escrow_bound_def split: instruction_kind.splits ir_value.splits)
  qed
qed

lemma escrow_binds:
  "escrow_bind lib escrow code = Inr code' \<longleftrightarrow>
     (\<forall>i \<in> set code. \<forall>name. instr_kind i = I_Push (V_Symbol name) \<longrightarrow> name \<in> escrow_symbols) \<and>
     code' = concat (map (escrow_bound lib escrow code) (enumerate 0 code))"
proof -
  have "try_fold (escrow_bind_turn lib escrow code) acc xs = Inr code' \<longleftrightarrow>
      (\<forall>(j, i) \<in> set xs. \<forall>name. instr_kind i = I_Push (V_Symbol name) \<longrightarrow> name \<in> escrow_symbols) \<and>
      code' = acc @ concat (map (escrow_bound lib escrow code) xs)" for acc xs
    by (induction xs arbitrary: acc) (auto simp: rbind_Inr_iff escrow_turn_Inr)
  moreover have "(\<forall>(j, i) \<in> set (enumerate 0 code). P i) \<longleftrightarrow> (\<forall>i \<in> snd ` set (enumerate 0 code). P i)" for P
    by (simp add: case_prod_beta)
  then have "(\<forall>(j, i) \<in> set (enumerate 0 code). P i) \<longleftrightarrow> (\<forall>i \<in> set code. P i)" for P
    by (simp flip: set_map)
  ultimately show ?thesis unfolding escrow_bind_def by simp
qed

lemma escrow_bound_concrete:
  assumes "i' \<in> set (escrow_bound lib escrow code (j, i))"
    and "\<forall>name. instr_kind i = I_Push (V_Symbol name) \<longrightarrow> name \<in> escrow_symbols"
  shows "\<not> symbolic i'"
proof (cases "\<exists>name. instr_kind i = I_Push (V_Symbol name)")
  case True
  then obtain name where name: "instr_kind i = I_Push (V_Symbol name)" by blast
  with assms(2) obtain r where r: "escrow_value lib escrow code j name = Inr r"
    using escrow_value_Inr [of lib escrow code j name] by blast
  with assms(1) name obtain v where "r = Some v" "i' = mk_instr (instr_span i) (I_Push v)"
    by (auto simp: escrow_bound_def split: option.splits)
  with r have "\<forall>s. v \<noteq> V_Symbol s" by (simp add: escrow_value_concrete)
  with \<open>i' = _\<close> show ?thesis by (cases v) (simp_all add: symbolic_def)
next
  case False
  with assms(1) show ?thesis
    by (auto simp: escrow_bound_def symbolic_def split: instruction_kind.splits ir_value.splits)
qed

text \<open>The code of one spend with every parameter in place.\<close>

definition escrow_code :: "('id, 'addr, 'cov, 'grp, 'rpc) escrow_lib \<Rightarrow> 'addr escrow \<Rightarrow> artifact_spend \<Rightarrow> instruction list" where
  "escrow_code lib escrow spend =
     concat (map (escrow_bound lib escrow (ars_instructions spend)) (enumerate 0 (ars_instructions spend)))"

lemma escrow_bind_Inr:
  assumes "escrow_bind lib escrow (ars_instructions spend) = Inr code"
  shows "code = escrow_code lib escrow spend" and "filter symbolic (escrow_code lib escrow spend) = []"
proof -
  note bound = assms [unfolded escrow_binds]
  then show "code = escrow_code lib escrow spend" by (simp add: escrow_code_def)
  have "\<not> symbolic i'" if "i' \<in> set (escrow_code lib escrow spend)" for i'
  proof -
    from that obtain x where x: "x \<in> set (enumerate 0 (ars_instructions spend))"
        "i' \<in> set (escrow_bound lib escrow (ars_instructions spend) x)"
      by (auto simp: escrow_code_def)
    obtain j i where [simp]: "x = (j, i)" by (cases x)
    have "i \<in> set (ars_instructions spend)" using x(1) by (auto simp: in_set_enumerate_eq)
    with bound have "\<forall>name. instr_kind i = I_Push (V_Symbol name) \<longrightarrow> name \<in> escrow_symbols" by blast
    with x(2) show ?thesis by (auto dest: escrow_bound_concrete)
  qed
  then show "filter symbolic (escrow_code lib escrow spend) = []" by (simp add: filter_empty_conv)
qed

lemma escrow_branch_Inr:
  assumes "escrow_branch lib escrow contract name = Inr script"
  obtains spend where "find (\<lambda>spend. ars_name spend = name) (arc_spends contract) = Some spend"
    and "filter symbolic (escrow_code lib escrow spend) = []"
    and "compile_spend_script (escrow_code lib escrow spend) = Inr script"
  using assms by (auto simp: escrow_branch_def rbind_Inr_iff ok_or_Inr_iff map_err_Inr_iff dest: escrow_bind_Inr)

text \<open>The values bound depend on the terms and the keys only, which the construction fixes first.\<close>

lemma escrow_code_cong:
  assumes "es_terms e = es_terms e'" and "es_buyer e = es_buyer e'" and "es_seller e = es_seller e'"
  shows "escrow_code lib e spend = escrow_code lib e' spend"
proof -
  have "escrow_value lib e = escrow_value lib e'" by (intro ext) (simp add: escrow_value_def assms)
  then have "escrow_bound lib e = escrow_bound lib e'" by (intro ext) (simp only: escrow_bound_def cong: instruction_kind.case_cong ir_value.case_cong)
  then show ?thesis by (simp add: escrow_code_def)
qed

definition escrow_keys_ok :: "('id, 'addr, 'cov, 'grp, 'rpc) escrow_lib \<Rightarrow> escrow_terms \<Rightarrow> 'addr escrow \<Rightarrow> bool" where
  "escrow_keys_ok lib terms escrow \<longleftrightarrow>
     el_hex_decode lib (et_buyer_public_key terms) = Some (es_buyer escrow) \<and>
     el_hex_decode lib (et_seller_public_key terms) = Some (es_seller escrow) \<and>
     length (es_buyer escrow) = 32 \<and> length (es_seller escrow) = 32 \<and>
     el_valid_key lib (es_buyer escrow) \<and> el_valid_key lib (es_seller escrow) \<and> es_buyer escrow \<noteq> es_seller escrow"

lemma parse_key_Inr:
  "parse_key lib text = Inr key \<longleftrightarrow> el_hex_decode lib text = Some key \<and> length key = 32 \<and> el_valid_key lib key"
  by (auto simp: parse_key_def split: option.splits if_splits)

text \<open>The redeem script is both branches, compiled from the code of both spends.\<close>

definition escrow_script_ok ::
  "('id, 'addr, 'cov, 'grp, 'rpc) escrow_lib \<Rightarrow> environment \<Rightarrow> 'addr escrow \<Rightarrow> bool" where
  "escrow_script_ok lib env escrow \<longleftrightarrow>
     (\<exists>artifact contract rest release refund release_script refund_script.
        compile_file_for_target env ESCROW_SOURCE ''contracts/buyer_seller_escrow.ks'' Tn10Toccata = Inr artifact \<and>
        ca_contracts artifact = contract # rest \<and>
        find (\<lambda>spend. ars_name spend = ''release'') (arc_spends contract) = Some release \<and>
        find (\<lambda>spend. ars_name spend = ''refund'') (arc_spends contract) = Some refund \<and>
        filter symbolic (escrow_code lib escrow release) = [] \<and> filter symbolic (escrow_code lib escrow refund) = [] \<and>
        compile_spend_script (escrow_code lib escrow release) = Inr release_script \<and>
        compile_spend_script (escrow_code lib escrow refund) = Inr refund_script \<and>
        branch_script lib release_script refund_script = Inr (es_redeem_script escrow) \<and>
        es_source_hash escrow = el_hex_encode lib (ca_source_hash artifact))"


section \<open>Unsigned spends\<close>

text \<open>What an unsigned spend is: one input, one output to the party of the path, and a preview that says so.\<close>

definition escrow_spend_ok ::
  "('id, 'addr, 'cov, 'grp, 'rpc) escrow_lib \<Rightarrow> 'addr escrow \<Rightarrow> 'id outpoint \<Rightarrow> 'id native_entry \<Rightarrow> escrow_path \<Rightarrow> u64 \<Rightarrow>
     ('id, 'cov) native_transaction \<times> signing_preview \<Rightarrow> bool" where
  "escrow_spend_ok lib escrow outpoint utxo path fee spend \<longleftrightarrow>
     (let (native, preview) = spend; tx = nx_transaction native; terms = es_terms escrow in
      \<exists>input out.
        nt_inputs tx = [input] \<and> nt_outputs tx = [out] \<and> nx_entries native = [utxo] \<and>
        nn_previous_outpoint input = outpoint \<and> nn_signature_script input = [] \<and>
        nv_script_public_key utxo = es_script_public_key escrow \<and> nv_covenant_id utxo = None \<and> \<not> nv_is_coinbase utxo \<and>
        no_script_public_key out = el_pay_to_address lib (payout lib escrow path) \<and> no_covenant out = None \<and>
        0 < unat fee \<and> unat fee \<le> unat (et_max_fee_sompi terms) \<and>
        unat (et_max_fee_sompi terms) < unat (nv_amount utxo) \<and> unat (nv_amount utxo) < 2 ^ 63 \<and>
        unat (no_value out) + unat fee = unat (nv_amount utxo) \<and> nx_fee native = fee \<and>
        nt_lock_time tx = (case path of EP_Refund \<Rightarrow> et_refund_daa_score terms | EP_Release \<Rightarrow> 0) \<and>
        nn_sequence input = (case path of EP_Refund \<Rightarrow> 0 | EP_Release \<Rightarrow> - 1) \<and>
        sp_path preview = path \<and> sp_recipient preview = el_show_address lib (payout lib escrow path) \<and>
        sp_recipient_sompi preview = no_value out \<and> sp_input_sompi preview = nv_amount utxo \<and>
        sp_fee_sompi preview = fee \<and> sp_change_sompi preview = 0 \<and>
        sp_transaction_lock_time preview = nt_lock_time tx \<and> sp_input_sequence preview = nn_sequence input \<and>
        sp_storage_mass preview = nt_storage_mass tx \<and>
        length (sp_required_signers preview) = signer_count path \<and> \<not> sp_broadcast preview)"

text \<open>Documented behaviour of the covenant library: with no genesis groups there is nothing to populate.\<close>

definition populates_nothing :: "('id, 'cov, 'grp, 'rpc) native_lib \<Rightarrow> bool" where
  "populates_nothing lib \<longleftrightarrow> (\<forall>tx. nl_populate_genesis lib tx [] = Inr tx)"

lemma escrow_unsigned_spend_Inr:
  assumes "escrow_unsigned_spend lib escrow network outpoint utxo path fee budget = Inr spend"
  obtains native storage estimated where
    "network = NATIVE_TN10_NETWORK" "nv_script_public_key utxo = es_script_public_key escrow" "nv_covenant_id utxo = None"
    "\<not> nv_is_coinbase utxo" "nv_amount utxo \<le> 2 ^ 63 - 1" "fee \<noteq> 0" "fee \<le> et_max_fee_sompi (es_terms escrow)"
    "et_max_fee_sompi (es_terms escrow) < nv_amount utxo"
    "plan_build (el_native lib) (escrow_plan lib escrow network outpoint utxo path fee budget) = Inr native"
    "spend = (native\<lparr>nx_transaction := set_storage_mass storage (nx_transaction native)\<rparr>,
       signing_preview_of lib escrow outpoint utxo path fee budget (set_storage_mass storage (nx_transaction native))
         storage estimated)"
  using assms
  by (auto simp: escrow_unsigned_spend_def rbind_Inr_iff ok_or_Inr_iff map_err_Inr_iff Let_def not_le not_less split: if_splits)

lemma plan_build_Inr:
  assumes "plan_build lib plan = Inr native"
  shows "nl_populate_genesis lib (plan_transaction lib plan) (pl_genesis_groups plan) = Inr (nx_transaction native)"
    and "nx_entries native = map ip_utxo (pl_inputs plan)" and "nx_fee native = pl_expected_fee plan"
  using assms by (auto simp: plan_build_def rbind_Inr_iff map_err_Inr_iff ok_or_Inr_iff Let_def split: if_splits)

lemma spend_of_escrow:
  assumes "populates_nothing (el_native lib)"
    and "escrow_unsigned_spend lib escrow network outpoint utxo path fee budget = Inr spend"
  shows "escrow_spend_ok lib escrow outpoint utxo path fee spend"
  using assms(2)
proof (rule escrow_unsigned_spend_Inr)
  fix native storage estimated
  assume guards: "nv_script_public_key utxo = es_script_public_key escrow" "nv_covenant_id utxo = None"
      "\<not> nv_is_coinbase utxo" "nv_amount utxo \<le> 2 ^ 63 - 1" "fee \<noteq> 0" "fee \<le> et_max_fee_sompi (es_terms escrow)"
      "et_max_fee_sompi (es_terms escrow) < nv_amount utxo"
    and built: "plan_build (el_native lib) (escrow_plan lib escrow network outpoint utxo path fee budget) = Inr native"
    and spend: "spend = (native\<lparr>nx_transaction := set_storage_mass storage (nx_transaction native)\<rparr>,
       signing_preview_of lib escrow outpoint utxo path fee budget (set_storage_mass storage (nx_transaction native))
         storage estimated)"
  let ?plan = "escrow_plan lib escrow network outpoint utxo path fee budget"
  have tx: "nx_transaction native = plan_transaction (el_native lib) ?plan"
    using plan_build_Inr(1) [OF built] assms(1) by (simp add: populates_nothing_def escrow_plan_def)
  have "fee \<le> nv_amount utxo" using guards(6,7) by simp
  then have "unat (nv_amount utxo - fee) + unat fee = unat (nv_amount utxo)"
    by (simp add: unat_sub word_le_nat_alt)
  moreover have "0 < unat fee" "unat fee \<le> unat (et_max_fee_sompi (es_terms escrow))"
      "unat (et_max_fee_sompi (es_terms escrow)) < unat (nv_amount utxo)" "unat (nv_amount utxo) < 2 ^ 63"
    using guards(4-7) by (simp_all add: word_le_nat_alt word_less_nat_alt unat_gt_0)
  ultimately show ?thesis
    using guards(1-3) plan_build_Inr(2,3) [OF built]
    by (cases path)
       (simp_all add: escrow_spend_ok_def spend tx escrow_plan_def plan_transaction_def set_storage_mass_def
         signing_preview_of_def native_output_new_def)
qed


section \<open>Spends of what a node lists\<close>

definition node_ok :: "native_server_info \<Rightarrow> bool" where
  "node_ok info \<longleftrightarrow>
     nid_network_type (ns_network_id info) = ''testnet'' \<and> nid_suffix (ns_network_id info) = Some 10 \<and>
     ns_is_synced info \<and> ns_has_utxo_index info"

lemma validate_node_Inr: "validate_node info = Inr u \<longleftrightarrow> node_ok info"
  by (cases "ns_network_id info") (auto simp: validate_node_def node_ok_def)

lemma observe_Inr:
  assumes "observe api escrow w = (Inr obs, w')"
  shows "node_ok (eo_server_info obs)"
    and "\<exists>w1 w2 w3. ra_get_utxos_by_addresses api [es_address escrow] w1 = (Inr (eo_utxos obs), w2) \<and>
      ra_get_server_info api w3 = (Inr (eo_server_info obs), w')"
  using assms
  by (auto simp: observe_def validate_node_Inr split: prod.splits sum.splits) blast

lemma observed_unsigned_spend_Inr:
  assumes "observed_unsigned_spend lib obs escrow outpoint path fee budget = Inr spend"
  obtains entry where "filter (\<lambda>entry. lu_outpoint entry = outpoint) (eo_utxos obs) = [entry]"
    and "path = EP_Release \<or> unat (et_refund_daa_score (es_terms escrow)) < unat (ns_virtual_daa_score (eo_server_info obs))"
    and "escrow_unsigned_spend lib escrow NATIVE_TN10_NETWORK outpoint (lu_entry entry) path fee budget = Inr spend"
  using assms
  by (cases path)
     (auto simp: observed_unsigned_spend_def rbind_Inr_iff not_le word_less_nat_alt split: if_splits list.splits)

text \<open>C14: a spend is offered from an observation only when the node, asked again after the reads, is a synced and indexed node
  of testnet-10, the outpoint is the one listed entry of the escrow's address, and, for a refund, the node's virtual
  DAA score has passed the deadline; what is offered is then a sound spend of that entry.\<close>

theorem observed_spend_guarded:
  assumes "populates_nothing (el_native lib)"
  shows "case observe api escrow w of
     (Inl e, w') \<Rightarrow> True
   | (Inr obs, w') \<Rightarrow>
       (\<exists>w1 w2. ra_get_utxos_by_addresses api [es_address escrow] w1 = (Inr (eo_utxos obs), w2)) \<and>
       node_ok (eo_server_info obs) \<and>
       (case observed_unsigned_spend lib obs escrow outpoint path fee budget of
          Inl e \<Rightarrow> True
        | Inr spend \<Rightarrow>
            (path = EP_Release \<or>
               unat (et_refund_daa_score (es_terms escrow)) < unat (ns_virtual_daa_score (eo_server_info obs))) \<and>
            (\<exists>utxo. filter (\<lambda>entry. lu_outpoint entry = outpoint) (eo_utxos obs) =
                 [\<lparr>lu_outpoint = outpoint, lu_entry = utxo\<rparr>] \<and>
               escrow_spend_ok lib escrow outpoint utxo path fee spend))"
proof -
  have spend: "(path = EP_Release \<or>
        unat (et_refund_daa_score (es_terms escrow)) < unat (ns_virtual_daa_score (eo_server_info obs))) \<and>
      (\<exists>utxo. filter (\<lambda>entry. lu_outpoint entry = outpoint) (eo_utxos obs) =
           [\<lparr>lu_outpoint = outpoint, lu_entry = utxo\<rparr>] \<and> escrow_spend_ok lib escrow outpoint utxo path fee spend)"
    if "observed_unsigned_spend lib obs escrow outpoint path fee budget = Inr spend" for obs and spend
    using that
  proof (rule observed_unsigned_spend_Inr)
    fix entry
    assume listed: "filter (\<lambda>entry. lu_outpoint entry = outpoint) (eo_utxos obs) = [entry]"
      and "path = EP_Release \<or> unat (et_refund_daa_score (es_terms escrow)) < unat (ns_virtual_daa_score (eo_server_info obs))"
      and "escrow_unsigned_spend lib escrow NATIVE_TN10_NETWORK outpoint (lu_entry entry) path fee budget = Inr spend"
    moreover have "entry \<in> set (filter (\<lambda>entry. lu_outpoint entry = outpoint) (eo_utxos obs))"
      unfolding listed by simp
    then have "lu_outpoint entry = outpoint" by simp
    then have "entry = \<lparr>lu_outpoint = outpoint, lu_entry = lu_entry entry\<rparr>" by simp
    ultimately show ?thesis using spend_of_escrow [OF assms] by metis
  qed
  obtain r w' where run: "observe api escrow w = (r, w')" by (cases "observe api escrow w")
  show ?thesis
  proof (cases r)
    case (Inr obs)
    with run have observed: "observe api escrow w = (Inr obs, w')" by simp
    show ?thesis
      unfolding observed prod.case sum.case
      using observe_Inr [OF observed] spend [of obs]
      by (cases "observed_unsigned_spend lib obs escrow outpoint path fee budget") auto
  qed (simp add: run)
qed

section \<open>A library for the witnesses\<close>

definition flat_native :: "(nat, unit, unit, nat) native_lib" where
  "flat_native =
     \<lparr>nl_native_subnetwork = [], nl_populate_genesis = (\<lambda>tx _. Inr tx), nl_covenants = (\<lambda>_ _. Inr ()),
      nl_execute = (\<lambda>_ _ _. Inr ()), nl_rpc_transaction = (\<lambda>tx. length (nt_inputs tx))\<rparr>"

definition flat_escrow_lib :: "(nat, u8 list, unit, unit, nat) escrow_lib" where
  "flat_escrow_lib =
     \<lparr>el_native = flat_native, el_hex_decode = (\<lambda>s. Some (as_bytes s)), el_hex_encode = hex_encode, el_valid_key = (\<lambda>_. True),
      el_address_of_key = id, el_show_address = hex_encode, el_show_id = show_nat,
      el_pay_to_address = (\<lambda>a. \<lparr>spk_version = 0, spk_script = 32 # a @ [0xac]\<rparr>),
      el_pay_to_script_hash = (\<lambda>s. \<lparr>spk_version = 0, spk_script = 0xaa # s\<rparr>),
      el_extract_address = (\<lambda>spk. Inr (spk_script spk)), el_add_op = (\<lambda>b s. Inr (s @ [b])), el_add_ops = (\<lambda>c s. Inr (s @ c)),
      el_add_data = (\<lambda>d s. Inr (s @ of_nat (length d) # d)), el_add_i64 = (\<lambda>n s. Inr (s @ [of_int n])),
      el_OpIf = 0x63, el_OpElse = 0x67, el_OpEndIf = 0x68, el_sig_hash_all = 1, el_lock_time_threshold = 500000000000,
      el_contextual_storage_mass = (\<lambda>_ _. Some 7), el_estimated_mass = (\<lambda>_ m. m)\<rparr>"

definition flat_escrow :: "u8 list escrow" where
  "flat_escrow =
     \<lparr>es_terms = \<lparr>et_buyer_public_key = ''b'', et_seller_public_key = ''s'', et_refund_daa_score = 900, et_max_fee_sompi = 50\<rparr>,
      es_buyer = [1], es_seller = [2], es_redeem_script = [0x63], es_script_public_key = \<lparr>spk_version = 0, spk_script = [0xaa, 0x63]\<rparr>,
      es_address = [0xaa, 0x63], es_source_hash = []\<rparr>"

definition flat_entry :: "nat native_entry" where
  "flat_entry = \<lparr>nv_amount = 1000, nv_script_public_key = \<lparr>spk_version = 0, spk_script = [0xaa, 0x63]\<rparr>, nv_block_daa_score = 1,
     nv_is_coinbase = False, nv_covenant_id = None\<rparr>"

definition flat_outpoint :: "nat outpoint" where
  "flat_outpoint = \<lparr>op_transaction_id = 7, op_index = 0\<rparr>"

lemma flat_native_populates: "populates_nothing (el_native flat_escrow_lib)"
  by (simp add: populates_nothing_def flat_escrow_lib_def flat_native_def)

lemma flat_spend:
  "\<exists>spend. escrow_unsigned_spend flat_escrow_lib flat_escrow NATIVE_TN10_NETWORK flat_outpoint flat_entry EP_Refund 20 1 =
     Inr spend"
proof -
  have built: "\<exists>native. plan_build (el_native flat_escrow_lib)
      (escrow_plan flat_escrow_lib flat_escrow NATIVE_TN10_NETWORK flat_outpoint flat_entry EP_Refund 20 1) = Inr native"
    by (simp add: plan_build_def escrow_plan_def flat_escrow_lib_def flat_native_def flat_entry_def flat_escrow_def
        checked_total_def checked_add_def checked_sub_def native_output_new_def Let_def)
  have "\<exists>script. escrow_signature_script flat_escrow_lib flat_escrow EP_Refund [(replicate 65 0)[64 := 1]] = Inr script"
    by (simp add: escrow_signature_script_def flat_escrow_lib_def)
  with built show ?thesis
    by (auto simp: escrow_unsigned_spend_def flat_entry_def flat_escrow_def flat_escrow_lib_def Let_def)
qed


definition flat_info :: native_server_info where
  "flat_info = \<lparr>ns_network_id = \<lparr>nid_network_type = ''testnet'', nid_suffix = Some 10\<rparr>, ns_is_synced = True, ns_has_utxo_index = True,
     ns_virtual_daa_score = 901\<rparr>"

definition flat_rpc :: "(unit, nat, u8 list, unit) rpc_api" where
  "flat_rpc = \<lparr>ra_get_server_info = (\<lambda>w. (Inr flat_info, w)),
     ra_get_utxos_by_addresses = (\<lambda>_ w. (Inr [\<lparr>lu_outpoint = flat_outpoint, lu_entry = flat_entry\<rparr>], w)),
     ra_get_fee_estimate = (\<lambda>w. (Inr (), w))\<rparr>"

definition flat_observation :: "(nat, unit) escrow_observation" where
  "flat_observation = \<lparr>eo_server_info = flat_info, eo_utxos = [\<lparr>lu_outpoint = flat_outpoint, lu_entry = flat_entry\<rparr>],
     eo_fee_estimate = ()\<rparr>"

theorem observed_spend_guarded_witness:
  "observe flat_rpc flat_escrow () = (Inr flat_observation, ()) \<and>
   (\<exists>spend. observed_unsigned_spend flat_escrow_lib flat_observation flat_escrow flat_outpoint EP_Refund 20 1 = Inr spend \<and>
     escrow_spend_ok flat_escrow_lib flat_escrow flat_outpoint flat_entry EP_Refund 20 spend)"
proof -
  have observed: "observe flat_rpc flat_escrow () = (Inr flat_observation, ())"
    by (simp add: observe_def flat_rpc_def validate_node_def flat_info_def flat_observation_def)
  obtain spend where "escrow_unsigned_spend flat_escrow_lib flat_escrow NATIVE_TN10_NETWORK flat_outpoint flat_entry
      EP_Refund 20 1 = Inr spend" using flat_spend by blast
  then have offered: "observed_unsigned_spend flat_escrow_lib flat_observation flat_escrow flat_outpoint EP_Refund 20 1 = Inr spend"
    by (simp add: observed_unsigned_spend_def flat_observation_def validate_node_def flat_info_def flat_escrow_def)
  have listed: "eo_utxos flat_observation = [\<lparr>lu_outpoint = flat_outpoint, lu_entry = flat_entry\<rparr>]"
    by (simp add: flat_observation_def)
  from observed_spend_guarded [OF flat_native_populates, where api = flat_rpc and escrow = flat_escrow and w = "()"
      and outpoint = flat_outpoint and path = EP_Refund and fee = 20 and budget = 1]
  show ?thesis by (simp add: observed offered listed)
qed

end
