(* ===== verification/KS_CliBase.thy ===== *)
theory KS_CliBase
  imports KS_Testnet
begin

text \<open>
  The command line, first part (\<open>cli/src/main.rs\<close>): its texts, what a run works on (files, lines printed,
  the network), its errors, paths and options. The file system is a map from the text of a path to the text of
  a file; two texts that name one file are two keys.
\<close>

section \<open>Texts\<close>

definition CLI_BRIEF :: string where
  "CLI_BRIEF = ''KaspaScript is a source-grounded Kaspa contract compiler and programmability kernel for target-gated txscript bytecode, Toccata readiness, wallet previews, indexer schemas, and fee-aware package metadata.''"

definition text_lines :: "string list \<Rightarrow> string" where
  "text_lines ls = join_with [CHR 0x0A] ls"

definition cli_usage :: string where
  "cli_usage = text_lines
     [''usage: kaspascript compile <file.ks> [--target verified-tn12|tn10-toccata|toccata-preview|future-mainnet] [--output <file>]'',
      ''       kaspascript verify <artifact.json>'',
      ''       kaspascript inspect <file.ks|artifact.json> [--json]'',
      ''       kaspascript kernel package <file.ks> [--target verified-tn12|tn10-toccata|toccata-preview|future-mainnet] [--output <file>] [--compute-grams <n>] [--tx-bytes <n>]'',
      ''       kaspascript kernel check <file.ks> [--target <target>] [--compute-grams <n>] [--tx-bytes <n>] [--json]'',
      ''       kaspascript kernel preview <file.ks> [--target <target>] [--transition <name>] [--json]'',
      ''       kaspascript toccata status [--json]'',
      ''       kaspascript toccata targets [--json]'',
      ''       kaspascript toccata fee --compute-grams <n> --tx-bytes <n> [--json]'',
      ''       kaspascript doctor <file.ks> [--target <target>] [--json]'',
      ''       kaspascript wallet balance --target tn12'',
      ''       kaspascript tx lock <file.ks> --target tn12 --amount 1.0 [--dry-run|--broadcast]'',
      ''       kaspascript tx spend <artifact.json> --spend <name> --target tn12 [--dry-run|--broadcast]'',
      ''       kaspascript proof verify <proof.json>'']"

definition cli_help :: string where
  "cli_help = CLI_BRIEF @ [CHR 0x0A, CHR 0x0A] @ cli_usage @ [CHR 0x0A, CHR 0x0A] @ text_lines
     [''Kaspa-native workflow:'',
      ''  1. kaspascript toccata status'',
      ''  2. kaspascript compile contract.ks --target verified-tn12'',
      ''  3. kaspascript kernel check contract.ks --target verified-tn12'',
      ''  4. kaspascript kernel preview contract.ks --transition <spend>'',
      ''  5. kaspascript kernel package contract.ks --target verified-tn12 --compute-grams 1000 --tx-bytes 400'',
      [],
      ''Targets:'',
      ''  verified-tn12     source-grounded TN12 txscript subset'',
      ''  tn10-toccata      TN10 Toccata readiness posture'',
      ''  toccata-preview   preview-only analysis for gated Toccata features'',
      ''  future-mainnet    blocked until mainnet activation evidence is verified'']"

section \<open>Errors\<close>

text \<open>What an \<open>anyhow::Error\<close> was made from: a message, a context put on a cause, or an error converted by \<open>?\<close>.\<close>

datatype cli_error =
    CLI_Message string
  | CLI_Context (cli_context: string) (cli_cause: string)
  | CLI_Codegen codegen_error
  | CLI_Testnet testnet_error
  | CLI_ParseInt string
  | CLI_Json string
  | CLI_Io string

fun cli_error_display :: "cli_error \<Rightarrow> string" where
  "cli_error_display (CLI_Message message) = message"
| "cli_error_display (CLI_Context context cause) = context"
| "cli_error_display (CLI_Codegen e) = codegen_error_display e"
| "cli_error_display (CLI_Testnet e) = testnet_error_display e"
| "cli_error_display (CLI_ParseInt message) = message"
| "cli_error_display (CLI_Json message) = message"
| "cli_error_display (CLI_Io message) = message"

definition source_error :: "string \<Rightarrow> cli_error" where
  "source_error text = CLI_Message (''error: '' @ text)"

definition unknown_option :: "string \<Rightarrow> cli_error" where
  "unknown_option option = CLI_Message (''unknown option '' @ bt option)"

section \<open>A run\<close>

text \<open>
  The state of a run: the files by their paths, the lines printed, oldest first, and the network
  \<open>'w\<close>. A \<open>host\<close> is what the operating system and the build decide: the variables of the environment, the
  error of a file that is not there, the paths that cannot be written or created, the runtime, the version, and
  the features compiled in.
\<close>

record 'w cli_state =
  cs_files :: "string \<Rightarrow> string option"
  cs_out :: "string list"
  cs_world :: 'w

record host =
  ho_vars :: vars
  ho_read_error :: "string \<Rightarrow> string"
  ho_write_error :: "string \<Rightarrow> string option"
  ho_create_dir_error :: "string \<Rightarrow> string option"
  ho_runtime :: "string + unit"
  ho_version :: string
  ho_testnet_integration :: bool
  ho_uppercase :: "rchar \<Rightarrow> string"

type_synonym ('w, 'a) cli = "'w cli_state \<Rightarrow> (cli_error + 'a) \<times> 'w cli_state"

definition cli_return :: "'a \<Rightarrow> ('w, 'a) cli" where
  "cli_return x st = (Inr x, st)"

definition cli_bail :: "cli_error \<Rightarrow> ('w, 'a) cli" where
  "cli_bail e st = (Inl e, st)"

definition cli_lift :: "cli_error + 'a \<Rightarrow> ('w, 'a) cli" where
  "cli_lift r st = (r, st)"

definition cli_bind :: "('w, 'a) cli \<Rightarrow> ('a \<Rightarrow> ('w, 'b) cli) \<Rightarrow> ('w, 'b) cli" where
  "cli_bind m f st = (case m st of (Inl e, st) \<Rightarrow> (Inl e, st) | (Inr x, st) \<Rightarrow> f x st)"

definition cli_io :: "('w, 'a) io \<Rightarrow> ('w, 'a) cli" where
  "cli_io m st = (case m (cs_world st) of (r, w) \<Rightarrow> (map_err CLI_Testnet r, st\<lparr>cs_world := w\<rparr>))"

text \<open>\<open>println!\<close>, once for each text.\<close>

definition say :: "string list \<Rightarrow> ('w, unit) cli" where
  "say ls st = (Inr (), st\<lparr>cs_out := cs_out st @ ls\<rparr>)"

definition read_to_string :: "host \<Rightarrow> string \<Rightarrow> ('w, string) cli" where
  "read_to_string ho path st =
     ((case cs_files st path of
         Some text \<Rightarrow> Inr text
       | None \<Rightarrow> Inl (CLI_Context (''failed to read '' @ path) (ho_read_error ho path))), st)"

definition write_file :: "host \<Rightarrow> string \<Rightarrow> string \<Rightarrow> ('w, unit) cli" where
  "write_file ho path text st =
     (case ho_write_error ho path of
        Some e \<Rightarrow> (Inl (CLI_Context (''failed to write '' @ path) e), st)
      | None \<Rightarrow> (Inr (), st\<lparr>cs_files := (cs_files st)(path \<mapsto> text)\<rparr>))"

section \<open>Paths\<close>

text \<open>The separators and the \<open>.\<close> components at the end of a path, which is read from the end.\<close>

fun drop_trailing :: "string \<Rightarrow> string" where
  "drop_trailing [] = []"
| "drop_trailing (c # cs) =
     (if c = CHR ''/'' then drop_trailing cs
      else if c = CHR ''.'' \<and> cs \<noteq> [] \<and> hd cs = CHR ''/'' then drop_trailing cs
      else c # cs)"

text \<open>\<open>Path::with_extension\<close>: what follows the stem of the last component is replaced.\<close>

definition with_extension :: "string \<Rightarrow> string \<Rightarrow> string" where
  "with_extension path extension =
     (case (file_name path, file_stem path) of
        (Some name, Some stem) \<Rightarrow>
          (let before = rev (drop_trailing (rev path))
           in take (length before - length name + length stem) before @ ''.'' @ extension)
      | _ \<Rightarrow> path)"

definition artifact_path :: "string \<Rightarrow> string" where
  "artifact_path path = with_extension path ''artifact.json''"

definition kernel_package_path :: "string \<Rightarrow> string" where
  "kernel_package_path path = with_extension path ''kernel.json''"

text \<open>\<open>Path::parent\<close>.\<close>

definition path_parent :: "string \<Rightarrow> string option" where
  "path_parent path =
     (let last = drop_trailing (rev path)
      in if last = [] then None
         else
           (let before = rev (drop_trailing (dropWhile (\<lambda>c. c \<noteq> CHR ''/'') last))
            in Some (if before = [] \<and> hd path = CHR ''/'' then ''/'' else before)))"

section \<open>Options\<close>

record compile_options =
  co_output :: "string option"
  co_target :: target

record kernel_package_options =
  ko_output :: "string option"
  ko_compute_grams :: u64
  ko_tx_bytes :: "u64 option"
  ko_target :: target

datatype output_format = OF_Human | OF_Json

record kernel_report_options =
  kr_compute_grams :: u64
  kr_tx_bytes :: "u64 option"
  kr_target :: target
  kr_format :: output_format
  kr_transition :: "string option"

record toccata_fee_options =
  tf_compute_grams :: u64
  tf_tx_bytes :: u64
  tf_format :: output_format

text \<open>\<open>parse_flag\<close> updates the format in place; \<open>None\<close> says that the flag is another one.\<close>

definition parse_flag :: "string \<Rightarrow> output_format option" where
  "parse_flag flag =
     (if flag = ''--json'' \<or> flag = ''--agent'' then Some OF_Json
      else if flag = ''--human'' then Some OF_Human
      else None)"

definition parse_target_option :: "string \<Rightarrow> cli_error + target" where
  "parse_target_option value =
     ok_or (target_parse value)
       (CLI_Message ''--target must be one of verified-tn12, tn10-toccata, toccata-preview, future-mainnet'')"

definition parse_u64_option :: "string \<Rightarrow> string \<Rightarrow> cli_error + u64" where
  "parse_u64_option option value =
     map_err (CLI_Context (option @ '' must be a non-negative integer'')) (str_parse_u64 value)"

text \<open>The argument after an option.\<close>

definition needs_value :: "string \<Rightarrow> string list \<Rightarrow> cli_error + string" where
  "needs_value option rest =
     (case rest of [] \<Rightarrow> Inl (CLI_Message (option @ '' needs a value'')) | v # _ \<Rightarrow> Inr v)"

text \<open>The loops over the arguments: one turn reads an option and its value, if it takes one.\<close>

function parse_compile_options :: "compile_options \<Rightarrow> string list \<Rightarrow> cli_error + compile_options" where
  "parse_compile_options options [] = Inr options"
| "parse_compile_options options (arg # rest) =
     (if arg = ''--output'' \<or> arg = ''-o'' then
        rbind (needs_value ''--output'' rest) (\<lambda>v.
        parse_compile_options (options\<lparr>co_output := Some v\<rparr>) (drop 1 rest))
      else if arg = ''--target'' then
        rbind (needs_value ''--target'' rest) (\<lambda>v.
        rbind (parse_target_option v) (\<lambda>t.
        parse_compile_options (options\<lparr>co_target := t\<rparr>) (drop 1 rest)))
      else Inl (unknown_option arg))"
  by pat_completeness auto
termination by (relation "measure (\<lambda>(_, args). length args)") auto

definition compile_options_parse :: "string list \<Rightarrow> cli_error + compile_options" where
  "compile_options_parse args = parse_compile_options \<lparr>co_output = None, co_target = VerifiedTn12\<rparr> args"

function parse_kernel_package_options ::
  "kernel_package_options \<Rightarrow> string list \<Rightarrow> cli_error + kernel_package_options" where
  "parse_kernel_package_options options [] = Inr options"
| "parse_kernel_package_options options (arg # rest) =
     (if arg = ''--output'' \<or> arg = ''-o'' then
        rbind (needs_value ''--output'' rest) (\<lambda>v.
        parse_kernel_package_options (options\<lparr>ko_output := Some v\<rparr>) (drop 1 rest))
      else if arg = ''--compute-grams'' then
        rbind (needs_value ''--compute-grams'' rest) (\<lambda>v.
        rbind (parse_u64_option ''--compute-grams'' v) (\<lambda>n.
        parse_kernel_package_options (options\<lparr>ko_compute_grams := n\<rparr>) (drop 1 rest)))
      else if arg = ''--tx-bytes'' then
        rbind (needs_value ''--tx-bytes'' rest) (\<lambda>v.
        rbind (parse_u64_option ''--tx-bytes'' v) (\<lambda>n.
        parse_kernel_package_options (options\<lparr>ko_tx_bytes := Some n\<rparr>) (drop 1 rest)))
      else if arg = ''--target'' then
        rbind (needs_value ''--target'' rest) (\<lambda>v.
        rbind (parse_target_option v) (\<lambda>t.
        parse_kernel_package_options (options\<lparr>ko_target := t\<rparr>) (drop 1 rest)))
      else Inl (unknown_option arg))"
  by pat_completeness auto
termination by (relation "measure (\<lambda>(_, args). length args)") auto

definition kernel_package_options_parse :: "string list \<Rightarrow> cli_error + kernel_package_options" where
  "kernel_package_options_parse args =
     parse_kernel_package_options
       \<lparr>ko_output = None, ko_compute_grams = 0, ko_tx_bytes = None, ko_target = VerifiedTn12\<rparr> args"

definition sdk_options :: "kernel_package_options \<Rightarrow> package_options" where
  "sdk_options options =
     (let sdk = with_compute_grams (ko_compute_grams options) (package_options_new (ko_target options))
      in case ko_tx_bytes options of None \<Rightarrow> sdk | Some n \<Rightarrow> with_tx_bytes n sdk)"

function parse_kernel_report_options ::
  "kernel_report_options \<Rightarrow> string list \<Rightarrow> cli_error + kernel_report_options" where
  "parse_kernel_report_options options [] = Inr options"
| "parse_kernel_report_options options (arg # rest) =
     (case parse_flag arg of
        Some format \<Rightarrow> parse_kernel_report_options (options\<lparr>kr_format := format\<rparr>) rest
      | None \<Rightarrow>
          if arg = ''--compute-grams'' then
            rbind (needs_value ''--compute-grams'' rest) (\<lambda>v.
            rbind (parse_u64_option ''--compute-grams'' v) (\<lambda>n.
            parse_kernel_report_options (options\<lparr>kr_compute_grams := n\<rparr>) (drop 1 rest)))
          else if arg = ''--tx-bytes'' then
            rbind (needs_value ''--tx-bytes'' rest) (\<lambda>v.
            rbind (parse_u64_option ''--tx-bytes'' v) (\<lambda>n.
            parse_kernel_report_options (options\<lparr>kr_tx_bytes := Some n\<rparr>) (drop 1 rest)))
          else if arg = ''--target'' then
            rbind (needs_value ''--target'' rest) (\<lambda>v.
            rbind (parse_target_option v) (\<lambda>t.
            parse_kernel_report_options (options\<lparr>kr_target := t\<rparr>) (drop 1 rest)))
          else if arg = ''--transition'' then
            rbind (needs_value ''--transition'' rest) (\<lambda>v.
            parse_kernel_report_options (options\<lparr>kr_transition := Some v\<rparr>) (drop 1 rest))
          else Inl (unknown_option arg))"
  by pat_completeness auto
termination by (relation "measure (\<lambda>(_, args). length args)") auto

definition kernel_report_options_parse :: "string list \<Rightarrow> cli_error + kernel_report_options" where
  "kernel_report_options_parse args =
     parse_kernel_report_options
       \<lparr>kr_compute_grams = 0, kr_tx_bytes = None, kr_target = VerifiedTn12, kr_format = OF_Human, kr_transition = None\<rparr> args"

definition report_package_options :: "kernel_report_options \<Rightarrow> kernel_package_options" where
  "report_package_options options =
     \<lparr>ko_output = None, ko_compute_grams = kr_compute_grams options, ko_tx_bytes = kr_tx_bytes options,
      ko_target = kr_target options\<rparr>"

text \<open>The loop of \<open>ToccataFeeOptions::parse\<close> keeps two optional numbers and the format.\<close>

function parse_fee_options ::
  "u64 option \<times> u64 option \<times> output_format \<Rightarrow> string list \<Rightarrow> cli_error + u64 option \<times> u64 option \<times> output_format" where
  "parse_fee_options acc [] = Inr acc"
| "parse_fee_options (compute_grams, tx_bytes, format) (arg # rest) =
     (case parse_flag arg of
        Some format \<Rightarrow> parse_fee_options (compute_grams, tx_bytes, format) rest
      | None \<Rightarrow>
          if arg = ''--compute-grams'' then
            rbind (needs_value ''--compute-grams'' rest) (\<lambda>v.
            rbind (parse_u64_option ''--compute-grams'' v) (\<lambda>n.
            parse_fee_options (Some n, tx_bytes, format) (drop 1 rest)))
          else if arg = ''--tx-bytes'' then
            rbind (needs_value ''--tx-bytes'' rest) (\<lambda>v.
            rbind (parse_u64_option ''--tx-bytes'' v) (\<lambda>n.
            parse_fee_options (compute_grams, Some n, format) (drop 1 rest)))
          else Inl (unknown_option arg))"
  by pat_completeness auto
termination by (relation "measure (\<lambda>(_, args). length args)") auto

definition toccata_fee_options_parse :: "string list \<Rightarrow> cli_error + toccata_fee_options" where
  "toccata_fee_options_parse args =
     rbind (parse_fee_options (None, None, OF_Human) args) (\<lambda>(compute_grams, tx_bytes, format).
     rbind (ok_or compute_grams (CLI_Message ''--compute-grams is required'')) (\<lambda>compute_grams.
     rbind (ok_or tx_bytes (CLI_Message ''--tx-bytes is required'')) (\<lambda>tx_bytes.
     Inr \<lparr>tf_compute_grams = compute_grams, tf_tx_bytes = tx_bytes, tf_format = format\<rparr>)))"

definition parse_report_format :: "string list \<Rightarrow> cli_error + output_format" where
  "parse_report_format args =
     try_fold (\<lambda>_ arg. ok_or (parse_flag arg) (unknown_option arg)) OF_Human args"

section \<open>Amounts and the options of the testnet commands\<close>

text \<open>\<open>split_once('.')\<close> with the fallback of the whole text and no fraction.\<close>

definition split_point :: "string \<Rightarrow> string \<times> string" where
  "split_point text = (takeWhile (\<lambda>c. c \<noteq> CHR ''.'') text, drop 1 (dropWhile (\<lambda>c. c \<noteq> CHR ''.'') text))"

definition parse_kaspa_amount :: "string \<Rightarrow> cli_error + u64" where
  "parse_kaspa_amount text =
     (let (whole, frac) = split_point text in
      rbind (map_err CLI_ParseInt (str_parse_u64 whole)) (\<lambda>whole.
      if length frac > 8 then Inl (CLI_Message ''amount has more than 8 decimal places'')
      else
        (let frac_string = frac @ replicate (8 - length frac) CHR ''0'' in
         rbind (if frac_string = [] then Inr 0 else map_err CLI_ParseInt (str_parse_u64 frac_string)) (\<lambda>frac.
         ok_or (Option.bind (checked_mul whole 100000000) (\<lambda>sompi. checked_add sompi frac))
           (CLI_Message ''amount overflow'')))))"

record cli_options =
  op_target :: testnet_target
  op_amount_sompi :: "u64 option"
  op_spend :: "string option"
  op_broadcast :: bool
  op_rpc_url :: "string option"

function parse_cli_options :: "cli_options \<Rightarrow> string list \<Rightarrow> cli_error + cli_options" where
  "parse_cli_options options [] = Inr options"
| "parse_cli_options options (arg # rest) =
     (if arg = ''--target'' then
        rbind (needs_value ''--target'' rest) (\<lambda>v.
        rbind (map_err CLI_Testnet (testnet_target_parse v)) (\<lambda>t.
        parse_cli_options (options\<lparr>op_target := t\<rparr>) (drop 1 rest)))
      else if arg = ''--amount'' then
        rbind (needs_value ''--amount'' rest) (\<lambda>v.
        rbind (parse_kaspa_amount v) (\<lambda>sompi.
        parse_cli_options (options\<lparr>op_amount_sompi := Some sompi\<rparr>) (drop 1 rest)))
      else if arg = ''--spend'' then
        rbind (needs_value ''--spend'' rest) (\<lambda>v.
        parse_cli_options (options\<lparr>op_spend := Some v\<rparr>) (drop 1 rest))
      else if arg = ''--rpc-url'' then
        rbind (needs_value ''--rpc-url'' rest) (\<lambda>v.
        parse_cli_options (options\<lparr>op_rpc_url := Some v\<rparr>) (drop 1 rest))
      else if arg = ''--broadcast'' then parse_cli_options (options\<lparr>op_broadcast := True\<rparr>) rest
      else if arg = ''--dry-run'' then parse_cli_options (options\<lparr>op_broadcast := False\<rparr>) rest
      else Inl (unknown_option arg))"
  by pat_completeness auto
termination by (relation "measure (\<lambda>(_, args). length args)") auto

definition cli_options_parse :: "string list \<Rightarrow> cli_error + cli_options" where
  "cli_options_parse args =
     parse_cli_options
       \<lparr>op_target = TT_Tn12, op_amount_sompi = None, op_spend = None, op_broadcast = False, op_rpc_url = None\<rparr> args"

definition cli_config :: "vars \<Rightarrow> cli_options \<Rightarrow> cli_error + testnet_config" where
  "cli_config vars options =
     rbind
       (case op_rpc_url options of
          Some rpc_url \<Rightarrow> Inr (testnet_config_new (op_target options) rpc_url)
        | None \<Rightarrow>
            rbind (map_err CLI_Testnet (testnet_config_from_env vars)) (\<lambda>config.
            Inr (config\<lparr>tc_target := op_target options\<rparr>)))
       (\<lambda>config. Inr (config\<lparr>tc_broadcast := op_broadcast options\<rparr>))"

end
