(* ===== verification/KS_CliReport.thy ===== *)
theory KS_CliReport
  imports KS_CliBase
begin

text \<open>
  The command line, second part (\<open>cli/src/main.rs\<close>): the reports of the commands, as JSON values and as the lines
  printed for people. What \<open>serde\<close> makes of the types of the other crates is a \<open>serde\<close> record.
\<close>

section \<open>JSON\<close>

datatype json =
    J_Null
  | J_Bool bool
  | J_Number u64
  | J_String string
  | J_Array "json list"
  | J_Object "(string \<times> json) list"

fun json_get :: "json \<Rightarrow> string \<Rightarrow> json" where
  "json_get (J_Object entries) key = (case map_of entries key of None \<Rightarrow> J_Null | Some v \<Rightarrow> v)"
| "json_get _ key = J_Null"

fun json_as_str :: "json \<Rightarrow> string option" where
  "json_as_str (J_String s) = Some s"
| "json_as_str _ = None"

fun json_as_u64 :: "json \<Rightarrow> u64 option" where
  "json_as_u64 (J_Number n) = Some n"
| "json_as_u64 _ = None"

fun json_as_bool :: "json \<Rightarrow> bool option" where
  "json_as_bool (J_Bool b) = Some b"
| "json_as_bool _ = None"

fun json_as_array :: "json \<Rightarrow> json list option" where
  "json_as_array (J_Array vs) = Some vs"
| "json_as_array _ = None"

definition unwrap_or :: "'a option \<Rightarrow> 'a \<Rightarrow> 'a" where
  "unwrap_or x fallback = (case x of None \<Rightarrow> fallback | Some v \<Rightarrow> v)"

text \<open>The derived encodings and \<open>serde_json\<close>: texts of values and of types, values of types, and types read from texts.\<close>

record serde =
  se_value :: "json \<Rightarrow> string + string"
  se_artifact :: "compiled_artifact \<Rightarrow> string + string"
  se_package :: "compiled_kernel_package \<Rightarrow> string + string"
  se_application :: "application_model \<Rightarrow> string + string"
  se_proof :: "testnet_proof \<Rightarrow> string + string"
  se_read_artifact :: "string \<Rightarrow> string + compiled_artifact"
  se_read_proof :: "string \<Rightarrow> string + testnet_proof"
  sj_summary :: "compiled_artifact_summary \<Rightarrow> json"
  sj_readiness :: "readiness_report \<Rightarrow> json"
  sj_capabilities :: "capability_profile \<Rightarrow> json"
  sj_fee :: "fee_estimate \<Rightarrow> json"
  sj_preview :: "wallet_preview \<Rightarrow> json"
  sj_snapshot :: "source_snapshot \<Rightarrow> json"
  sj_evidence :: "source_evidence \<Rightarrow> json"

section \<open>Reports\<close>

definition show_u64 :: "u64 \<Rightarrow> string" where
  "show_u64 n = show_nat (unat n)"

definition preview_hint :: "string \<Rightarrow> compiled_kernel_package \<Rightarrow> string" where
  "preview_hint path pkg =
     ''kaspascript kernel preview '' @ path @ '' --target '' @ ck_package_target pkg"

definition package_hint :: "string \<Rightarrow> compiled_kernel_package \<Rightarrow> string" where
  "package_hint path pkg =
     ''kaspascript kernel package '' @ path @ '' --target '' @ ck_package_target pkg @ '' --compute-grams '' @
     show_u64 (fe_compute_grams (ck_fee_estimate pkg)) @ '' --tx-bytes '' @
     show_u64 (fe_transaction_bytes (ck_fee_estimate pkg))"

definition kernel_check_report :: "serde \<Rightarrow> string \<Rightarrow> compiled_kernel_package \<Rightarrow> json" where
  "kernel_check_report se path pkg = J_Object
     [(''schema_version'', J_String ''kaspascript.cli.kernel.check.v0''),
      (''contract'', J_String (rr_contract (kp_readiness (ck_kernel pkg)))),
      (''target'', J_String (ck_package_target pkg)),
      (''artifact'', sj_summary se (ck_artifact pkg)),
      (''readiness'', sj_readiness se (kp_readiness (ck_kernel pkg))),
      (''capabilities'', sj_capabilities se (kp_capabilities (ck_kernel pkg))),
      (''fee_estimate'', sj_fee se (ck_fee_estimate pkg)),
      (''next_commands'', J_Array [J_String (preview_hint path pkg), J_String (package_hint path pkg)])]"

definition kernel_preview_report :: "serde \<Rightarrow> compiled_kernel_package \<Rightarrow> wallet_preview list \<Rightarrow> json" where
  "kernel_preview_report se pkg previews = J_Object
     [(''schema_version'', J_String ''kaspascript.cli.kernel.preview.v0''),
      (''contract'', J_String (rr_contract (kp_readiness (ck_kernel pkg)))),
      (''target'', J_String (ck_package_target pkg)),
      (''previews'', J_Array (map (sj_preview se) previews))]"

definition toccata_targets_report :: "json list \<Rightarrow> json" where
  "toccata_targets_report targets = J_Object
     [(''schema_version'', J_String ''kaspascript.cli.toccata.targets.v0''), (''targets'', J_Array targets)]"

definition toccata_fee_report :: "serde \<Rightarrow> fee_estimate \<Rightarrow> json" where
  "toccata_fee_report se estimate = J_Object
     [(''schema_version'', J_String ''kaspascript.cli.toccata.fee.v0''), (''fee_estimate'', sj_fee se estimate),
      (''formula'', J_String ''max(compute_grams, tx_bytes * 2) * 100 sompi'')]"

definition toccata_upgrade_profile :: json where
  "toccata_upgrade_profile =
     J_Object
      [(''name'', J_String ''Toccata''),
       (''checked_at'', J_String ''2026-10-19T23:21:28Z''),
       (''evidence_scope'', J_String ''dated public-source snapshot; recheck before deployment''),
       (''rusty_kaspa_release'', J_Object
         [(''repo'', J_String ''https://github.com/kaspanet/rusty-kaspa''),
          (''tag'', J_String ''v2.1.0''),
          (''name'', J_String ''Rusty Kaspa v2.1.0''),
          (''published_at'', J_String ''2026-09-22T13:55:36Z''),
          (''commit'', J_String ''01b532e8b553523216471682649693af92f0fd16''),
          (''upgrade_note'', J_String ''post-Toccata security, protocol 11, and standalone ZK SDK release; SDK/application compatibility remains separately tested'')]),
       (''silverscript_release'', J_Object
         [(''tag'', J_String ''v1.0.0''),
          (''commit'', J_String ''3ed973335b59269293564805cc2c58a14595ec03''),
          (''url'', J_String ''https://github.com/kaspanet/silverscript/releases/tag/v1.0.0''),
          (''kaspa_script_interoperability'', J_String ''isolated native engine tests; not shared language or artifact compatibility'')]),
       (''baseline_toccata_release'', J_Object
         [(''tag'', J_String ''v2.0.0''),
          (''published_at'', J_String ''2026-06-05T12:09:13Z''),
          (''commit'', J_String ''90dbf074275d60c1fe74a3491883196f110970c0''),
          (''role'', J_String ''baseline release that announced the mainnet activation DAA score'')]),
       (''node_upgrade_guide'', J_Object
         [(''url'', J_String ''https://github.com/kaspanet/rusty-kaspa/blob/v2.1.0/docs/toccata-guide.md''),
          (''database_upgrade'', J_String ''one-way; downgrade requires resync''),
          (''recommended_rehearsal_network'', J_String ''testnet-10'')]),
       (''release_assets'', J_Array
         [J_Object
            [(''name'', J_String ''kaspa-wasm32-sdk-v2.1.0.zip''),
             (''url'', J_String ''https://github.com/kaspanet/rusty-kaspa/releases/download/v2.1.0/kaspa-wasm32-sdk-v2.1.0.zip'')],
          J_Object
            [(''name'', J_String ''rusty-kaspa-v2.1.0-linux-amd64.zip''),
             (''url'', J_String ''https://github.com/kaspanet/rusty-kaspa/releases/download/v2.1.0/rusty-kaspa-v2.1.0-linux-amd64.zip'')],
          J_Object
            [(''name'', J_String ''rusty-kaspa-v2.1.0-osx.zip''),
             (''url'', J_String ''https://github.com/kaspanet/rusty-kaspa/releases/download/v2.1.0/rusty-kaspa-v2.1.0-osx.zip'')],
          J_Object
            [(''name'', J_String ''rusty-kaspa-v2.1.0-win64.zip''),
             (''url'', J_String ''https://github.com/kaspanet/rusty-kaspa/releases/download/v2.1.0/rusty-kaspa-v2.1.0-win64.zip'')]]),
       (''maintenance_changes'', J_Array
         [J_String ''P2P protocol 11 and chunked IBD with protocol 10 compatibility'',
          J_String ''P2P wire limits and Stratum bridge security hardening'',
          J_String ''standalone kaspa-txscript-zk-sdk crate'',
          J_String ''arithmetic safety audit and post-Toccata consensus cleanup'',
          J_String ''RPC covenant preservation and checked integer conversions'',
          J_String ''Wasm sighash mapping and BIP-32 key equality fixes'']),
       (''mainnet_activation'', J_Object
         [(''daa_score'', J_Number 474165565),
          (''estimated_utc'', J_String ''2026-06-30T16:15:00Z''),
          (''status'', J_String ''protocol-active-in-dated-snapshot''),
          (''observed_network'', J_String ''kaspa-mainnet''),
          (''observed_daa_score'', J_Number 570318708),
          (''source'', J_String ''https://api.kaspa.org/info/blockdag''),
          (''kaspa_script_readiness'', J_String ''blocked-for-production-mainnet'')]),
       (''p2p_protocol'', J_Object
         [(''required_version'', J_Number 10),
          (''current_version'', J_Number 11),
          (''compatibility'', J_String ''protocol 11 negotiates protocol 10 with older peers'')]),
       (''node_requirements'', J_Object
         [(''minimum'', J_Object
            [(''cpu_cores'', J_String ''8''),
             (''ram_gb'', J_Number 16),
             (''storage'', J_String ''640 GB SSD''),
             (''network'', J_String ''10 MB/s or about 80 Mbit/s'')]),
          (''preferred'', J_Object
            [(''cpu_cores'', J_String ''12-16''),
             (''ram_gb'', J_Number 32),
             (''storage'', J_String ''1 TB SSD''),
             (''network'', J_String ''higher sustained bandwidth'')]),
          (''rationale'', J_String ''Toccata doubles the transient mass limit to support ZK-STARK proof workloads.'')]),
       (''fee_policy'', J_Object
         [(''formula'', J_String ''100 sompi * max(compute grams, 2 * transaction bytes)''),
          (''minimum_fee_rate_change'', J_Object
            [(''pre_toccata_sompi_per_gram'', J_Number 1),
             (''toccata_sompi_per_gram'', J_Number 100)]),
          (''normalized_transient_mass'', J_String ''2 * transaction bytes''),
          (''pre_activation_rpc'', J_String ''direct RPC transaction submission applies the higher minimum standard fee''),
          (''pre_activation_p2p'', J_String ''P2P relay keeps the pre-activation policy until activation''),
          (''post_activation'', J_String ''RPC and P2P relay reject transactions below the higher minimum standard fee''),
          (''consensus'', J_String ''standard fee policy is not consensus; zero-fee transactions remain consensus-valid'')]),
       (''transaction_format'', J_Object
         [(''transaction_version'', J_Number 1),
          (''new_fields'', J_Array
            [J_String ''TransactionOutput.covenant'',
             J_String ''TransactionInput.compute_commit'']),
          (''pool_stratum_requirement'', J_String ''preserve the new fields from GetBlockTemplate through SubmitBlock''),
          (''mass_field'', J_Object
            [(''rust_protobuf'', J_String ''storage_mass''),
             (''json_js'', J_String ''storageMass''),
             (''deprecated_alias'', J_String ''mass'')])]),
       (''kips'', J_Array
         [J_Object
            [(''kip'', J_Number 16),
             (''title'', J_String ''New Transaction Opcodes for Verifiable Computation''),
             (''status'', J_String ''Proposed; implemented and activated in TN10''),
             (''kaspa_script_integration'', J_String ''gate OpZkPrecompile 0xa6 until proof ABI fixtures and pricing tests are pinned''),
             (''source'', J_String ''https://github.com/kaspanet/kips/blob/master/kip-0016.md'')],
          J_Object
            [(''kip'', J_Number 17),
             (''title'', J_String ''Covenants and Improved Scripting Capabilities''),
             (''status'', J_String ''Implemented and activated in TN10''),
             (''kaspa_script_integration'', J_String ''model full transaction introspection, byte-string ops, keyed hashes, and post-activation script limits behind Toccata targets''),
             (''source'', J_String ''https://github.com/kaspanet/kips/blob/master/kip-0017.md'')],
          J_Object
            [(''kip'', J_Number 20),
             (''title'', J_String ''Covenant IDs''),
             (''status'', J_String ''Proposed; implemented and activated in TN10''),
             (''kaspa_script_integration'', J_String ''emit covenant lineage metadata now; lower covenant binding opcodes only after transaction builder support lands''),
             (''source'', J_String ''https://github.com/kaspanet/kips/blob/master/kip-0020.md'')],
          J_Object
            [(''kip'', J_Number 21),
             (''title'', J_String ''Partitioned Sequencing Commitment with O(activity) Proving''),
             (''status'', J_String ''Implemented and activated in TN10''),
             (''kaspa_script_integration'', J_String ''treat OpChainblockSeqCommit as a future proof-bearing transition primitive with lane witness requirements''),
             (''source'', J_String ''https://github.com/kaspanet/kips/blob/master/kip-0021.md'')]]),
       (''integrator_actions'', J_Array
         [J_String ''Review rusty-kaspa v2.1.0 security and compatibility changes before upgrading.'',
          J_String ''Run full wallet, explorer, miner, pool, and indexer rehearsal on Testnet-10.'',
          J_String ''Add compatibility coverage for seq-commit lane-proof RPCs and covenant binding refinements.'',
          J_String ''Update gRPC/protobuf integrations for transaction version 1 covenant and compute_commit fields.'',
          J_String ''Use node fee estimation when available; otherwise apply the Toccata minimum standard fee formula.'',
          J_String ''Prefer storage_mass/storageMass in new JSON and protobuf integrations; treat mass as deprecated compatibility only.'',
          J_String ''Keep KaspaScript future-mainnet packages blocked until contract lowering, wallet/indexer support, and fee behavior are independently verified.''])]"

definition target_matrix :: "json list" where
  "target_matrix =
     [J_Object
       [(''target'', J_String ''verified-tn12''),
        (''readiness'', J_String ''verified''),
        (''network'', J_String ''tn12''),
        (''use'', J_String ''deterministic txscript packages for the source-grounded V1 subset''),
        (''allows_gated_warnings'', J_Bool False),
        (''production_mainnet'', J_Bool False),
        (''recommended_for'', J_Array
          [J_String ''golden tests'',
           J_String ''wallet preview integration'',
           J_String ''indexer schema integration''])],
      J_Object
       [(''target'', J_String ''tn10-toccata''),
        (''readiness'', J_String ''verified''),
        (''network'', J_String ''tn10''),
        (''use'', J_String ''Toccata testnet posture for upgrade compatibility checks''),
        (''allows_gated_warnings'', J_Bool True),
        (''production_mainnet'', J_Bool False),
        (''recommended_for'', J_Array
          [J_String ''Toccata app design'',
           J_String ''covenant readiness analysis'',
           J_String ''testnet package review''])],
      J_Object
       [(''target'', J_String ''toccata-preview''),
        (''readiness'', J_String ''preview''),
        (''network'', J_String ''unknown''),
        (''use'', J_String ''analysis surface for recognized but not fully lowered Toccata features''),
        (''allows_gated_warnings'', J_Bool True),
        (''production_mainnet'', J_Bool False),
        (''recommended_for'', J_Array
          [J_String ''architecture planning'',
           J_String ''backend ABI TODO discovery'',
           J_String ''agent review''])],
      J_Object
       [(''target'', J_String ''future-mainnet''),
        (''readiness'', J_String ''blocked''),
        (''network'', J_String ''mainnet''),
        (''use'', J_String ''future gate that remains blocked until mainnet activation and lowering evidence are verified''),
        (''allows_gated_warnings'', J_Bool False),
        (''production_mainnet'', J_Bool False),
        (''recommended_for'', J_Array
          [J_String ''release readiness checks only''])]]"

definition toccata_status_report :: "serde \<Rightarrow> json" where
  "toccata_status_report se = J_Object
     [(''schema_version'', J_String ''kaspascript.cli.toccata.status.v0''),
      (''upgrade'', toccata_upgrade_profile),
      (''source_snapshots'', J_Array (map (sj_snapshot se) current_source_snapshots)),
      (''evidence'', J_Array (map (sj_evidence se) current_toccata_evidence)),
      (''targets'', J_Array target_matrix),
      (''recommended_commands'', J_Array
        [J_String ''kaspascript toccata targets'',
         J_String ''kaspascript kernel check <contract.ks> --target verified-tn12'',
         J_String ''kaspascript kernel preview <contract.ks> --target verified-tn12'',
         J_String ''kaspascript kernel package <contract.ks> --target verified-tn12 --compute-grams 1000 --tx-bytes 400''])]"

section \<open>The lines for people\<close>

definition str_or_unknown :: "json \<Rightarrow> string" where
  "str_or_unknown v = unwrap_or (json_as_str v) ''unknown''"

definition print_toccata_status_human :: "json \<Rightarrow> string list" where
  "print_toccata_status_human report =
     (let upgrade = json_get report ''upgrade'' in
      [''upgrade: '' @ unwrap_or (json_as_str (json_get upgrade ''name'')) ''Toccata'',
       ''rusty_kaspa_release: '' @ str_or_unknown (json_get (json_get upgrade ''rusty_kaspa_release'') ''tag'') @ '' ('' @
         str_or_unknown (json_get (json_get upgrade ''rusty_kaspa_release'') ''published_at'') @ '')'',
       ''mainnet_activation: DAA '' @
         show_u64 (unwrap_or (json_as_u64 (json_get (json_get upgrade ''mainnet_activation'') ''daa_score'')) 0) @
         '' estimated '' @ str_or_unknown (json_get (json_get upgrade ''mainnet_activation'') ''estimated_utc''),
       ''kaspa_script_readiness: '' @
         str_or_unknown (json_get (json_get upgrade ''mainnet_activation'') ''kaspa_script_readiness''),
       ''guide: '' @ str_or_unknown (json_get (json_get upgrade ''node_upgrade_guide'') ''url''),
       ''fee_policy: '' @ str_or_unknown (json_get (json_get upgrade ''fee_policy'') ''formula''),
       ''targets:''] @
      (case json_as_array (json_get report ''targets'') of
         None \<Rightarrow> []
       | Some targets \<Rightarrow>
           map (\<lambda>target.
             ''- '' @ str_or_unknown (json_get target ''target'') @ '': '' @ str_or_unknown (json_get target ''readiness'') @
             '' ('' @ unwrap_or (json_as_str (json_get target ''use'')) ''no description'' @ '')'') targets))"

definition print_target_matrix_human :: "json list \<Rightarrow> string list" where
  "print_target_matrix_human targets =
     concat (map (\<lambda>target.
       [''target: '' @ str_or_unknown (json_get target ''target''),
        ''  readiness: '' @ str_or_unknown (json_get target ''readiness''),
        ''  network: '' @ str_or_unknown (json_get target ''network''),
        ''  use: '' @ str_or_unknown (json_get target ''use''),
        ''  allows_gated_warnings: '' @ show_bool (unwrap_or (json_as_bool (json_get target ''allows_gated_warnings'')) False),
        ''  production_mainnet: '' @ show_bool (unwrap_or (json_as_bool (json_get target ''production_mainnet'')) False)])
       targets)"

fun readiness_label :: "readiness_level \<Rightarrow> string" where
  "readiness_label RL_Verified = ''verified''"
| "readiness_label RL_Preview = ''preview''"
| "readiness_label RL_Blocked = ''blocked''"

definition join_strings :: "string list \<Rightarrow> string" where
  "join_strings values = (if values = [] then ''none'' else join_with '', '' values)"

definition print_kernel_check_human :: "string \<Rightarrow> compiled_kernel_package \<Rightarrow> string list" where
  "print_kernel_check_human path pkg =
     (let readiness = kp_readiness (ck_kernel pkg) in
      [''contract: '' @ rr_contract readiness,
       ''source: '' @ path,
       ''target: '' @ ck_package_target pkg,
       ''readiness: '' @ readiness_label (rr_level readiness),
       ''ready: '' @ show_bool (rr_ready readiness),
       ''bytecode_bytes: '' @ show_nat (cs_bytecode_bytes (ck_artifact pkg)),
       ''minimum_standard_fee_sompi: '' @ show_u64 (fe_minimum_standard_fee_sompi (ck_fee_estimate pkg))] @
      (if rr_blockers readiness \<noteq> [] then ''blockers:'' # map (\<lambda>blocker. ''- '' @ blocker) (rr_blockers readiness) else []) @
      [''features:''] @
      map (\<lambda>feature.
        ''- '' @ rr_contract readiness @ ''.'' @ fr_transition feature @ '' requires '' @
        show_feature (fr_ready_feature feature) @ '' at '' @ show_evidence_level (fr_required feature) @ '', best '' @
        unwrap_or (map_option show_evidence_level (fr_best feature)) ''unknown'' @ '', level '' @
        readiness_label (fr_level feature) @ '', source '' @ unwrap_or (fr_source_label feature) ''none'')
        (rr_features readiness) @
      [''next:'',
       ''- '' @ preview_hint path pkg,
       ''- '' @ package_hint path pkg])"

fun preview_classification_debug :: "preview_classification \<Rightarrow> string" where
  "preview_classification_debug PC_OrdinaryPayment = ''OrdinaryPayment''"
| "preview_classification_debug PC_CovenantStateTransition = ''CovenantStateTransition''"
| "preview_classification_debug PC_ProofBearingTransition = ''ProofBearingTransition''"

definition named_outputs_text :: "continuation_model \<Rightarrow> string" where
  "named_outputs_text continuation =
     join_with '', '' (map (\<lambda>out. no_name out @ ''=output('' @ show_nat (unat (no_output_index out)) @ '')'')
       (cm_named_successor_outputs continuation))"

text \<open>What is printed of the semantics of a preview.\<close>

definition semantics_lines :: "(rchar \<Rightarrow> string) \<Rightarrow> transition_model \<Rightarrow> string list" where
  "semantics_lines esc semantics =
     (let shape = tm_transaction_shape semantics; continuation = tm_continuation semantics in
      [''  transaction inputs: '' @ debug_u32_list (ts_referenced_inputs shape),
       ''  transaction outputs: '' @ debug_u32_list (ts_referenced_outputs shape),
       ''  additional inputs/outputs permitted: '' @ show_bool (ts_additional_inputs_permitted shape) @ ''/'' @
         show_bool (ts_additional_outputs_permitted shape),
       ''  exact inputs/outputs: '' @ debug_u32_option (ts_exact_input_count shape) @ ''/'' @
         debug_u32_option (ts_exact_output_count shape),
       ''  continuation: '' @ continuation_kind_debug (cm_kind continuation) @ '' ('' @ cm_note continuation @ '')''] @
      (if cm_named_successor_outputs continuation \<noteq> []
       then [''  named continuation outputs: '' @ named_outputs_text continuation] else []) @
      [''  constraints:''] @
      map (\<lambda>c. ''  - '' @ constraint_kind_debug (tc_kind c) @ '': '' @ show_expression esc (tc_expression c))
        (tm_constraints semantics))"

definition print_kernel_preview_human ::
  "(rchar \<Rightarrow> string) \<Rightarrow> compiled_kernel_package \<Rightarrow> wallet_preview list \<Rightarrow> string list" where
  "print_kernel_preview_human esc pkg previews =
     [''contract: '' @ rr_contract (kp_readiness (ck_kernel pkg)),
      ''target: '' @ ck_package_target pkg] @
     concat (map (\<lambda>preview.
       [''transition: '' @ wp_transition preview,
        ''  classification: '' @ preview_classification_debug (wp_classification preview),
        ''  network: '' @ show_network (wp_network preview),
        ''  consumes: '' @ join_strings (wp_consumes preview),
        ''  creates: '' @ join_strings (wp_creates preview),
        ''  signers: '' @ join_strings (wp_signers preview)] @
       (case wp_semantics preview of None \<Rightarrow> [] | Some semantics \<Rightarrow> semantics_lines esc semantics) @
       (if wp_warnings preview \<noteq> [] then ''  warnings:'' # map (\<lambda>warning. ''  - '' @ warning) (wp_warnings preview) else []))
       previews)"

fun execution_model_debug :: "execution_model \<Rightarrow> string" where
  "execution_model_debug KaspaUtxoStateMachine = ''KaspaUtxoStateMachine''"

fun assurance_actor_debug :: "assurance_actor \<Rightarrow> string" where
  "assurance_actor_debug AA_Compiler = ''Compiler''"
| "assurance_actor_debug AA_Application = ''Application''"
| "assurance_actor_debug AA_Wallet = ''Wallet''"
| "assurance_actor_debug AA_Indexer = ''Indexer''"
| "assurance_actor_debug AA_Node = ''Node''"
| "assurance_actor_debug AA_Operator = ''Operator''"

text \<open>What is printed of a transition of the application model.\<close>

definition transition_lines :: "(rchar \<Rightarrow> string) \<Rightarrow> transition_model \<Rightarrow> string list" where
  "transition_lines esc transition =
     (let shape = tm_transaction_shape transition; continuation = tm_continuation transition;
          monetary = tm_monetary_policy transition in
      [''  transition: '' @ tm_name transition] @
      (if tm_signing_requirements transition = [] then [''    signing: no recognized signature requirement'']
       else
         map (\<lambda>signing.
           ''    signing: '' @ signing_scheme_debug (sr_scheme signing) @ '', threshold '' @
           show_nat (unat (sr_threshold signing)) @ '', keys ['' @ join_with '', '' (sr_authorized_keys signing) @
           ''], signatures ['' @ join_with '', '' (sr_signature_arguments signing) @ '']'')
           (tm_signing_requirements transition)) @
      [''    referenced inputs/outputs: '' @ debug_u32_list (ts_referenced_inputs shape) @ ''/'' @
         debug_u32_list (ts_referenced_outputs shape),
       ''    additional inputs/outputs permitted: '' @ show_bool (ts_additional_inputs_permitted shape) @ ''/'' @
         show_bool (ts_additional_outputs_permitted shape),
       ''    exact inputs/outputs: '' @ debug_u32_option (ts_exact_input_count shape) @ ''/'' @
         debug_u32_option (ts_exact_output_count shape)] @
      map (\<lambda>c. ''    require ['' @ constraint_kind_debug (tc_kind c) @ '']: '' @ show_expression esc (tc_expression c))
        (tm_constraints transition) @
      [''    continuation: '' @ continuation_kind_debug (cm_kind continuation) @ '' ('' @ cm_note continuation @ '')''] @
      (if cm_named_successor_outputs continuation \<noteq> []
       then [''    named continuation outputs: '' @ named_outputs_text continuation] else []) @
      [''    monetary: fees/change external-explicit; compiler injects outputs/recipients: '' @
         show_bool (mp_compiler_injects_outputs monetary) @ ''/'' @ show_bool (mp_compiler_injects_recipients monetary)])"

definition print_application_model :: "(rchar \<Rightarrow> string) \<Rightarrow> application_model \<Rightarrow> string list" where
  "print_application_model esc application =
     [''application schema: '' @ am_schema_version application,
      ''execution model: '' @ execution_model_debug (am_execution_model application)] @
     concat (map (\<lambda>contract.
       [''contract: '' @ cmo_name contract] @
       (case cmo_finality_depth contract of None \<Rightarrow> [] | Some depth \<Rightarrow> [''  finality depth: '' @ show_u64 depth]) @
       [''  state:''] @
       map (\<lambda>state. ''  - '' @ pm_name state @ '': '' @ type_debug (pm_ty state)) (cmo_state contract) @
       concat (map (transition_lines esc) (cmo_transitions contract)))
       (am_contracts application)) @
     [''compiler guarantees:''] @
     map (\<lambda>a. ''- '' @ as_id a @ '': '' @ as_statement a) (ap_compiler_guarantees (am_assurances application)) @
     [''external obligations:''] @
     map (\<lambda>a. ''- '' @ assurance_actor_debug (as_actor a) @ '' '' @ as_id a @ '': '' @ as_statement a)
       (ap_external_obligations (am_assurances application))"

end
