(* ===== verification/KS_Cli.thy ===== *)
theory KS_Cli
  imports KS_CliReport
begin

text \<open>
  The command line, third part (\<open>cli/src/main.rs\<close>): the commands, each a computation on the files, the output and the
  network of a run, and \<open>main\<close>.
\<close>

section \<open>Compiling\<close>

definition read_artifact :: "host \<Rightarrow> serde \<Rightarrow> string \<Rightarrow> ('w, compiled_artifact) cli" where
  "read_artifact ho se path =
     cli_bind (read_to_string ho path) (\<lambda>text.
     cli_lift (map_err (CLI_Context (''failed to parse '' @ path)) (se_read_artifact se text)))"

definition checked_artifact :: "compiled_artifact \<Rightarrow> cli_error + unit" where
  "checked_artifact artifact = map_err (source_error \<circ> codegen_error_display) (verify_artifact artifact)"

definition compile_command :: "host \<Rightarrow> serde \<Rightarrow> environment \<Rightarrow> string list \<Rightarrow> ('w, unit) cli" where
  "compile_command ho se env args =
     (case args of
        [] \<Rightarrow> cli_bail (CLI_Message cli_usage)
      | path # rest \<Rightarrow>
          cli_bind (cli_lift (compile_options_parse rest)) (\<lambda>options.
          cli_bind (read_to_string ho path) (\<lambda>source.
          cli_bind (cli_lift (map_err (source_error \<circ> codegen_error_display)
              (compile_file_for_target env source path (co_target options)))) (\<lambda>artifact.
          cli_bind (cli_lift (checked_artifact artifact)) (\<lambda>_.
          cli_bind (cli_lift (map_err CLI_Json (se_artifact se artifact))) (\<lambda>json.
          let out = unwrap_or (co_output options) (artifact_path path) in
          cli_bind (write_file ho out json) (\<lambda>_.
          say [out])))))))"

fun grounding_category_debug :: "grounding_category \<Rightarrow> string" where
  "grounding_category_debug GC_BackendOpcode = ''BackendOpcode''"
| "grounding_category_debug GC_Builtin = ''Builtin''"
| "grounding_category_debug GC_KipReference = ''KipReference''"
| "grounding_category_debug GC_TransactionAssumption = ''TransactionAssumption''"
| "grounding_category_debug GC_ArtifactField = ''ArtifactField''"
| "grounding_category_debug GC_TargetGate = ''TargetGate''"

definition debug_u16_list :: "u16 list \<Rightarrow> string" where
  "debug_u16_list xs = ''['' @ join_with '', '' (map (\<lambda>x. show_nat (unat x)) xs) @ '']''"

definition verify_command :: "host \<Rightarrow> serde \<Rightarrow> string \<Rightarrow> ('w, unit) cli" where
  "verify_command ho se path =
     cli_bind (read_artifact ho se path) (\<lambda>artifact.
     cli_bind (cli_lift (checked_artifact artifact)) (\<lambda>_.
     cli_bind (say
       [''backend: '' @ ca_backend artifact,
        ''target: '' @ ca_target artifact,
        ''compiler: '' @ ca_compiler_version artifact,
        ''bytecode_bytes: '' @ show_nat (length (ca_bytecode artifact)),
        ''bytecode_hex: '' @ bytecode_hex (ca_bytecode artifact)]) (\<lambda>_.
     cli_bind (cli_lift (map_err CLI_Codegen (bytecode_asm (ca_bytecode artifact)))) (\<lambda>asm.
     say
       ([''bytecode_asm: '' @ asm,
         ''finality_depth: '' @ debug_u64_option (ca_finality_depth artifact),
         ''kip_requirements: '' @ debug_u16_list (ca_kip_requirements artifact)] @
        map (\<lambda>w. ''warning: '' @ gw_id w @ '' ['' @ grounding_category_debug (gw_category w) @ ''] from '' @
          cit_path (gw_citation w) @ '': '' @ gw_message w) (ca_warnings artifact))))))"

definition ends_with :: "string \<Rightarrow> string \<Rightarrow> bool" where
  "ends_with text tail \<longleftrightarrow> length tail \<le> length text \<and> drop (length text - length tail) text = tail"

definition inspect_command :: "host \<Rightarrow> serde \<Rightarrow> environment \<Rightarrow> string list \<Rightarrow> ('w, unit) cli" where
  "inspect_command ho se env args =
     (case args of
        [] \<Rightarrow> cli_bail (CLI_Message cli_usage)
      | path # rest \<Rightarrow>
          cli_bind (cli_lift (parse_report_format rest)) (\<lambda>format.
          if ends_with path ''.artifact'' \<or> ends_with path ''.artifact.json'' then
            cli_bind (read_artifact ho se path) (\<lambda>artifact.
            case format of
              OF_Json \<Rightarrow> cli_bind (cli_lift (map_err CLI_Json (se_artifact se artifact))) (\<lambda>json. say [json])
            | OF_Human \<Rightarrow>
                say ([''artifact target: '' @ ca_target artifact, ''backend: '' @ ca_backend artifact] @
                  print_application_model (env_escape env) (ca_application artifact)))
          else
            cli_bind (read_to_string ho path) (\<lambda>source.
            cli_bind (cli_lift (map_err (source_error \<circ> ir_error_display)
                (lower_file (env_escape env) (env_scanner env) source path))) (\<lambda>ir.
            case format of
              OF_Json \<Rightarrow> cli_bind (cli_lift (map_err CLI_Json (se_application se (ir_application ir)))) (\<lambda>json. say [json])
            | OF_Human \<Rightarrow> say [display_ir_program (env_escape env) ir]))))"

section \<open>Kernel packages\<close>

definition cli_build_kernel_package ::
  "host \<Rightarrow> environment \<Rightarrow> string \<Rightarrow> string \<Rightarrow> kernel_package_options \<Rightarrow> cli_error + compiled_kernel_package" where
  "cli_build_kernel_package ho env path source options =
     map_err (source_error \<circ> package_error_display)
       (build_kernel_package env (ho_uppercase ho) source path (sdk_options options))"

definition build_kernel_package_from_path ::
  "host \<Rightarrow> environment \<Rightarrow> string \<Rightarrow> kernel_package_options \<Rightarrow> ('w, compiled_kernel_package) cli" where
  "build_kernel_package_from_path ho env path options =
     cli_bind (read_to_string ho path) (\<lambda>source. cli_lift (cli_build_kernel_package ho env path source options))"

definition kernel_package_command :: "host \<Rightarrow> serde \<Rightarrow> environment \<Rightarrow> string list \<Rightarrow> ('w, unit) cli" where
  "kernel_package_command ho se env args =
     (case args of
        [] \<Rightarrow> cli_bail (CLI_Message cli_usage)
      | path # rest \<Rightarrow>
          cli_bind (cli_lift (kernel_package_options_parse rest)) (\<lambda>options.
          cli_bind (read_to_string ho path) (\<lambda>source.
          cli_bind (cli_lift (cli_build_kernel_package ho env path source options)) (\<lambda>pkg.
          cli_bind (cli_lift (map_err CLI_Json (se_package se pkg))) (\<lambda>json.
          let out = unwrap_or (ko_output options) (kernel_package_path path) in
          cli_bind (write_file ho out json) (\<lambda>_.
          say [out]))))))"

definition kernel_check_command :: "host \<Rightarrow> serde \<Rightarrow> environment \<Rightarrow> string list \<Rightarrow> ('w, unit) cli" where
  "kernel_check_command ho se env args =
     (case args of
        [] \<Rightarrow> cli_bail (CLI_Message cli_usage)
      | path # rest \<Rightarrow>
          cli_bind (cli_lift (kernel_report_options_parse rest)) (\<lambda>options.
          cli_bind (build_kernel_package_from_path ho env path (report_package_options options)) (\<lambda>pkg.
          case kr_format options of
            OF_Json \<Rightarrow>
              cli_bind (cli_lift (map_err CLI_Json (se_value se (kernel_check_report se path pkg)))) (\<lambda>json. say [json])
          | OF_Human \<Rightarrow> say (print_kernel_check_human path pkg))))"

definition selected_previews :: "string option \<Rightarrow> compiled_kernel_package \<Rightarrow> wallet_preview list" where
  "selected_previews transition pkg =
     filter (\<lambda>preview. case transition of None \<Rightarrow> True | Some t \<Rightarrow> wp_transition preview = t)
       (kp_wallet_previews (ck_kernel pkg))"

definition kernel_preview_command :: "host \<Rightarrow> serde \<Rightarrow> environment \<Rightarrow> string list \<Rightarrow> ('w, unit) cli" where
  "kernel_preview_command ho se env args =
     (case args of
        [] \<Rightarrow> cli_bail (CLI_Message cli_usage)
      | path # rest \<Rightarrow>
          cli_bind (cli_lift (kernel_report_options_parse rest)) (\<lambda>options.
          cli_bind (build_kernel_package_from_path ho env path (report_package_options options)) (\<lambda>pkg.
          let previews = selected_previews (kr_transition options) pkg in
          if previews = []
          then cli_bail (CLI_Message (''no wallet preview matched transition '' @
            bt (unwrap_or (kr_transition options) ''<any transition>'')))
          else
            (case kr_format options of
               OF_Json \<Rightarrow>
                 cli_bind (cli_lift (map_err CLI_Json (se_value se (kernel_preview_report se pkg previews)))) (\<lambda>json. say [json])
             | OF_Human \<Rightarrow> say (print_kernel_preview_human (env_escape env) pkg previews)))))"

definition kernel_command :: "host \<Rightarrow> serde \<Rightarrow> environment \<Rightarrow> string list \<Rightarrow> ('w, unit) cli" where
  "kernel_command ho se env args =
     (case args of
        [] \<Rightarrow> cli_bail (CLI_Message cli_usage)
      | sub # rest \<Rightarrow>
          if sub = ''package'' then kernel_package_command ho se env rest
          else if sub = ''check'' then kernel_check_command ho se env rest
          else if sub = ''preview'' then kernel_preview_command ho se env rest
          else cli_bail (CLI_Message cli_usage))"

section \<open>Toccata\<close>

definition toccata_status_command :: "serde \<Rightarrow> string list \<Rightarrow> ('w, unit) cli" where
  "toccata_status_command se args =
     cli_bind (cli_lift (parse_report_format args)) (\<lambda>format.
     let report = toccata_status_report se in
     case format of
       OF_Json \<Rightarrow> cli_bind (cli_lift (map_err CLI_Json (se_value se report))) (\<lambda>json. say [json])
     | OF_Human \<Rightarrow> say (print_toccata_status_human report))"

definition toccata_targets_command :: "serde \<Rightarrow> string list \<Rightarrow> ('w, unit) cli" where
  "toccata_targets_command se args =
     cli_bind (cli_lift (parse_report_format args)) (\<lambda>format.
     let targets = target_matrix in
     case format of
       OF_Json \<Rightarrow> cli_bind (cli_lift (map_err CLI_Json (se_value se (toccata_targets_report targets)))) (\<lambda>json. say [json])
     | OF_Human \<Rightarrow> say (print_target_matrix_human targets))"

definition toccata_fee_command :: "serde \<Rightarrow> string list \<Rightarrow> ('w, unit) cli" where
  "toccata_fee_command se args =
     cli_bind (cli_lift (toccata_fee_options_parse args)) (\<lambda>options.
     cli_bind (cli_lift (map_err (source_error \<circ> kernel_error_display)
         (fee_estimate_of fee_policy_default (tf_compute_grams options) (tf_tx_bytes options)
           ''caller-provided Toccata fee estimate inputs''))) (\<lambda>estimate.
     case tf_format options of
       OF_Json \<Rightarrow>
         cli_bind (cli_lift (map_err CLI_Json (se_value se (toccata_fee_report se estimate)))) (\<lambda>json. say [json])
     | OF_Human \<Rightarrow>
         say
          [''policy: '' @ fe_policy estimate,
           ''source: '' @ fe_source estimate,
           ''compute_grams: '' @ show_u64 (fe_compute_grams estimate),
           ''transaction_bytes: '' @ show_u64 (fe_transaction_bytes estimate),
           ''minimum_standard_fee_sompi: '' @ show_u64 (fe_minimum_standard_fee_sompi estimate),
           ''formula: max(compute_grams, tx_bytes * 2) * 100 sompi'']))"

definition toccata_command :: "serde \<Rightarrow> string list \<Rightarrow> ('w, unit) cli" where
  "toccata_command se args =
     (case args of
        [] \<Rightarrow> toccata_status_command se []
      | sub # rest \<Rightarrow>
          if sub = ''status'' then toccata_status_command se rest
          else if sub = ''targets'' then toccata_targets_command se rest
          else if sub = ''fee'' then toccata_fee_command se rest
          else cli_bail (CLI_Message cli_usage))"

section \<open>The network\<close>

text \<open>The contract's name from its path, written out here as in the SDK.\<close>

definition cli_contract_name_from_path :: "(rchar \<Rightarrow> string) \<Rightarrow> string \<Rightarrow> string" where
  "cli_contract_name_from_path upper path =
     unwrap_or
       (map_option (\<lambda>stem.
          concat (map (\<lambda>part. case chars part of first # rest \<Rightarrow> to_uppercase upper first @ concat rest | [] \<Rightarrow> [])
            (filter (\<lambda>part. part \<noteq> []) (split_on CHR ''_'' stem)))) (file_stem path))
       ''Contract''"

text \<open>Each command of the network needs the feature of the build.\<close>

definition gated :: "host \<Rightarrow> string \<Rightarrow> ('w, unit) cli \<Rightarrow> ('w, unit) cli" where
  "gated ho name m =
     (if ho_testnet_integration ho then m
      else cli_bail (CLI_Message (name @ '' commands require --features testnet-integration'')))"

definition runtime :: "host \<Rightarrow> ('w, unit) cli" where
  "runtime ho = cli_lift (map_err CLI_Io (ho_runtime ho))"

definition wallet_command ::
  "host \<Rightarrow> ('w, 'id, 'addr, 'rpc) node \<Rightarrow> ('key, 'id, 'addr, 'rpc) chain \<Rightarrow> string list \<Rightarrow> ('w, unit) cli" where
  "wallet_command ho nd ch args =
     gated ho ''wallet''
      (case args of
         [] \<Rightarrow> cli_bail (CLI_Message cli_usage)
       | sub # rest \<Rightarrow>
           if sub \<noteq> ''balance'' then cli_bail (CLI_Message cli_usage)
           else
             cli_bind (cli_lift (cli_options_parse rest)) (\<lambda>options.
             cli_bind (runtime ho) (\<lambda>_.
             cli_bind (cli_lift (cli_config (ho_vars ho) options)) (\<lambda>config.
             cli_bind (cli_io (client_connect nd config)) (\<lambda>t.
             cli_bind (cli_lift (map_err CLI_Testnet (wallet_from_env (ch_keyring ch) (ho_vars ho)))) (\<lambda>wallet.
             cli_bind (cli_io (list_balance nd t wallet)) (\<lambda>sompi.
             cli_bind (say
               [''target: '' @ show_target (tc_target config),
                ''address: '' @ kr_show_address (ch_keyring ch) (tw_address wallet),
                ''balance_sompi: '' @ show_u64 sompi]) (\<lambda>_.
             cli_io (client_disconnect nd)))))))))"

fun proof_result_debug :: "proof_result \<Rightarrow> string" where
  "proof_result_debug PR_Pass = ''Pass''"
| "proof_result_debug PR_Fail = ''Fail''"
| "proof_result_debug PR_Gated = ''Gated''"

text \<open>\<open>TestnetProof::write_json\<close> (\<open>sdk/src/testnet.rs\<close>); creating the directories leaves no trace in the files.\<close>

definition create_dir_all :: "host \<Rightarrow> string \<Rightarrow> string + unit" where
  "create_dir_all ho path =
     (if path = [] then Inr () else case ho_create_dir_error ho path of Some e \<Rightarrow> Inl e | None \<Rightarrow> Inr ())"

definition write_json :: "host \<Rightarrow> serde \<Rightarrow> string \<Rightarrow> testnet_proof \<Rightarrow> ('w, unit) cli" where
  "write_json ho se path tproof =
     cli_bind (cli_lift (map_err (CLI_Testnet \<circ> TE_Io)
         (case path_parent path of None \<Rightarrow> Inr () | Some parent \<Rightarrow> create_dir_all ho parent))) (\<lambda>_.
     cli_bind (cli_lift (map_err (CLI_Testnet \<circ> TE_Json) (se_proof se tproof))) (\<lambda>json st.
     case ho_write_error ho path of
       Some e \<Rightarrow> (Inl (CLI_Testnet (TE_Io e)), st)
     | None \<Rightarrow> (Inr (), st\<lparr>cs_files := (cs_files st)(path \<mapsto> json)\<rparr>)))"

definition proof_path :: "testnet_config \<Rightarrow> string \<Rightarrow> string" where
  "proof_path config cname =
     ''tests/proofs/'' @ show_target (tc_target config) @ ''/'' @ cname @ ''.proof.json''"

definition tx_lock_command ::
  "host \<Rightarrow> serde \<Rightarrow> environment \<Rightarrow> ('w, 'id, 'addr, 'rpc) node \<Rightarrow> ('key, 'id, 'addr, 'rpc) chain \<Rightarrow> string list \<Rightarrow>
     ('w, unit) cli" where
  "tx_lock_command ho se env nd ch args =
     (case args of
        [] \<Rightarrow> cli_bail (CLI_Message cli_usage)
      | path # rest \<Rightarrow>
          cli_bind (cli_lift (cli_options_parse rest)) (\<lambda>options.
          cli_bind (cli_lift (ok_or (op_amount_sompi options) (CLI_Message ''--amount is required for tx lock''))) (\<lambda>amount.
          cli_bind (read_to_string ho path) (\<lambda>source.
          let cname = cli_contract_name_from_path (ho_uppercase ho) path in
          cli_bind (runtime ho) (\<lambda>_.
          cli_bind (cli_lift (cli_config (ho_vars ho) options)) (\<lambda>config.
          cli_bind (cli_io (client_connect nd config)) (\<lambda>t.
          cli_bind (cli_lift (map_err CLI_Testnet (wallet_from_env (ch_keyring ch) (ho_vars ho)))) (\<lambda>wallet.
          cli_bind (cli_io (deploy_and_execute env ch nd t wallet cname path source amount config)) (\<lambda>tproof.
          cli_bind (say
            [''target: '' @ show_target (tc_target config),
             ''contract: '' @ tp_contract_name tproof,
             ''result: '' @ proof_result_debug (tp_result tproof),
             ''fee_sompi: '' @ show_u64 (tp_fee tproof),
             ''mass: '' @ show_u64 (tp_mass tproof),
             ''lock_txid: '' @ unwrap_or (tp_lock_txid tproof) ''<dry-run>'',
             ''spend_txid: '' @ unwrap_or (tp_spend_txid tproof) ''<dry-run>'']) (\<lambda>_.
          cli_bind (write_json ho se (proof_path config cname) tproof) (\<lambda>_.
          cli_bind (say [''proof: '' @ proof_path config cname]) (\<lambda>_.
          cli_io (client_disconnect nd)))))))))))))"

definition tx_spend_command :: "host \<Rightarrow> serde \<Rightarrow> string list \<Rightarrow> ('w, unit) cli" where
  "tx_spend_command ho se args =
     (case args of
        [] \<Rightarrow> cli_bail (CLI_Message cli_usage)
      | path # rest \<Rightarrow>
          cli_bind (cli_lift (cli_options_parse rest)) (\<lambda>options.
          cli_bind (read_artifact ho se path) (\<lambda>artifact.
          cli_bind (cli_lift (ok_or (op_spend options) (CLI_Message ''--spend is required''))) (\<lambda>spend.
          cli_bind (cli_lift (checked_artifact artifact)) (\<lambda>_.
          cli_bind (say
            [''artifact: '' @ path,
             ''spend: '' @ spend,
             ''target: '' @ show_target (op_target options),
             ''dry_run: '' @ show_bool (\<not> op_broadcast options)]) (\<lambda>_.
          cli_bail (CLI_Message (''standalone tx spend requires a lock proof/lock output record; run '' @
            bt ''kaspascript tx lock <file.ks> ...'' @ '' for the current end-to-end flow'')))))))) "

definition tx_command ::
  "host \<Rightarrow> serde \<Rightarrow> environment \<Rightarrow> ('w, 'id, 'addr, 'rpc) node \<Rightarrow> ('key, 'id, 'addr, 'rpc) chain \<Rightarrow> string list \<Rightarrow>
     ('w, unit) cli" where
  "tx_command ho se env nd ch args =
     gated ho ''tx''
      (case args of
         [] \<Rightarrow> cli_bail (CLI_Message cli_usage)
       | sub # rest \<Rightarrow>
           if sub = ''lock'' then tx_lock_command ho se env nd ch rest
           else if sub = ''spend'' then tx_spend_command ho se rest
           else cli_bail (CLI_Message cli_usage))"

definition proof_command :: "host \<Rightarrow> serde \<Rightarrow> string list \<Rightarrow> ('w, unit) cli" where
  "proof_command ho se args =
     gated ho ''proof''
      (case args of
         [sub, path] \<Rightarrow>
           if sub \<noteq> ''verify'' then cli_bail (CLI_Message cli_usage)
           else
             cli_bind (read_to_string ho path) (\<lambda>text.
             cli_bind (cli_lift (map_err (CLI_Context (''failed to parse '' @ path)) (se_read_proof se text))) (\<lambda>tproof.
             if tp_result tproof = PR_Pass \<and> (tp_lock_txid tproof = None \<or> tp_spend_txid tproof = None)
             then cli_bail (CLI_Message ''pass proof is missing lock_txid or spend_txid'')
             else
               say
                [''target: '' @ tp_target tproof,
                 ''contract: '' @ tp_contract_name tproof,
                 ''result: '' @ proof_result_debug (tp_result tproof),
                 ''source_hash: '' @ tp_source_hash tproof,
                 ''artifact_hash: '' @ tp_artifact_hash tproof,
                 ''locking_script_hash: '' @ tp_locking_script_hash tproof]))
       | _ \<Rightarrow> cli_bail (CLI_Message cli_usage))"

section \<open>main\<close>

definition cli_main ::
  "host \<Rightarrow> serde \<Rightarrow> environment \<Rightarrow> ('w, 'id, 'addr, 'rpc) node \<Rightarrow> ('key, 'id, 'addr, 'rpc) chain \<Rightarrow> string list \<Rightarrow>
     ('w, unit) cli" where
  "cli_main ho se env nd ch args =
     (case args of
        _ # command # rest \<Rightarrow>
          if command = ''--help'' \<or> command = ''-h'' \<or> command = ''help'' then say [cli_help]
          else if command = ''--brief'' \<or> command = ''brief'' then say [CLI_BRIEF]
          else if command = ''--version'' \<or> command = ''-V'' \<or> command = ''version'' then say [''kaspascript '' @ ho_version ho]
          else if command = ''compile'' then compile_command ho se env rest
          else if command = ''verify'' \<and> length rest = 1 then verify_command ho se (hd rest)
          else if command = ''inspect'' then inspect_command ho se env rest
          else if command = ''kernel'' then kernel_command ho se env rest
          else if command = ''toccata'' then toccata_command se rest
          else if command = ''doctor'' then kernel_check_command ho se env rest
          else if command = ''wallet'' then wallet_command ho nd ch rest
          else if command = ''tx'' then tx_command ho se env nd ch rest
          else if command = ''proof'' then proof_command ho se rest
          else cli_bail (CLI_Message (''unknown command '' @ bt command))
      | _ \<Rightarrow> cli_bail (CLI_Message cli_usage))"

end
