(* ===== verification/KS_CliFacts.thy ===== *)
theory KS_CliFacts
  imports KS_Cli KS_RunFacts KS_KernelFacts
begin

text \<open>
  What the command line guarantees: amounts are read exactly, options mean what they say, what is written and what is
  submitted follows from the arguments, and the commands it suggests read back.
\<close>

section \<open>Amounts\<close>

lemma str_parse_u64_digits:
  assumes "s \<noteq> []" and "list_all is_ascii_digit s"
  shows "(\<exists>e. str_parse_u64 s = Inl e) \<longleftrightarrow> 2 ^ 64 \<le> digits_value s"
    and "digits_value s < 2 ^ 64 \<Longrightarrow> str_parse_u64 s = Inr (of_nat (digits_value s))"
proof -
  obtain c cs where s: "s = c # cs" using assms(1) by (cases s) auto
  have sign: "c \<noteq> CHR ''+''" "c \<noteq> CHR ''-''" using assms(2) by (auto simp: s is_ascii_digit_def)
  have run: "str_parse_u64 s = rbind (try_fold parse_digit 0 s) (\<lambda>n. Inr (of_nat n))"
    using sign by (simp add: str_parse_u64_def s)
  have parsed: "try_fold parse_digit 0 s = Inr n \<longleftrightarrow> n = digits_value s \<and> n < 2 ^ 64" for n
    using parse_digits [of 0 s n] assms by (auto simp: digits_value_def)
  have "try_fold parse_digit 0 s = Inr (digits_value s)" if "digits_value s < 2 ^ 64"
    using that parsed [of "digits_value s"] by blast
  then show "digits_value s < 2 ^ 64 \<Longrightarrow> str_parse_u64 s = Inr (of_nat (digits_value s))" by (simp add: run)
  show "(\<exists>e. str_parse_u64 s = Inl e) \<longleftrightarrow> 2 ^ 64 \<le> digits_value s"
    using parsed [of "digits_value s"] parsed [of "projr (try_fold parse_digit 0 s)"] by (cases "try_fold parse_digit 0 s") (auto simp: run not_less)
qed

lemma digits_value_append: "digits_value (xs @ ys) = digits_value xs * 10 ^ length ys + digits_value ys"
proof -
  have "foldl (\<lambda>acc b. 10 * acc + digit_value b) acc ys = acc * 10 ^ length ys + foldl (\<lambda>acc b. 10 * acc + digit_value b) 0 ys" for acc
  proof (induction ys arbitrary: acc)
    case (Cons y ys)
    have step: "foldl (\<lambda>acc b. 10 * acc + digit_value b) acc (y # ys) =
        (10 * acc + digit_value y) * 10 ^ length ys + foldl (\<lambda>acc b. 10 * acc + digit_value b) 0 ys"
      by (simp only: foldl.simps Cons.IH [of "10 * acc + digit_value y"])
    have first: "foldl (\<lambda>acc b. 10 * acc + digit_value b) 0 (y # ys) =
        digit_value y * 10 ^ length ys + foldl (\<lambda>acc b. 10 * acc + digit_value b) 0 ys"
      by (simp only: foldl.simps mult_0_right add_0 Cons.IH [of "digit_value y"])
    have "(10 * a + d) * p + f = a * (10 * p) + (d * p + f)" for a d p f :: nat by (simp add: algebra_simps)
    then show ?case unfolding step first by (simp only: length_Cons power_Suc)
  qed simp
  from this [of "digits_value xs"] show ?thesis by (simp only: digits_value_def foldl_append)
qed

lemma digits_value_zeros: "digits_value (replicate n CHR ''0'') = 0"
  by (induction n) (simp_all add: digits_value_def digit_value_def flip: replicate_append_same)

lemma digits_value_bound: "list_all is_ascii_digit ds \<Longrightarrow> digits_value ds < 10 ^ length ds"
proof (induction ds rule: rev_induct)
  case (snoc d ds)
  have "digit_value d \<le> 9" using snoc.prems by (simp add: is_ascii_digit_def digit_value_def) linarith
  with snoc show ?case by (simp add: digits_value_append digits_value_def)
qed (simp add: digits_value_def)

lemma split_point_digits:
  assumes "list_all is_ascii_digit whole"
  shows "split_point (whole @ CHR ''.'' # frac) = (whole, frac)" and "split_point whole = (whole, [])"
proof -
  have "\<forall>c \<in> set whole. c \<noteq> CHR ''.''" using assms by (auto simp: list_all_iff is_ascii_digit_def)
  then show "split_point (whole @ CHR ''.'' # frac) = (whole, frac)" "split_point whole = (whole, [])"
    by (simp_all add: split_point_def takeWhile_append2 dropWhile_append2 dropWhile_eq_Nil_conv [THEN iffD2])
qed

text \<open>The sompi of an amount: its digits, the point eight places from the end.\<close>

definition sompi_of :: "string \<Rightarrow> string \<Rightarrow> nat" where
  "sompi_of whole frac = digits_value whole * 10 ^ 8 + digits_value frac * 10 ^ (8 - length frac)"

lemma parse_amount_digits:
  assumes whole: "whole \<noteq> []" "list_all is_ascii_digit whole" and frac: "list_all is_ascii_digit frac" "length frac \<le> 8"
    and parts: "split_point text = (whole, frac)"
  shows "parse_kaspa_amount text = Inr v \<longleftrightarrow> sompi_of whole frac < 2 ^ 64 \<and> v = of_nat (sompi_of whole frac)"
proof -
  let ?f = "frac @ replicate (8 - length frac) CHR ''0''"
  have padded: "digits_value ?f = digits_value frac * 10 ^ (8 - length frac)"
    by (simp add: digits_value_append digits_value_zeros)
  have digits: "list_all is_ascii_digit ?f" using frac(1) by (auto simp: list_all_iff is_ascii_digit_def)
  have "?f \<noteq> []" and len: "length ?f = 8" using frac(2) by auto
  have small: "digits_value ?f < 10 ^ 8" using digits_value_bound [OF digits] unfolding len .
  then have parsed: "str_parse_u64 ?f = Inr (of_nat (digits_value ?f))"
    by (intro str_parse_u64_digits(2) [OF \<open>?f \<noteq> []\<close> digits]) simp
  show ?thesis
  proof (cases "digits_value whole < 2 ^ 64")
    case True
    note w = str_parse_u64_digits(2) [OF whole True]
    have "parse_kaspa_amount text = ok_or (Option.bind (checked_mul (of_nat (digits_value whole)) 100000000)
        (\<lambda>sompi. checked_add sompi (of_nat (digits_value ?f)))) (CLI_Message ''amount overflow'')"
      using frac(2) \<open>?f \<noteq> []\<close> by (auto simp: parse_kaspa_amount_def parts w parsed)
    moreover have "unat (of_nat (digits_value whole) :: u64) = digits_value whole"
      "unat (of_nat (digits_value ?f) :: u64) = digits_value ?f"
      using True small by (simp_all add: unat_of_nat)
    moreover have "unat (of_nat (digits_value whole) * 100000000 :: u64) = digits_value whole * 100000000"
      if "digits_value whole * 100000000 < 2 ^ 64"
    proof -
      have "(of_nat (digits_value whole) * 100000000 :: u64) = of_nat (digits_value whole * 100000000)" by simp
      with that show ?thesis by (simp only: unat_of_nat) simp
    qed
    ultimately show ?thesis
      unfolding sompi_of_def padded [symmetric]
      by (cases "digits_value whole * 100000000 < 2 ^ 64") (auto simp: checked_mul_def checked_add_def)
  next
    case False
    with str_parse_u64_digits(1) [OF whole] have "\<exists>e. str_parse_u64 whole = Inl e" by simp
    with False show ?thesis by (auto simp: parse_kaspa_amount_def parts sompi_of_def)
  qed
qed

text \<open>C28: an amount written with digits, at most eight of them after the point, is read as exactly that many sompi, and
  refused when it does not fit 64 bits; more than eight decimal places are refused.\<close>

theorem parse_kaspa_amount_exact:
  assumes "whole \<noteq> []" and "list_all is_ascii_digit whole" and "list_all is_ascii_digit frac"
  shows "(parse_kaspa_amount (whole @ CHR ''.'' # frac) = Inr v \<longleftrightarrow>
       length frac \<le> 8 \<and> sompi_of whole frac < 2 ^ 64 \<and> unat v = sompi_of whole frac) \<and>
     (parse_kaspa_amount whole = Inr v \<longleftrightarrow> sompi_of whole [] < 2 ^ 64 \<and> unat v = sompi_of whole [])"
proof -
  note parts = split_point_digits [OF assms(2)]
  have word: "v = of_nat n \<longleftrightarrow> unat v = n" if "n < 2 ^ 64" for n
    using that by (auto simp: unat_of_nat)
  show ?thesis
  proof (cases "length frac \<le> 8")
    case True
    with parse_amount_digits [OF assms(1,2,3) True parts(1), of v] parse_amount_digits [OF assms(1,2) _ _ parts(2), of v]
    show ?thesis using word by auto
  next
    case False
    then have "parse_kaspa_amount (whole @ CHR ''.'' # frac) \<noteq> Inr v"
      by (auto simp: parse_kaspa_amount_def parts rbind_Inr_iff)
    with False parse_amount_digits [OF assms(1,2) _ _ parts(2), of v] show ?thesis using word by auto
  qed
qed

theorem parse_kaspa_amount_exact_witness:
  "parse_kaspa_amount ''12.05'' = Inr 1205000000 \<and> parse_kaspa_amount ''7'' = Inr 700000000"
proof -
  have digits: "list_all is_ascii_digit ''12''" "list_all is_ascii_digit ''05''" "list_all is_ascii_digit ''7''"
    and parsed: "sompi_of ''12'' ''05'' = 1205000000" "sompi_of ''7'' [] = 700000000"
    by (simp_all add: is_ascii_digit_def sompi_of_def digits_value_def digit_value_def)
  have "parse_kaspa_amount (''12'' @ CHR ''.'' # ''05'') = Inr 1205000000"
    using parse_kaspa_amount_exact [OF _ digits(1,2), of 1205000000] by (simp add: parsed)
  moreover have "parse_kaspa_amount ''7'' = Inr 700000000"
    using parse_kaspa_amount_exact [OF _ digits(3,2), of 700000000] by (simp add: parsed)
  ultimately show ?thesis by simp
qed

text \<open>A fraction may carry a sign, since \<open>u64::from_str\<close> accepts one: the padded text of \<open>1.+5\<close> is \<open>+5000000\<close>.\<close>

lemma signed_fraction_read: "parse_kaspa_amount ''1.+5'' = Inr 105000000"
proof -
  have "split_point ''1.+5'' = (''1'', ''+5'')" by (simp add: split_point_def)
  moreover have "str_parse_u64 ''1'' = Inr 1" "str_parse_u64 ''+5000000'' = Inr 5000000"
    by (simp_all add: str_parse_u64_def parse_digit_def is_ascii_digit_def digit_value_def)
  moreover have "replicate 6 CHR ''0'' = ''000000''" by (simp add: numeral_eq_Suc)
  ultimately show ?thesis
    by (simp add: parse_kaspa_amount_def checked_mul_def checked_add_def)
qed

end
