(* ===== verification/KS_CliRun.thy ===== *)
theory KS_CliRun
  imports KS_CliFacts
begin

text \<open>
  What a run of the command line does to the files and to the network: each command is shown to leave them alone or to
  write one file, and only \<open>tx lock\<close> with \<open>--broadcast\<close> submits.
\<close>

section \<open>Commands that leave something alone\<close>

definition cli_keeps :: "('w cli_state \<Rightarrow> 'b) \<Rightarrow> ('w, 'a) cli \<Rightarrow> bool" where
  "cli_keeps g m \<longleftrightarrow> (\<forall>st. g (snd (m st)) = g st)"

text \<open>Observations that do not look at what was printed.\<close>

definition observes :: "('w cli_state \<Rightarrow> 'b) \<Rightarrow> bool" where
  "observes g \<longleftrightarrow> (\<forall>st out. g (st\<lparr>cs_out := out\<rparr>) = g st)"

named_theorems keeps_intros \<open>commands that leave an observation alone\<close>

lemma keeps_bind [keeps_intros]: "cli_keeps g m \<Longrightarrow> (\<And>x. cli_keeps g (f x)) \<Longrightarrow> cli_keeps g (cli_bind m f)"
  by (simp add: cli_keeps_def cli_bind_def split: prod.split sum.split) (metis snd_conv)

lemma keeps_basics [keeps_intros]:
  "cli_keeps g (cli_return x)" "cli_keeps g (cli_bail e)" "cli_keeps g (cli_lift r)" "cli_keeps g (read_to_string ho path)"
  by (simp_all add: cli_keeps_def cli_return_def cli_bail_def cli_lift_def read_to_string_def)

lemma keeps_say [keeps_intros]: "observes g \<Longrightarrow> cli_keeps g (say ls)"
  by (simp add: cli_keeps_def observes_def say_def)

lemma keeps_cases [keeps_intros]:
  "cli_keeps g m \<Longrightarrow> cli_keeps g m' \<Longrightarrow> cli_keeps g (if b then m else m')"
  "cli_keeps g m \<Longrightarrow> cli_keeps g m' \<Longrightarrow> cli_keeps g (case format of OF_Json \<Rightarrow> m | OF_Human \<Rightarrow> m')"
  "cli_keeps g m \<Longrightarrow> (\<And>x xs. cli_keeps g (n x xs)) \<Longrightarrow> cli_keeps g (case ls of [] \<Rightarrow> m | x # xs \<Rightarrow> n x xs)"
  "cli_keeps g m \<Longrightarrow> cli_keeps g (gated ho name m)"
  by (auto simp: cli_keeps_def gated_def cli_bail_def split: output_format.split list.split)

lemma keeps_reading [keeps_intros]:
  "cli_keeps g (read_artifact ho se path)" "cli_keeps g (build_kernel_package_from_path ho env path options)"
  "cli_keeps g (runtime ho)"
  unfolding read_artifact_def build_kernel_package_from_path_def runtime_def by (intro keeps_intros)+

text \<open>The commands that only read and print.\<close>

lemma keeps_reports [keeps_intros]:
  assumes "observes g"
  shows "cli_keeps g (verify_command ho se path)" "cli_keeps g (inspect_command ho se env args)"
    "cli_keeps g (kernel_check_command ho se env args)" "cli_keeps g (kernel_preview_command ho se env args)"
    "cli_keeps g (toccata_command se args)" "cli_keeps g (tx_spend_command ho se args)" "cli_keeps g (proof_command ho se args)"
  unfolding verify_command_def inspect_command_def kernel_check_command_def kernel_preview_command_def toccata_command_def
    toccata_status_command_def toccata_targets_command_def toccata_fee_command_def tx_spend_command_def proof_command_def Let_def
  using assms by (intro keeps_intros; assumption)+

lemma cli_step:
  assumes "cli_keeps g m" and "cli_bind m f st = (r, st')"
  shows "(\<exists>e. r = Inl e) \<and> g st' = g st \<or> (\<exists>x st1. m st = (Inr x, st1) \<and> g st1 = g st \<and> f x st1 = (r, st'))"
  using assms(1) [unfolded cli_keeps_def, rule_format, of st] assms(2)
  by (auto simp: cli_bind_def split: prod.splits sum.splits)

text \<open>Steps that leave the whole state alone.\<close>

lemma bind_simps:
  "cli_bind (cli_lift r) f st = (case r of Inl e \<Rightarrow> (Inl e, st) | Inr x \<Rightarrow> f x st)"
  "cli_bind (read_to_string ho path) g st =
     (case cs_files st path of
        None \<Rightarrow> (Inl (CLI_Context (''failed to read '' @ path) (ho_read_error ho path)), st)
      | Some text \<Rightarrow> g text st)"
  "cli_bind (write_file ho path text) h st =
     (case ho_write_error ho path of
        Some e \<Rightarrow> (Inl (CLI_Context (''failed to write '' @ path) e), st)
      | None \<Rightarrow> h () (st\<lparr>cs_files := (cs_files st)(path \<mapsto> text)\<rparr>))"
  "cli_bind (say ls) h st = h () (st\<lparr>cs_out := cs_out st @ ls\<rparr>)"
  by (simp_all add: cli_bind_def cli_lift_def read_to_string_def write_file_def say_def split: sum.split option.split)

section \<open>What is written\<close>

text \<open>What a command writes, and where: an artifact, a kernel package, or the proof of a run.\<close>

definition compiles_to :: "serde \<Rightarrow> environment \<Rightarrow> (string \<Rightarrow> string option) \<Rightarrow> string list \<Rightarrow> string \<Rightarrow> string \<Rightarrow> bool" where
  "compiles_to se env files args out text \<longleftrightarrow>
     (\<exists>path rest options source artifact.
        args = path # rest \<and> compile_options_parse rest = Inr options \<and> files path = Some source \<and>
        compile_file_for_target env source path (co_target options) = Inr artifact \<and> verify_artifact artifact = Inr () \<and>
        se_artifact se artifact = Inr text \<and> out = unwrap_or (co_output options) (artifact_path path))"

definition packages_to ::
  "host \<Rightarrow> serde \<Rightarrow> environment \<Rightarrow> (string \<Rightarrow> string option) \<Rightarrow> string list \<Rightarrow> string \<Rightarrow> string \<Rightarrow> bool" where
  "packages_to ho se env files args out text \<longleftrightarrow>
     (\<exists>path rest options source pkg.
        args = path # rest \<and> kernel_package_options_parse rest = Inr options \<and> files path = Some source \<and>
        build_kernel_package env (ho_uppercase ho) source path (sdk_options options) = Inr pkg \<and>
        se_package se pkg = Inr text \<and> out = unwrap_or (ko_output options) (kernel_package_path path))"

definition proves_to ::
  "host \<Rightarrow> serde \<Rightarrow> environment \<Rightarrow> ('w, 'id, 'addr, 'rpc) node \<Rightarrow> ('key, 'id, 'addr, 'rpc) chain \<Rightarrow>
     (string \<Rightarrow> string option) \<Rightarrow> string list \<Rightarrow> string \<Rightarrow> string \<Rightarrow> bool" where
  "proves_to ho se env nd ch files args out text \<longleftrightarrow>
     (\<exists>path rest options amount source config wallet t w w' tproof.
        args = path # rest \<and> cli_options_parse rest = Inr options \<and> op_amount_sompi options = Some amount \<and>
        files path = Some source \<and> cli_config (ho_vars ho) options = Inr config \<and>
        wallet_from_env (ch_keyring ch) (ho_vars ho) = Inr wallet \<and>
        deploy_and_execute env ch nd t wallet (cli_contract_name_from_path (ho_uppercase ho) path) path source amount config w =
          (Inr tproof, w') \<and>
        se_proof se tproof = Inr text \<and>
        out = proof_path config (cli_contract_name_from_path (ho_uppercase ho) path))"

definition writes_only :: "host \<Rightarrow> (string \<Rightarrow> string option) \<Rightarrow> (string \<Rightarrow> string option) \<Rightarrow> (string \<Rightarrow> string \<Rightarrow> bool) \<Rightarrow> bool" where
  "writes_only ho files files' P \<longleftrightarrow>
     files' = files \<or> (\<exists>out text. ho_write_error ho out = None \<and> files' = files(out \<mapsto> text) \<and> P out text)"

lemma checked_artifact_Inr: "checked_artifact artifact = Inr u \<longleftrightarrow> verify_artifact artifact = Inr ()"
  by (simp add: checked_artifact_def map_err_Inr_iff)

lemma compile_writes:
  "writes_only ho (cs_files st) (cs_files (snd (compile_command ho se env args st))) (compiles_to se env (cs_files st) args)"
proof (cases args)
  case Nil
  then show ?thesis by (simp add: compile_command_def cli_bail_def writes_only_def)
next
  case (Cons path rest)
  show ?thesis
    unfolding compile_command_def Cons list.case bind_simps Let_def
    by (simp split: sum.split option.split)
       (auto simp: writes_only_def compiles_to_def say_def map_err_Inr_iff checked_artifact_Inr)
qed

lemma package_writes:
  "writes_only ho (cs_files st) (cs_files (snd (kernel_package_command ho se env args st))) (packages_to ho se env (cs_files st) args)"
proof (cases args)
  case Nil
  then show ?thesis by (simp add: kernel_package_command_def cli_bail_def writes_only_def)
next
  case (Cons path rest)
  show ?thesis
    unfolding kernel_package_command_def Cons list.case bind_simps Let_def
    by (simp split: sum.split option.split)
       (auto simp: writes_only_def packages_to_def say_def map_err_Inr_iff cli_build_kernel_package_def)
qed

lemma keeps_io_files [keeps_intros]: "cli_keeps cs_files (cli_io m)"
  by (simp add: cli_keeps_def cli_io_def split: prod.split)

lemma observes_files: "observes cs_files"
  by (simp add: observes_def)

lemma wallet_keeps_files: "cli_keeps cs_files (wallet_command ho nd ch args)"
  unfolding wallet_command_def by (intro keeps_intros observes_files)

section \<open>One effect in a run\<close>

text \<open>
  A run in which one step has the effect of interest: \<open>g\<close> is what the steps before it leave alone, and is \<open>s\<close> at the start;
  \<open>h\<close> is what the steps after it leave alone; \<open>Q\<close> is what may be seen of \<open>h\<close> at the end, the start included.
\<close>

definition cli_yields :: "('w cli_state \<Rightarrow> 'b) \<Rightarrow> ('w cli_state \<Rightarrow> 'c) \<Rightarrow> 'b \<Rightarrow> ('c \<Rightarrow> bool) \<Rightarrow> ('w, 'a) cli \<Rightarrow> bool" where
  "cli_yields g h s Q m \<longleftrightarrow> (\<forall>st. g st = s \<longrightarrow> Q (h (snd (m st))))"

locale effect =
  fixes g :: "'w cli_state \<Rightarrow> 'b" and h :: "'w cli_state \<Rightarrow> 'c" and s :: 'b and Q :: "'c \<Rightarrow> bool"
  assumes start: "g st = s \<Longrightarrow> Q (h st)"
begin

lemma bail: "cli_yields g h s Q (cli_bail e)"
  by (simp add: cli_yields_def cli_bail_def start)

lemma kept: "cli_keeps h m \<Longrightarrow> cli_yields g h s Q m"
  by (simp add: cli_yields_def cli_keeps_def start)

lemma after:
  assumes "cli_keeps g m" and "\<And>st x st1. m st = (Inr x, st1) \<Longrightarrow> g st = s \<Longrightarrow> cli_yields g h s Q (f x)"
  shows "cli_yields g h s Q (cli_bind m f)"
  unfolding cli_yields_def
proof (intro allI impI)
  fix st
  assume st: "g st = s"
  obtain r st' where run: "cli_bind m f st = (r, st')" by fastforce
  from cli_step [OF assms(1) run] show "Q (h (snd (cli_bind m f st)))"
  proof (elim disjE exE conjE)
    fix x st1
    assume "m st = (Inr x, st1)" "g st1 = g st" "f x st1 = (r, st')"
    with assms(2) [OF this(1) st] run st show ?thesis by (auto simp: cli_yields_def dest: spec [of _ st1])
  qed (use run st start in auto)
qed

lemma before:
  assumes "cli_yields g h s Q m" and "\<And>x. cli_keeps h (f x)"
  shows "cli_yields g h s Q (cli_bind m f)"
  unfolding cli_yields_def
proof (intro allI impI)
  fix st
  assume "g st = s"
  moreover have "h (snd (cli_bind m f st)) = h (snd (m st))"
    using assms(2) by (auto simp: cli_bind_def cli_keeps_def split: prod.split sum.split)
  ultimately show "Q (h (snd (cli_bind m f st)))" using assms(1) by (simp add: cli_yields_def)
qed

end

text \<open>The one write of a run.\<close>

abbreviation cli_writes_only ::
  "host \<Rightarrow> (string \<Rightarrow> string option) \<Rightarrow> (string \<Rightarrow> string \<Rightarrow> bool) \<Rightarrow> ('w, 'a) cli \<Rightarrow> bool" where
  "cli_writes_only ho files P \<equiv> cli_yields cs_files cs_files files (\<lambda>files'. writes_only ho files files' P)"

interpretation writing: effect cs_files cs_files files "\<lambda>files'. writes_only ho files files' P" for files ho P
  by unfold_locales (simp add: writes_only_def)

lemma writes_only_mono: "writes_only ho files files' P \<Longrightarrow> (\<And>out text. P out text \<Longrightarrow> Q out text) \<Longrightarrow> writes_only ho files files' Q"
  by (auto simp: writes_only_def)

lemma run_Inr:
  "cli_lift r st = (Inr x, st1) \<longleftrightarrow> r = Inr x \<and> st1 = st"
  "cli_io m st = (Inr x, st1) \<longleftrightarrow> m (cs_world st) = (Inr x, cs_world st1) \<and> st1 = st\<lparr>cs_world := cs_world st1\<rparr>"
  "read_to_string ho path st = (Inr text, st1) \<longleftrightarrow> cs_files st path = Some text \<and> st1 = st"
  by (auto simp: cli_lift_def cli_io_def read_to_string_def map_err_Inr_iff split: prod.splits option.splits)

lemma write_json_writes:
  "cli_writes_only ho files (\<lambda>out text. out = path \<and> se_proof se tproof = Inr text) (write_json ho se path tproof)"
  unfolding write_json_def
  by (intro writing.after keeps_intros) (auto simp: run_Inr map_err_Inr_iff cli_yields_def writes_only_def split: option.split)

lemma tx_lock_writes: "cli_writes_only ho files (proves_to ho se env nd ch files args) (tx_lock_command ho se env nd ch args)"
proof (cases args)
  case Nil
  then show ?thesis by (simp add: tx_lock_command_def cli_bail_def cli_yields_def writes_only_def)
next
  case (Cons path rest)
  let ?name = "cli_contract_name_from_path (ho_uppercase ho) path"
  have ends: "cli_writes_only ho files (proves_to ho se env nd ch files args)
      (cli_bind (write_json ho se (proof_path config ?name) tproof) (\<lambda>_.
       cli_bind (say [''proof: '' @ proof_path config ?name]) (\<lambda>_. cli_io (client_disconnect nd))))"
    if run: "cli_options_parse rest = Inr options" "op_amount_sompi options = Some amount" "files path = Some source"
      "cli_config (ho_vars ho) options = Inr config" "wallet_from_env (ch_keyring ch) (ho_vars ho) = Inr wallet"
      "deploy_and_execute env ch nd t wallet ?name path source amount config w = (Inr tproof, w')"
    for options amount source config wallet t w w' tproof
  proof (rule writing.before)
    have "proves_to ho se env nd ch files args (proof_path config ?name) body" if "se_proof se tproof = Inr body" for body
      unfolding proves_to_def Cons using run that by (intro exI conjI) (rule refl | assumption)+
    then show "cli_writes_only ho files (proves_to ho se env nd ch files args) (write_json ho se (proof_path config ?name) tproof)"
      using write_json_writes [where ho = ho and files = files and path = "proof_path config ?name" and se = se and tproof = tproof]
      unfolding cli_yields_def by (blast intro: writes_only_mono)
  qed (intro keeps_intros observes_files)
  show ?thesis
    unfolding tx_lock_command_def Cons list.case Let_def
    by (rule writing.after [OF keeps_basics(3)], rule writing.after [OF keeps_basics(3)], rule writing.after [OF keeps_basics(4)],
        rule writing.after [OF keeps_reading(3)], rule writing.after [OF keeps_basics(3)], rule writing.after [OF keeps_io_files],
        rule writing.after [OF keeps_basics(3)], rule writing.after [OF keeps_io_files],
        rule writing.after [OF keeps_say [OF observes_files]], rule ends [unfolded Cons])
       (simp_all add: run_Inr ok_or_Inr_iff map_err_Inr_iff, auto)
qed

section \<open>What a run writes\<close>

lemma keeps_writes_only: "cli_keeps cs_files m \<Longrightarrow> writes_only ho (cs_files st) (cs_files (snd (m st))) P"
  by (simp add: cli_keeps_def writes_only_def)

text \<open>The file a command line may write, and what goes into it.\<close>

definition run_writes ::
  "host \<Rightarrow> serde \<Rightarrow> environment \<Rightarrow> ('w, 'id, 'addr, 'rpc) node \<Rightarrow> ('key, 'id, 'addr, 'rpc) chain \<Rightarrow>
     (string \<Rightarrow> string option) \<Rightarrow> string list \<Rightarrow> string \<Rightarrow> string \<Rightarrow> bool" where
  "run_writes ho se env nd ch files args out text \<longleftrightarrow>
     (case args of
        prog # command # rest \<Rightarrow>
          command = ''compile'' \<and> compiles_to se env files rest out text \<or>
          command = ''kernel'' \<and> rest \<noteq> [] \<and> hd rest = ''package'' \<and> packages_to ho se env files (tl rest) out text \<or>
          command = ''tx'' \<and> rest \<noteq> [] \<and> hd rest = ''lock'' \<and> ho_testnet_integration ho \<and> proves_to ho se env nd ch files (tl rest) out text
      | _ \<Rightarrow> False)"

text \<open>C23: a run of the command line writes at most one file, and only on \<open>compile\<close>, \<open>kernel package\<close> and \<open>tx lock\<close>: the verified artifact,
  the package of the compiled source, or the proof of a run, each at the path the arguments say; every other
  command, and every error before the write, leaves all files as they were.\<close>

theorem cli_writes_one_file:
  "writes_only ho (cs_files st) (cs_files (snd (cli_main ho se env nd ch args st))) (run_writes ho se env nd ch (cs_files st) args)"
proof (cases "\<exists>prog command rest. args = prog # command # rest")
  case False
  then have "cli_main ho se env nd ch args = cli_bail (CLI_Message cli_usage)"
    by (cases args; cases "tl args") (simp_all add: cli_main_def)
  then show ?thesis by (simp add: cli_bail_def writes_only_def)
next
  case True
  then obtain prog command rest where args: "args = prog # command # rest" by blast
  define P where "P = run_writes ho se env nd ch (cs_files st) args"
  note keeps = keeps_writes_only [OF keeps_say [OF observes_files]] keeps_reports [OF observes_files, THEN keeps_writes_only]
    keeps_writes_only [OF wallet_keeps_files] keeps_basics(2) [THEN keeps_writes_only]
  have compile: "writes_only ho (cs_files st) (cs_files (snd (compile_command ho se env rest st))) P"
    if "command = ''compile''"
    using compile_writes by (rule writes_only_mono) (simp add: P_def run_writes_def args that)
  have kernel: "writes_only ho (cs_files st) (cs_files (snd (kernel_command ho se env rest st))) P"
    if "command = ''kernel''"
  proof (cases rest)
    case (Cons sub more)
    have "writes_only ho (cs_files st) (cs_files (snd (kernel_package_command ho se env more st)))
        P" if "sub = ''package''"
      using package_writes by (rule writes_only_mono) (simp add: P_def run_writes_def args \<open>command = _\<close> Cons that)
    then show ?thesis by (simp add: kernel_command_def Cons keeps)
  qed (simp add: kernel_command_def keeps)
  have tx: "writes_only ho (cs_files st) (cs_files (snd (tx_command ho se env nd ch rest st))) P"
    if "command = ''tx''"
  proof (cases "rest = [] \<or> \<not> ho_testnet_integration ho")
    case True
    then show ?thesis by (auto simp: tx_command_def gated_def keeps)
  next
    case False
    then obtain sub more where rest: "rest = sub # more" and on: "ho_testnet_integration ho" by (cases rest) auto
    have "writes_only ho (cs_files st) (cs_files (snd (tx_lock_command ho se env nd ch more st)))
        P" if "sub = ''lock''"
      using tx_lock_writes [unfolded cli_yields_def, rule_format, OF refl]
      by (rule writes_only_mono) (simp add: P_def run_writes_def args \<open>command = _\<close> rest on that)
    then show ?thesis by (simp add: tx_command_def gated_def rest on keeps)
  qed
  have "writes_only ho (cs_files st) (cs_files (snd (cli_main ho se env nd ch args st))) P"
    by (simp add: cli_main_def args keeps compile kernel tx)
  then show ?thesis by (simp add: P_def)
qed

section \<open>What a run submits\<close>

text \<open>The files and the log of submissions, on a node that keeps one.\<close>

definition files_and_log :: "('w \<times> 'l list) cli_state \<Rightarrow> (string \<Rightarrow> string option) \<times> 'l list" where
  "files_and_log st = (cs_files st, snd (cs_world st))"

definition submitted :: "('w \<times> 'l list) cli_state \<Rightarrow> 'l list" where
  "submitted st = snd (cs_world st)"

lemma observes_log: "observes files_and_log" "observes submitted"
  by (simp_all add: observes_def files_and_log_def submitted_def)

lemma quiet_log:
  assumes "quiet m" and "m w = (r, w')"
  shows "snd w' = snd w"
  using assms(1) [unfolded logs_def, rule_format, of w] assms(2) by (cases r) auto

lemma keeps_quiet:
  assumes "quiet m"
  shows "cli_keeps files_and_log (cli_io m)" and "cli_keeps submitted (cli_io m)"
  using quiet_log [OF assms]
  by (simp_all add: cli_keeps_def cli_io_def files_and_log_def submitted_def split: prod.split)

lemma keeps_submitted: "cli_keeps files_and_log m \<Longrightarrow> cli_keeps submitted m"
  by (simp add: cli_keeps_def files_and_log_def submitted_def)

lemma quiet_client:
  "quiet (client_connect (logged nd) config)" "quiet (client_disconnect (logged nd))"
  "quiet (list_balance (logged nd) t wallet)"
proof -
  have calls: "nd_connect (logged nd) = keep (nd_connect nd)" "nd_disconnect (logged nd) = keep (nd_disconnect nd)"
    "nd_get_balance_by_address (logged nd) address = keep (nd_get_balance_by_address nd address)" for address
    by (simp_all add: logged_def)
  show "quiet (client_connect (logged nd) config)" "quiet (client_disconnect (logged nd))"
    "quiet (list_balance (logged nd) t wallet)"
    unfolding client_connect_def client_disconnect_def list_balance_def balance_def assert_indexed_def calls
    by (intro quiet_intros)+
qed

lemma wallet_keeps_log: "cli_keeps submitted (wallet_command ho (logged nd) ch args)"
  unfolding wallet_command_def by (intro keeps_intros keeps_quiet observes_log quiet_client)

text \<open>The submissions of a run.\<close>

abbreviation cli_submits_only ::
  "(string \<Rightarrow> string option) \<Rightarrow> ('l list \<Rightarrow> bool) \<Rightarrow> ('w \<times> 'l list, 'a) cli \<Rightarrow> bool" where
  "cli_submits_only files P \<equiv> cli_yields files_and_log submitted (files, []) (\<lambda>log. log = [] \<or> P log)"

interpretation submitting: effect files_and_log submitted "(files, [])" "\<lambda>log. log = [] \<or> P log" for files P
  by unfold_locales (simp add: files_and_log_def submitted_def)

lemma keeps_submitted_json: "cli_keeps submitted (write_json ho se path tproof)"
  unfolding write_json_def
  by (intro keeps_intros) (simp add: cli_keeps_def submitted_def split: option.split)

text \<open>The configuration a command runs with takes its network and its leave to broadcast from the arguments alone.\<close>

lemma cli_config_Inr:
  "cli_config vars options = Inr config \<Longrightarrow> tc_target config = op_target options \<and> tc_broadcast config = op_broadcast options"
  by (auto simp: cli_config_def rbind_Inr_iff testnet_config_new_def split: option.splits)

lemma broadcast_argument:
  "parse_cli_options options args = Inr options' \<Longrightarrow> op_broadcast options' \<Longrightarrow> op_broadcast options \<or> ''--broadcast'' \<in> set args"
proof (induction options args rule: parse_cli_options.induct)
  case (2 options arg rest)
  have rest: "''--broadcast'' \<in> set (drop 1 rest) \<Longrightarrow> ''--broadcast'' \<in> set rest" by (meson in_set_dropD)
  show ?case
    using 2 rest by (auto simp: rbind_Inr_iff split: if_splits)
qed simp

text \<open>What a \<open>tx lock\<close> submits: the lock of one run, or its lock and its spend.\<close>

definition run_submits ::
  "host \<Rightarrow> environment \<Rightarrow> ('key, 'id, 'addr, 'rpc) chain \<Rightarrow> (string \<Rightarrow> string option) \<Rightarrow> string list \<Rightarrow> 'rpc list \<Rightarrow> bool" where
  "run_submits ho env ch files args log \<longleftrightarrow>
     (\<exists>path rest options amount source wallet utxos run lock spend.
        args = path # rest \<and> cli_options_parse rest = Inr options \<and> op_broadcast options \<and> ''--broadcast'' \<in> set rest \<and>
        op_amount_sompi options = Some amount \<and> files path = Some source \<and>
        wallet_from_env (ch_keyring ch) (ho_vars ho) = Inr wallet \<and>
        build_contract_run env ch (cli_contract_name_from_path (ho_uppercase ho) path) path source wallet
          (op_target options) amount utxos = Inr run \<and>
        run_pair ch wallet amount utxos (rn_instantiation run) lock spend \<and>
        (log = [ch_rpc_transaction ch lock] \<or> log = [ch_rpc_transaction ch lock, ch_rpc_transaction ch spend]))"

lemma deploy_submits:
  fixes nd :: "('w, 'id, 'addr, 'rpc) node"
  assumes "cli_options_parse rest = Inr options" "op_amount_sompi options = Some amount" "files path = Some source"
    "cli_config (ho_vars ho) options = Inr config" "wallet_from_env (ch_keyring ch) (ho_vars ho) = Inr wallet"
  shows "cli_submits_only files (run_submits ho env ch files (path # rest))
    (cli_io (deploy_and_execute env ch (logged nd) t wallet (cli_contract_name_from_path (ho_uppercase ho) path) path source
      amount config))"
  unfolding cli_yields_def
proof (intro allI impI)
  fix st :: "('w \<times> 'rpc list) cli_state"
  assume "files_and_log st = (files, [])"
  then obtain w where w: "cs_world st = (w, [])" by (cases "cs_world st") (simp add: files_and_log_def)
  let ?m = "deploy_and_execute env ch (logged nd) t wallet (cli_contract_name_from_path (ho_uppercase ho) path) path source
    amount config"
  obtain r w' log where run: "?m (w, []) = (r, w', log)" by (cases "?m (w, [])") auto
  have "submitted (snd (cli_io ?m st)) = log" by (simp add: cli_io_def w run submitted_def)
  moreover have "log = [] \<or> run_submits ho env ch files (path # rest) log"
  proof (cases "log = []")
    case False
    with harness_log [where env = env and ch = ch and nd = nd and t = t and wallet = wallet and source_file = path and source = source
      and amount = amount and config = config and w = w and cname = "cli_contract_name_from_path (ho_uppercase ho) path"] run
    obtain utxos built lock spend where sent: "tc_broadcast config"
      "build_contract_run env ch (cli_contract_name_from_path (ho_uppercase ho) path) path source wallet (tc_target config) amount
         utxos = Inr built"
      "run_pair ch wallet amount utxos (rn_instantiation built) lock spend"
      "log = [ch_rpc_transaction ch lock] \<or> log = [ch_rpc_transaction ch lock, ch_rpc_transaction ch spend]"
      by auto
    note config = cli_config_Inr [OF assms(4)]
    with sent(1) have allowed: "op_broadcast options" by simp
    moreover have "''--broadcast'' \<in> set rest"
      using broadcast_argument [OF assms(1) [unfolded cli_options_parse_def] allowed] by simp
    moreover note sent(2) [unfolded config [THEN conjunct1]]
    ultimately have "run_submits ho env ch files (path # rest) log"
      unfolding run_submits_def using assms(1-3,5) sent(3,4)
      by - (intro exI conjI; (rule refl | assumption))
    then show ?thesis ..
  qed simp
  ultimately show "submitted (snd (cli_io ?m st)) = [] \<or> run_submits ho env ch files (path # rest) (submitted (snd (cli_io ?m st)))"
    by simp
qed

lemma tx_lock_submits:
  "cli_submits_only files (run_submits ho env ch files args) (tx_lock_command ho se env (logged nd) ch args)"
proof (cases args)
  case Nil
  then show ?thesis
    by (simp add: tx_lock_command_def cli_bail_def cli_yields_def submitted_def files_and_log_def)
next
  case (Cons path rest)
  show ?thesis
    unfolding tx_lock_command_def Cons list.case Let_def
    by (rule submitting.after [OF keeps_basics(3)], rule submitting.after [OF keeps_basics(3)], rule submitting.after [OF keeps_basics(4)],
        rule submitting.after [OF keeps_reading(3)], rule submitting.after [OF keeps_basics(3)],
        rule submitting.after [OF keeps_quiet(1) [OF quiet_client(1)]], rule submitting.after [OF keeps_basics(3)],
        rule submitting.before [OF deploy_submits])
       ((auto simp: run_Inr ok_or_Inr_iff map_err_Inr_iff files_and_log_def)[5],
        intro keeps_intros keeps_submitted_json keeps_quiet quiet_client observes_log)
qed

lemma keeps_submits_only: "cli_keeps submitted m \<Longrightarrow> files_and_log st = (files, []) \<Longrightarrow> submitted (snd (m st)) = [] \<or> P"
  by (simp add: cli_keeps_def files_and_log_def submitted_def)

lemma writes_keep_log: "cli_keeps submitted (compile_command ho se env args)" "cli_keeps submitted (kernel_package_command ho se env args)"
proof -
  have "cli_keeps submitted (write_file ho path body)" for path body
    by (simp add: cli_keeps_def write_file_def submitted_def split: option.split)
  then show "cli_keeps submitted (compile_command ho se env args)" "cli_keeps submitted (kernel_package_command ho se env args)"
    unfolding compile_command_def kernel_package_command_def Let_def by (intro keeps_intros observes_log; assumption?)+
qed

lemma kernel_keeps_log: "cli_keeps submitted (kernel_command ho se env args)"
  unfolding kernel_command_def by (intro keeps_intros observes_log writes_keep_log)

text \<open>C12: a run of the command line submits nothing to the network unless it is a \<open>tx lock\<close> of a build with the network whose last
  word on it is \<open>--broadcast\<close>; then at most the lock and the spend of one run built from that file and amount,
  the lock first.\<close>

theorem cli_submits_guarded:
  "case cli_main ho se env (logged nd) ch args \<lparr>cs_files = files, cs_out = out, cs_world = (w, [])\<rparr> of
     (r, st) \<Rightarrow>
       snd (cs_world st) = [] \<or>
       ho_testnet_integration ho \<and>
       (\<exists>prog rest. args = prog # ''tx'' # ''lock'' # rest \<and> run_submits ho env ch files rest (snd (cs_world st)))"
proof -
  let ?st = "\<lparr>cs_files = files, cs_out = out, cs_world = (w, [])\<rparr>"
  have st: "files_and_log ?st = (files, [])" by (simp add: files_and_log_def)
  let ?ok = "\<lambda>log. ho_testnet_integration ho \<and>
    (\<exists>prog rest. args = prog # ''tx'' # ''lock'' # rest \<and> run_submits ho env ch files rest log)"
  have "submitted (snd (cli_main ho se env (logged nd) ch args ?st)) = [] \<or>
      ?ok (submitted (snd (cli_main ho se env (logged nd) ch args ?st)))"
  proof (cases "\<exists>prog rest. args = prog # ''tx'' # ''lock'' # rest \<and> ho_testnet_integration ho")
    case True
    then obtain prog rest where args: "args = prog # ''tx'' # ''lock'' # rest" "ho_testnet_integration ho" by blast
    have "cli_main ho se env (logged nd) ch args = tx_lock_command ho se env (logged nd) ch rest"
      by (simp add: cli_main_def args tx_command_def gated_def)
    with tx_lock_submits [unfolded cli_yields_def, rule_format, OF st, where ho = ho and env = env and ch = ch and args = rest
      and se = se and nd = nd] args show ?thesis by auto
  next
    case False
    have "cli_keeps submitted (tx_command ho se env (logged nd) ch rest)" if "args = prog # ''tx'' # rest" for prog rest
    proof (cases "rest \<noteq> [] \<and> ho_testnet_integration ho")
      case True
      with False that have "hd rest \<noteq> ''lock''" by (cases rest) auto
      with True show ?thesis
        by (cases rest) (simp_all add: tx_command_def gated_def keeps_reports(6) [OF observes_log(2)] keeps_basics(2))
    qed (auto simp: tx_command_def gated_def keeps_basics(2))
    then have "cli_keeps submitted (cli_main ho se env (logged nd) ch args)"
      by (cases args; cases "tl args")
        (simp_all add: cli_main_def keeps_basics(2) keeps_say [OF observes_log(2)] keeps_reports [OF observes_log(2)]
           wallet_keeps_log writes_keep_log kernel_keeps_log)
    from keeps_submits_only [OF this st] show ?thesis by blast
  qed
  then show ?thesis by (auto simp: submitted_def split: prod.split)
qed

section \<open>Commands that cannot succeed\<close>

text \<open>\<open>tx spend\<close> reads and checks its artifact and then fails, whatever its arguments.\<close>

lemma tx_spend_always_fails: "\<exists>e. fst (tx_spend_command ho se args st) = Inl e"
proof (cases args)
  case (Cons path rest)
  show ?thesis
    unfolding tx_spend_command_def Cons list.case read_artifact_def
    by (auto simp: cli_bind_def cli_lift_def read_to_string_def cli_bail_def say_def split: sum.splits option.splits)
qed (simp add: tx_spend_command_def cli_bail_def)

text \<open>\<open>verify\<close> without its path, or with more than one, is reported as an unknown command.\<close>

lemma verify_arguments_unknown:
  "length rest \<noteq> 1 \<Longrightarrow>
     cli_main ho se env nd ch (prog # ''verify'' # rest) st = (Inl (CLI_Message (''unknown command '' @ bt ''verify'')), st)"
  by (simp add: cli_main_def cli_bail_def)

text \<open>The broadcast variable of the environment does not reach a run: only the argument does.\<close>

lemma broadcast_variable_ignored:
  "cli_options_parse rest = Inr options \<Longrightarrow> cli_config vars options = Inr config \<Longrightarrow> ''--broadcast'' \<notin> set rest \<Longrightarrow>
     \<not> tc_broadcast config"
  using cli_config_Inr broadcast_argument by (fastforce simp: cli_options_parse_def)

text \<open>A proof file that is accepted and says the run passed names both transactions.\<close>

lemma proof_verify_accepts:
  assumes "proof_command ho se [''verify'', path] st = (Inr (), st')"
  obtains body tproof where "cs_files st path = Some body" and "se_read_proof se body = Inr tproof"
    and "tp_result tproof = PR_Pass \<Longrightarrow> tp_lock_txid tproof \<noteq> None \<and> tp_spend_txid tproof \<noteq> None"
  using assms
  by (auto simp: proof_command_def gated_def bind_simps cli_bail_def map_err_Inr_iff split: if_splits option.splits sum.splits)

end
