(* ===== verification/KS_CliReportFacts.thy ===== *)
theory KS_CliReportFacts
  imports KS_CliFacts KS_SdkFacts
begin

text \<open>
  The reports of the command line against the code they speak of: the published matrix of targets, the commands a check
  suggests, and the fee formula.
\<close>

section \<open>Names and paths\<close>

text \<open>The two copies of the code that names a contract after its file agree.\<close>

lemma cli_contract_name_agrees: "cli_contract_name_from_path = contract_name_from_path"
  by (intro ext) (simp add: cli_contract_name_from_path_def contract_name_from_path_def unwrap_or_def split: option.split)

section \<open>The matrix of targets\<close>

lemma package_of_source:
  assumes "cli_build_kernel_package ho env path source options = Inr pkg"
  obtains art where "compile_file_for_target env source path (ko_target options) = Inr art"
    and "ca_target art = target_as_str (ko_target options)"
    and "build_kernel_package_from_artifact (env_escape env) (ho_uppercase ho) path art (sdk_options options) = Inr pkg"
proof -
  have opt: "po_target (sdk_options options) = ko_target options"
    by (simp add: sdk_options_def with_tx_bytes_def with_compute_grams_def package_options_new_def Let_def split: option.split)
  from assms obtain art where art: "compile_file_for_target env source path (ko_target options) = Inr art"
    and pkg: "build_kernel_package_from_artifact (env_escape env) (ho_uppercase ho) path art (sdk_options options) = Inr pkg"
    by (auto simp: cli_build_kernel_package_def map_err_Inr_iff build_kernel_package_def rbind_Inr_iff opt)
  from art have "ca_target art = target_as_str (ko_target options)"
    by (auto simp: compile_file_for_target_def compile_toccata_Inr split: sum.splits)
  from that [OF art this pkg] show ?thesis .
qed

lemma package_level:
  assumes "cli_build_kernel_package ho env path source options = Inr pkg"
  shows "rr_level (kp_readiness (ck_kernel pkg)) =
    (case ko_target options of VerifiedTn12 \<Rightarrow> RL_Verified | Tn10Toccata \<Rightarrow> RL_Verified | ToccataPreview \<Rightarrow> RL_Preview
       | FutureMainnet \<Rightarrow> RL_Blocked)"
    and "ck_package_target pkg = target_as_str (ko_target options)"
proof -
  from assms obtain art where art: "ca_target art = target_as_str (ko_target options)"
    and pkg: "build_kernel_package_from_artifact (env_escape env) (ho_uppercase ho) path art (sdk_options options) = Inr pkg"
    by (rule package_of_source)
  from pkg obtain b kp where b: "kernel_blueprint_from_artifact (env_escape env) (ho_uppercase ho) path art = Inr b"
    and kp: "package (env_escape env) b = Inr kp" and fields: "kp_readiness (ck_kernel pkg) = kp_readiness kp"
      "ck_package_target pkg = ca_target art"
    by (auto simp: package_from_artifact_Inr)
  have "bp_network b = network_from_target (ca_target art)" using b by (auto simp: blueprint_Inr)
  with blueprint_ready [OF b] package_contents(2) [OF kp] fields art
  show "rr_level (kp_readiness (ck_kernel pkg)) =
    (case ko_target options of VerifiedTn12 \<Rightarrow> RL_Verified | Tn10Toccata \<Rightarrow> RL_Verified | ToccataPreview \<Rightarrow> RL_Preview
       | FutureMainnet \<Rightarrow> RL_Blocked)"
    by (cases "ko_target options") (simp_all add: network_from_target_def)
  show "ck_package_target pkg = target_as_str (ko_target options)" using fields art by simp
qed

definition matrix_entry :: "target \<Rightarrow> json option" where
  "matrix_entry t = find (\<lambda>entry. json_get entry ''target'' = J_String (target_as_str t)) target_matrix"

text \<open>C27: the matrix the command line publishes is true of the code: for every target it has an entry, with the network
  packages are made for, whether gated features are admitted, and the readiness that every package built for that
  target has.\<close>

theorem target_matrix_truthful:
  "\<exists>entry. matrix_entry t = Some entry \<and>
     json_get entry ''network'' = J_String (show_network (network_from_target (target_as_str t))) \<and>
     json_get entry ''allows_gated_warnings'' = J_Bool (allows_gated_warnings t) \<and>
     (case cli_build_kernel_package ho env path source \<lparr>ko_output = out, ko_compute_grams = grams, ko_tx_bytes = bytes, ko_target = t\<rparr> of
        Inl e \<Rightarrow> True
      | Inr pkg \<Rightarrow>
          ck_package_target pkg = target_as_str t \<and>
          json_get entry ''readiness'' = J_String (readiness_label (rr_level (kp_readiness (ck_kernel pkg)))))"
proof -
  let ?o = "\<lparr>ko_output = out, ko_compute_grams = grams, ko_tx_bytes = bytes, ko_target = t\<rparr>"
  have "\<exists>entry. matrix_entry t = Some entry \<and>
     json_get entry ''network'' = J_String (show_network (network_from_target (target_as_str t))) \<and>
     json_get entry ''allows_gated_warnings'' = J_Bool (allows_gated_warnings t) \<and>
     json_get entry ''readiness'' = J_String (case t of VerifiedTn12 \<Rightarrow> ''verified'' | Tn10Toccata \<Rightarrow> ''verified''
       | ToccataPreview \<Rightarrow> ''preview'' | FutureMainnet \<Rightarrow> ''blocked'')"
    by (cases t) (simp_all add: matrix_entry_def target_matrix_def network_from_target_def)
  moreover have "readiness_label (rr_level (kp_readiness (ck_kernel pkg))) =
      (case t of VerifiedTn12 \<Rightarrow> ''verified'' | Tn10Toccata \<Rightarrow> ''verified'' | ToccataPreview \<Rightarrow> ''preview'' | FutureMainnet \<Rightarrow> ''blocked'')
      \<and> ck_package_target pkg = target_as_str t"
    if "cli_build_kernel_package ho env path source ?o = Inr pkg" for pkg
    using package_level [OF that] by (cases t) simp_all
  ultimately show ?thesis by (auto split: sum.split)
qed

section \<open>The commands a check suggests\<close>

lemma parse_number: "parse_u64_option option (show_u64 n) = Inr n"
proof -
  have "parse_u64_str (show_u64 n) = Some n"
    unfolding show_u64_def using parse_show_nat [of "unat n"] unsigned_less [of n, where ?'a = nat] by simp
  then show ?thesis by (simp add: parse_u64_option_def map_err_Inr_iff str_parse_u64_agrees)
qed

lemma parse_target: "parse_target_option (target_as_str t) = Inr t"
  by (cases t) (simp_all add: parse_target_option_def target_parse_def)

text \<open>The words of the second suggestion after the path.\<close>

definition package_hint_args :: "compiled_kernel_package \<Rightarrow> string list" where
  "package_hint_args pkg =
     [''--target'', ck_package_target pkg, ''--compute-grams'', show_u64 (fe_compute_grams (ck_fee_estimate pkg)),
      ''--tx-bytes'', show_u64 (fe_transaction_bytes (ck_fee_estimate pkg))]"

lemma package_hint_words:
  "package_hint path pkg = join_with '' '' ([''kaspascript'', ''kernel'', ''package'', path] @ package_hint_args pkg)"
  by (simp add: package_hint_def package_hint_args_def)

definition same_but_assumption :: "compiled_kernel_package \<Rightarrow> compiled_kernel_package \<Rightarrow> bool" where
  "same_but_assumption a b \<longleftrightarrow>
     (\<exists>note. b = a\<lparr>ck_fee_estimate := (ck_fee_estimate a)\<lparr>fe_assumption := note\<rparr>\<rparr>)"

lemma package_with_estimate:
  assumes "build_kernel_package_from_artifact esc upper path art options = Inr pkg"
    and "po_compute_grams options' = fe_compute_grams (ck_fee_estimate pkg)"
    and "po_tx_bytes options' = Some (fe_transaction_bytes (ck_fee_estimate pkg))"
  shows "\<exists>pkg'. build_kernel_package_from_artifact esc upper path art options' = Inr pkg' \<and> same_but_assumption pkg pkg'"
proof -
  from assms(1) [unfolded package_from_artifact_Inr] obtain asm b kp fee why where
    built: "verify_artifact art = Inr ()" "bytecode_asm (ca_bytecode art) = Inr asm"
      "kernel_blueprint_from_artifact esc upper path art = Inr b" "package esc b = Inr kp"
      "minimum_standard_fee fee_policy_default (po_compute_grams options) (estimate_bytes art options) = Inr fee"
    and pkg: "pkg = \<lparr>ck_schema_version = KERNEL_PACKAGE_SCHEMA_VERSION, ck_package_target = ca_target art,
          ck_source_snapshots = current_source_snapshots, ck_artifact = artifact_summary art,
          ck_bytecode_hex = bytecode_hex (ca_bytecode art), ck_bytecode_asm = asm,
          ck_kernel = kp\<lparr>kp_application := Some (ca_application art)\<rparr>,
          ck_fee_estimate = \<lparr>fe_policy = ''toccata-rpc-minimum-standard-fee'',
            fe_source = ''https://github.com/kaspanet/rusty-kaspa/blob/v2.0.1/docs/toccata-guide.md'',
            fe_compute_grams = po_compute_grams options, fe_transaction_bytes = estimate_bytes art options,
            fe_minimum_standard_fee_sompi = fee, fe_assumption = why\<rparr>\<rparr>"
    by blast
  have bytes: "estimate_bytes art options' = estimate_bytes art options" "po_compute_grams options' = po_compute_grams options"
    using assms(2,3) by (simp_all add: pkg estimate_bytes_def)
  let ?note = "if po_tx_bytes options' \<noteq> None \<or> po_compute_grams options' \<noteq> 0
          then ''caller-provided fee estimate inputs''
          else ''lower-bound estimate using compiled bytecode length as transaction_bytes and compute_grams=0''"
  let ?pkg = "pkg\<lparr>ck_fee_estimate := (ck_fee_estimate pkg)\<lparr>fe_assumption := ?note\<rparr>\<rparr>"
  have "build_kernel_package_from_artifact esc upper path art options' = Inr ?pkg"
    unfolding package_from_artifact_Inr
    by (rule exI [of _ asm], rule exI [of _ b], rule exI [of _ kp], rule exI [of _ fee], rule exI [of _ ?note])
       (simp add: built bytes pkg)
  then show ?thesis unfolding same_but_assumption_def by blast
qed


end
