(* ===== verification/Spec2Isabelle.thy ===== *)
theory Spec2Isabelle
  imports KS_Disasm KS_LowerTyped KS_Signing KS_ProgramRoundtrip KS_Pipeline KS_KernelFacts KS_Protocol KS_SdkFacts KS_Toccata
    KS_RunFacts KS_EscrowFacts KS_CliRun KS_CliReportFacts
begin

text \<open>
  KaspaScript: a verification library for the compiler and its kernel.

  The program. KaspaScript is a small contract language for Kaspa. A source text passes the
  lexer, the parser, the semantic checker and the lowering, which yields stack code and, beside
  it, an application model that wallets and indexers read. The back end gates the code against
  a registry of source-grounded facts, encodes it as script bytes and packs an artifact; the
  kernel wraps artifacts in packages with readiness reports, previews and fee estimates. The SDK
  derives such packages from artifacts and, for testnets, binds a contract's parameters, builds the
  transactions that lock funds in it and spend them again, and may broadcast both through a node. A
  separate crate against the native types of a pinned node release holds a two-party escrow compiled
  from a contract of the repository. The command line runs all of this on files and prints reports.

  Conventions. A \<open>Result\<close> is a sum, \<open>Inl\<close> the error, and \<open>?\<close> is \<open>rbind\<close>; loops with \<open>?\<close> are
  \<open>try_fold\<close> and \<open>try_map\<close>. A struct is a record whose fields carry a prefix, an enum a
  datatype. A \<open>String\<close> is the list of its UTF-8 bytes, \<open>u8\<close> to \<open>u64\<close> are words of that width,
  \<open>usize\<close> is \<open>nat\<close>. State passed as \<open>&mut\<close> is an argument and a result. Output buffers are
  lists; on an error the buffer is lost, as every caller discards it. A method of a type is a
  function of that name on the record; names that would clash carry a prefix.

  Theories and the code they model.

  \<^item> \<open>KS_Prelude\<close>: results, loops, UTF-8 characters, decimal numbers, checked arithmetic of
    \<open>u64\<close>, \<open>str::trim\<close>, and the facts the components share. \<open>KS_Emitter\<close>: the interface of
    routines that append to a buffer (locale \<open>emitter\<close>) and of decoders that read emitted
    chunks (locale \<open>reader\<close>); interpreted on the instruction encoder (\<open>KS_Encode\<close>), on
    expression lowering (\<open>KS_LowerExpr\<close>), on statements (\<open>KS_Lower\<close>) and on the
    disassembler (\<open>KS_Disasm\<close>).

  \<^item> \<open>KS_Token\<close>, \<open>KS_Lexer\<close> (\<open>compiler/lexer\<close>): tokens, positions, the two pre-passes,
    literals, \<open>lex_file\<close>. The scanner that the \<open>logos\<close> crate derives from the token
    attributes is a parameter, the list of its matches; what its documentation promises is the
    predicate \<open>documented_scanner\<close>.

  \<^item> \<open>KS_Ast\<close>, \<open>KS_Parser\<close> (\<open>compiler/parser\<close>): the tree and every routine of the recursive
    descent. Recursion and loops carry fuel; \<open>None\<close> is running out of it. \<open>KS_ParserTotal\<close>
    shows that every routine consumes tokens, that fuel linear in the tokens left is enough and
    that more changes nothing (locale \<open>fuelled\<close>); \<open>KS_ParserEqs\<close> restates the expression
    parser by the equations of the source, without fuel; \<open>KS_ParserRoundtrip\<close> and
    \<open>KS_ProgramRoundtrip\<close> hold a printer and the proof that parsing inverts it.

  \<^item> \<open>KS_Scope\<close>, \<open>KS_Checker\<close> (\<open>compiler/semantic\<close>): scopes, type inference, the shape and
    continuation passes, KIP requirements, \<open>analyze_program\<close>. \<open>KS_Typing\<close>, \<open>KS_Shape\<close> and
    \<open>KS_Wf\<close> give the declarative counterparts (a type system, consistency of shapes,
    well-formed programs) and show that the checker decides them.

  \<^item> \<open>KS_Instr\<close>, \<open>KS_LowerExpr\<close>, \<open>KS_Lower\<close> (\<open>compiler/ir\<close>): instructions, lowering of
    expressions, statements and programs, the text of the intermediate program. \<open>KS_LowerTyped\<close>:
    what lowering does on expressions the checker accepts.

  \<^item> \<open>KS_Model\<close> (\<open>compiler/model\<close>), \<open>KS_Application\<close> (\<open>compiler/ir/src/application.rs\<close>): the
    application model and its extraction; \<open>KS_AppFacts\<close> and \<open>KS_Signing\<close> relate it to the
    program and to the emitted code. How \<open>Debug\<close> prints a character beyond ASCII depends on
    the Unicode tables of the standard library and is a parameter \<open>esc\<close>.

  \<^item> \<open>KS_Grounding\<close>, \<open>KS_Encode\<close>, \<open>KS_Disasm\<close>, \<open>KS_Codegen\<close> (\<open>compiler/codegen\<close>): the
    registry with its texts, the encoder, the disassembler, targets, the gate, artifacts and
    the drivers from source text to artifact. SHA-256, the scanner, \<open>esc\<close> and the package
    version are the fields of \<open>environment\<close>. \<open>KS_CodegenFacts\<close> and \<open>KS_Pipeline\<close> hold their
    properties. \<open>KS_Errors\<close>: the error types of all phases and their texts.

  \<^item> \<open>KS_Kernel\<close>, \<open>KS_KernelFacts\<close> (\<open>kernel\<close>), \<open>KS_Protocol\<close> (\<open>compiler/protocol\<close>): evidence,
    blueprints and their builder, readiness, capabilities, previews, packages, fees; protocol
    manifests and the validation of requirements.

  \<^item> \<open>KS_Sdk\<close>, \<open>KS_SdkFacts\<close> (\<open>sdk/src/lib.rs\<close>), \<open>KS_Toccata\<close> (\<open>sdk/src/toccata.rs\<close>): the preview
    builder, the blueprint and package of an artifact; the Toccata facade, its validation and its
    fixture. Whether sums panic or wrap (debug or release build) is an argument.

  \<^item> The testnet flow (\<open>sdk/src/testnet.rs\<close>): \<open>KS_TestnetBase\<close> (targets, errors, configuration from
    the environment, hexadecimal text, wallets), \<open>KS_TestnetRpc\<close> (the RPC adapter and its polling),
    \<open>KS_TestnetTx\<close> (transactions, parameters, instantiation), \<open>KS_TestnetBuild\<close> (funding, fees, the
    lock) and \<open>KS_Testnet\<close> (the spend, the run, proof records, the harness). What the crates of
    Rusty Kaspa, secp256k1 and sha2 compute are the fields of the records \<open>keyring\<close>, \<open>node\<close> and
    \<open>chain\<close>; the calls of a node act on a world that is threaded through. \<open>KS_TestnetFacts\<close>,
    \<open>KS_HarnessFacts\<close> (locale \<open>polling\<close>, interpreted on both waiting loops) and \<open>KS_RunFacts\<close>
    hold their properties.

  \<^item> The native compatibility crate (\<open>compatibility/toccata-v2\<close>): \<open>KS_Native\<close> (\<open>lib.rs\<close>: plans of
    transactions and their checks) and \<open>KS_Escrow\<close> (\<open>escrow.rs\<close>: the text of the contract, the binder,
    the two-path script, unsigned spends with their previews, observations of a node);
    \<open>KS_EscrowFacts\<close> holds their properties. What the consensus crate, the script engine and builder,
    secp256k1 and hex compute are the fields of \<open>native_lib\<close> and \<open>escrow_lib\<close>, the client is \<open>rpc_api\<close>. The
    one hypothesis on them, \<open>populates_nothing\<close>, says that populating no genesis groups leaves a
    transaction as it is.

  \<^item> The command line (\<open>cli/src/main.rs\<close>): \<open>KS_CliBase\<close> (texts, errors, files and output, paths, the option
    parsers, amounts), \<open>KS_CliReport\<close> (reports as JSON values and as lines) and \<open>KS_Cli\<close> (the commands
    and \<open>main\<close>). A command maps a state (files by path, lines printed, the network) to a result and
    a state. \<open>KS_CliFacts\<close>, \<open>KS_CliRun\<close> and \<open>KS_CliReportFacts\<close> hold their properties (locale
    \<open>effect\<close>, one effect in a run, interpreted on the write and on the submissions). What
    \<open>serde\<close> encodes is the record \<open>serde\<close>; the environment, the errors of the operating system and
    the features of the build are the record \<open>host\<close>.

  What the lemmas show, in groups.

  \<^item> Text: positions are exact and determine offsets, the pre-passes accept what they mean to,
    string literals and hexadecimal text round-trip, tokens spell the source, parsing
    terminates and inverts printing.
  \<^item> Meaning: type inference decides a type system, analysis decides well-formedness, KIP
    requirements are those of the built-ins used.
  \<^item> Code: lowering of checked programs fails only on numeric negation and oversized
    thresholds, integers are minimal script numbers, the encoder's outcome is characterised,
    the disassembler reads it back, the gate admits what the registry allows, and an artifact
    compiled from text refines the program in the text.
  \<^item> Model: indexes, exact counts, continuations and signing requirements of the application
    model agree with the program and with the code.
  \<^item> Kernel: readiness is decided by the evidence and monotone in it, mainnet is never ready on
    the bundled evidence, packages are total, previews are right when names differ, fees are
    exact or overflow is reported.
  \<^item> SDK: when a package is built and what it says, what the preview builder pays.
  \<^item> Testnet: funding is sufficient and minimal, the lock and the spend pay what they should to
    whom they should within their inputs, an instantiated script is the bound code, polling
    finds what the node shows in time, nothing is submitted unless broadcasting is allowed.
  \<^item> Escrow: a plan is built when its inputs, totals, fee and covenants are in order; the escrow's script
    holds both paths with no parameter open; a spend pays the agreed party all but the agreed fee and
    its preview says so; a refund is offered only after the deadline on a checked node.
  \<^item> Command line: amounts are exact, a run writes at most the one file its arguments name and
    submits only on \<open>tx lock --broadcast\<close>, the published matrix of targets is true of the code, and the
    suggested packaging command rebuilds the package.
  \<^item> Flaws the models exhibit are stated as theorems too: a signature check dropped by a field
    path on a call, a built-in that is not called, previews of transitions of one name,
    totals that wrap in a release build, a fee loop that ends before it settles, a signed fraction
    of an amount, a command that always fails, variables the command line ignores.

  Fuel and bounds. \<open>parse_fuel\<close> is four times the number of tokens plus eight; the parser's
  recursion uses at most four units for each token left. Offsets of the disassembler are bounded
  by \<open>2 ^ 64\<close>, the size of \<open>usize\<close> on the platforms the code supports, which the properties
  about it assume of the bytecode's length.

  The fee loops run at most ten turns and the waiting loops the configured attempts, as in the
  code; both end by their counters, so no further fuel is needed.

  Option parsing recurses on the arguments left, so it needs no fuel.

  Not modelled: the \<open>serde\<close> encodings and JSON schemas (generated code, parameters here); the regular
  expressions of the scanner (derived by \<open>logos\<close>), for which reason the compilation of the escrow's
  contract enters as the outcome of \<open>compile_file_for_target\<close> on its text and is not evaluated; links
  and aliases between paths, arguments that are not UTF-8, a closed standard output; the tests.
\<close>

end
